(* ===== verification/Prelude.thy ===== *)
theory Prelude
  imports Main "HOL-Library.Word" "HOL-Library.Sublist"
begin

text \<open>
  The prelude of the development: the Python values the backend computes with (UUIDs, UTC
  time stamps, strings, JSON documents) and the generic facts on association lists, tables
  and strings that the component theories share.

  \<^item> \<open>uuid\<close> is a 128-bit word, as in Python's \<^verbatim>\<open>uuid.UUID\<close>; \<open>uuid_str\<close> is \<^verbatim>\<open>str(u)\<close> (the canonical
    8-4-4-4-12 lower-case form) and \<open>uuid_parse\<close> is the constructor \<^verbatim>\<open>UUID(hex)\<close> on a string,
    with \<open>None\<close> for its \<^verbatim>\<open>ValueError\<close>.
  \<^item> \<open>datetime\<close> is an instant, in microseconds since the epoch, UTC; every time stamp of the
    source is timezone-aware UTC.
  \<^item> \<open>json\<close> is what \<^verbatim>\<open>json.loads\<close> returns (floats are not used by the code and left out).
\<close>

named_theorems table_simps \<open>look-ups in tables after inserts and updates\<close>
named_theorems prog_simps \<open>evaluation of the programs of the session monad\<close>
named_theorems model_defs \<open>definitions that unfold to the code of one operation\<close>

section \<open>Scalars\<close>

type_synonym uuid = "128 word"
type_synonym datetime = int

abbreviation usecs :: "int \<Rightarrow> int" where
  "usecs n \<equiv> n * 1000000"

definition timedelta_seconds :: "int \<Rightarrow> int" where
  "timedelta_seconds n = n * 1000000"

definition timedelta_minutes :: "int \<Rightarrow> int" where
  "timedelta_minutes n = n * 60000000"

definition timedelta_days :: "int \<Rightarrow> int" where
  "timedelta_days n = n * 86400000000"

lemmas timedelta_defs = timedelta_seconds_def timedelta_minutes_def timedelta_days_def

text \<open>
  \<^verbatim>\<open>dt.isoformat()\<close> of a UTC instant: \<open>YYYY-MM-DDTHH:MM:SS[.ffffff]+00:00\<close>. The civil date is
  computed from the day number in the proleptic Gregorian calendar, as \<^verbatim>\<open>datetime\<close> uses it.
\<close>

definition civil_of_days :: "int \<Rightarrow> int \<times> int \<times> int" where
  "civil_of_days n =
     (let z = n + 719468;
          era = z div 146097;
          doe = z mod 146097;
          yoe = (doe - doe div 1460 + doe div 36524 - doe div 146096) div 365;
          doy = doe - (365 * yoe + yoe div 4 - yoe div 100);
          mp = (5 * doy + 2) div 153;
          day = doy - (153 * mp + 2) div 5 + 1;
          month = (if mp < 10 then mp + 3 else mp - 9);
          year = yoe + era * 400 + (if month \<le> 2 then 1 else 0)
      in (year, month, day))"

definition digit_char :: "int \<Rightarrow> char" where
  "digit_char n = char_of (48 + n mod 10)"

fun pad_digits :: "nat \<Rightarrow> int \<Rightarrow> string" where
  "pad_digits 0 n = []"
| "pad_digits (Suc k) n = pad_digits k (n div 10) @ [digit_char n]"

definition isoformat :: "datetime \<Rightarrow> string" where
  "isoformat t =
     (let (year, month, day) = civil_of_days (t div 86400000000);
          us = t mod 86400000000;
          secs = us div 1000000;
          frac = us mod 1000000
      in pad_digits 4 year @ ''-'' @ pad_digits 2 month @ ''-'' @ pad_digits 2 day @ ''T''
         @ pad_digits 2 (secs div 3600) @ '':'' @ pad_digits 2 (secs div 60 mod 60) @ '':''
         @ pad_digits 2 (secs mod 60) @ (if frac = 0 then [] else ''.'' @ pad_digits 6 frac) @ ''+00:00'')"

section \<open>JSON documents\<close>

datatype json =
    JNull
  | JBool bool
  | JInt int
  | JStr string
  | JList "json list"
  | JObj "(string \<times> json) list"

type_synonym dict = "(string \<times> json) list"

text \<open>Python truth of a loaded document: \<^verbatim>\<open>if x:\<close>.\<close>

fun truthy :: "json \<Rightarrow> bool" where
  "truthy JNull = False"
| "truthy (JBool b) = b"
| "truthy (JInt n) = (n \<noteq> 0)"
| "truthy (JStr s) = (s \<noteq> [])"
| "truthy (JList xs) = (xs \<noteq> [])"
| "truthy (JObj xs) = (xs \<noteq> [])"

text \<open>\<^verbatim>\<open>d.get(k, default)\<close> on a dict: the first binding of the key.\<close>

definition dict_get :: "dict \<Rightarrow> string \<Rightarrow> json \<Rightarrow> json" where
  "dict_get d k v = (case map_of d k of None \<Rightarrow> v | Some w \<Rightarrow> w)"

lemma dict_get_Cons [simp]:
  "dict_get ((k', w) # d) k v = (if k = k' then w else dict_get d k v)"
  by (simp add: dict_get_def)

lemma dict_get_Nil [simp]: "dict_get [] k v = v"
  by (simp add: dict_get_def)

definition json_opt :: "('a \<Rightarrow> json) \<Rightarrow> 'a option \<Rightarrow> json" where
  "json_opt f x = (case x of None \<Rightarrow> JNull | Some a \<Rightarrow> f a)"

lemma json_opt_simps [simp]:
  "json_opt f None = JNull"
  "json_opt f (Some a) = f a"
  by (simp_all add: json_opt_def)

section \<open>Strings\<close>

fun py_in :: "string \<Rightarrow> string \<Rightarrow> bool" where
  "py_in p [] = (p = [])"
| "py_in p (c # s) = (prefix p (c # s) \<or> py_in p s)"

lemma py_in_sublist: "py_in p s = sublist p s"
  by (induction s) (auto simp: sublist_Cons_right)

lemma py_in_sep: "c \<notin> set p \<Longrightarrow> py_in p (a @ c # b) \<longleftrightarrow> py_in p a \<or> py_in p b"
proof (induction a)
  case Nil
  then show ?case by (cases p; cases b) auto
next
  case (Cons x a)
  have "prefix p (x # a @ c # b) \<longleftrightarrow> prefix p (x # a)"
    using Cons.prems prefix_append [of p "x # a" "c # b"] by (auto simp: prefix_Cons)
  with Cons show ?case by simp
qed

lemma py_in_set: "py_in p s \<Longrightarrow> set p \<subseteq> set s"
  by (metis py_in_sublist set_mono_sublist)

text \<open>\<^verbatim>\<open>s.replace(p, "")\<close> for a non-empty \<open>p\<close>.\<close>

function py_remove :: "string \<Rightarrow> string \<Rightarrow> string" where
  "py_remove p s =
     (if s = [] then []
      else if p \<noteq> [] \<and> prefix p s then py_remove p (drop (length p) s)
      else hd s # py_remove p (tl s))"
  by pat_completeness auto
termination
  by (relation "measure (\<lambda>(p, s). length s)") auto

declare py_remove.simps [simp del]

lemma py_remove_absent:
  assumes "c \<notin> set s" and "p = c # p'"
  shows "py_remove p s = s"
  using assms
proof (induction s)
  case Nil
  then show ?case by (simp add: py_remove.simps)
next
  case (Cons d s)
  have "\<not> prefix p (d # s)" using Cons.prems by auto
  moreover have "py_remove p s = s" using Cons by simp
  ultimately show ?case by (subst py_remove.simps) simp
qed

text \<open>\<^verbatim>\<open>s.split(sep)\<close> for a one-character separator.\<close>

fun py_split :: "char \<Rightarrow> string \<Rightarrow> string list" where
  "py_split c [] = [[]]"
| "py_split c (x # s) =
     (if x = c then [] # py_split c s
      else (case py_split c s of [] \<Rightarrow> [[x]] | w # ws \<Rightarrow> (x # w) # ws))"

lemma py_split_absent: "c \<notin> set s \<Longrightarrow> py_split c s = [s]"
  by (induction s) auto

lemma py_split_append:
  "c \<notin> set s \<Longrightarrow> py_split c (s @ c # t) = s # py_split c t"
  by (induction s) auto

definition py_isspace :: "char \<Rightarrow> bool" where
  "py_isspace c = (c \<in> {CHR '' '', CHR 0x09, CHR 0x0A, CHR 0x0B, CHR 0x0C, CHR 0x0D})"

definition strip_by :: "(char \<Rightarrow> bool) \<Rightarrow> string \<Rightarrow> string" where
  "strip_by P s = rev (dropWhile P (rev (dropWhile P s)))"

lemma dropWhile_none: "\<forall>c \<in> set s. \<not> P c \<Longrightarrow> dropWhile P s = s"
  by (cases s) auto

lemma strip_by_none: "\<forall>c \<in> set s. \<not> P c \<Longrightarrow> strip_by P s = s"
  by (simp add: strip_by_def dropWhile_none)

section \<open>UUIDs and their text\<close>

definition hex_chars :: string where
  "hex_chars = ''0123456789abcdef''"

fun hexn :: "nat \<Rightarrow> nat \<Rightarrow> string" where
  "hexn 0 n = []"
| "hexn (Suc k) n = hexn k (n div 16) @ [hex_chars ! (n mod 16)]"

definition uuid_str :: "uuid \<Rightarrow> string" where
  "uuid_str u =
     (let h = hexn 32 (unat u) in
      take 8 h @ ''-'' @ take 4 (drop 8 h) @ ''-'' @ take 4 (drop 12 h) @ ''-''
        @ take 4 (drop 16 h) @ ''-'' @ drop 20 h)"

definition hex_val :: "char \<Rightarrow> int option" where
  "hex_val c =
     (let n = of_char c in
      if 48 \<le> n \<and> n \<le> 57 then Some (n - 48)
      else if 97 \<le> n \<and> n \<le> 102 then Some (n - 87)
      else if 65 \<le> n \<and> n \<le> 70 then Some (n - 55)
      else None)"

fun hex_body :: "int \<Rightarrow> bool \<Rightarrow> string \<Rightarrow> int option" where
  "hex_body acc ok [] = (if ok then Some acc else None)"
| "hex_body acc ok (c # s) =
     (if c = CHR ''_'' then (if ok then hex_body acc False s else None)
      else (case hex_val c of None \<Rightarrow> None | Some d \<Rightarrow> hex_body (16 * acc + d) True s))"

text \<open>\<^verbatim>\<open>int(s, 16)\<close>: surrounding blanks, a sign, an optional \<open>0x\<close> and single underscores
  between digits are accepted, as CPython does.\<close>

definition py_int16 :: "string \<Rightarrow> int option" where
  "py_int16 s =
     (let t = strip_by py_isspace s;
          neg = (t \<noteq> [] \<and> hd t = CHR ''-'');
          t1 = (if t \<noteq> [] \<and> hd t \<in> {CHR ''-'', CHR ''+''} then tl t else t);
          t2 = (if prefix ''0x'' t1 \<or> prefix ''0X'' t1
                then (if prefix ''_'' (drop 2 t1) then drop 3 t1 else drop 2 t1) else t1)
      in map_option (\<lambda>n. if neg then - n else n) (hex_body 0 False t2))"

definition uuid_parse :: "string \<Rightarrow> uuid option" where
  "uuid_parse s =
     (let h = py_remove ''uuid:'' (py_remove ''urn:'' s);
          d = filter (\<lambda>c. c \<noteq> CHR ''-'') (strip_by (\<lambda>c. c \<in> {CHR ''{'', CHR ''}''}) h)
      in if length d \<noteq> 32 then None
         else (case py_int16 d of
                 None \<Rightarrow> None
               | Some n \<Rightarrow> if 0 \<le> n \<and> n < 2 ^ 128 then Some (word_of_int n) else None))"

lemma hex_char_props:
  assumes "c \<in> set hex_chars"
  shows "hex_val c \<noteq> None" "c \<noteq> CHR ''_''" "c \<noteq> CHR ''-''" "c \<noteq> CHR ''+''" "c \<noteq> CHR ''{''"
    "c \<noteq> CHR ''}''" "c \<noteq> CHR ''u''" "c \<noteq> CHR ''x''" "c \<noteq> CHR ''X''" "\<not> py_isspace c" "c \<noteq> CHR ''.''"
  using assms by (auto simp: hex_chars_def hex_val_def py_isspace_def)

lemma length_hexn [simp]: "length (hexn k n) = k"
  by (induction k arbitrary: n) auto

lemma nth_hex_chars_mem [simp]: "hex_chars ! (n mod 16) \<in> set hex_chars"
  by (rule nth_mem) (simp add: hex_chars_def)

lemma set_hexn: "set (hexn k n) \<subseteq> set hex_chars"
  by (induction k arbitrary: n) auto

lemma hex_val_nth: "n < 16 \<Longrightarrow> hex_val (hex_chars ! n) = Some (int n)"
proof -
  assume "n < 16"
  then have "n \<in> set [0..<16]" by simp
  then show ?thesis
    by (auto simp: upt_rec hex_chars_def hex_val_def)
qed

lemma hex_body_digits:
  "set ds \<subseteq> set hex_chars \<Longrightarrow> ok \<or> ds \<noteq> [] \<Longrightarrow>
     hex_body acc ok ds = Some (foldl (\<lambda>a c. 16 * a + the (hex_val c)) acc ds)"
proof (induction ds arbitrary: acc ok)
  case Nil
  then show ?case by simp
next
  case (Cons c ds)
  then have c: "c \<in> set hex_chars" by simp
  then obtain d where "hex_val c = Some d" using hex_char_props(1) by blast
  with Cons c hex_char_props(2) show ?case by simp
qed

lemma foldl_hexn:
  "foldl (\<lambda>a c. 16 * a + the (hex_val c)) acc (hexn k n) = acc * 16 ^ k + int (n mod 16 ^ k)"
proof (induction k arbitrary: n)
  case 0
  then show ?case by simp
next
  case (Suc k)
  have "n mod 16 ^ Suc k = 16 * (n div 16 mod 16 ^ k) + n mod 16"
    by (simp add: mod_mult2_eq)
  with Suc show ?case by (simp add: hex_val_nth algebra_simps)
qed

lemma py_int16_hexn:
  assumes "0 < k" and "n < 16 ^ k"
  shows "py_int16 (hexn k n) = Some (int n)"
proof -
  have sub: "set (hexn k n) \<subseteq> set hex_chars" by (rule set_hexn)
  obtain c ds where cd: "hexn k n = c # ds"
    using assms(1) by (cases "hexn k n") (auto dest: arg_cong [where f = length])
  with sub have c: "c \<in> set hex_chars" and ds: "set ds \<subseteq> set hex_chars" by auto
  have strip: "strip_by py_isspace (hexn k n) = hexn k n"
    using sub hex_char_props(10) by (intro strip_by_none) blast
  have pre: "\<not> prefix ''0x'' (c # ds)" "\<not> prefix ''0X'' (c # ds)"
    using ds hex_char_props(8,9) by (cases ds; force)+
  have "hex_body 0 False (c # ds) = Some (int n)"
    using hex_body_digits [OF sub] foldl_hexn [of 0 k n] cd assms(2) by simp
  then show ?thesis
    using strip pre hex_char_props(3,4) [OF c] by (auto simp: py_int16_def cd Let_def simp del: hex_body.simps)
qed

lemma filter_no_dash:
  "set xs \<subseteq> set hex_chars \<Longrightarrow> filter (\<lambda>c. c \<noteq> CHR ''-'') xs = xs"
  using hex_char_props(3) by (intro filter_True) blast

lemma set_uuid_str: "set (uuid_str u) \<subseteq> insert (CHR ''-'') (set hex_chars)"
proof -
  have "set (hexn 32 (unat u)) \<subseteq> set hex_chars" by (rule set_hexn)
  then show ?thesis
    unfolding uuid_str_def Let_def
    by (auto dest!: in_set_takeD in_set_dropD)
qed

lemma take_drop_append: "n = a + b \<Longrightarrow> take a (drop b xs) @ drop n xs = drop b xs"
  by (metis append_take_drop_id drop_drop)

lemma filter_uuid_str: "filter (\<lambda>c. c \<noteq> CHR ''-'') (uuid_str u) = hexn 32 (unat u)"
proof -
  let ?h = "hexn 32 (unat u)"
  have h: "set ?h \<subseteq> set hex_chars" by (rule set_hexn)
  have t: "filter (\<lambda>c. c \<noteq> CHR ''-'') (take m (drop n ?h)) = take m (drop n ?h)" for m n
    using h by (intro filter_no_dash) (auto dest!: in_set_takeD in_set_dropD)
  have d: "filter (\<lambda>c. c \<noteq> CHR ''-'') (drop n ?h) = drop n ?h" for n
    using h by (intro filter_no_dash) (auto dest!: in_set_dropD)
  have "take 8 ?h @ take 4 (drop 8 ?h) @ take 4 (drop 12 ?h) @ take 4 (drop 16 ?h) @ drop 20 ?h = ?h"
    by (simp add: take_drop_append)
  then show ?thesis
    using t [of 8 0] t [of 4 8] t [of 4 12] t [of 4 16] d [of 20]
    by (simp add: uuid_str_def Let_def)
qed

theorem uuid_parse_str [simp]: "uuid_parse (uuid_str u) = Some u"
proof -
  have u: "CHR ''u'' \<notin> set (uuid_str u)" "CHR ''{'' \<notin> set (uuid_str u)" "CHR ''}'' \<notin> set (uuid_str u)"
    using set_uuid_str [of u] hex_char_props(5-7) by auto
  have "py_remove ''urn:'' (uuid_str u) = uuid_str u" "py_remove ''uuid:'' (uuid_str u) = uuid_str u"
    using py_remove_absent u(1) by blast+
  moreover have "strip_by (\<lambda>c. c \<in> {CHR ''{'', CHR ''}''}) (uuid_str u) = uuid_str u"
    using u by (intro strip_by_none) auto
  moreover have "py_int16 (hexn 32 (unat u)) = Some (int (unat u))"
    using unsigned_less [of u, where ?'a = nat] by (intro py_int16_hexn) auto
  ultimately show ?thesis
    using uint_lt2p [of u] by (simp add: uuid_parse_def filter_uuid_str Let_def)
qed

lemma uuid_str_inject [simp]: "uuid_str u = uuid_str v \<longleftrightarrow> u = v"
  by (metis option.inject uuid_parse_str)

lemma uuid_str_no_dot: "CHR ''.'' \<notin> set (uuid_str u)"
  using set_uuid_str [of u] hex_char_props(11) by auto

lemma uuid_str_nonempty [simp]: "uuid_str u \<noteq> []"
  by (simp add: uuid_str_def Let_def)

end
