(* ===== verification/Models.thy ===== *)
theory Models
  imports Prelude
begin

text \<open>
  The data of the backend: the enumerations and mapped classes of
  \<^verbatim>\<open>app/*/models.py\<close> as datatypes and records, and the database as a record of tables.

  A table is the list of its rows in insertion order. Columns whose values a CHECK constraint of
  \<^verbatim>\<open>migrations/versions\<close> restricts to an enumeration have the enumeration's datatype;
  \<open>*_value\<close> is the text stored in the column (Python's \<^verbatim>\<open>.value\<close>). Nullable columns are options,
  JSONB columns are \<open>json\<close> with \<open>JNull\<close> for both SQL NULL and JSON null, which SQLAlchemy loads
  alike as \<^verbatim>\<open>None\<close>. The ORM relationships are the foreign keys.
\<close>

section \<open>Enumerations\<close>

datatype risk_level = RISK_LOW | RISK_MEDIUM | RISK_HIGH | RISK_PROHIBITED

datatype command_state =
    RECEIVED | VALIDATED | AWAITING_APPROVAL | APPROVED | REJECTED | QUEUED | DELIVERED
  | ACKNOWLEDGED | RUNNING | SUCCEEDED | FAILED | TIMED_OUT | CANCELLED | EXPIRED
  | BLOCKED_BY_EMERGENCY_STOP

datatype task_state =
    T_PENDING | T_QUEUED | T_DELIVERED | T_ACKNOWLEDGED | T_RUNNING | T_SUCCEEDED | T_FAILED
  | T_TIMED_OUT | T_CANCELLED

datatype approval_status = APPROVAL_PENDING | APPROVAL_APPROVED | APPROVAL_REJECTED | APPROVAL_EXPIRED

datatype device_status = DEV_TRUSTED | DEV_REVOKED | DEV_PENDING

datatype pairing_status = PAIR_PENDING | PAIR_CONFIRMED | PAIR_EXPIRED | PAIR_REJECTED

datatype outbox_status = OUT_PENDING | OUT_PUBLISHING | OUT_PUBLISHED | OUT_FAILED

datatype user_status = USER_ACTIVE | USER_INACTIVE | USER_SUSPENDED

datatype audit_category =
    CAT_AUTH | CAT_DEVICE | CAT_COMMAND | CAT_APPROVAL | CAT_EMERGENCY_STOP | CAT_SECURITY | CAT_SYSTEM

datatype audit_action =
    ACT_LOGIN | ACT_LOGOUT | ACT_TOKEN_REFRESH | ACT_DEVICE_PAIR_STARTED | ACT_DEVICE_PAIR_CONFIRMED
  | ACT_DEVICE_REVOKED | ACT_DEVICE_CONNECTED | ACT_DEVICE_DISCONNECTED | ACT_COMMAND_CREATED
  | ACT_COMMAND_DELIVERED | ACT_COMMAND_ACKNOWLEDGED | ACT_COMMAND_STARTED | ACT_COMMAND_SUCCEEDED
  | ACT_COMMAND_FAILED | ACT_COMMAND_CANCELLED | ACT_COMMAND_EXPIRED | ACT_COMMAND_BLOCKED
  | ACT_APPROVAL_CREATED | ACT_APPROVAL_APPROVED | ACT_APPROVAL_REJECTED | ACT_APPROVAL_EXPIRED
  | ACT_EMERGENCY_STOP_ACTIVATED | ACT_EMERGENCY_STOP_RELEASED | ACT_INVALID_TOKEN
  | ACT_INVALID_CREDENTIAL | ACT_REPLAY_ATTEMPT | ACT_UNAUTHORIZED_ACCESS | ACT_RATE_LIMIT_EXCEEDED
  | ACT_CONFIG_CHANGED | ACT_BACKUP_STARTED | ACT_BACKUP_COMPLETED | ACT_RESTORE_STARTED
  | ACT_RESTORE_COMPLETED

fun risk_level_value :: "risk_level \<Rightarrow> string" where
  "risk_level_value RISK_LOW = ''low''"
| "risk_level_value RISK_MEDIUM = ''medium''"
| "risk_level_value RISK_HIGH = ''high''"
| "risk_level_value RISK_PROHIBITED = ''prohibited''"

fun command_state_value :: "command_state \<Rightarrow> string" where
  "command_state_value RECEIVED = ''received''"
| "command_state_value VALIDATED = ''validated''"
| "command_state_value AWAITING_APPROVAL = ''awaiting_approval''"
| "command_state_value APPROVED = ''approved''"
| "command_state_value REJECTED = ''rejected''"
| "command_state_value QUEUED = ''queued''"
| "command_state_value DELIVERED = ''delivered''"
| "command_state_value ACKNOWLEDGED = ''acknowledged''"
| "command_state_value RUNNING = ''running''"
| "command_state_value SUCCEEDED = ''succeeded''"
| "command_state_value FAILED = ''failed''"
| "command_state_value TIMED_OUT = ''timed_out''"
| "command_state_value CANCELLED = ''cancelled''"
| "command_state_value EXPIRED = ''expired''"
| "command_state_value BLOCKED_BY_EMERGENCY_STOP = ''blocked_by_emergency_stop''"

fun task_state_value :: "task_state \<Rightarrow> string" where
  "task_state_value T_PENDING = ''pending''"
| "task_state_value T_QUEUED = ''queued''"
| "task_state_value T_DELIVERED = ''delivered''"
| "task_state_value T_ACKNOWLEDGED = ''acknowledged''"
| "task_state_value T_RUNNING = ''running''"
| "task_state_value T_SUCCEEDED = ''succeeded''"
| "task_state_value T_FAILED = ''failed''"
| "task_state_value T_TIMED_OUT = ''timed_out''"
| "task_state_value T_CANCELLED = ''cancelled''"

fun audit_category_value :: "audit_category \<Rightarrow> string" where
  "audit_category_value CAT_AUTH = ''auth''"
| "audit_category_value CAT_DEVICE = ''device''"
| "audit_category_value CAT_COMMAND = ''command''"
| "audit_category_value CAT_APPROVAL = ''approval''"
| "audit_category_value CAT_EMERGENCY_STOP = ''emergency_stop''"
| "audit_category_value CAT_SECURITY = ''security''"
| "audit_category_value CAT_SYSTEM = ''system''"

fun audit_action_value :: "audit_action \<Rightarrow> string" where
  "audit_action_value ACT_LOGIN = ''login''"
| "audit_action_value ACT_LOGOUT = ''logout''"
| "audit_action_value ACT_TOKEN_REFRESH = ''token_refresh''"
| "audit_action_value ACT_DEVICE_PAIR_STARTED = ''device_pair_started''"
| "audit_action_value ACT_DEVICE_PAIR_CONFIRMED = ''device_pair_confirmed''"
| "audit_action_value ACT_DEVICE_REVOKED = ''device_revoked''"
| "audit_action_value ACT_DEVICE_CONNECTED = ''device_connected''"
| "audit_action_value ACT_DEVICE_DISCONNECTED = ''device_disconnected''"
| "audit_action_value ACT_COMMAND_CREATED = ''command_created''"
| "audit_action_value ACT_COMMAND_DELIVERED = ''command_delivered''"
| "audit_action_value ACT_COMMAND_ACKNOWLEDGED = ''command_acknowledged''"
| "audit_action_value ACT_COMMAND_STARTED = ''command_started''"
| "audit_action_value ACT_COMMAND_SUCCEEDED = ''command_succeeded''"
| "audit_action_value ACT_COMMAND_FAILED = ''command_failed''"
| "audit_action_value ACT_COMMAND_CANCELLED = ''command_cancelled''"
| "audit_action_value ACT_COMMAND_EXPIRED = ''command_expired''"
| "audit_action_value ACT_COMMAND_BLOCKED = ''command_blocked''"
| "audit_action_value ACT_APPROVAL_CREATED = ''approval_created''"
| "audit_action_value ACT_APPROVAL_APPROVED = ''approval_approved''"
| "audit_action_value ACT_APPROVAL_REJECTED = ''approval_rejected''"
| "audit_action_value ACT_APPROVAL_EXPIRED = ''approval_expired''"
| "audit_action_value ACT_EMERGENCY_STOP_ACTIVATED = ''emergency_stop_activated''"
| "audit_action_value ACT_EMERGENCY_STOP_RELEASED = ''emergency_stop_released''"
| "audit_action_value ACT_INVALID_TOKEN = ''invalid_token''"
| "audit_action_value ACT_INVALID_CREDENTIAL = ''invalid_credential''"
| "audit_action_value ACT_REPLAY_ATTEMPT = ''replay_attempt''"
| "audit_action_value ACT_UNAUTHORIZED_ACCESS = ''unauthorized_access''"
| "audit_action_value ACT_RATE_LIMIT_EXCEEDED = ''rate_limit_exceeded''"
| "audit_action_value ACT_CONFIG_CHANGED = ''config_changed''"
| "audit_action_value ACT_BACKUP_STARTED = ''backup_started''"
| "audit_action_value ACT_BACKUP_COMPLETED = ''backup_completed''"
| "audit_action_value ACT_RESTORE_STARTED = ''restore_started''"
| "audit_action_value ACT_RESTORE_COMPLETED = ''restore_completed''"

fun approval_status_value :: "approval_status \<Rightarrow> string" where
  "approval_status_value APPROVAL_PENDING = ''pending''"
| "approval_status_value APPROVAL_APPROVED = ''approved''"
| "approval_status_value APPROVAL_REJECTED = ''rejected''"
| "approval_status_value APPROVAL_EXPIRED = ''expired''"

fun device_status_value :: "device_status \<Rightarrow> string" where
  "device_status_value DEV_TRUSTED = ''trusted''"
| "device_status_value DEV_REVOKED = ''revoked''"
| "device_status_value DEV_PENDING = ''pending''"

fun pairing_status_value :: "pairing_status \<Rightarrow> string" where
  "pairing_status_value PAIR_PENDING = ''pending''"
| "pairing_status_value PAIR_CONFIRMED = ''confirmed''"
| "pairing_status_value PAIR_EXPIRED = ''expired''"
| "pairing_status_value PAIR_REJECTED = ''rejected''"

section \<open>Rows\<close>

record user =
  u_id :: uuid
  u_supabase_user_id :: string
  u_display_name :: string
  u_email :: string
  u_status :: user_status

record device =
  d_id :: uuid
  d_owner_id :: uuid
  d_display_name :: string
  d_device_type :: string
  d_operating_system :: string
  d_app_version :: string
  d_protocol_version :: string
  d_public_identity :: string
  d_trust_status :: device_status
  d_last_seen_at :: "datetime option"
  d_revoked_at :: "datetime option"
  d_created_at :: datetime

record device_credential =
  dc_id :: uuid
  dc_device_id :: uuid
  dc_credential_hash :: string
  dc_created_at :: datetime
  dc_expires_at :: "datetime option"
  dc_revoked_at :: "datetime option"

record pairing_request =
  p_id :: uuid
  p_device_name :: string
  p_device_type :: string
  p_operating_system :: string
  p_app_version :: string
  p_protocol_version :: string
  p_public_identity :: string
  p_pairing_code_hash :: string
  p_attempt_count :: int
  p_owner_id :: "uuid option"
  p_status :: pairing_status
  p_expires_at :: datetime
  p_confirmed_at :: "datetime option"

record command =
  c_id :: uuid
  c_device_id :: uuid
  c_command_type :: string
  c_parameters :: dict
  c_risk_level :: risk_level
  c_idempotency_key :: string
  c_state :: command_state
  c_requires_approval :: bool
  c_delayed_execution_allowed :: bool
  c_expires_at :: "datetime option"
  c_delivered_at :: "datetime option"
  c_acknowledged_at :: "datetime option"
  c_started_at :: "datetime option"
  c_finished_at :: "datetime option"
  c_result_data :: json
  c_result_summary :: json
  c_error_code :: json
  c_error_message :: json
  c_created_at :: datetime
  c_updated_at :: datetime

record task =
  t_id :: uuid
  t_command_id :: uuid
  t_state :: task_state
  t_attempt_count :: int
  t_started_at :: "datetime option"
  t_finished_at :: "datetime option"
  t_result_summary :: json
  t_error_code :: json
  t_error_message :: json

record command_state_event =
  e_id :: uuid
  e_command_id :: uuid
  e_previous_state :: "command_state option"
  e_new_state :: command_state
  e_event_source :: string
  e_event_metadata :: json
  e_created_at :: datetime

record approval =
  a_id :: uuid
  a_command_id :: uuid
  a_owner_id :: uuid
  a_risk_level :: risk_level
  a_action_title :: string
  a_action_description :: string
  a_status :: approval_status
  a_decision_nonce_hash :: string
  a_expires_at :: datetime
  a_decided_at :: "datetime option"
  a_decision_note :: "string option"
  a_created_at :: datetime

record emergency_stop =
  es_id :: uuid
  es_owner_id :: uuid
  es_active :: bool
  es_reason :: "string option"
  es_activated_at :: "datetime option"
  es_released_at :: "datetime option"
  es_activated_by :: "uuid option"
  es_released_by :: "uuid option"

record outbox_event =
  o_id :: uuid
  o_aggregate_type :: string
  o_aggregate_id :: string
  o_event_type :: string
  o_subject :: string
  o_payload :: dict
  o_headers :: dict
  o_status :: outbox_status
  o_available_at :: datetime
  o_attempt_count :: int
  o_last_error :: "string option"
  o_published_at :: "datetime option"
  o_created_at :: datetime

record audit_log =
  al_id :: uuid
  al_user_id :: "uuid option"
  al_device_id :: "uuid option"
  al_command_id :: "uuid option"
  al_approval_id :: "uuid option"
  al_category :: audit_category
  al_action :: audit_action
  al_result :: string
  al_event_metadata :: json
  al_request_id :: "string option"
  al_trace_id :: "string option"
  al_ip_address :: "string option"
  al_user_agent :: "string option"
  al_created_at :: datetime

section \<open>The database\<close>

record notification_record =
  n_id :: uuid
  n_user_id :: uuid
  n_notification_type :: string
  n_channel :: string
  n_status :: string
  n_payload :: dict
  n_error_message :: "string option"
  n_created_at :: datetime
  n_delivered_at :: "datetime option"

record db =
  users :: "user list"
  devices :: "device list"
  credentials :: "device_credential list"
  pairings :: "pairing_request list"
  commands :: "command list"
  tasks :: "task list"
  events :: "command_state_event list"
  approvals :: "approval list"
  estops :: "emergency_stop list"
  outbox :: "outbox_event list"
  audits :: "audit_log list"
  notifications :: "notification_record list"

definition empty_db :: db where
  "empty_db = \<lparr>users = [], devices = [], credentials = [], pairings = [], commands = [], tasks = [],
     events = [], approvals = [], estops = [], outbox = [], audits = [], notifications = []\<rparr>"

section \<open>Tables as keyed lists\<close>

text \<open>
  \<open>row_by key k\<close> is \<^verbatim>\<open>SELECT ... WHERE key = k\<close> with \<^verbatim>\<open>scalar_one_or_none\<close> on a column the schema
  declares unique, \<open>update_by\<close> is \<^verbatim>\<open>UPDATE ... WHERE key = k\<close>. Their laws are stated once, as a
  locale, and interpreted for every key the code selects by.
\<close>

definition row_by :: "('r \<Rightarrow> 'k) \<Rightarrow> 'k \<Rightarrow> 'r list \<Rightarrow> 'r option" where
  "row_by key k rows = find (\<lambda>r. key r = k) rows"

definition update_by :: "('r \<Rightarrow> 'k) \<Rightarrow> 'k \<Rightarrow> ('r \<Rightarrow> 'r) \<Rightarrow> 'r list \<Rightarrow> 'r list" where
  "update_by key k f rows = map (\<lambda>r. if key r = k then f r else r) rows"

lemma row_by_Nil [simp]: "row_by key k [] = None"
  by (simp add: row_by_def)

lemma row_by_Cons [simp]:
  "row_by key k (r # rows) = (if key r = k then Some r else row_by key k rows)"
  by (simp add: row_by_def)

lemma update_by_Nil [simp]: "update_by key k f [] = []"
  by (simp add: update_by_def)

lemma update_by_Cons [simp]:
  "update_by key k f (r # rows) = (if key r = k then f r else r) # update_by key k f rows"
  by (simp add: update_by_def)

lemma row_by_None [simp]: "row_by key k rows = None \<longleftrightarrow> k \<notin> key ` set rows"
  by (induction rows) auto

lemma row_by_SomeD: "row_by key k rows = Some r \<Longrightarrow> r \<in> set rows \<and> key r = k"
  by (induction rows) (auto split: if_splits)

lemma row_by_SomeK: "row_by key k rows = Some r \<Longrightarrow> k \<in> key ` set rows"
  using row_by_None [of key k rows] by auto

lemma row_by_append:
  "row_by key k (xs @ ys) = (case row_by key k xs of None \<Rightarrow> row_by key k ys | Some r \<Rightarrow> Some r)"
  by (induction xs) auto

lemma row_by_snoc [table_simps]:
  "key r \<notin> key ` set rows \<Longrightarrow>
     row_by key k (rows @ [r]) = (if key r = k then Some r else row_by key k rows)"
  by (induction rows) auto

lemma row_by_mem:
  "distinct (map key rows) \<Longrightarrow> r \<in> set rows \<Longrightarrow> row_by key (key r) rows = Some r"
  by (induction rows) auto

text \<open>Laws of a table keyed by \<open>key\<close> and of an update that leaves the key alone.\<close>

locale keyed_update =
  fixes key :: "'r \<Rightarrow> 'k" and upd :: "'a \<Rightarrow> 'r \<Rightarrow> 'r"
  assumes key_upd: "key (upd a r) = key r"
begin

lemma row_by_update:
  "row_by key k (update_by key k' (upd a) rows) =
     (if k = k' then map_option (upd a) (row_by key k rows) else row_by key k rows)"
  by (induction rows) (auto simp: key_upd)

lemma keys_update: "map key (update_by key k (upd a) rows) = map key rows"
  by (induction rows) (auto simp: key_upd)

lemma update_absent: "k \<notin> key ` set rows \<Longrightarrow> update_by key k (upd a) rows = rows"
  by (induction rows) auto

lemma set_update:
  "distinct (map key rows) \<Longrightarrow> row_by key k rows = Some r \<Longrightarrow>
     set (update_by key k (upd a) rows) = insert (upd a r) (set rows - {r})"
proof (induction rows)
  case Nil
  then show ?case by simp
next
  case (Cons x rows)
  show ?case
  proof (cases "key x = k")
    case True
    with Cons.prems have "x = r" "k \<notin> key ` set rows" "r \<notin> set rows" by auto
    with True show ?thesis by (auto simp: update_absent)
  next
    case False
    with Cons.prems have "row_by key k rows = Some r" "distinct (map key rows)" "x \<noteq> r"
      by (auto dest: row_by_SomeD)
    with False Cons.IH show ?thesis by auto
  qed
qed

end

lemma length_update_by [simp]: "length (update_by key k f rows) = length rows"
  by (simp add: update_by_def)

text \<open>A column that an update leaves alone.\<close>

lemma map_update_by: "(\<And>r. g (f r) = g r) \<Longrightarrow> map g (update_by key k f rows) = map g rows"
  by (simp add: update_by_def)

lemma image_update_by: "(\<And>r. g (f r) = g r) \<Longrightarrow> g ` set (update_by key k f rows) = g ` set rows"
  using map_update_by [of g f key k rows] by (metis list.set_map)

lemma update_by_twice:
  "(\<And>r. key (g r) = key r) \<Longrightarrow> update_by key k f (update_by key k g rows) = update_by key k (\<lambda>r. f (g r)) rows"
  by (simp add: update_by_def)

lemma update_by_absent: "k \<notin> key ` set rows \<Longrightarrow> update_by key k f rows = rows"
  by (induction rows) auto

lemma update_by_snoc:
  "k \<notin> key ` set rows \<Longrightarrow> key r = k \<Longrightarrow> update_by key k f (rows @ [r]) = rows @ [f r]"
  using update_by_absent [of k key rows f] by (simp add: update_by_def)

end
