(* ===== verification/Errors.thy ===== *)
theory Errors
  imports Models
begin

text \<open>
  Exceptions as values. \<open>error_code\<close> is the enumeration of \<^verbatim>\<open>app/api/errors.py\<close>; \<open>exn\<close> lists the
  exceptions that the modelled code raises, catches or lets through: the API's own
  (\<open>ApiError\<close> with its code, message and HTTP status), the state machine's
  (\<open>StateTransitionError\<close>), the protocol's, Python's built-in ones, and those of the database
  layer (a violated constraint, the trigger's exception, a value that does not fit its column, a
  session used after a failed flush).

  \<open>error_response\<close> is what the error-handling middleware turns an exception into: the status and
  the code of an \<open>ApiError\<close>, and 500 for everything else.
\<close>

datatype error_code =
    INVALID_TOKEN | EXPIRED_TOKEN | USER_NOT_FOUND
  | VALIDATION_ERROR | INVALID_IDEMPOTENCY_KEY | IDEMPOTENCY_CONFLICT
  | DEVICE_NOT_FOUND | DEVICE_REVOKED | DEVICE_OFFLINE | PAIRING_EXPIRED | PAIRING_INVALID
  | INVALID_CREDENTIAL | INVALID_PROTOCOL_VERSION
  | COMMAND_NOT_FOUND | COMMAND_EXPIRED | COMMAND_BLOCKED | INVALID_COMMAND_TYPE | INVALID_PARAMETERS
  | APPROVAL_NOT_FOUND | APPROVAL_EXPIRED_CODE | APPROVAL_ALREADY_DECIDED | INVALID_DECISION_NONCE
  | INVALID_STATE
  | EMERGENCY_STOP_ACTIVE | EMERGENCY_STOP_NOT_ACTIVE | INVALID_CONFIRMATION
  | INTERNAL_ERROR | SERVICE_UNAVAILABLE | RATE_LIMITED | FORBIDDEN | NOT_FOUND

datatype exn =
    ApiError error_code string int
  | StateTransitionError uuid command_state command_state
  | ProtocolError string string
  | PydanticValidationError
  | AttributeError string
  | TypeError string
  | ValueError string
  | KeyError string
  | RuntimeError string
  | OverflowError string
  | TimeoutError
  | JSONDecodeError
  | UnicodeDecodeError
  | IntegrityError string
  | TriggerError command_state command_state
  | DataError string
  | PendingRollbackError
  | MultipleResultsFound
  | NatsError string

definition error_response :: "exn \<Rightarrow> int \<times> error_code" where
  "error_response e = (case e of ApiError code msg status \<Rightarrow> (status, code) | _ \<Rightarrow> (500, INTERNAL_ERROR))"

type_synonym 'a res = "exn + 'a"

abbreviation Err :: "exn \<Rightarrow> 'a res" where
  "Err \<equiv> Inl"

abbreviation Ok :: "'a \<Rightarrow> 'a res" where
  "Ok \<equiv> Inr"

text \<open>
  \<^verbatim>\<open>x.value\<close> on an attribute that SQLAlchemy loaded from a \<^verbatim>\<open>String\<close> column. Whether such an
  attribute is a plain \<^verbatim>\<open>str\<close> (SQLAlchemy's documented behaviour for \<^verbatim>\<open>String\<close>) or a member of the
  enumeration (what the code assumes, and what a column of type \<^verbatim>\<open>Enum\<close> would give) is the
  parameter \<open>orm_enum\<close>; a plain string has no attribute \<open>value\<close>.
\<close>

definition dot_value :: "bool \<Rightarrow> ('e \<Rightarrow> string) \<Rightarrow> 'e \<Rightarrow> string res" where
  "dot_value orm_enum val x =
     (if orm_enum then Ok (val x) else Err (AttributeError ''value''))"

end
