(* ===== verification/Config.thy ===== *)
theory Config
  imports Errors
begin

text \<open>
  \<^verbatim>\<open>app/config.py\<close>: the settings that have a default, with it (the addresses and keys of the database and of
  Supabase have none and are arguments where they are used), and
  \<open>parse_list\<close>, which accepts a JSON array (\<^verbatim>\<open>json.loads\<close> is its argument) or a comma-separated
  string for the list-valued ones. The settings are an argument of the model: the properties hold for every configuration unless they say otherwise.
\<close>

record settings =
  ENVIRONMENT :: string
  SERVICE_VERSION :: string
  API_BASE_URL :: string
  ALLOWED_ORIGINS :: "string list"
  DATABASE_POOL_SIZE :: int
  DATABASE_MAX_OVERFLOW :: int
  NATS_URL :: string
  NATS_STREAM_COMMANDS :: string
  NATS_STREAM_DEVICE_EVENTS :: string
  NATS_STREAM_APPROVALS :: string
  NATS_STREAM_SECURITY :: string
  NATS_CONSUMER_API :: string
  NATS_CONSUMER_GATEWAY :: string
  VALKEY_URL :: string
  VALKEY_KEY_PREFIX :: string
  VALKEY_DEFAULT_TTL :: int
  WS_HEARTBEAT_INTERVAL :: int
  WS_HEARTBEAT_TIMEOUT :: int
  WS_MAX_MESSAGE_SIZE :: int
  WS_SUPPORTED_PROTOCOLS :: "string list"
  R2_ACCOUNT_ID :: string
  R2_ACCESS_KEY_ID :: string
  R2_SECRET_ACCESS_KEY :: string
  R2_BUCKET_NAME :: string
  R2_ENDPOINT_URL :: string
  R2_PUBLIC_URL :: string
  DEVICE_CREDENTIAL_TTL_DAYS :: int
  PAIRING_CODE_TTL_MINUTES :: int
  MAX_PAIRING_ATTEMPTS :: int
  APPROVAL_TTL_MINUTES :: int
  IDEMPOTENCY_TTL_HOURS :: int
  EMERGENCY_STOP_CACHE_TTL :: int
  COMMAND_DEFAULT_TTL_MINUTES :: int
  COMMAND_MAX_TTL_MINUTES :: int
  TRUSTED_PROXY_IPS :: "string list"
  RATE_LIMIT_AUTH_FAILURES :: int
  RATE_LIMIT_PAIRING :: int
  RATE_LIMIT_COMMANDS :: int
  RATE_LIMIT_APPROVALS :: int
  RATE_LIMIT_WS_CONNECTIONS :: int
  RATE_LIMIT_HEALTH_DETAIL :: int
  LOG_LEVEL :: string
  OTEL_EXPORTER_OTLP_ENDPOINT :: string
  SENTRY_DSN :: string

definition default_settings :: settings where
  "default_settings =
     \<lparr>ENVIRONMENT = ''development'', SERVICE_VERSION = ''0.1.0'', API_BASE_URL = ''http://localhost:8000'',
      ALLOWED_ORIGINS = [''http://localhost:3000'', ''http://localhost:8080''], DATABASE_POOL_SIZE = 10, DATABASE_MAX_OVERFLOW = 20,
      NATS_URL = ''nats://localhost:4222'', NATS_STREAM_COMMANDS = ''VEYAAN_COMMANDS'',
      NATS_STREAM_DEVICE_EVENTS = ''VEYAAN_DEVICE_EVENTS'', NATS_STREAM_APPROVALS = ''VEYAAN_APPROVALS'',
      NATS_STREAM_SECURITY = ''VEYAAN_SECURITY'', NATS_CONSUMER_API = ''api_consumer'', NATS_CONSUMER_GATEWAY = ''gateway_consumer'',
      VALKEY_URL = ''redis://localhost:6379'', VALKEY_KEY_PREFIX = ''veyaan:dev:'', VALKEY_DEFAULT_TTL = 300,
      WS_HEARTBEAT_INTERVAL = 30, WS_HEARTBEAT_TIMEOUT = 90, WS_MAX_MESSAGE_SIZE = 1048576, WS_SUPPORTED_PROTOCOLS = [''v1''],
      R2_ACCOUNT_ID = [], R2_ACCESS_KEY_ID = [], R2_SECRET_ACCESS_KEY = [], R2_BUCKET_NAME = ''veyaan-dev'', R2_ENDPOINT_URL = [],
      R2_PUBLIC_URL = [], DEVICE_CREDENTIAL_TTL_DAYS = 365, PAIRING_CODE_TTL_MINUTES = 10, MAX_PAIRING_ATTEMPTS = 5,
      APPROVAL_TTL_MINUTES = 30, IDEMPOTENCY_TTL_HOURS = 24, EMERGENCY_STOP_CACHE_TTL = 60, COMMAND_DEFAULT_TTL_MINUTES = 1440,
      COMMAND_MAX_TTL_MINUTES = 10080, TRUSTED_PROXY_IPS = [], RATE_LIMIT_AUTH_FAILURES = 5, RATE_LIMIT_PAIRING = 3,
      RATE_LIMIT_COMMANDS = 30, RATE_LIMIT_APPROVALS = 10, RATE_LIMIT_WS_CONNECTIONS = 5, RATE_LIMIT_HEALTH_DETAIL = 30,
      LOG_LEVEL = ''DEBUG'', OTEL_EXPORTER_OTLP_ENDPOINT = [], SENTRY_DSN = []\<rparr>"

definition parse_list :: "(string \<Rightarrow> string list res) \<Rightarrow> string \<Rightarrow> string list res" where
  "parse_list json_loads value =
     (if prefix ''['' value then json_loads value
      else Ok (map (strip_by py_isspace)
             (filter (\<lambda>v. strip_by py_isspace v \<noteq> []) (py_split (CHR '','') value))))"

fun join_commas :: "string list \<Rightarrow> string" where
  "join_commas [] = []"
| "join_commas [x] = x"
| "join_commas (x # y # ys) = x @ CHR '','' # join_commas (y # ys)"

definition plain_item :: "string \<Rightarrow> bool" where
  "plain_item x = (x \<noteq> [] \<and> (\<forall>c \<in> set x. c \<noteq> CHR '','' \<and> \<not> py_isspace c))"

lemma py_split_join:
  "xs \<noteq> [] \<Longrightarrow> \<forall>x \<in> set xs. plain_item x \<Longrightarrow> py_split (CHR '','') (join_commas xs) = xs"
  by (induction xs rule: join_commas.induct)
    (auto simp: plain_item_def intro!: py_split_absent py_split_append [THEN trans])

end
