(* ===== verification/Database.thy ===== *)
theory Database
  imports Config
begin

text \<open>
  The database session of \<^verbatim>\<open>app/database/session.py\<close> and the schema of \<^verbatim>\<open>migrations/versions\<close>.

  A program of type \<open>'a prog\<close> runs on a state \<open>st\<close> and returns a value or an exception. The state
  holds the committed database (what every other session sees), the working copy of the session
  that is open, whether that session failed, the Valkey store, the NATS messages published, the
  clock, the position in the random supply of \<^verbatim>\<open>uuid4\<close> and \<^verbatim>\<open>secrets\<close>, and of the gateway process
  the connection table, the frames sent and the sockets closed with their codes. The clock is read once
  per call in the model: two readings of \<^verbatim>\<open>datetime.now\<close> inside one handler are the same instant.

  \<^item> \<open>select\<close> reads the working copy, \<open>flush\<close> writes it and enforces the schema; after a flush that
    failed every later use of the session raises \<open>PendingRollbackError\<close> until it is rolled back,
    as SQLAlchemy documents.
  \<^item> \<open>commit\<close> publishes the working copy.
  \<^item> \<open>with_session\<close> is \<^verbatim>\<open>get_db_session_context\<close>: commit when the block returns, roll back when it
    raises.
\<close>

section \<open>State and programs\<close>

datatype vval = VJson json | VHash "(string \<times> string) list" | VCount int

type_synonym valkey = "string \<Rightarrow> (vval \<times> datetime) option"

record nats_msg =
  m_subject :: string
  m_payload :: dict
  m_headers :: dict

text \<open>A device connection of the WebSocket gateway (\<^verbatim>\<open>DeviceConnection\<close>); the socket is named by its connection.\<close>

record connection =
  k_device_id :: uuid
  k_owner_id :: uuid
  k_connection_id :: uuid
  k_authenticated_at :: datetime
  k_last_heartbeat :: datetime
  k_protocol_version :: json
  k_app_version :: json
  k_gateway_instance_id :: uuid
  k_violations :: int

record st =
  committed :: db
  working :: db
  failed :: bool
  cache :: valkey
  cache_up :: bool
  bus :: "nats_msg list"
  clock :: datetime
  entropy :: nat
  active_connections :: "uuid \<Rightarrow> connection option"
  sent :: "(uuid \<times> dict) list"
  closed :: "(uuid \<times> int) list"

type_synonym 'a prog = "st \<Rightarrow> 'a res \<times> st"

text \<open>
  The parameters of the model: the random supply (\<^verbatim>\<open>uuid4\<close>, \<^verbatim>\<open>secrets.token_urlsafe\<close>), the hash
  \<^verbatim>\<open>sha256(x).hexdigest()\<close>, how the ORM loads a \<^verbatim>\<open>String\<close> column (see \<open>dot_value\<close>), the
  effective level of the standard \<^verbatim>\<open>logging\<close> root logger of a worker process, which messages
  the NATS server accepts, Pydantic's conversions of a document to \<^verbatim>\<open>bool\<close>, \<^verbatim>\<open>int\<close>, \<^verbatim>\<open>UUID\<close>
  and \<^verbatim>\<open>datetime\<close> (\<open>None\<close> for a validation error), the text of an exception, the nonces of
  \<^verbatim>\<open>os.urandom\<close>, the signature check of the cryptography library on a Base64 key, a message and a
  Base64 signature, on which WebSocket connections a send succeeds, the text that Pydantic's JSON mode
  gives a \<^verbatim>\<open>datetime\<close>, and Python's \<^verbatim>\<open>repr\<close> of a list or dict.
\<close>

record env =
  settings :: settings
  gen_uuid :: "nat \<Rightarrow> uuid"
  gen_token :: "nat \<Rightarrow> string"
  sha256 :: "string \<Rightarrow> string"
  orm_enum :: bool
  log_level :: int
  nats_ack :: "nats_msg \<Rightarrow> bool"
  pyd_bool :: "json \<Rightarrow> bool option"
  pyd_int :: "json \<Rightarrow> int option"
  pyd_uuid :: "json \<Rightarrow> uuid option"
  pyd_datetime :: "json \<Rightarrow> datetime option"
  exn_str :: "exn \<Rightarrow> string"
  gen_nonce :: "nat \<Rightarrow> string"
  ed25519_verify :: "string \<Rightarrow> string \<Rightarrow> string \<Rightarrow> bool"
  ws_ok :: "uuid \<Rightarrow> bool"
  pyd_dump_datetime :: "datetime \<Rightarrow> string"
  py_repr :: "json \<Rightarrow> string"

definition returnM :: "'a \<Rightarrow> 'a prog" where
  "returnM a s = (Ok a, s)"

definition raiseM :: "exn \<Rightarrow> 'a prog" where
  "raiseM e s = (Err e, s)"

definition bindM :: "'a prog \<Rightarrow> ('a \<Rightarrow> 'b prog) \<Rightarrow> 'b prog" where
  "bindM m f s = (case m s of (Inl e, s') \<Rightarrow> (Inl e, s') | (Inr a, s') \<Rightarrow> f a s')"

definition seqM :: "'a prog \<Rightarrow> 'b prog \<Rightarrow> 'b prog" where
  "seqM m k = bindM m (\<lambda>_. k)"

text \<open>\<^verbatim>\<open>try: m except ...: h\<close>; the handler decides which exceptions it re-raises.\<close>

definition catchM :: "'a prog \<Rightarrow> (exn \<Rightarrow> 'a prog) \<Rightarrow> 'a prog" where
  "catchM m h s = (case m s of (Inl e, s') \<Rightarrow> h e s' | (Inr a, s') \<Rightarrow> (Inr a, s'))"

definition liftM :: "'a res \<Rightarrow> 'a prog" where
  "liftM r s = (r, s)"

definition getM :: "(st \<Rightarrow> 'a) \<Rightarrow> 'a prog" where
  "getM f s = (Ok (f s), s)"

fun forM :: "'a list \<Rightarrow> ('a \<Rightarrow> unit prog) \<Rightarrow> unit prog" where
  "forM [] f = returnM ()"
| "forM (x # xs) f = seqM (f x) (forM xs f)"

definition uuid4 :: "env \<Rightarrow> uuid prog" where
  "uuid4 env s = (Ok (gen_uuid env (entropy s)), s\<lparr>entropy := Suc (entropy s)\<rparr>)"

definition token_urlsafe :: "env \<Rightarrow> string prog" where
  "token_urlsafe env s = (Ok (gen_token env (entropy s)), s\<lparr>entropy := Suc (entropy s)\<rparr>)"

section \<open>The session\<close>

definition select :: "(db \<Rightarrow> 'a) \<Rightarrow> 'a prog" where
  "select q s = (if failed s then (Err PendingRollbackError, s) else (Ok (q (working s)), s))"

definition flush :: "(db \<Rightarrow> db res) \<Rightarrow> unit prog" where
  "flush f s =
     (if failed s then (Err PendingRollbackError, s)
      else (case f (working s) of
              Inl e \<Rightarrow> (Err e, s\<lparr>failed := True\<rparr>)
            | Inr d \<Rightarrow> (Ok (), s\<lparr>working := d\<rparr>)))"

definition commit :: "unit prog" where
  "commit s =
     (if failed s then (Err PendingRollbackError, s) else (Ok (), s\<lparr>committed := working s\<rparr>))"

text \<open>A dedicated read-only session opened inside another one sees the committed database.\<close>

definition read_session :: "(db \<Rightarrow> 'a) \<Rightarrow> 'a prog" where
  "read_session q s = (Ok (q (committed s)), s)"

definition with_session :: "'a prog \<Rightarrow> 'a prog" where
  "with_session body s =
     (case body (s\<lparr>working := committed s, failed := False\<rparr>) of
        (Inl e, s') \<Rightarrow> (Err e, s'\<lparr>working := committed s', failed := False\<rparr>)
      | (Inr a, s') \<Rightarrow>
          (if failed s' then (Err PendingRollbackError, s'\<lparr>working := committed s', failed := False\<rparr>)
           else (Ok a, s'\<lparr>committed := working s'\<rparr>)))"

abbreviation open_session :: "st \<Rightarrow> st" where
  "open_session s \<equiv> s\<lparr>working := committed s, failed := False\<rparr>"

section \<open>Evaluation of programs\<close>

lemma with_session_Ok:
  "body (open_session s) = (Inr a, t) \<Longrightarrow> \<not> failed t \<Longrightarrow>
     with_session body s = (Ok a, t\<lparr>committed := working t\<rparr>)"
  by (simp add: with_session_def)

lemma with_session_Err:
  "body (open_session s) = (Inl e, t) \<Longrightarrow>
     with_session body s = (Err e, t\<lparr>working := committed t, failed := False\<rparr>)"
  by (simp add: with_session_def)

lemma returnM_run [prog_simps]: "returnM a s = (Ok a, s)"
  by (simp add: returnM_def)

lemma raiseM_run [prog_simps]: "raiseM e s = (Err e, s)"
  by (simp add: raiseM_def)

lemma liftM_run [prog_simps]: "liftM r s = (r, s)"
  by (simp add: liftM_def)

lemma getM_run [prog_simps]: "getM f s = (Ok (f s), s)"
  by (simp add: getM_def)

lemma uuid4_run [prog_simps]:
  "uuid4 env s = (Ok (gen_uuid env (entropy s)), s\<lparr>entropy := Suc (entropy s)\<rparr>)"
  by (simp add: uuid4_def)

lemma token_urlsafe_run [prog_simps]:
  "token_urlsafe env s = (Ok (gen_token env (entropy s)), s\<lparr>entropy := Suc (entropy s)\<rparr>)"
  by (simp add: token_urlsafe_def)

lemma select_run [prog_simps]: "\<not> failed s \<Longrightarrow> select q s = (Ok (q (working s)), s)"
  by (simp add: select_def)

lemma select_failed [prog_simps]: "failed s \<Longrightarrow> select q s = (Err PendingRollbackError, s)"
  by (simp add: select_def)

lemma flush_run [prog_simps]:
  "\<not> failed s \<Longrightarrow> flush f s = (case f (working s) of
     Inl e \<Rightarrow> (Err e, s\<lparr>failed := True\<rparr>) | Inr d \<Rightarrow> (Ok (), s\<lparr>working := d\<rparr>))"
  by (simp add: flush_def)

lemma flush_failed [prog_simps]: "failed s \<Longrightarrow> flush f s = (Err PendingRollbackError, s)"
  by (simp add: flush_def)

lemma commit_run [prog_simps]: "\<not> failed s \<Longrightarrow> commit s = (Ok (), s\<lparr>committed := working s\<rparr>)"
  by (simp add: commit_def)

lemma commit_failed [prog_simps]: "failed s \<Longrightarrow> commit s = (Err PendingRollbackError, s)"
  by (simp add: commit_def)

lemma read_session_run [prog_simps]: "read_session q s = (Ok (q (committed s)), s)"
  by (simp add: read_session_def)

lemma bindM_Ok [prog_simps]: "m s = (Inr a, s') \<Longrightarrow> bindM m f s = f a s'"
  by (simp add: bindM_def)

lemma bindM_Err [prog_simps]: "m s = (Inl e, s') \<Longrightarrow> bindM m f s = (Inl e, s')"
  by (simp add: bindM_def)

lemma seqM_Ok [prog_simps]: "m s = (Inr a, s') \<Longrightarrow> seqM m k s = k s'"
  by (simp add: seqM_def bindM_def)

lemma seqM_Err [prog_simps]: "m s = (Inl e, s') \<Longrightarrow> seqM m k s = (Inl e, s')"
  by (simp add: seqM_def bindM_def)

lemma bindM_liftM_Ok [simp]: "bindM (liftM (Inr a)) f = f a"
  by (rule ext) (simp add: bindM_def liftM_def)

lemma bindM_liftM_Err [simp]: "bindM (liftM (Inl e)) f = raiseM e"
  by (rule ext) (simp add: bindM_def liftM_def raiseM_def)

lemma seqM_assoc: "seqM (seqM a b) k = seqM a (seqM b k)"
  by (rule ext) (auto simp: seqM_def bindM_def split: prod.splits sum.splits)

lemma catchM_Ok [prog_simps]: "m s = (Inr a, s') \<Longrightarrow> catchM m h s = (Inr a, s')"
  by (simp add: catchM_def)

lemma catchM_Err [prog_simps]: "m s = (Inl e, s') \<Longrightarrow> catchM m h s = h e s'"
  by (simp add: catchM_def)

lemmas prog_defs = returnM_def raiseM_def bindM_def seqM_def catchM_def liftM_def getM_def uuid4_def
  token_urlsafe_def select_def flush_def commit_def read_session_def

section \<open>Guarantees of programs\<close>

text \<open>
  \<open>guar R m\<close>: whatever \<open>m\<close> returns or raises, the state it leaves is related by \<open>R\<close> to the one it
  started in. The locale collects what a relation needs for guarantees to compose: a preorder that
  ignores the random supply and allows the session to fail. The guarantee of a handler is then
  that of its calls. It is interpreted below for the frame of a transaction and, for any property
  of the database, for its preservation by the open transaction.
\<close>

definition guar :: "(st \<Rightarrow> st \<Rightarrow> bool) \<Rightarrow> 'a prog \<Rightarrow> bool" where
  "guar R m = (\<forall>s. R s (snd (m s)))"

lemma guarD: "guar R m \<Longrightarrow> R s (snd (m s))"
  by (simp add: guar_def)

locale session_relation =
  fixes R :: "st \<Rightarrow> st \<Rightarrow> bool"
  assumes R_refl: "R s s"
    and R_trans: "R s t \<Longrightarrow> R t u \<Longrightarrow> R s u"
    and R_entropy: "R s (s\<lparr>entropy := Suc (entropy s)\<rparr>)"
    and R_fail: "R s (s\<lparr>failed := True\<rparr>)"
begin

lemma guar_prims:
  "guar R (returnM a)" "guar R (raiseM e)" "guar R (liftM r)" "guar R (getM g)" "guar R (uuid4 env)"
  "guar R (token_urlsafe env)" "guar R (select q)" "guar R (read_session q)"
  by (simp_all add: guar_def prog_defs R_refl R_entropy)

lemma guar_bindM:
  assumes "guar R m" and "\<And>a. guar R (f a)"
  shows "guar R (bindM m f)"
  unfolding guar_def
proof
  fix s
  obtain r t where m: "m s = (r, t)" by (cases "m s")
  with assms(1) have t: "R s t" by (metis guar_def snd_conv)
  show "R s (snd (bindM m f s))"
  proof (cases r)
    case (Inl e)
    with m t show ?thesis by (simp add: bindM_def)
  next
    case (Inr a)
    with m have "snd (bindM m f s) = snd (f a t)" by (simp add: bindM_def)
    with t assms(2) [of a] show ?thesis by (metis guar_def R_trans)
  qed
qed

lemma guar_seqM: "guar R m \<Longrightarrow> guar R k \<Longrightarrow> guar R (seqM m k)"
  by (simp add: seqM_def guar_bindM)

lemma guar_catchM:
  assumes "guar R m" and "\<And>e. guar R (h e)"
  shows "guar R (catchM m h)"
  unfolding guar_def
proof
  fix s
  obtain r t where m: "m s = (r, t)" by (cases "m s")
  with assms(1) have t: "R s t" by (metis guar_def snd_conv)
  show "R s (snd (catchM m h s))"
  proof (cases r)
    case (Inl e)
    with m have "snd (catchM m h s) = snd (h e t)" by (simp add: catchM_def)
    with t assms(2) [of e] show ?thesis by (metis guar_def R_trans)
  next
    case (Inr a)
    with m t show ?thesis by (simp add: catchM_def)
  qed
qed

text \<open>The guarantee from one state, where the continuation may rely on what the first part returned.\<close>

lemma bindM_at: "R s (snd (m s)) \<Longrightarrow> (\<And>x t. m s = (Inr x, t) \<Longrightarrow> R t (snd (f x t))) \<Longrightarrow> R s (snd (bindM m f s))"
  by (auto simp: bindM_def split: prod.split sum.split intro: R_trans)

lemma seqM_at: "R s (snd (m s)) \<Longrightarrow> (\<And>x t. m s = (Inr x, t) \<Longrightarrow> R t (snd (k t))) \<Longrightarrow> R s (snd (seqM m k s))"
  unfolding seqM_def by (rule bindM_at)

lemma bindM_select_at: "R s (snd (f (q (working s)) s)) \<Longrightarrow> R s (snd (bindM (select q) f s))"
  by (simp add: bindM_def select_def R_refl)

lemma bindM_lift_at: "(\<And>x. r = Inr x \<Longrightarrow> R s (snd (f x s))) \<Longrightarrow> R s (snd (bindM (liftM r) f s))"
  by (cases r) (simp_all add: raiseM_def R_refl)

lemma guar_forM: "(\<And>x. x \<in> set xs \<Longrightarrow> guar R (f x)) \<Longrightarrow> guar R (forM xs f)"
  by (induction xs) (simp_all add: guar_prims guar_seqM)

lemma guar_flush:
  assumes "\<And>s d. \<not> failed s \<Longrightarrow> f (working s) = Inr d \<Longrightarrow> R s (s\<lparr>working := d\<rparr>)"
  shows "guar R (flush f)"
  using assms by (auto simp: guar_def flush_def R_refl R_fail split: sum.splits)

lemmas guar_rules = guar_prims guar_bindM guar_seqM guar_catchM

end

text \<open>The frame of a transaction: nothing outside the open session changes.\<close>

definition same_outside :: "st \<Rightarrow> st \<Rightarrow> bool" where
  "same_outside s t = (committed t = committed s \<and> cache t = cache s \<and> cache_up t = cache_up s
     \<and> bus t = bus s \<and> clock t = clock s \<and> entropy s \<le> entropy t)"

interpretation frame: session_relation same_outside
  by unfold_locales (auto simp: same_outside_def)

abbreviation tx_only :: "'a prog \<Rightarrow> bool" where
  "tx_only \<equiv> guar same_outside"

lemma tx_only_flush: "tx_only (flush f)"
  by (rule frame.guar_flush) (simp add: same_outside_def)

lemmas tx_only_rules = frame.guar_rules tx_only_flush frame.guar_forM

lemma tx_onlyD: "tx_only m \<Longrightarrow> m s = (r, t) \<Longrightarrow> same_outside s t"
  by (metis guar_def snd_conv)

text \<open>
  A property of the database that holds at every commit: \<open>safe I\<close> relates states such that if \<open>I\<close>
  holds for the committed database and for the working copy (unless the session failed and the
  copy will be discarded), then it still does.
\<close>

definition good :: "(db \<Rightarrow> bool) \<Rightarrow> st \<Rightarrow> bool" where
  "good I s = (I (committed s) \<and> (failed s \<or> I (working s)))"

definition safe :: "(db \<Rightarrow> bool) \<Rightarrow> st \<Rightarrow> st \<Rightarrow> bool" where
  "safe I s t = (good I s \<longrightarrow> good I t)"

interpretation safe: session_relation "safe I" for I
  by unfold_locales (auto simp: safe_def good_def)

lemma safe_flush: "(\<And>d d'. I d \<Longrightarrow> f d = Inr d' \<Longrightarrow> I d') \<Longrightarrow> guar (safe I) (flush f)"
  by (rule safe.guar_flush) (auto simp: safe_def good_def)

lemma safe_commit: "guar (safe I) commit"
  by (auto simp: guar_def safe_def good_def commit_def)

lemma safe_conj: "guar (safe I) m \<Longrightarrow> guar (safe J) m \<Longrightarrow> guar (safe (\<lambda>d. I d \<and> J d)) m"
  by (auto simp: guar_def safe_def good_def)

lemma with_session_safe:
  assumes "guar (safe I) m" "I (committed s)"
  shows "I (committed (snd (with_session m s)))"
proof -
  let ?s0 = "s\<lparr>working := committed s, failed := False\<rparr>"
  obtain r t where m: "m ?s0 = (r, t)" by (cases "m ?s0")
  have "good I ?s0" using assms(2) by (simp add: good_def)
  with assms(1) m have "good I t" by (metis guar_def safe_def snd_conv)
  with m show ?thesis
    by (auto simp: with_session_def good_def split: sum.splits)
qed

lemma safe_with_session: "guar (safe I) m \<Longrightarrow> guar (safe I) (with_session m)"
proof -
  assume m: "guar (safe I) m"
  have "good I (snd (with_session m s))" if g: "good I s" for s
  proof -
    have c: "I (committed (snd (with_session m s)))"
      using with_session_safe [OF m] g by (simp add: good_def)
    have "working (snd (with_session m s)) = committed (snd (with_session m s))"
      by (cases "m (s\<lparr>working := committed s, failed := False\<rparr>)")
        (simp add: with_session_def split: sum.split)
    with c show ?thesis by (simp add: good_def)
  qed
  then show ?thesis by (simp add: guar_def safe_def)
qed

text \<open>
  Two-state properties: \<open>D\<close> says how a database may evolve (a log only grows, a state only moves
  along a machine). \<open>evolves D\<close> relates states such that each commit is a \<open>D\<close>-step.
\<close>

definition evolves :: "(db \<Rightarrow> db \<Rightarrow> bool) \<Rightarrow> st \<Rightarrow> st \<Rightarrow> bool" where
  "evolves D s t = (failed s \<or> D (committed s) (working s) \<longrightarrow>
     (failed t \<or> D (committed t) (working t)) \<and> D (committed s) (committed t))"

locale db_preorder =
  fixes D :: "db \<Rightarrow> db \<Rightarrow> bool"
  assumes D_refl: "D d d"
    and D_trans: "D d e \<Longrightarrow> D e f \<Longrightarrow> D d f"
begin

sublocale evolution: session_relation "evolves D"
  by unfold_locales (auto simp: evolves_def D_refl intro: D_trans)

lemma evolves_flush:
  assumes "\<And>d d'. f d = Inr d' \<Longrightarrow> D d d'"
  shows "guar (evolves D) (flush f)"
  by (rule evolution.guar_flush) (auto simp: evolves_def D_refl intro: D_trans assms)

lemma evolves_commit: "guar (evolves D) commit"
  by (auto simp: guar_def evolves_def commit_def D_refl)

lemma with_session_evolves:
  assumes "guar (evolves D) m"
  shows "D (committed s) (committed (snd (with_session m s)))"
proof -
  let ?s0 = "s\<lparr>working := committed s, failed := False\<rparr>"
  obtain r t where m: "m ?s0 = (r, t)" by (cases "m ?s0")
  have "evolves D ?s0 t" using assms m by (metis guar_def snd_conv)
  then have "failed t \<or> D (committed t) (working t)" "D (committed s) (committed t)"
    by (simp_all add: evolves_def D_refl)
  with m show ?thesis
    by (auto simp: with_session_def split: sum.split intro: D_trans)
qed

end

section \<open>The schema\<close>

text \<open>The trigger \<^verbatim>\<open>validate_command_state_transition\<close> of migration 007.\<close>

fun trigger_allows :: "command_state \<Rightarrow> command_state list" where
  "trigger_allows RECEIVED = [VALIDATED, AWAITING_APPROVAL, QUEUED, CANCELLED]"
| "trigger_allows VALIDATED = [AWAITING_APPROVAL, QUEUED, CANCELLED]"
| "trigger_allows AWAITING_APPROVAL = [APPROVED, REJECTED, EXPIRED, CANCELLED]"
| "trigger_allows APPROVED = [QUEUED, CANCELLED]"
| "trigger_allows REJECTED = [REJECTED]"
| "trigger_allows QUEUED = [DELIVERED, EXPIRED, CANCELLED, BLOCKED_BY_EMERGENCY_STOP]"
| "trigger_allows DELIVERED = [ACKNOWLEDGED, EXPIRED, CANCELLED]"
| "trigger_allows ACKNOWLEDGED = [RUNNING, EXPIRED, CANCELLED]"
| "trigger_allows RUNNING = [SUCCEEDED, FAILED, CANCELLED, TIMED_OUT]"
| "trigger_allows SUCCEEDED = [SUCCEEDED]"
| "trigger_allows FAILED = [FAILED]"
| "trigger_allows TIMED_OUT = [TIMED_OUT]"
| "trigger_allows CANCELLED = [CANCELLED]"
| "trigger_allows EXPIRED = [EXPIRED]"
| "trigger_allows BLOCKED_BY_EMERGENCY_STOP = [QUEUED, CANCELLED]"

definition validate_command_state_transition :: "command_state \<Rightarrow> command_state \<Rightarrow> bool" where
  "validate_command_state_transition old new = (old = new \<or> new \<in> set (trigger_allows old))"

text \<open>A value bound to \<^verbatim>\<open>String(n)\<close> (\<open>Some n\<close>) or \<^verbatim>\<open>Text\<close> (\<open>None\<close>): null or a text that fits.\<close>

definition fits_text :: "nat option \<Rightarrow> json \<Rightarrow> bool" where
  "fits_text n v =
     (case v of JNull \<Rightarrow> True
      | JStr x \<Rightarrow> (case n of None \<Rightarrow> True | Some k \<Rightarrow> length x \<le> k)
      | _ \<Rightarrow> False)"

text \<open>A nullable foreign key.\<close>

definition fk_ok :: "uuid option \<Rightarrow> uuid set \<Rightarrow> bool" where
  "fk_ok k ids = (case k of None \<Rightarrow> True | Some i \<Rightarrow> i \<in> ids)"

definition insert_user :: "user \<Rightarrow> db \<Rightarrow> db res" where
  "insert_user u d =
     (if u_id u \<in> u_id ` set (users d) then Err (IntegrityError ''users_pkey'')
      else if u_supabase_user_id u \<in> u_supabase_user_id ` set (users d)
        then Err (IntegrityError ''users_supabase_user_id'')
      else Ok (d\<lparr>users := users d @ [u]\<rparr>))"

definition device_types :: "string list" where
  "device_types = [''macbook'', ''iphone'', ''ipad'']"

definition insert_device :: "device \<Rightarrow> db \<Rightarrow> db res" where
  "insert_device r d =
     (if d_id r \<in> d_id ` set (devices d) then Err (IntegrityError ''devices_pkey'')
      else if d_owner_id r \<notin> u_id ` set (users d) then Err (IntegrityError ''devices_owner_id_fkey'')
      else if d_device_type r \<notin> set device_types
        then Err (IntegrityError ''chk_device_type'')
      else Ok (d\<lparr>devices := devices d @ [r]\<rparr>))"

definition insert_credential :: "device_credential \<Rightarrow> db \<Rightarrow> db res" where
  "insert_credential r d =
     (if dc_id r \<in> dc_id ` set (credentials d) then Err (IntegrityError ''device_credentials_pkey'')
      else if dc_device_id r \<notin> d_id ` set (devices d)
        then Err (IntegrityError ''device_credentials_device_id_fkey'')
      else Ok (d\<lparr>credentials := credentials d @ [r]\<rparr>))"

definition insert_pairing :: "pairing_request \<Rightarrow> db \<Rightarrow> db res" where
  "insert_pairing r d =
     (if p_id r \<in> p_id ` set (pairings d) then Err (IntegrityError ''pairing_requests_pkey'')
      else Ok (d\<lparr>pairings := pairings d @ [r]\<rparr>))"

definition insert_command :: "command \<Rightarrow> db \<Rightarrow> db res" where
  "insert_command r d =
     (if c_id r \<in> c_id ` set (commands d) then Err (IntegrityError ''commands_pkey'')
      else if c_device_id r \<notin> d_id ` set (devices d)
        then Err (IntegrityError ''commands_device_id_fkey'')
      else if \<exists>c \<in> set (commands d). c_device_id c = c_device_id r
                \<and> c_idempotency_key c = c_idempotency_key r
        then Err (IntegrityError ''uq_device_idempotency'')
      else Ok (d\<lparr>commands := commands d @ [r]\<rparr>))"

definition insert_task :: "task \<Rightarrow> db \<Rightarrow> db res" where
  "insert_task r d =
     (if t_id r \<in> t_id ` set (tasks d) then Err (IntegrityError ''tasks_pkey'')
      else if t_command_id r \<notin> c_id ` set (commands d) then Err (IntegrityError ''tasks_command_id_fkey'')
      else if t_command_id r \<in> t_command_id ` set (tasks d)
        then Err (IntegrityError ''tasks_command_id_key'')
      else Ok (d\<lparr>tasks := tasks d @ [r]\<rparr>))"

definition insert_event :: "command_state_event \<Rightarrow> db \<Rightarrow> db res" where
  "insert_event r d =
     (if e_id r \<in> e_id ` set (events d) then Err (IntegrityError ''command_state_events_pkey'')
      else if e_command_id r \<notin> c_id ` set (commands d)
        then Err (IntegrityError ''command_state_events_command_id_fkey'')
      else Ok (d\<lparr>events := events d @ [r]\<rparr>))"

definition insert_approval :: "approval \<Rightarrow> db \<Rightarrow> db res" where
  "insert_approval r d =
     (if a_id r \<in> a_id ` set (approvals d) then Err (IntegrityError ''approvals_pkey'')
      else if a_command_id r \<notin> c_id ` set (commands d)
        then Err (IntegrityError ''approvals_command_id_fkey'')
      else if a_command_id r \<in> a_command_id ` set (approvals d)
        then Err (IntegrityError ''approvals_command_id_key'')
      else if a_owner_id r \<notin> u_id ` set (users d) then Err (IntegrityError ''approvals_owner_id_fkey'')
      else Ok (d\<lparr>approvals := approvals d @ [r]\<rparr>))"

definition insert_estop :: "emergency_stop \<Rightarrow> db \<Rightarrow> db res" where
  "insert_estop r d =
     (if es_id r \<in> es_id ` set (estops d) then Err (IntegrityError ''emergency_stops_pkey'')
      else if es_owner_id r \<notin> u_id ` set (users d)
        then Err (IntegrityError ''emergency_stops_owner_id_fkey'')
      else if es_owner_id r \<in> es_owner_id ` set (estops d)
        then Err (IntegrityError ''emergency_stops_owner_id_key'')
      else if \<not> fk_ok (es_activated_by r) (u_id ` set (users d))
        then Err (IntegrityError ''emergency_stops_activated_by_fkey'')
      else if \<not> fk_ok (es_released_by r) (u_id ` set (users d))
        then Err (IntegrityError ''emergency_stops_released_by_fkey'')
      else Ok (d\<lparr>estops := estops d @ [r]\<rparr>))"

definition insert_outbox :: "outbox_event \<Rightarrow> db \<Rightarrow> db res" where
  "insert_outbox r d =
     (if o_id r \<in> o_id ` set (outbox d) then Err (IntegrityError ''outbox_events_pkey'')
      else Ok (d\<lparr>outbox := outbox d @ [r]\<rparr>))"

definition audit_results :: "string list" where
  "audit_results = [''success'', ''failure'', ''blocked'', ''error'']"

definition insert_audit :: "audit_log \<Rightarrow> db \<Rightarrow> db res" where
  "insert_audit r d =
     (if al_id r \<in> al_id ` set (audits d) then Err (IntegrityError ''audit_logs_pkey'')
      else if al_result r \<notin> set audit_results then Err (IntegrityError ''chk_audit_result'')
      else if \<not> fk_ok (al_user_id r) (u_id ` set (users d)) then Err (IntegrityError ''audit_logs_user_id_fkey'')
      else if \<not> fk_ok (al_device_id r) (d_id ` set (devices d))
        then Err (IntegrityError ''audit_logs_device_id_fkey'')
      else if \<not> fk_ok (al_command_id r) (c_id ` set (commands d))
        then Err (IntegrityError ''audit_logs_command_id_fkey'')
      else if \<not> fk_ok (al_approval_id r) (a_id ` set (approvals d))
        then Err (IntegrityError ''audit_logs_approval_id_fkey'')
      else Ok (d\<lparr>audits := audits d @ [r]\<rparr>))"

definition insert_notification :: "notification_record \<Rightarrow> db \<Rightarrow> db res" where
  "insert_notification r d =
     (if n_id r \<in> n_id ` set (notifications d) then Err (IntegrityError ''notification_records_pkey'')
      else if n_user_id r \<notin> u_id ` set (users d) then Err (IntegrityError ''notification_records_user_id_fkey'')
      else Ok (d\<lparr>notifications := notifications d @ [r]\<rparr>))"

text \<open>
  \<^verbatim>\<open>UPDATE commands SET ... WHERE id = ...\<close>: the trigger compares the old and the new state, the
  text columns take null or text, \<^verbatim>\<open>error_code\<close> at most 50 characters.
\<close>

definition update_command :: "uuid \<Rightarrow> (command \<Rightarrow> command) \<Rightarrow> db \<Rightarrow> db res" where
  "update_command cid f d =
     (case row_by c_id cid (commands d) of
        None \<Rightarrow> Ok d
      | Some c \<Rightarrow>
          (let c' = f c in
           if \<not> validate_command_state_transition (c_state c) (c_state c')
             then Err (TriggerError (c_state c) (c_state c'))
           else if \<not> (fits_text (Some 50) (c_error_code c') \<and> fits_text None (c_error_message c')
                     \<and> fits_text None (c_result_summary c')) then Err (DataError ''commands'')
           else Ok (d\<lparr>commands := update_by c_id cid f (commands d)\<rparr>)))"

definition update_task :: "uuid \<Rightarrow> (task \<Rightarrow> task) \<Rightarrow> db \<Rightarrow> db res" where
  "update_task tid f d =
     (case row_by t_id tid (tasks d) of
        None \<Rightarrow> Ok d
      | Some t \<Rightarrow>
          (let t' = f t in
           if \<not> (fits_text (Some 50) (t_error_code t') \<and> fits_text None (t_error_message t')
               \<and> fits_text None (t_result_summary t')) then Err (DataError ''tasks'')
           else Ok (d\<lparr>tasks := update_by t_id tid f (tasks d)\<rparr>)))"

text \<open>A foreign key is checked again only when its column changes.\<close>

definition update_estop :: "uuid \<Rightarrow> (emergency_stop \<Rightarrow> emergency_stop) \<Rightarrow> db \<Rightarrow> db res" where
  "update_estop owner f d =
     (case row_by es_owner_id owner (estops d) of
        None \<Rightarrow> Ok d
      | Some r \<Rightarrow>
          (if es_activated_by (f r) \<noteq> es_activated_by r \<and> \<not> fk_ok (es_activated_by (f r)) (u_id ` set (users d))
             then Err (IntegrityError ''emergency_stops_activated_by_fkey'')
           else if es_released_by (f r) \<noteq> es_released_by r \<and> \<not> fk_ok (es_released_by (f r)) (u_id ` set (users d))
             then Err (IntegrityError ''emergency_stops_released_by_fkey'')
           else Ok (d\<lparr>estops := update_by es_owner_id owner f (estops d)\<rparr>)))"

lemmas insert_defs = insert_user_def insert_device_def insert_credential_def insert_pairing_def
  insert_command_def insert_task_def insert_event_def insert_approval_def insert_estop_def
  insert_outbox_def insert_audit_def insert_notification_def

section \<open>Fresh identifiers\<close>

text \<open>
  \<open>fresh_ids env n s\<close>: the next \<open>n\<close> draws of the random supply are distinct and none is the key
  of a row of the open session. It is what the code relies on when it takes \<^verbatim>\<open>uuid4\<close> for unique.
\<close>

definition ids_of :: "db \<Rightarrow> uuid set" where
  "ids_of d = u_id ` set (users d) \<union> d_id ` set (devices d) \<union> dc_id ` set (credentials d)
     \<union> p_id ` set (pairings d) \<union> c_id ` set (commands d) \<union> t_id ` set (tasks d) \<union> e_id ` set (events d)
     \<union> a_id ` set (approvals d) \<union> es_id ` set (estops d) \<union> o_id ` set (outbox d) \<union> al_id ` set (audits d)
     \<union> n_id ` set (notifications d)"

definition fresh_ids :: "env \<Rightarrow> nat \<Rightarrow> st \<Rightarrow> bool" where
  "fresh_ids env n s =
     (inj_on (gen_uuid env) {entropy s..<entropy s + n}
      \<and> (\<forall>i<n. gen_uuid env (entropy s + i) \<notin> ids_of (working s)))"

lemma fresh_ids_now: "fresh_ids env (Suc n) s \<Longrightarrow> gen_uuid env (entropy s) \<notin> ids_of (working s)"
  by (auto simp: fresh_ids_def)

lemma fresh_ids_step:
  assumes "fresh_ids env (Suc n) s" "entropy s' = Suc (entropy s)"
    "ids_of (working s') \<subseteq> insert (gen_uuid env (entropy s)) (ids_of (working s))"
  shows "fresh_ids env n s'"
  unfolding fresh_ids_def
proof (intro conjI allI impI)
  have inj: "inj_on (gen_uuid env) {entropy s..<entropy s + Suc n}" using assms(1) by (simp add: fresh_ids_def)
  then show "inj_on (gen_uuid env) {entropy s'..<entropy s' + n}"
    by (rule inj_on_subset) (auto simp: assms(2))
  fix i assume i: "i < n"
  have "gen_uuid env (entropy s + Suc i) \<notin> ids_of (working s)"
    using assms(1) i unfolding fresh_ids_def by (meson Suc_less_eq)
  moreover have "gen_uuid env (entropy s + Suc i) \<noteq> gen_uuid env (entropy s)"
    using inj i by (auto dest!: inj_onD [where x = "entropy s + Suc i" and y = "entropy s"])
  ultimately show "gen_uuid env (entropy s' + i) \<notin> ids_of (working s')"
    using assms(2,3) by auto
qed

lemma fresh_ids_steps:
  assumes "fresh_ids env (k + n) s" "entropy s' = entropy s + k"
    "ids_of (working s') \<subseteq> gen_uuid env ` {entropy s..<entropy s + k} \<union> ids_of (working s)"
  shows "fresh_ids env n s'"
  unfolding fresh_ids_def
proof (intro conjI allI impI)
  have inj: "inj_on (gen_uuid env) {entropy s..<entropy s + (k + n)}" using assms(1) by (simp add: fresh_ids_def)
  then show "inj_on (gen_uuid env) {entropy s'..<entropy s' + n}"
    by (rule inj_on_subset) (auto simp: assms(2))
  fix i assume i: "i < n"
  have "gen_uuid env (entropy s + k + i) \<notin> ids_of (working s)"
    using assms(1) i unfolding fresh_ids_def by (metis add.assoc add_less_cancel_left)
  moreover have "gen_uuid env (entropy s + k + i) \<notin> gen_uuid env ` {entropy s..<entropy s + k}"
    using inj i by (auto dest!: inj_onD)
  ultimately show "gen_uuid env (entropy s' + i) \<notin> ids_of (working s')"
    using assms(2,3) by auto
qed

lemma fresh_ids_mono: "fresh_ids env n s \<Longrightarrow> m \<le> n \<Longrightarrow> fresh_ids env m s"
  by (auto simp: fresh_ids_def intro: inj_on_subset)

lemma fresh_ids_same:
  "fresh_ids env n s \<Longrightarrow> entropy s' = entropy s \<Longrightarrow> ids_of (working s') \<subseteq> ids_of (working s) \<Longrightarrow>
     fresh_ids env n s'"
  by (auto simp: fresh_ids_def)

end
