(* ===== verification/Cache.thy ===== *)
theory Cache
  imports Database
begin

text \<open>
  \<^verbatim>\<open>app/cache/__init__.py\<close>: the Valkey client. A key holds a value until its expiry instant; every
  operation of the client is a program. When the client is not connected (\<open>cache_up\<close> is false) each
  operation returns the neutral value the code gives. A document is stored as JSON text and read
  back with \<^verbatim>\<open>json.loads\<close>, so \<open>get\<close> returns what \<open>set\<close> was given.

  The pure store operations \<open>kv_get\<close>, \<open>kv_set\<close>, \<open>kv_del\<close> satisfy the laws of the locale
  \<open>ttl_store\<close>; what the clients rely on (a value is seen until it expires and no longer, a key
  that was taken is gone) is proved there once.
\<close>

section \<open>The store\<close>

definition kv_get :: "datetime \<Rightarrow> string \<Rightarrow> valkey \<Rightarrow> vval option" where
  "kv_get now k c = (case c k of None \<Rightarrow> None | Some (v, expiry) \<Rightarrow> if now < expiry then Some v else None)"

definition kv_set :: "datetime \<Rightarrow> string \<Rightarrow> vval \<Rightarrow> int \<Rightarrow> valkey \<Rightarrow> valkey" where
  "kv_set now k v ttl c = c(k \<mapsto> (v, now + timedelta_seconds ttl))"

definition kv_del :: "string \<Rightarrow> valkey \<Rightarrow> valkey" where
  "kv_del k c = c(k := None)"

locale ttl_store =
  fixes get :: "datetime \<Rightarrow> 'k \<Rightarrow> 'c \<Rightarrow> 'v option"
    and put :: "datetime \<Rightarrow> 'k \<Rightarrow> 'v \<Rightarrow> int \<Rightarrow> 'c \<Rightarrow> 'c"
    and del :: "'k \<Rightarrow> 'c \<Rightarrow> 'c"
  assumes get_put: "get now' k' (put now k v ttl c) =
      (if k' = k then if now' < now + timedelta_seconds ttl then Some v else None else get now' k' c)"
    and get_del: "get now k' (del k c) = (if k' = k then None else get now k' c)"
    and get_expires: "now \<le> now' \<Longrightarrow> get now k c = None \<Longrightarrow> get now' k c = None"
begin

lemma get_put_fresh: "0 < ttl \<Longrightarrow> get now k (put now k v ttl c) = Some v"
  by (simp add: get_put timedelta_seconds_def)

lemma put_dead: "ttl \<le> 0 \<Longrightarrow> now \<le> now' \<Longrightarrow> get now' k (put now k v ttl c) = None"
  by (simp add: get_put timedelta_seconds_def)

lemma taken_once: "now \<le> now' \<Longrightarrow> get now' k (del k c) = None"
  by (simp add: get_del)

text \<open>A key that was deleted stays absent whatever is done to other keys.\<close>

lemma taken_stays: "k' \<noteq> k \<Longrightarrow> get now' k (put now k' v ttl (del k c)) = None"
  by (simp add: get_put get_del)

end

interpretation kv: ttl_store kv_get kv_set kv_del
  by unfold_locales (auto simp: kv_get_def kv_set_def kv_del_def split: option.splits if_splits)

section \<open>The client\<close>

definition prefix_key :: "env \<Rightarrow> string \<Rightarrow> string" where
  "prefix_key env key = VALKEY_KEY_PREFIX (settings env) @ key"

definition ttl_or_default :: "env \<Rightarrow> int option \<Rightarrow> int" where
  "ttl_or_default env ttl = (case ttl of None \<Rightarrow> VALKEY_DEFAULT_TTL (settings env) | Some t \<Rightarrow> t)"

definition valkey_get :: "env \<Rightarrow> string \<Rightarrow> json option prog" where
  "valkey_get env key s =
     (if \<not> cache_up s then (Ok None, s)
      else (case kv_get (clock s) (prefix_key env key) (cache s) of
              None \<Rightarrow> (Ok None, s)
            | Some (VJson v) \<Rightarrow> (Ok (Some v), s)
            | Some (VCount n) \<Rightarrow> (Ok (Some (JInt n)), s)
            | Some (VHash h) \<Rightarrow> (Err (RuntimeError ''WRONGTYPE''), s)))"

definition valkey_set :: "env \<Rightarrow> string \<Rightarrow> json \<Rightarrow> int option \<Rightarrow> bool prog" where
  "valkey_set env key v ttl s =
     (if \<not> cache_up s then (Ok False, s)
      else (Ok True, s\<lparr>cache := kv_set (clock s) (prefix_key env key) (VJson v) (ttl_or_default env ttl) (cache s)\<rparr>))"

definition valkey_delete :: "env \<Rightarrow> string \<Rightarrow> bool prog" where
  "valkey_delete env key s =
     (if \<not> cache_up s then (Ok False, s)
      else (Ok (kv_get (clock s) (prefix_key env key) (cache s) \<noteq> None),
            s\<lparr>cache := kv_del (prefix_key env key) (cache s)\<rparr>))"

definition valkey_exists :: "env \<Rightarrow> string \<Rightarrow> bool prog" where
  "valkey_exists env key s =
     (if \<not> cache_up s then (Ok False, s)
      else (Ok (kv_get (clock s) (prefix_key env key) (cache s) \<noteq> None), s))"

text \<open>\<^verbatim>\<open>getdel\<close>: one atomic command of the server.\<close>

definition valkey_getdel :: "env \<Rightarrow> string \<Rightarrow> json option prog" where
  "valkey_getdel env key s =
     (if \<not> cache_up s then (Ok None, s)
      else (case kv_get (clock s) (prefix_key env key) (cache s) of
              None \<Rightarrow> (Ok None, s)
            | Some (VJson v) \<Rightarrow> (Ok (Some v), s\<lparr>cache := kv_del (prefix_key env key) (cache s)\<rparr>)
            | Some (VCount n) \<Rightarrow> (Ok (Some (JInt n)), s\<lparr>cache := kv_del (prefix_key env key) (cache s)\<rparr>)
            | Some (VHash h) \<Rightarrow> (Err (RuntimeError ''WRONGTYPE''), s)))"

text \<open>\<^verbatim>\<open>INCR\<close> on a missing key starts at 0; the pipeline then sets the expiry anew.\<close>

definition kv_count :: "datetime \<Rightarrow> string \<Rightarrow> valkey \<Rightarrow> int res" where
  "kv_count now k c =
     (case kv_get now k c of
        None \<Rightarrow> Ok 0
      | Some (VCount n) \<Rightarrow> Ok n
      | Some (VJson (JInt n)) \<Rightarrow> Ok n
      | Some _ \<Rightarrow> Err (RuntimeError ''value is not an integer''))"

definition valkey_increment :: "env \<Rightarrow> string \<Rightarrow> int option \<Rightarrow> int prog" where
  "valkey_increment env key ttl s =
     (if \<not> cache_up s then (Ok 0, s)
      else (case kv_count (clock s) (prefix_key env key) (cache s) of
              Inl e \<Rightarrow> (Err e, s)
            | Inr n \<Rightarrow> (Ok (n + 1), s\<lparr>cache := kv_set (clock s) (prefix_key env key) (VCount (n + 1))
                                  (ttl_or_default env ttl) (cache s)\<rparr>)))"

text \<open>\<^verbatim>\<open>HSET\<close> merges the fields into the hash; \<^verbatim>\<open>HGETALL\<close> of a missing key is the empty dict.\<close>

definition hash_merge :: "(string \<times> string) list \<Rightarrow> (string \<times> string) list \<Rightarrow> (string \<times> string) list" where
  "hash_merge new old = new @ filter (\<lambda>(k, _). k \<notin> fst ` set new) old"

definition valkey_set_hash :: "env \<Rightarrow> string \<Rightarrow> (string \<times> string) list \<Rightarrow> int option \<Rightarrow> bool prog" where
  "valkey_set_hash env key mapping ttl s =
     (if \<not> cache_up s then (Ok False, s)
      else (case kv_get (clock s) (prefix_key env key) (cache s) of
              None \<Rightarrow> (Ok True, s\<lparr>cache := kv_set (clock s) (prefix_key env key) (VHash mapping)
                          (ttl_or_default env ttl) (cache s)\<rparr>)
            | Some (VHash h) \<Rightarrow> (Ok True, s\<lparr>cache := kv_set (clock s) (prefix_key env key)
                          (VHash (hash_merge mapping h)) (ttl_or_default env ttl) (cache s)\<rparr>)
            | Some _ \<Rightarrow> (Err (RuntimeError ''WRONGTYPE''), s)))"

definition valkey_get_hash :: "env \<Rightarrow> string \<Rightarrow> (string \<times> string) list option prog" where
  "valkey_get_hash env key s =
     (if \<not> cache_up s then (Ok None, s)
      else (case kv_get (clock s) (prefix_key env key) (cache s) of
              None \<Rightarrow> (Ok (Some []), s)
            | Some (VHash h) \<Rightarrow> (Ok (Some h), s)
            | Some _ \<Rightarrow> (Err (RuntimeError ''WRONGTYPE''), s)))"

definition valkey_delete_hash :: "env \<Rightarrow> string \<Rightarrow> bool prog" where
  "valkey_delete_hash env key = valkey_delete env key"

definition rate_limit_check :: "env \<Rightarrow> string \<Rightarrow> int \<Rightarrow> int \<Rightarrow> (bool \<times> int \<times> int) prog" where
  "rate_limit_check env key limit window s =
     (if \<not> cache_up s then (Ok (True, 0, limit), s)
      else (let full_key = ''ratelimit:'' @ prefix_key env key in
            case kv_count (clock s) full_key (cache s) of
              Inl e \<Rightarrow> (Err e, s)
            | Inr n \<Rightarrow> (Ok (n + 1 \<le> limit, n + 1, max 0 (limit - (n + 1))),
                        s\<lparr>cache := kv_set (clock s) full_key (VCount (n + 1)) window (cache s)\<rparr>)))"

section \<open>Cache operations leave the database alone\<close>

lemma prefix_key_inject [simp]: "prefix_key env k = prefix_key env k' \<longleftrightarrow> k = k'"
  by (simp add: prefix_key_def)

lemma safe_cache:
  "guar (safe I) (valkey_get env k)" "guar (safe I) (valkey_set env k v t)"
  "guar (safe I) (valkey_delete env k)" "guar (safe I) (valkey_getdel env k)"
  "guar (safe I) (valkey_set_hash env k h t)" "guar (safe I) (valkey_get_hash env k)"
  by (auto simp: guar_def safe_def good_def valkey_get_def valkey_set_def valkey_delete_def
      valkey_getdel_def valkey_set_hash_def valkey_get_hash_def split: option.splits vval.splits)

lemma valkey_get_state: "snd (valkey_get env k s) = s"
  by (auto simp: valkey_get_def split: option.splits vval.splits)

end
