(* ===== verification/Scenario.thy ===== *)
theory Scenario
  imports Database
begin

text \<open>
  A concrete environment and database on which the general statements of the development are
  exercised: one user, one trusted device, and a supply of identifiers counting from 1000.
\<close>

definition demo_env :: env where
  "demo_env = \<lparr>settings = default_settings, gen_uuid = (\<lambda>n. of_nat (1000 + n)), gen_token = (\<lambda>n. ''token''),
     sha256 = (\<lambda>x. ''#'' @ x), orm_enum = True, log_level = 40, nats_ack = (\<lambda>_. True),
     pyd_bool = (\<lambda>v. case v of JBool b \<Rightarrow> Some b | _ \<Rightarrow> None),
     pyd_int = (\<lambda>v. case v of JInt n \<Rightarrow> Some n | _ \<Rightarrow> None),
     pyd_uuid = (\<lambda>v. case v of JStr x \<Rightarrow> uuid_parse x | _ \<Rightarrow> None),
     pyd_datetime = (\<lambda>v. case v of JInt n \<Rightarrow> Some n | _ \<Rightarrow> None), exn_str = (\<lambda>_. ''error''),
     gen_nonce = (\<lambda>n. replicate n CHR ''n''), ed25519_verify = (\<lambda>key msg sig. sig = key @ msg),
     ws_ok = (\<lambda>_. True), pyd_dump_datetime = isoformat, py_repr = (\<lambda>_. ''...'')\<rparr>"

definition demo_user :: user where
  "demo_user = \<lparr>u_id = 1, u_supabase_user_id = ''sub'', u_display_name = ''Owner'', u_email = ''o@x'',
     u_status = USER_ACTIVE\<rparr>"

definition demo_device :: device where
  "demo_device = \<lparr>d_id = 2, d_owner_id = 1, d_display_name = ''Mac'', d_device_type = ''macbook'',
     d_operating_system = ''macos'', d_app_version = ''1'', d_protocol_version = ''v1'',
     d_public_identity = ''pk'', d_trust_status = DEV_TRUSTED, d_last_seen_at = None, d_revoked_at = None,
     d_created_at = 0\<rparr>"

definition demo_command :: "uuid \<Rightarrow> command_state \<Rightarrow> command" where
  "demo_command i state = \<lparr>c_id = i, c_device_id = 2, c_command_type = ''system.ping'', c_parameters = [],
     c_risk_level = RISK_LOW, c_idempotency_key = uuid_str i, c_state = state, c_requires_approval = False,
     c_delayed_execution_allowed = True, c_expires_at = Some 5000000, c_delivered_at = None,
     c_acknowledged_at = None, c_started_at = None, c_finished_at = None, c_result_data = JNull,
     c_result_summary = JNull, c_error_code = JNull, c_error_message = JNull, c_created_at = 0,
     c_updated_at = 0\<rparr>"

definition demo_db :: "command list \<Rightarrow> db" where
  "demo_db cmds = empty_db\<lparr>users := [demo_user], devices := [demo_device], commands := cmds\<rparr>"

definition demo_st :: "db \<Rightarrow> st" where
  "demo_st d = \<lparr>committed = d, working = d, failed = False, cache = (\<lambda>_. None), cache_up = True, bus = [],
     clock = 1000000, entropy = 0, active_connections = (\<lambda>_. None), sent = [], closed = []\<rparr>"

lemmas demo_defs = demo_env_def demo_user_def demo_device_def demo_command_def demo_db_def demo_st_def
  empty_db_def

lemma demo_fields [simp]:
  "committed (demo_st d) = d" "working (demo_st d) = d" "failed (demo_st d) = False" "entropy (demo_st d) = 0"
  "cache (demo_st d) = (\<lambda>_. None)" "cache_up (demo_st d)" "clock (demo_st d) = 1000000" "bus (demo_st d) = []"
  "gen_uuid demo_env n = of_nat (1000 + n)" "orm_enum demo_env" "users (demo_db cs) = [demo_user]"
  "devices (demo_db cs) = [demo_device]" "commands (demo_db cs) = cs" "events (demo_db cs) = []"
  "tasks (demo_db cs) = []" "approvals (demo_db cs) = []" "outbox (demo_db cs) = []" "audits (demo_db cs) = []"
  "estops (demo_db cs) = []" "pairings (demo_db cs) = []" "credentials (demo_db cs) = []" "notifications (demo_db cs) = []"
  "u_id demo_user = 1" "d_id demo_device = 2" "d_owner_id demo_device = 1" "d_trust_status demo_device = DEV_TRUSTED"
  "c_id (demo_command i x) = i" "c_state (demo_command i x) = x" "c_device_id (demo_command i x) = 2"
  "c_error_code (demo_command i x) = JNull" "c_error_message (demo_command i x) = JNull"
  "c_result_summary (demo_command i x) = JNull" "c_expires_at (demo_command i x) = Some 5000000"
  by (simp_all add: demo_defs)

text \<open>The supply counts: it is fresh for every database whose identifiers are below 1000.\<close>

lemma demo_fresh:
  assumes "\<forall>i \<in> ids_of (working s). unat i < 1000" "entropy s + n \<le> 1000"
  shows "fresh_ids demo_env n s"
  unfolding fresh_ids_def
proof (intro conjI allI impI)
  have u: "unat (gen_uuid demo_env k) = 1000 + k" if "k < 1000" for k
  proof -
    have "(1000 + k) mod 2 ^ 128 = 1000 + k" using that by (intro mod_less) simp
    then show ?thesis by (simp only: demo_fields unat_of_nat) simp
  qed
  show "inj_on (gen_uuid demo_env) {entropy s..<entropy s + n}"
  proof (rule inj_onI)
    fix x y
    assume xy: "x \<in> {entropy s..<entropy s + n}" "y \<in> {entropy s..<entropy s + n}"
      "gen_uuid demo_env x = gen_uuid demo_env y"
    then have "x < 1000" "y < 1000" using assms(2) by auto
    with xy(3) u show "x = y" by (metis add_left_cancel)
  qed
  fix i assume "i < n"
  then have "unat (gen_uuid demo_env (entropy s + i)) = 1000 + (entropy s + i)"
    using assms(2) by (intro u) simp
  then show "gen_uuid demo_env (entropy s + i) \<notin> ids_of (working s)" using assms(1) by fastforce
qed

end
