(* ===== verification/StateMachine.thy ===== *)
theory StateMachine
  imports Scenario
begin

text \<open>
  \<^verbatim>\<open>app/commands/state_machine.py\<close>: the table of allowed transitions, the terminal states and
  \<open>transition_command\<close>, the one function every handler changes a command's state with.

  The lemmas give the exact outcome of a call on every branch (unknown command, refused
  transition, refused by the database trigger, success), the frame of a call, and the consequences
  for sequences of calls: terminal states are never left, the machine has no cycle, and the state
  events of a command are a path of the machine that ends in the command's state.
\<close>

section \<open>The machine\<close>

fun ALLOWED_TRANSITIONS :: "command_state \<Rightarrow> command_state list" where
  "ALLOWED_TRANSITIONS RECEIVED = [VALIDATED]"
| "ALLOWED_TRANSITIONS VALIDATED = [AWAITING_APPROVAL, QUEUED, REJECTED, BLOCKED_BY_EMERGENCY_STOP]"
| "ALLOWED_TRANSITIONS AWAITING_APPROVAL = [APPROVED, REJECTED, EXPIRED, CANCELLED]"
| "ALLOWED_TRANSITIONS APPROVED = [QUEUED, BLOCKED_BY_EMERGENCY_STOP, EXPIRED, CANCELLED]"
| "ALLOWED_TRANSITIONS QUEUED = [DELIVERED, BLOCKED_BY_EMERGENCY_STOP, EXPIRED, CANCELLED, FAILED]"
| "ALLOWED_TRANSITIONS DELIVERED = [ACKNOWLEDGED, TIMED_OUT, CANCELLED, FAILED]"
| "ALLOWED_TRANSITIONS ACKNOWLEDGED = [RUNNING, FAILED, CANCELLED]"
| "ALLOWED_TRANSITIONS RUNNING = [SUCCEEDED, FAILED, TIMED_OUT, CANCELLED]"
| "ALLOWED_TRANSITIONS _ = []"

definition TERMINAL_STATES :: "command_state list" where
  "TERMINAL_STATES = [SUCCEEDED, FAILED, TIMED_OUT, CANCELLED, EXPIRED, REJECTED, BLOCKED_BY_EMERGENCY_STOP]"

definition has_key :: "dict \<Rightarrow> string \<Rightarrow> bool" where
  "has_key d k = (map_of d k \<noteq> None)"

text \<open>What the assignments between the checks and the flush do to the row.\<close>

definition stamp :: "datetime \<Rightarrow> command_state \<Rightarrow> dict option \<Rightarrow> command \<Rightarrow> command" where
  "stamp now new_state metadata command =
     (let c = command\<lparr>c_state := new_state, c_updated_at := now\<rparr> in
      if new_state = DELIVERED then c\<lparr>c_delivered_at := Some now\<rparr>
      else if new_state = ACKNOWLEDGED then c\<lparr>c_acknowledged_at := Some now\<rparr>
      else if new_state = RUNNING then c\<lparr>c_started_at := Some now\<rparr>
      else if new_state = SUCCEEDED then
        (let c1 = c\<lparr>c_finished_at := Some now\<rparr>;
             c2 = (case metadata of
                     Some m \<Rightarrow> if m \<noteq> [] \<and> has_key m ''result_data''
                               then c1\<lparr>c_result_data := dict_get m ''result_data'' JNull\<rparr> else c1
                   | None \<Rightarrow> c1)
         in (case metadata of
               Some m \<Rightarrow> if m \<noteq> [] \<and> has_key m ''result_summary''
                         then c2\<lparr>c_result_summary := dict_get m ''result_summary'' JNull\<rparr> else c2
             | None \<Rightarrow> c2))
      else if new_state = FAILED then
        (let c1 = c\<lparr>c_finished_at := Some now\<rparr>
         in (case metadata of
               Some m \<Rightarrow> if m \<noteq> []
                         then c1\<lparr>c_error_code := dict_get m ''error_code'' JNull,
                                 c_error_message := dict_get m ''error_message'' JNull\<rparr> else c1
             | None \<Rightarrow> c1))
      else if new_state \<in> {TIMED_OUT, CANCELLED, EXPIRED} then c\<lparr>c_finished_at := Some now\<rparr>
      else c)"

definition transition_command ::
  "env \<Rightarrow> uuid \<Rightarrow> command_state \<Rightarrow> string \<Rightarrow> dict option \<Rightarrow> command option prog" where
  "transition_command env command_id new_state event_source metadata =
     bindM (select (\<lambda>d. row_by c_id command_id (commands d))) (\<lambda>result.
       case result of
         None \<Rightarrow> returnM None
       | Some command \<Rightarrow>
           (let current_state = c_state command in
            if current_state \<in> set TERMINAL_STATES \<and> current_state \<noteq> new_state
              then raiseM (StateTransitionError command_id current_state new_state)
            else if new_state \<notin> set (ALLOWED_TRANSITIONS current_state) \<and> current_state \<noteq> new_state
              then raiseM (StateTransitionError command_id current_state new_state)
            else
              bindM (getM clock) (\<lambda>now.
              seqM (flush (update_command command_id (stamp now new_state metadata)))
              (bindM (uuid4 env) (\<lambda>event_id.
              seqM (flush (insert_event
                     \<lparr>e_id = event_id, e_command_id = command_id, e_previous_state = Some current_state,
                      e_new_state = new_state, e_event_source = event_source,
                      e_event_metadata = json_opt JObj metadata, e_created_at = now\<rparr>))
              (returnM (Some (stamp now new_state metadata command))))))))"

section \<open>Facts about the table\<close>

lemma ALLOWED_TERMINAL: "ALLOWED_TRANSITIONS x = [] \<longleftrightarrow> x \<in> set TERMINAL_STATES"
  by (cases x) (auto simp: TERMINAL_STATES_def)

definition permitted :: "command_state \<Rightarrow> command_state \<Rightarrow> bool" where
  "permitted old new = (old = new \<or> new \<in> set (ALLOWED_TRANSITIONS old))"

text \<open>The transitions that the application and the database trigger both let through.\<close>

definition effective :: "command_state \<Rightarrow> command_state \<Rightarrow> bool" where
  "effective old new = (permitted old new \<and> validate_command_state_transition old new)"

lemma permitted_refl [simp]: "permitted x x"
  by (simp add: permitted_def)

lemma effective_refl [simp]: "effective x x"
  by (simp add: effective_def validate_command_state_transition_def)

lemma permitted_terminal: "x \<in> set TERMINAL_STATES \<Longrightarrow> permitted x y \<longleftrightarrow> x = y"
  using ALLOWED_TERMINAL [of x] by (auto simp: permitted_def)

lemma effective_terminal: "x \<in> set TERMINAL_STATES \<Longrightarrow> effective x y \<longleftrightarrow> x = y"
  by (auto simp: effective_def permitted_terminal validate_command_state_transition_def)

text \<open>Distance to the end of the longest run.\<close>

fun rank :: "command_state \<Rightarrow> nat" where
  "rank RECEIVED = 8"
| "rank VALIDATED = 7"
| "rank AWAITING_APPROVAL = 6"
| "rank APPROVED = 5"
| "rank QUEUED = 4"
| "rank DELIVERED = 3"
| "rank ACKNOWLEDGED = 2"
| "rank RUNNING = 1"
| "rank _ = 0"

lemma rank_decreases: "y \<in> set (ALLOWED_TRANSITIONS x) \<Longrightarrow> rank y < rank x"
  by (cases x) auto

section \<open>Outcome of a call\<close>

lemma stamp_fields [simp]:
  "c_id (stamp now new md c) = c_id c"
  "c_state (stamp now new md c) = new"
  "c_device_id (stamp now new md c) = c_device_id c"
  "c_idempotency_key (stamp now new md c) = c_idempotency_key c"
  "c_requires_approval (stamp now new md c) = c_requires_approval c"
  "c_expires_at (stamp now new md c) = c_expires_at c"
  "c_command_type (stamp now new md c) = c_command_type c"
  "c_parameters (stamp now new md c) = c_parameters c"
  "c_risk_level (stamp now new md c) = c_risk_level c"
  by (auto simp: stamp_def Let_def split: option.splits)

text \<open>The new values of the text columns fit (the only data error a call can meet).\<close>

definition stamp_fits :: "datetime \<Rightarrow> command_state \<Rightarrow> dict option \<Rightarrow> command \<Rightarrow> bool" where
  "stamp_fits now new md c =
     (let c' = stamp now new md c in
      fits_text (Some 50) (c_error_code c') \<and> fits_text None (c_error_message c')
      \<and> fits_text None (c_result_summary c'))"

definition transition_event ::
  "uuid \<Rightarrow> datetime \<Rightarrow> uuid \<Rightarrow> command_state \<Rightarrow> command_state \<Rightarrow> string \<Rightarrow> dict option \<Rightarrow> command_state_event" where
  "transition_event eid now cid old new src md =
     \<lparr>e_id = eid, e_command_id = cid, e_previous_state = Some old, e_new_state = new,
      e_event_source = src, e_event_metadata = json_opt JObj md, e_created_at = now\<rparr>"

definition after_transition ::
  "uuid \<Rightarrow> datetime \<Rightarrow> uuid \<Rightarrow> command_state \<Rightarrow> command_state \<Rightarrow> string \<Rightarrow> dict option \<Rightarrow> db \<Rightarrow> db" where
  "after_transition eid now cid old new src md d =
     d\<lparr>commands := update_by c_id cid (stamp now new md) (commands d),
       events := events d @ [transition_event eid now cid old new src md]\<rparr>"

interpretation stamped: keyed_update c_id "\<lambda>(now, new, md). stamp now new md"
  by unfold_locales (simp split: prod.splits)

lemma row_by_stamp [table_simps]:
  "row_by c_id k (update_by c_id k' (stamp now new md) rows) =
     (if k = k' then map_option (stamp now new md) (row_by c_id k rows) else row_by c_id k rows)"
  using stamped.row_by_update [of k k' "(now, new, md)"] by simp

lemma c_ids_stamp [table_simps]:
  "map c_id (update_by c_id k (stamp now new md) rows) = map c_id rows"
  using stamped.keys_update [of k "(now, new, md)"] by simp

lemma c_id_set_stamp [table_simps]:
  "c_id ` set (update_by c_id k (stamp now new md) rows) = c_id ` set rows"
  using c_ids_stamp [of k now new md rows] by (metis list.set_map)

lemma transition_unknown:
  "\<not> failed s \<Longrightarrow> cid \<notin> c_id ` set (commands (working s)) \<Longrightarrow>
     transition_command env cid new src md s = (Ok None, s)"
  by (simp add: transition_command_def prog_simps flip: row_by_None)

lemma transition_failed_session:
  "failed s \<Longrightarrow> transition_command env cid new src md s = (Err PendingRollbackError, s)"
  by (simp add: transition_command_def prog_simps)

lemma transition_refused:
  assumes "\<not> failed s" "row_by c_id cid (commands (working s)) = Some c" "\<not> permitted (c_state c) new"
  shows "transition_command env cid new src md s = (Err (StateTransitionError cid (c_state c) new), s)"
  using assms by (auto simp: transition_command_def prog_simps permitted_def Let_def)

lemma transition_permitted:
  assumes "\<not> failed s" "row_by c_id cid (commands (working s)) = Some c" "permitted (c_state c) new"
  shows "transition_command env cid new src md s =
    (if \<not> validate_command_state_transition (c_state c) new
       then (Err (TriggerError (c_state c) new), s\<lparr>failed := True\<rparr>)
     else if \<not> stamp_fits (clock s) new md c then (Err (DataError ''commands''), s\<lparr>failed := True\<rparr>)
     else if gen_uuid env (entropy s) \<in> e_id ` set (events (working s))
       then (Err (IntegrityError ''command_state_events_pkey''),
             s\<lparr>working := (working s)\<lparr>commands := update_by c_id cid (stamp (clock s) new md)
                 (commands (working s))\<rparr>, failed := True, entropy := Suc (entropy s)\<rparr>)
     else (Ok (Some (stamp (clock s) new md c)),
           s\<lparr>working := after_transition (gen_uuid env (entropy s)) (clock s) cid (c_state c) new src md
                (working s), entropy := Suc (entropy s)\<rparr>))"
proof -
  have tm: "\<not> (c_state c \<in> set TERMINAL_STATES \<and> c_state c \<noteq> new)"
    using assms(3) permitted_terminal by blast
  have allow: "\<not> (new \<notin> set (ALLOWED_TRANSITIONS (c_state c)) \<and> c_state c \<noteq> new)"
    using assms(3) by (auto simp: permitted_def)
  have mem: "cid \<in> c_id ` set (commands (working s))"
    using row_by_SomeD [OF assms(2)] by auto
  show ?thesis
    using assms(1,2) tm allow mem
    by (auto simp: transition_command_def prog_defs Let_def update_command_def stamp_fits_def
        insert_event_def after_transition_def transition_event_def table_simps)
qed

lemma transition_run:
  assumes "\<not> failed s" "row_by c_id cid (commands (working s)) = Some c" "effective (c_state c) new"
    "stamp_fits (clock s) new md c" "gen_uuid env (entropy s) \<notin> e_id ` set (events (working s))"
  shows "transition_command env cid new src md s =
    (Ok (Some (stamp (clock s) new md c)),
     s\<lparr>working := after_transition (gen_uuid env (entropy s)) (clock s) cid (c_state c) new src md
          (working s), entropy := Suc (entropy s)\<rparr>)"
  using assms transition_permitted [OF assms(1,2), of new env src md] by (simp add: effective_def)

lemmas transition_outcomes = transition_unknown transition_failed_session transition_refused
  transition_permitted

lemma transition_ok:
  assumes "transition_command env cid new src md s = (Ok r, t)" "cid \<in> c_id ` set (commands (working s))"
  obtains c where "row_by c_id cid (commands (working s)) = Some c" "\<not> failed s" "effective (c_state c) new"
    "gen_uuid env (entropy s) \<notin> e_id ` set (events (working s))" "r = Some (stamp (clock s) new md c)"
    "t = s\<lparr>working := after_transition (gen_uuid env (entropy s)) (clock s) cid (c_state c) new src md
          (working s), entropy := Suc (entropy s)\<rparr>"
proof -
  have f: "\<not> failed s" using assms(1) by (auto simp: transition_failed_session)
  from assms(2) obtain c where c: "row_by c_id cid (commands (working s)) = Some c"
    by (metis not_Some_eq row_by_None)
  have p: "permitted (c_state c) new"
    using assms(1) transition_refused [OF f c, of new env src md] by (metis Inl_Inr_False prod.inject)
  from assms(1) f c p that show thesis
    by (simp add: transition_permitted [OF f c p] effective_def split: if_splits)
qed

lemma transition_arrives:
  assumes "transition_command env cid new src md s = (Ok r, t)" "row_by c_id cid (commands (working t)) = Some c"
  shows "c_state c = new \<and> (\<exists>c0. row_by c_id cid (commands (working s)) = Some c0 \<and> c_requires_approval c = c_requires_approval c0)"
proof (cases "cid \<in> c_id ` set (commands (working s))")
  case True
  then obtain c0 where c0: "row_by c_id cid (commands (working s)) = Some c0"
    and t: "t = s\<lparr>working := after_transition (gen_uuid env (entropy s)) (clock s) cid (c_state c0) new src md
        (working s), entropy := Suc (entropy s)\<rparr>"
    by (rule transition_ok [OF assms(1)])
  show ?thesis using assms(2) c0 unfolding t by (auto simp: after_transition_def table_simps)
next
  case False
  then have "t = s" using assms(1) by (cases "failed s") (simp_all add: transition_unknown transition_failed_session)
  with False assms(2) show ?thesis by (auto dest: row_by_SomeK)
qed

text \<open>The three kinds of states a call can leave.\<close>

lemma transition_final_state:
  obtains (same) "snd (transition_command env cid new src md s) = s"
  | (discarded) "failed (snd (transition_command env cid new src md s))"
      "committed (snd (transition_command env cid new src md s)) = committed s"
  | (moved) c where "\<not> failed s" "row_by c_id cid (commands (working s)) = Some c"
      "effective (c_state c) new" "gen_uuid env (entropy s) \<notin> e_id ` set (events (working s))" "stamp_fits (clock s) new md c"
      "snd (transition_command env cid new src md s) =
         s\<lparr>working := after_transition (gen_uuid env (entropy s)) (clock s) cid (c_state c) new src md
             (working s), entropy := Suc (entropy s)\<rparr>"
proof (cases "failed s \<or> cid \<notin> c_id ` set (commands (working s))")
  case True
  then show ?thesis
    using same by (cases "failed s") (simp_all add: transition_unknown transition_failed_session)
next
  case False
  then obtain c where c: "row_by c_id cid (commands (working s)) = Some c" and f: "\<not> failed s"
    by (metis not_Some_eq row_by_None)
  show ?thesis
  proof (cases "permitted (c_state c) new")
    case True
    note run = transition_permitted [OF f c True, of env src md]
    show ?thesis
    proof (cases "validate_command_state_transition (c_state c) new \<and> stamp_fits (clock s) new md c
        \<and> gen_uuid env (entropy s) \<notin> e_id ` set (events (working s))")
      case ok: True
      with True have "effective (c_state c) new" by (simp add: effective_def)
      with ok f c run show ?thesis by (intro moved) simp_all
    next
      case False
      with run show ?thesis by (intro discarded) auto
    qed
  next
    case False
    with f c show ?thesis by (intro same) (simp add: transition_refused)
  qed
qed

text \<open>The text columns of a row hold what the schema allows; a plain transition keeps that.\<close>

definition texts_fit :: "command \<Rightarrow> bool" where
  "texts_fit c = (fits_text (Some 50) (c_error_code c) \<and> fits_text None (c_error_message c)
     \<and> fits_text None (c_result_summary c))"

definition task_fits :: "task \<Rightarrow> bool" where
  "task_fits t = (fits_text (Some 50) (t_error_code t) \<and> fits_text None (t_error_message t)
     \<and> fits_text None (t_result_summary t))"

lemma stamp_fits_None [simp]: "stamp_fits now new None c = texts_fit c"
  by (simp add: stamp_fits_def texts_fit_def stamp_def Let_def)

lemma texts_fit_stamp [simp]: "texts_fit (stamp now new None c) = texts_fit c"
  by (simp add: texts_fit_def stamp_def Let_def)

lemma ids_of_after:
  "ids_of (after_transition eid now cid old new src md d) = insert eid (ids_of d)"
  unfolding ids_of_def after_transition_def by (auto simp: table_simps transition_event_def)

lemma fresh_ids_after:
  assumes "fresh_ids env (Suc n) s"
  shows "fresh_ids env n (s\<lparr>working := after_transition (gen_uuid env (entropy s)) now cid old new src md
           (working s), entropy := Suc (entropy s)\<rparr>)"
  by (rule fresh_ids_step [OF assms]) (simp_all add: ids_of_after)

text \<open>Without metadata and with fresh identifiers a transition the machine allows succeeds.\<close>

lemma transition_plain:
  fixes src :: string
  assumes "\<not> failed s" "row_by c_id cid (commands (working s)) = Some c" "effective (c_state c) new"
    "texts_fit c" "fresh_ids env (Suc n) s"
  defines "t \<equiv> s\<lparr>working := after_transition (gen_uuid env (entropy s)) (clock s) cid (c_state c) new src None
          (working s), entropy := Suc (entropy s)\<rparr>"
  shows "transition_command env cid new src None s = (Ok (Some (stamp (clock s) new None c)), t)"
    and "fresh_ids env n t" and "\<not> failed t"
    and "row_by c_id cid (commands (working t)) = Some (stamp (clock s) new None c)"
proof -
  have "gen_uuid env (entropy s) \<notin> e_id ` set (events (working s))"
    using fresh_ids_now [OF assms(5)] by (auto simp: ids_of_def)
  then show "transition_command env cid new src None s = (Ok (Some (stamp (clock s) new None c)), t)"
    unfolding t_def using assms(1-4) by (intro transition_run) simp_all
  show "fresh_ids env n t" unfolding t_def by (rule fresh_ids_after [OF assms(5)])
  show "\<not> failed t" using assms(1) by (simp add: t_def)
  show "row_by c_id cid (commands (working t)) = Some (stamp (clock s) new None c)"
    using assms(2) by (simp add: t_def after_transition_def table_simps)
qed

text \<open>Two such transitions in a row.\<close>

definition after_two ::
  "uuid \<Rightarrow> uuid \<Rightarrow> datetime \<Rightarrow> uuid \<Rightarrow> command_state \<Rightarrow> command_state \<Rightarrow> command_state \<Rightarrow> string \<Rightarrow> db \<Rightarrow> db" where
  "after_two i j now cid x y z src d =
     d\<lparr>commands := update_by c_id cid (\<lambda>c. stamp now z None (stamp now y None c)) (commands d),
       events := events d @ [transition_event i now cid x y src None, transition_event j now cid y z src None]\<rparr>"

lemma two_transitions:
  assumes "\<not> failed s" "row_by c_id cid (commands (working s)) = Some c" "effective (c_state c) y" "effective y z"
    "texts_fit c" "fresh_ids env (2 + n) s"
  obtains i j t where
    "seqM (transition_command env cid y src None) (transition_command env cid z src None) s =
       (Ok (Some (stamp (clock s) z None (stamp (clock s) y None c))), t)"
    "t = s\<lparr>working := after_two i j (clock s) cid (c_state c) y z src (working s), entropy := entropy s + 2\<rparr>"
    "fresh_ids env n t" "row_by c_id cid (commands (working t)) = Some (stamp (clock s) z None (stamp (clock s) y None c))"
proof -
  let ?i = "gen_uuid env (entropy s)" and ?now = "clock s" and ?c1 = "stamp (clock s) y None c"
  define s1 where "s1 = s\<lparr>working := after_transition ?i ?now cid (c_state c) y src None (working s),
      entropy := Suc (entropy s)\<rparr>"
  have f: "fresh_ids env (Suc (Suc n)) s" using assms(6) by simp
  note t1 = transition_plain [OF assms(1,2,3,5) f, where src = src, folded s1_def]
  let ?j = "gen_uuid env (entropy s1)"
  define s2 where "s2 = s1\<lparr>working := after_transition ?j (clock s1) cid (c_state ?c1) z src None (working s1),
      entropy := Suc (entropy s1)\<rparr>"
  have e2: "effective (c_state ?c1) z" "texts_fit ?c1" using assms(4,5) by simp_all
  note t2 = transition_plain [OF t1(3,4) e2 t1(2), where src = src, folded s2_def]
  have clk: "clock s1 = clock s" by (simp add: s1_def)
  show thesis
  proof
    show "seqM (transition_command env cid y src None) (transition_command env cid z src None) s =
        (Ok (Some (stamp ?now z None ?c1)), s2)"
      using t1(1) t2(1) by (simp add: seqM_def bindM_def clk)
    show "s2 = s\<lparr>working := after_two ?i ?j ?now cid (c_state c) y z src (working s), entropy := entropy s + 2\<rparr>"
      by (simp add: s2_def s1_def after_two_def after_transition_def update_by_twice)
    show "fresh_ids env n s2" by (rule t2(2))
    show "row_by c_id cid (commands (working s2)) = Some (stamp ?now z None ?c1)" using t2(4) by (simp add: clk)
  qed
qed

section \<open>Frame of a call\<close>

lemma tx_only_transition: "tx_only (transition_command env cid new src md)"
  unfolding transition_command_def Let_def
  by (intro tx_only_rules) (auto split: option.splits intro!: tx_only_rules)

section \<open>The event log\<close>

text \<open>
  The state events of a command, in insertion order, form a path of the machine: the first one
  enters \<open>RECEIVED\<close> from nothing, each next one starts where the previous one ended and is a
  transition that the code and the trigger permit, and the last one ends in the command's state.
\<close>

definition events_of :: "uuid \<Rightarrow> db \<Rightarrow> command_state_event list" where
  "events_of cid d = filter (\<lambda>e. e_command_id e = cid) (events d)"

definition step_ok :: "command_state option \<Rightarrow> command_state \<Rightarrow> bool" where
  "step_ok prev new = (case prev of None \<Rightarrow> new = RECEIVED | Some old \<Rightarrow> effective old new)"

fun event_path :: "command_state option \<Rightarrow> command_state_event list \<Rightarrow> bool" where
  "event_path prev [] = True"
| "event_path prev (e # es) =
     (e_previous_state e = prev \<and> step_ok prev (e_new_state e) \<and> event_path (Some (e_new_state e)) es)"

definition end_state :: "command_state option \<Rightarrow> command_state_event list \<Rightarrow> command_state option" where
  "end_state prev es = (if es = [] then prev else Some (e_new_state (last es)))"

definition log_ok :: "db \<Rightarrow> bool" where
  "log_ok d = (\<forall>c \<in> set (commands d).
     event_path None (events_of (c_id c) d) \<and> end_state None (events_of (c_id c) d) = Some (c_state c))"

lemma event_path_snoc:
  "event_path prev (es @ [e]) \<longleftrightarrow>
     event_path prev es \<and> e_previous_state e = end_state prev es
     \<and> step_ok (end_state prev es) (e_new_state e)"
  by (induction es arbitrary: prev) (auto simp: end_state_def)

lemma end_state_snoc [simp]: "end_state prev (es @ [e]) = Some (e_new_state e)"
  by (simp add: end_state_def)

lemma events_of_after:
  "events_of k (after_transition eid now cid old new src md d) =
     (if k = cid then events_of k d @ [transition_event eid now cid old new src md] else events_of k d)"
  by (simp add: events_of_def after_transition_def transition_event_def)

lemma log_ok_after:
  assumes "log_ok d" "row_by c_id cid (commands d) = Some c" "effective (c_state c) new"
  shows "log_ok (after_transition eid now cid (c_state c) new src md d)"
proof -
  let ?d' = "after_transition eid now cid (c_state c) new src md d"
  have c: "c \<in> set (commands d)" "c_id c = cid" using row_by_SomeD [OF assms(2)] by auto
  have cid: "event_path None (events_of cid d)" "end_state None (events_of cid d) = Some (c_state c)"
    using assms(1) c by (auto simp: log_ok_def)
  have ev: "e_previous_state (transition_event eid now cid (c_state c) new src md) = Some (c_state c)"
    "e_new_state (transition_event eid now cid (c_state c) new src md) = new"
    by (simp_all add: transition_event_def)
  have new: "event_path None (events_of cid ?d')" "end_state None (events_of cid ?d') = Some new"
    using cid assms(3) ev by (simp_all add: events_of_after event_path_snoc step_ok_def)
  show ?thesis
    unfolding log_ok_def
  proof
    fix x assume "x \<in> set (commands ?d')"
    then obtain y where y: "y \<in> set (commands d)" "x = (if c_id y = cid then stamp now new md y else y)"
      by (auto simp: after_transition_def update_by_def)
    show "event_path None (events_of (c_id x) ?d') \<and> end_state None (events_of (c_id x) ?d') = Some (c_state x)"
      using y new assms(1) by (auto simp: log_ok_def events_of_after)
  qed
qed

text \<open>Any property of the database that successful transitions keep is kept by every call.\<close>

lemma safe_transition:
  assumes "\<And>d eid now cid c new src md. I d \<Longrightarrow> row_by c_id cid (commands d) = Some c \<Longrightarrow>
      effective (c_state c) new \<Longrightarrow> eid \<notin> e_id ` set (events d) \<Longrightarrow>
      I (after_transition eid now cid (c_state c) new src md d)"
  shows "guar (safe I) (transition_command env cid new src md)"
  unfolding guar_def
proof
  fix s
  show "safe I s (snd (transition_command env cid new src md s))"
    by (rule transition_final_state [of env cid new src md s])
      (auto simp: safe_def good_def intro: assms)
qed

lemma safe_log_transition: "guar (safe log_ok) (transition_command env cid new src md)"
  by (rule safe_transition) (rule log_ok_after)

section \<open>How commands evolve\<close>

text \<open>
  \<open>commands_evolve\<close>: no command disappears and each one moves along effective transitions only;
  \<open>log_grows\<close>: state events are only appended. Both are preorders, so every handler built from
  \<open>transition_command\<close> and inserts inherits them.
\<close>

definition commands_evolve :: "db \<Rightarrow> db \<Rightarrow> bool" where
  "commands_evolve d d' = (\<forall>cid c. row_by c_id cid (commands d) = Some c \<longrightarrow>
     (\<exists>c'. row_by c_id cid (commands d') = Some c' \<and> effective\<^sup>*\<^sup>* (c_state c) (c_state c')
        \<and> c_device_id c' = c_device_id c \<and> c_requires_approval c' = c_requires_approval c))"

definition log_grows :: "db \<Rightarrow> db \<Rightarrow> bool" where
  "log_grows d d' = prefix (events d) (events d')"

interpretation cmd_evo: db_preorder commands_evolve
proof
  show "commands_evolve d d" for d by (auto simp: commands_evolve_def)
  show "commands_evolve d f" if de: "commands_evolve d e" and ef: "commands_evolve e f" for d e f
    unfolding commands_evolve_def
  proof (intro allI impI)
    fix cid c assume c: "row_by c_id cid (commands d) = Some c"
    obtain c1 where c1: "row_by c_id cid (commands e) = Some c1" "effective\<^sup>*\<^sup>* (c_state c) (c_state c1)"
      "c_device_id c1 = c_device_id c" "c_requires_approval c1 = c_requires_approval c"
      using de c unfolding commands_evolve_def by blast
    obtain c2 where c2: "row_by c_id cid (commands f) = Some c2" "effective\<^sup>*\<^sup>* (c_state c1) (c_state c2)"
      "c_device_id c2 = c_device_id c1" "c_requires_approval c2 = c_requires_approval c1"
      using ef c1(1) unfolding commands_evolve_def by blast
    show "\<exists>c'. row_by c_id cid (commands f) = Some c' \<and> effective\<^sup>*\<^sup>* (c_state c) (c_state c')
        \<and> c_device_id c' = c_device_id c \<and> c_requires_approval c' = c_requires_approval c"
      using c1 c2 rtranclp_trans [OF c1(2) c2(2)] by simp
  qed
qed

interpretation log_evo: db_preorder log_grows
  by unfold_locales (auto simp: log_grows_def)

lemma commands_evolve_same: "commands d' = commands d \<Longrightarrow> commands_evolve d d'"
  by (auto simp: commands_evolve_def)

lemma commands_evolve_after:
  assumes "row_by c_id cid (commands d) = Some c" "effective (c_state c) new"
  shows "commands_evolve d (after_transition eid now cid (c_state c) new src md d)"
  using assms by (auto simp: commands_evolve_def after_transition_def table_simps)

lemma evolves_transition_at:
  assumes "db_preorder D"
    and "\<And>c eid. row_by c_id cid (commands (working s)) = Some c \<Longrightarrow> effective (c_state c) new \<Longrightarrow>
      eid \<notin> e_id ` set (events (working s)) \<Longrightarrow> stamp_fits (clock s) new md c \<Longrightarrow>
      D (working s) (after_transition eid (clock s) cid (c_state c) new src md (working s))"
  shows "evolves D s (snd (transition_command env cid new src md s))"
proof (rule transition_final_state [of env cid new src md s])
  fix c assume "row_by c_id cid (commands (working s)) = Some c" "effective (c_state c) new" "\<not> failed s"
    "gen_uuid env (entropy s) \<notin> e_id ` set (events (working s))" "stamp_fits (clock s) new md c"
    and eq: "snd (transition_command env cid new src md s) =
       s\<lparr>working := after_transition (gen_uuid env (entropy s)) (clock s) cid (c_state c) new src md
           (working s), entropy := Suc (entropy s)\<rparr>"
  then show ?thesis
    unfolding eq evolves_def
    by (simp add: db_preorder.D_refl [OF assms(1)])
      (blast intro: db_preorder.D_trans [OF assms(1)] assms(2))
qed (simp_all add: evolves_def db_preorder.D_refl [OF assms(1)])

lemma evolves_transition:
  assumes "db_preorder D"
    and "\<And>d eid now c. row_by c_id cid (commands d) = Some c \<Longrightarrow> effective (c_state c) new \<Longrightarrow>
      eid \<notin> e_id ` set (events d) \<Longrightarrow> stamp_fits now new md c \<Longrightarrow> D d (after_transition eid now cid (c_state c) new src md d)"
  shows "guar (evolves D) (transition_command env cid new src md)"
  unfolding guar_def by (intro allI evolves_transition_at [OF assms(1)] assms(2))

lemma cmd_evo_transition: "guar (evolves commands_evolve) (transition_command env cid new src md)"
  by (rule evolves_transition [OF cmd_evo.db_preorder_axioms]) (rule commands_evolve_after)

lemma log_evo_transition: "guar (evolves log_grows) (transition_command env cid new src md)"
  by (rule evolves_transition [OF log_evo.db_preorder_axioms]) (simp add: log_grows_def after_transition_def)

lemma effective_star_terminal:
  "effective\<^sup>*\<^sup>* x y \<Longrightarrow> x \<in> set TERMINAL_STATES \<Longrightarrow> y = x"
  by (induction rule: rtranclp_induct) (auto simp: effective_terminal)

lemma effective_star_rank: "effective\<^sup>*\<^sup>* x y \<Longrightarrow> y = x \<or> rank y < rank x"
proof (induction rule: rtranclp_induct)
  case base
  then show ?case by simp
next
  case (step y z)
  then have "z = y \<or> rank z < rank y"
    by (auto simp: effective_def permitted_def dest: rank_decreases)
  with step.IH show ?case by auto
qed

section \<open>Bounded runs\<close>

definition moves :: "command_state_event list \<Rightarrow> nat" where
  "moves es = length (filter (\<lambda>e. e_previous_state e \<noteq> Some (e_new_state e)) es)"

lemma effective_rank: "effective x y \<Longrightarrow> x \<noteq> y \<Longrightarrow> rank y < rank x"
  by (auto simp: effective_def permitted_def dest: rank_decreases)

lemma event_path_moves: "event_path (Some x) es \<Longrightarrow> moves es + rank (the (end_state (Some x) es)) \<le> rank x"
proof (induction es arbitrary: x)
  case Nil
  then show ?case by (simp add: moves_def end_state_def)
next
  case (Cons e es)
  then have e: "e_previous_state e = Some x" "effective x (e_new_state e)" "event_path (Some (e_new_state e)) es"
    by (auto simp: step_ok_def)
  have "end_state (Some x) (e # es) = end_state (Some (e_new_state e)) es" by (simp add: end_state_def)
  with Cons.IH [OF e(3)] e(1,2) effective_rank [OF e(2)] show ?case by (auto simp: moves_def)
qed

lemma event_path_total: "event_path None es \<Longrightarrow> moves es \<le> 9"
proof (cases es)
  case (Cons e es')
  assume p: "event_path None es"
  with Cons have "e_new_state e = RECEIVED" "event_path (Some RECEIVED) es'" by (auto simp: step_ok_def)
  with event_path_moves [of RECEIVED es'] have "moves es' \<le> 8" by simp
  with Cons show ?thesis by (simp add: moves_def)
qed (simp add: moves_def)

lemma event_path_terminal:
  "event_path prev es \<Longrightarrow> x \<in> set TERMINAL_STATES \<Longrightarrow> prev = Some x \<or> (\<exists>e \<in> set es. e_new_state e = x) \<Longrightarrow>
     end_state prev es = Some x"
proof (induction es arbitrary: prev)
  case Nil
  then show ?case by (simp add: end_state_def)
next
  case (Cons e es)
  have eq: "end_state prev (e # es) = end_state (Some (e_new_state e)) es" by (simp add: end_state_def)
  have "prev = Some x \<Longrightarrow> e_new_state e = x"
    using Cons.prems(1,2) by (auto simp: step_ok_def effective_terminal)
  with Cons.prems(3) have "Some (e_new_state e) = Some x \<or> (\<exists>e \<in> set es. e_new_state e = x)" by auto
  with Cons.IH [of "Some (e_new_state e)"] Cons.prems(1,2) show ?case unfolding eq by simp
qed

section \<open>Properties\<close>

text \<open>
  C14. The outcome of \<open>transition_command\<close> on an existing command, with a fresh event identifier: if
  the table and the trigger both allow the move and the metadata fits the columns, the call returns
  the stamped row, updates it, touches no other row and appends one event naming the old and the new
  state. If the table refuses, \<open>StateTransitionError\<close> is raised and nothing changes; if only the
  trigger refuses, the flush fails and the session can no longer be used.
\<close>

theorem transition_command_outcome:
  assumes "\<not> failed s" "row_by c_id cid (commands (working s)) = Some c"
    "gen_uuid env (entropy s) \<notin> e_id ` set (events (working s))"
  shows "transition_command env cid new src md s =
    (if new \<notin> set (ALLOWED_TRANSITIONS (c_state c)) \<and> new \<noteq> c_state c
       then (Err (StateTransitionError cid (c_state c) new), s)
     else if \<not> validate_command_state_transition (c_state c) new
       then (Err (TriggerError (c_state c) new), s\<lparr>failed := True\<rparr>)
     else if \<not> stamp_fits (clock s) new md c then (Err (DataError ''commands''), s\<lparr>failed := True\<rparr>)
     else (Ok (Some (stamp (clock s) new md c)),
           s\<lparr>working := (working s)
              \<lparr>commands := update_by c_id cid (stamp (clock s) new md) (commands (working s)),
               events := events (working s) @ [\<lparr>e_id = gen_uuid env (entropy s), e_command_id = cid,
                 e_previous_state = Some (c_state c), e_new_state = new, e_event_source = src,
                 e_event_metadata = json_opt JObj md, e_created_at = clock s\<rparr>]\<rparr>,
             entropy := Suc (entropy s)\<rparr>))"
  using transition_refused [OF assms(1,2)] transition_permitted [OF assms(1,2)] assms(3)
  by (auto simp: permitted_def after_transition_def transition_event_def)

theorem transition_command_outcome_witness:
  "transition_command demo_env 5 DELIVERED ''gw'' None (demo_st (demo_db [demo_command 5 RECEIVED])) =
     (Err (StateTransitionError 5 RECEIVED DELIVERED), demo_st (demo_db [demo_command 5 RECEIVED]))"
  using transition_command_outcome [of "demo_st (demo_db [demo_command 5 RECEIVED])" 5 "demo_command 5 RECEIVED"
      demo_env DELIVERED "''gw''" None]
  by simp

text \<open>
  C22. The two copies of the machine disagree. The moves that the application's table allows and the
  database trigger refuses are exactly the eight listed first; the moves (between different states)
  that the trigger allows and the table refuses are exactly the ones listed second.
\<close>

theorem transition_tables_divergence:
  "(y \<in> set (ALLOWED_TRANSITIONS x) \<and> \<not> validate_command_state_transition x y) =
     ((x, y) \<in> {(VALIDATED, REJECTED), (VALIDATED, BLOCKED_BY_EMERGENCY_STOP),
        (APPROVED, BLOCKED_BY_EMERGENCY_STOP), (APPROVED, EXPIRED), (QUEUED, FAILED), (DELIVERED, TIMED_OUT),
        (DELIVERED, FAILED), (ACKNOWLEDGED, FAILED)})
   \<and> (validate_command_state_transition x y \<and> x \<noteq> y \<and> y \<notin> set (ALLOWED_TRANSITIONS x)) =
     ((x, y) \<in> {(RECEIVED, AWAITING_APPROVAL), (RECEIVED, QUEUED), (RECEIVED, CANCELLED), (VALIDATED, CANCELLED),
        (DELIVERED, EXPIRED), (ACKNOWLEDGED, EXPIRED), (BLOCKED_BY_EMERGENCY_STOP, QUEUED),
        (BLOCKED_BY_EMERGENCY_STOP, CANCELLED)})"
  by (cases x; cases y; simp add: validate_command_state_transition_def)

end
