(* ===== verification/AuditLog.thy ===== *)
theory AuditLog
  imports StateMachine
begin

text \<open>
  \<^verbatim>\<open>app/audit\<close>: the repository and the session-aware service. The service never commits; an audit row
  is part of the caller's transaction. \<open>paginate\<close> is the \<^verbatim>\<open>OFFSET\<close>/\<^verbatim>\<open>LIMIT\<close> of every list
  query of the API.
\<close>

section \<open>Pagination\<close>

definition paginate :: "nat \<Rightarrow> nat \<Rightarrow> 'a list \<Rightarrow> 'a list" where
  "paginate page page_size xs = take page_size (drop ((page - 1) * page_size) xs)"

definition has_next :: "nat \<Rightarrow> nat \<Rightarrow> nat \<Rightarrow> bool" where
  "has_next page page_size n_total = (page * page_size < n_total)"

definition has_prev :: "nat \<Rightarrow> bool" where
  "has_prev page = (page > 1)"

lemma concat_pages:
  "concat (map (\<lambda>p. paginate p n xs) [1..<Suc k]) = take (k * n) xs"
proof (induction k)
  case 0
  then show ?case by simp
next
  case (Suc k)
  have "take (Suc k * n) xs = take (k * n) xs @ take n (drop (k * n) xs)"
    by (metis add.commute mult_Suc take_add)
  with Suc show ?case by (simp add: paginate_def)
qed

lemma has_next_iff:
  assumes "1 \<le> page" "0 < n"
  shows "has_next page n (length xs) \<longleftrightarrow> paginate (Suc page) n xs \<noteq> []"
  using assms by (auto simp: has_next_def paginate_def)

section \<open>Repository and service\<close>

definition repo_create_audit_log ::
  "env \<Rightarrow> audit_category \<Rightarrow> audit_action \<Rightarrow> string \<Rightarrow> uuid option \<Rightarrow> uuid option \<Rightarrow> uuid option \<Rightarrow> uuid option \<Rightarrow> json
     \<Rightarrow> string option \<Rightarrow> string option \<Rightarrow> string option \<Rightarrow> string option \<Rightarrow> unit prog" where
  "repo_create_audit_log env category action result user_id device_id command_id approval_id metadata
       request_id trace_id ip_address user_agent =
     bindM (uuid4 env) (\<lambda>i.
     bindM (getM clock) (\<lambda>now.
       flush (insert_audit
         \<lparr>al_id = i, al_user_id = user_id, al_device_id = device_id, al_command_id = command_id,
          al_approval_id = approval_id, al_category = category, al_action = action, al_result = result,
          al_event_metadata = metadata, al_request_id = request_id, al_trace_id = trace_id, al_ip_address = ip_address,
          al_user_agent = user_agent, al_created_at = now\<rparr>)))"

text \<open>The service's call, as all its callers make it: inside their session, without the fields of the HTTP request.\<close>

definition create_audit_log ::
  "env \<Rightarrow> audit_category \<Rightarrow> audit_action \<Rightarrow> string \<Rightarrow> uuid option \<Rightarrow> uuid option \<Rightarrow> uuid option
     \<Rightarrow> uuid option \<Rightarrow> json \<Rightarrow> unit prog" where
  "create_audit_log env category action result user_id device_id command_id approval_id metadata =
     repo_create_audit_log env category action result user_id device_id command_id approval_id metadata None None None None"

record audit_filter =
  f_user_id :: "uuid option"
  f_category :: "audit_category option"
  f_action :: "audit_action option"
  f_result :: "string option"
  f_device_id :: "uuid option"
  f_command_id :: "uuid option"
  f_start_date :: "datetime option"
  f_end_date :: "datetime option"

definition opt_eq :: "'a option \<Rightarrow> 'a \<Rightarrow> bool" where
  "opt_eq f x = (case f of None \<Rightarrow> True | Some y \<Rightarrow> x = y)"

definition audit_matches :: "audit_filter \<Rightarrow> audit_log \<Rightarrow> bool" where
  "audit_matches f l =
     ((case f_user_id f of None \<Rightarrow> True | Some u \<Rightarrow> al_user_id l = Some u)
      \<and> opt_eq (f_category f) (al_category l)
      \<and> opt_eq (f_action f) (al_action l)
      \<and> (case f_result f of None \<Rightarrow> True | Some r \<Rightarrow> r = [] \<or> al_result l = r)
      \<and> (case f_device_id f of None \<Rightarrow> True | Some u \<Rightarrow> al_device_id l = Some u)
      \<and> (case f_command_id f of None \<Rightarrow> True | Some u \<Rightarrow> al_command_id l = Some u)
      \<and> (case f_start_date f of None \<Rightarrow> True | Some t \<Rightarrow> t \<le> al_created_at l)
      \<and> (case f_end_date f of None \<Rightarrow> True | Some t \<Rightarrow> al_created_at l \<le> t))"

definition newest_first :: "('a \<Rightarrow> datetime) \<Rightarrow> 'a list \<Rightarrow> 'a list" where
  "newest_first key xs = sort_key (\<lambda>x. - key x) xs"

definition query_audit_logs ::
  "audit_filter \<Rightarrow> nat \<Rightarrow> nat \<Rightarrow> (audit_log list \<times> nat \<times> bool \<times> bool) prog" where
  "query_audit_logs f page page_size =
     select (\<lambda>d.
       let rows = filter (audit_matches f) (audits d);
           n_total = length rows
       in (paginate page page_size (newest_first al_created_at rows), n_total,
           has_next page page_size n_total, has_prev page))"

text \<open>
  The route: every row of the page is converted by \<^verbatim>\<open>AuditLogResponse.model_validate\<close>, which reads the attribute
  \<^verbatim>\<open>metadata\<close> of the row and requires a string. On a mapped class that attribute is SQLAlchemy's table registry (the column is
  \<^verbatim>\<open>event_metadata\<close>), so the conversion of any row fails.
\<close>

definition audit_log_response :: "audit_log \<Rightarrow> audit_log res" where
  "audit_log_response item = Err PydanticValidationError"

fun audit_log_responses :: "audit_log list \<Rightarrow> audit_log list res" where
  "audit_log_responses [] = Ok []"
| "audit_log_responses (item # items) =
     (case audit_log_response item of
        Inl e \<Rightarrow> Err e
      | Inr r \<Rightarrow> (case audit_log_responses items of Inl e \<Rightarrow> Err e | Inr rs \<Rightarrow> Ok (r # rs)))"

definition route_list_audit_logs ::
  "audit_filter \<Rightarrow> nat \<Rightarrow> nat \<Rightarrow> uuid \<Rightarrow> (audit_log list \<times> nat \<times> bool \<times> bool) prog" where
  "route_list_audit_logs f page page_size current_user =
     (if page < 1 \<or> page_size < 1 \<or> 100 < page_size then raiseM PydanticValidationError
      else
        bindM (with_session (query_audit_logs (f\<lparr>f_user_id := Some current_user\<rparr>) page page_size))
          (\<lambda>(items, n_total, nxt, prv).
             bindM (liftM (audit_log_responses items)) (\<lambda>rows. returnM (rows, n_total, nxt, prv))))"

section \<open>Facts\<close>

definition audit_row ::
  "uuid \<Rightarrow> datetime \<Rightarrow> audit_category \<Rightarrow> audit_action \<Rightarrow> string \<Rightarrow> uuid option \<Rightarrow> uuid option
     \<Rightarrow> uuid option \<Rightarrow> uuid option \<Rightarrow> json \<Rightarrow> audit_log" where
  "audit_row i now category action result user_id device_id command_id approval_id metadata =
     \<lparr>al_id = i, al_user_id = user_id, al_device_id = device_id, al_command_id = command_id,
      al_approval_id = approval_id, al_category = category, al_action = action, al_result = result,
      al_event_metadata = metadata, al_request_id = None, al_trace_id = None, al_ip_address = None,
      al_user_agent = None, al_created_at = now\<rparr>"

lemma tx_only_audit: "tx_only (create_audit_log env a b c d e f g h)"
  by (auto simp: create_audit_log_def repo_create_audit_log_def intro!: tx_only_rules)

lemma create_audit_log_run:
  assumes "\<not> failed s" "gen_uuid env (entropy s) \<notin> al_id ` set (audits (working s))"
    "result \<in> set audit_results" "fk_ok user_id (u_id ` set (users (working s)))"
    "fk_ok device_id (d_id ` set (devices (working s)))"
    "fk_ok command_id (c_id ` set (commands (working s)))"
    "fk_ok approval_id (a_id ` set (approvals (working s)))"
  shows "create_audit_log env cat act result user_id device_id command_id approval_id md s =
    (Ok (), s\<lparr>working := (working s)\<lparr>audits := audits (working s) @
        [audit_row (gen_uuid env (entropy s)) (clock s) cat act result user_id device_id command_id
           approval_id md]\<rparr>, entropy := Suc (entropy s)\<rparr>)"
  using assms by (simp add: create_audit_log_def repo_create_audit_log_def prog_simps insert_audit_def audit_row_def)

lemma safe_audit:
  assumes "\<And>d f. I (d\<lparr>audits := f\<rparr>) = I d"
  shows "guar (safe I) (create_audit_log env a b c d e f g h)"
  by (auto simp: create_audit_log_def repo_create_audit_log_def insert_audit_def assms split: if_splits
      intro!: safe.guar_rules safe_flush)

text \<open>Audit rows are only appended.\<close>

definition audit_grows :: "db \<Rightarrow> db \<Rightarrow> bool" where
  "audit_grows d d' = prefix (audits d) (audits d')"

interpretation audit_evo: db_preorder audit_grows
  by unfold_locales (auto simp: audit_grows_def)

lemma set_newest_first [simp]: "set (newest_first key xs) = set xs"
  by (simp add: newest_first_def)

lemma length_newest_first [simp]: "length (newest_first key xs) = length xs"
  by (simp add: newest_first_def)

text \<open>The audit route answers only when the page is empty.\<close>

lemma audit_route_only_empty:
  assumes "route_list_audit_logs f page page_size u s = (Ok (rows, n, nxt, prv), t)"
  shows "rows = [] \<and> paginate page page_size (newest_first al_created_at
    (filter (audit_matches (f\<lparr>f_user_id := Some u\<rparr>)) (audits (committed s)))) = []"
proof -
  have "audit_log_responses items = Ok rs \<Longrightarrow> items = [] \<and> rs = []" for items rs
    by (cases items) (simp_all add: audit_log_response_def)
  with assms show ?thesis
    by (auto simp: route_list_audit_logs_def raiseM_def bindM_def with_session_def query_audit_logs_def select_def liftM_def
        returnM_def Let_def split: if_splits sum.splits)
qed

end
