(* ===== verification/EmergencyStop.thy ===== *)
theory EmergencyStop
  imports Cache Events AuditLog Scenario
begin

text \<open>
  \<^verbatim>\<open>app/emergency_stop\<close>: the service (\<open>is_active\<close>, \<open>activate\<close>, \<open>release\<close>, \<open>get_status\<close>,
  \<open>_block_commands\<close>), the older repository and the routes.

  \<open>activate\<close> writes the stop row, blocks the owner's queued commands, writes the audit row and the
  outbox event in one transaction and sets the cache afterwards; \<open>is_active\<close> asks the cache first
  and the database when the cache has no answer.
\<close>

section \<open>Service\<close>

definition stop_key :: "uuid \<Rightarrow> string" where
  "stop_key owner_id = ''emergency_stop:'' @ uuid_str owner_id"

definition stop_entry :: "emergency_stop \<Rightarrow> json" where
  "stop_entry r = JObj [(''active'', JBool True),
     (''activated_at'', json_opt (\<lambda>t. JStr (isoformat t)) (es_activated_at r))]"

definition stop_row :: "uuid \<Rightarrow> db \<Rightarrow> emergency_stop option" where
  "stop_row owner_id d = row_by es_owner_id owner_id (estops d)"

text \<open>The database part of \<open>is_active\<close>, with a session of its own.\<close>

definition is_active_db :: "env \<Rightarrow> uuid \<Rightarrow> bool prog" where
  "is_active_db env owner_id =
     bindM (read_session (stop_row owner_id)) (\<lambda>row.
       case row of
         Some r \<Rightarrow>
           if es_active r
           then seqM (valkey_set env (stop_key owner_id) (stop_entry r) (Some 60)) (returnM True)
           else returnM False
       | None \<Rightarrow> returnM False)"

definition is_active :: "env \<Rightarrow> uuid \<Rightarrow> bool prog" where
  "is_active env owner_id =
     bindM (valkey_get env (stop_key owner_id)) (\<lambda>cached.
       case cached of
         None \<Rightarrow> is_active_db env owner_id
       | Some v \<Rightarrow>
           (case v of
              JNull \<Rightarrow> is_active_db env owner_id
            | JObj entry \<Rightarrow> returnM (truthy (dict_get entry ''active'' (JBool False)))
            | _ \<Rightarrow> returnM (truthy v)))"

text \<open>One iteration of the loop of \<^verbatim>\<open>_block_commands\<close>: an exception is logged and swallowed.\<close>

definition block_command :: "env \<Rightarrow> uuid \<Rightarrow> unit prog" where
  "block_command env cmd_id =
     catchM
       (seqM (transition_command env cmd_id BLOCKED_BY_EMERGENCY_STOP ''emergency_stop_activation'' None)
          (returnM ()))
       (\<lambda>exc. returnM ())"

definition block_commands :: "env \<Rightarrow> uuid \<Rightarrow> unit prog" where
  "block_commands env owner_id =
     bindM (select (\<lambda>d. map d_id (filter (\<lambda>v. d_owner_id v = owner_id) (devices d)))) (\<lambda>dev_ids.
       if dev_ids = [] then returnM ()
       else
         bindM (select (\<lambda>d. map c_id (filter (\<lambda>c. c_device_id c \<in> set dev_ids
                   \<and> c_state c \<in> {QUEUED, APPROVED}) (commands d)))) (\<lambda>cmd_ids.
           forM cmd_ids (block_command env)))"

definition stop_payload :: "uuid \<Rightarrow> bool \<Rightarrow> json option \<Rightarrow> datetime \<Rightarrow> dict" where
  "stop_payload owner_id active reason now =
     [(''owner_id'', JStr (uuid_str owner_id)), (''active'', JBool active)]
     @ (case reason of None \<Rightarrow> [] | Some r \<Rightarrow> [(''reason'', r)])
     @ [(''timestamp'', JStr (isoformat now))]"

definition add_activated_event :: "env \<Rightarrow> uuid \<Rightarrow> json \<Rightarrow> unit prog" where
  "add_activated_event env owner_id reason =
     bindM (getM clock) (\<lambda>now.
     seqM (add_event env ''emergency_stop.activated'' ''owner'' (uuid_str owner_id)
             (subject_emergency_stop (uuid_str owner_id)) (stop_payload owner_id True (Some reason) now))
     (returnM ()))"

text \<open>The end of the transaction of \<open>activate\<close>: audit row, outbox event, commit.\<close>

definition close_activation :: "env \<Rightarrow> uuid \<Rightarrow> string \<Rightarrow> uuid \<Rightarrow> 'a \<Rightarrow> 'a prog" where
  "close_activation env owner_id reason actor_id x =
     seqM (create_audit_log env CAT_EMERGENCY_STOP ACT_EMERGENCY_STOP_ACTIVATED ''success''
             (Some actor_id) None None None
             (JObj [(''reason'', JStr reason), (''owner_id'', JStr (uuid_str owner_id))]))
     (seqM (add_activated_event env owner_id (JStr reason))
     (seqM commit
     (returnM x)))"

text \<open>
  The transaction of \<open>activate\<close>. The flag in the result says whether the row was activated now; the
  early return for a stop that is active already skips the cache update.
\<close>

definition activate_tx :: "env \<Rightarrow> uuid \<Rightarrow> string \<Rightarrow> uuid \<Rightarrow> (emergency_stop \<times> bool) prog" where
  "activate_tx env owner_id reason actor_id =
     bindM (select (stop_row owner_id)) (\<lambda>existing.
     bindM (getM clock) (\<lambda>now.
       let rest = (\<lambda>row.
             seqM (block_commands env owner_id)
               (close_activation env owner_id reason actor_id (row, True)))
       in case existing of
            Some r \<Rightarrow>
              if es_active r then
                seqM (add_activated_event env owner_id (json_opt JStr (es_reason r)))
                (seqM commit (returnM (r, False)))
              else
                (let set_row = (\<lambda>r. r\<lparr>es_active := True, es_reason := Some reason,
                       es_activated_at := Some now, es_activated_by := Some actor_id,
                       es_released_at := None, es_released_by := None\<rparr>)
                 in seqM (flush (update_estop owner_id set_row)) (rest (set_row r)))
          | None \<Rightarrow>
              bindM (uuid4 env) (\<lambda>i.
                let row = \<lparr>es_id = i, es_owner_id = owner_id, es_active = True, es_reason = Some reason,
                      es_activated_at = Some now, es_released_at = None, es_activated_by = Some actor_id,
                      es_released_by = None\<rparr>
                in seqM (flush (insert_estop row)) (rest row))))"

definition activate :: "env \<Rightarrow> uuid \<Rightarrow> string \<Rightarrow> uuid \<Rightarrow> emergency_stop prog" where
  "activate env owner_id reason actor_id =
     bindM (with_session (activate_tx env owner_id reason actor_id)) (\<lambda>(row, activated).
       if activated
       then seqM (valkey_set env (stop_key owner_id) (stop_entry row) (Some 3600)) (returnM row)
       else returnM row)"

definition release_tx :: "env \<Rightarrow> uuid \<Rightarrow> uuid \<Rightarrow> emergency_stop option prog" where
  "release_tx env owner_id released_by =
     bindM (select (stop_row owner_id)) (\<lambda>result.
     bindM (getM clock) (\<lambda>now.
       case result of
         None \<Rightarrow> returnM None
       | Some r \<Rightarrow>
           if \<not> es_active r then returnM None
           else
             (let set_row = (\<lambda>r. r\<lparr>es_active := False, es_released_at := Some now,
                    es_released_by := Some released_by\<rparr>)
              in seqM (flush (update_estop owner_id set_row))
                 (seqM (create_audit_log env CAT_EMERGENCY_STOP ACT_EMERGENCY_STOP_RELEASED ''success''
                          (Some released_by) None None None
                          (JObj [(''owner_id'', JStr (uuid_str owner_id))]))
                 (seqM (add_event env ''emergency_stop.released'' ''owner'' (uuid_str owner_id)
                          (subject_emergency_resume (uuid_str owner_id))
                          (stop_payload owner_id False None now))
                 (seqM commit
                 (returnM (Some (set_row r)))))))))"

definition release :: "env \<Rightarrow> uuid \<Rightarrow> uuid \<Rightarrow> emergency_stop option prog" where
  "release env owner_id released_by =
     bindM (with_session (release_tx env owner_id released_by)) (\<lambda>result.
       case result of
         None \<Rightarrow> returnM None
       | Some r \<Rightarrow> seqM (valkey_delete env (stop_key owner_id)) (returnM (Some r)))"

definition get_status :: "uuid \<Rightarrow> emergency_stop option prog" where
  "get_status owner_id = with_session (select (stop_row owner_id))"

section \<open>Repository\<close>

definition repo_activate_emergency_stop ::
  "env \<Rightarrow> uuid \<Rightarrow> uuid \<Rightarrow> string option \<Rightarrow> emergency_stop prog" where
  "repo_activate_emergency_stop env owner_id activated_by reason =
     bindM (select (stop_row owner_id)) (\<lambda>existing.
     bindM (getM clock) (\<lambda>now.
       case existing of
         Some r \<Rightarrow>
           (let set_row = (\<lambda>r. r\<lparr>es_active := True, es_reason := reason, es_activated_at := Some now,
                  es_activated_by := Some activated_by\<rparr>)
            in seqM (flush (update_estop owner_id set_row)) (returnM (set_row r)))
       | None \<Rightarrow>
           bindM (uuid4 env) (\<lambda>i.
             let row = \<lparr>es_id = i, es_owner_id = owner_id, es_active = True, es_reason = reason,
                   es_activated_at = Some now, es_released_at = None,
                   es_activated_by = Some activated_by, es_released_by = None\<rparr>
             in seqM (flush (insert_estop row)) (returnM row))))"

definition repo_release_emergency_stop ::
  "uuid \<Rightarrow> uuid \<Rightarrow> string option \<Rightarrow> emergency_stop option prog" where
  "repo_release_emergency_stop owner_id released_by reason =
     bindM (select (stop_row owner_id)) (\<lambda>existing.
     bindM (getM clock) (\<lambda>now.
       case existing of
         None \<Rightarrow> returnM None
       | Some r \<Rightarrow>
           if \<not> es_active r then returnM None
           else
             (let set_row = (\<lambda>r. r\<lparr>es_active := False, es_released_at := Some now,
                    es_released_by := Some released_by,
                    es_reason := (case reason of None \<Rightarrow> es_reason r
                                  | Some x \<Rightarrow> if x = [] then es_reason r else Some x)\<rparr>)
              in seqM (flush (update_estop owner_id set_row)) (returnM (Some (set_row r))))))"

definition repo_is_active :: "uuid \<Rightarrow> bool prog" where
  "repo_is_active owner_id =
     select (\<lambda>d. case stop_row owner_id d of None \<Rightarrow> False | Some r \<Rightarrow> es_active r)"

section \<open>Routes\<close>

record activate_request =
  ar_reason :: "string option"
  ar_confirmation :: string

definition activate_request_valid :: "activate_request \<Rightarrow> bool" where
  "activate_request_valid r =
     ((case ar_reason r of None \<Rightarrow> True | Some x \<Rightarrow> length x \<le> 1000) \<and> 1 \<le> length (ar_confirmation r))"

definition route_activate :: "env \<Rightarrow> activate_request \<Rightarrow> uuid \<Rightarrow> emergency_stop prog" where
  "route_activate env request current_user =
     (if \<not> activate_request_valid request then raiseM PydanticValidationError
      else if ar_confirmation request \<noteq> ''ACTIVATE_EMERGENCY_STOP''
        then raiseM (ApiError INVALID_CONFIRMATION
               ''Confirmation phrase must be ACTIVATE_EMERGENCY_STOP'' 400)
      else activate env current_user
             (case ar_reason request of None \<Rightarrow> ''No reason provided''
              | Some x \<Rightarrow> if x = [] then ''No reason provided'' else x)
             current_user)"

definition route_release :: "env \<Rightarrow> uuid \<Rightarrow> emergency_stop prog" where
  "route_release env current_user =
     bindM (release env current_user current_user) (\<lambda>result.
       case result of
         None \<Rightarrow> raiseM (ApiError EMERGENCY_STOP_NOT_ACTIVE ''Emergency stop not active'' 404)
       | Some r \<Rightarrow> returnM r)"

definition route_get_status :: "uuid \<Rightarrow> (bool \<times> string option \<times> datetime option) prog" where
  "route_get_status current_user =
     bindM (get_status current_user) (\<lambda>result.
       case result of
         Some r \<Rightarrow> returnM (es_active r, es_reason r, es_activated_at r)
       | None \<Rightarrow> returnM (False, None, None))"

section \<open>The check is fail-safe\<close>

text \<open>
  The contract between the stop service and its clients. \<open>ok\<close> is the invariant of the cache under
  which the check may be trusted: a negative answer means that the database holds no active stop.
  What the clients need, that a guarded body never runs while a stop is active, is proved here once.
\<close>

definition stop_active :: "uuid \<Rightarrow> db \<Rightarrow> bool" where
  "stop_active owner d = (case stop_row owner d of None \<Rightarrow> False | Some r \<Rightarrow> es_active r)"

locale stop_guard =
  fixes check :: "uuid \<Rightarrow> bool prog" and active :: "uuid \<Rightarrow> db \<Rightarrow> bool" and ok :: "st \<Rightarrow> bool"
  assumes check_total: "ok s \<Longrightarrow> \<exists>b c. check owner s = (Inr b, s\<lparr>cache := c\<rparr>) \<and> ok (s\<lparr>cache := c\<rparr>)"
    and check_sound: "ok s \<Longrightarrow> check owner s = (Inr False, t) \<Longrightarrow> \<not> active owner (committed s)"
begin

lemma guarded_blocks:
  assumes "ok s" "active owner (committed s)"
  obtains c where "bindM (check owner) (\<lambda>b. if b then raiseM e else m) s = (Inl e, s\<lparr>cache := c\<rparr>)"
    "ok (s\<lparr>cache := c\<rparr>)"
proof -
  obtain b c where c: "check owner s = (Inr b, s\<lparr>cache := c\<rparr>)" "ok (s\<lparr>cache := c\<rparr>)"
    using check_total [OF assms(1)] by blast
  with check_sound [OF assms(1)] assms(2) have b by (cases b) auto
  with c show thesis by (intro that [of c]) (simp_all add: bindM_def raiseM_def)
qed

lemma guarded_passes:
  assumes "ok s" "check owner s = (Inr False, t)"
  shows "bindM (check owner) (\<lambda>b. if b then raiseM e else m) s = m t"
  using assms by (simp add: bindM_def)

lemma guarded_cases:
  assumes "ok s"
  obtains (blocked) c where "bindM (check owner) (\<lambda>b. if b then raiseM e else m) s = (Inl e, s\<lparr>cache := c\<rparr>)"
    "ok (s\<lparr>cache := c\<rparr>)"
  | (passed) c where "bindM (check owner) (\<lambda>b. if b then raiseM e else m) s = m (s\<lparr>cache := c\<rparr>)"
    "ok (s\<lparr>cache := c\<rparr>)" "\<not> active owner (committed s)"
proof -
  obtain b c where c: "check owner s = (Inr b, s\<lparr>cache := c\<rparr>)" "ok (s\<lparr>cache := c\<rparr>)"
    using check_total [OF assms] by blast
  show thesis
  proof (cases b)
    case True
    with c show thesis by (intro blocked [of c]) (simp_all add: bindM_def raiseM_def)
  next
    case False
    with c check_sound [OF assms] show thesis by (intro passed [of c]) (auto simp: bindM_def)
  qed
qed

end

text \<open>No stop is active and the cache has no entry: the check answers no.\<close>

definition stop_clear :: "env \<Rightarrow> uuid \<Rightarrow> st \<Rightarrow> bool" where
  "stop_clear env owner s = (\<not> stop_active owner (committed s)
     \<and> (\<not> cache_up s \<or> kv_get (clock s) (prefix_key env (stop_key owner)) (cache s) = None))"

text \<open>Every entry that the cache holds for a stop says that it is active.\<close>

definition says_active :: "vval \<Rightarrow> bool" where
  "says_active v = (case v of VJson (JObj entry) \<Rightarrow> truthy (dict_get entry ''active'' (JBool False)) | _ \<Rightarrow> False)"

definition stop_cache_ok :: "env \<Rightarrow> st \<Rightarrow> bool" where
  "stop_cache_ok env s =
     (\<forall>owner v t. cache s (prefix_key env (stop_key owner)) = Some (v, t) \<longrightarrow> says_active v)"

lemma stop_key_inject [simp]: "stop_key a = stop_key b \<longleftrightarrow> a = b"
  by (simp add: stop_key_def)

lemma says_active_entry [simp]: "says_active (VJson (stop_entry r))"
  by (simp add: says_active_def stop_entry_def)

lemma stop_cache_ok_set:
  "stop_cache_ok env s \<Longrightarrow>
     stop_cache_ok env (s\<lparr>cache := kv_set now (prefix_key env (stop_key owner)) (VJson (stop_entry r)) ttl (cache s)\<rparr>)"
  by (auto simp: stop_cache_ok_def kv_set_def)

lemma stop_cache_ok_del:
  "stop_cache_ok env s \<Longrightarrow> stop_cache_ok env (s\<lparr>cache := kv_del k (cache s)\<rparr>)"
  by (auto simp: stop_cache_ok_def kv_del_def)

lemma is_active_db_cases:
  obtains (db_yes) c where "is_active_db env owner s = (Ok True, s\<lparr>cache := c\<rparr>)" "stop_active owner (committed s)"
      "stop_cache_ok env s \<Longrightarrow> stop_cache_ok env (s\<lparr>cache := c\<rparr>)"
  | (db_no) "is_active_db env owner s = (Ok False, s)" "\<not> stop_active owner (committed s)"
proof (cases "stop_active owner (committed s)")
  case True
  then obtain r where r: "stop_row owner (committed s) = Some r" "es_active r"
    by (auto simp: stop_active_def split: option.splits)
  show ?thesis
  proof (cases "cache_up s")
    case up: True
    show ?thesis
      by (rule db_yes [OF _ True stop_cache_ok_set])
        (use r up in \<open>simp_all add: is_active_db_def prog_simps valkey_set_def seqM_def bindM_def\<close>)
  next
    case False
    with r True show ?thesis
      by (intro db_yes [of "cache s"])
        (simp_all add: is_active_db_def prog_simps valkey_set_def seqM_def bindM_def)
  qed
next
  case False
  then show ?thesis
    by (intro db_no)
      (auto simp: is_active_db_def prog_simps stop_active_def split: option.splits)
qed

lemma is_active_cached:
  assumes "stop_cache_ok env s" "cache_up s" "kv_get (clock s) (prefix_key env (stop_key owner)) (cache s) = Some v"
  shows "is_active env owner s = (Ok True, s)"
proof -
  have "says_active v"
    using assms(1,3) unfolding stop_cache_ok_def kv_get_def
    by (auto split: option.splits if_splits) blast
  then show ?thesis
    using assms(2,3)
    by (auto simp: says_active_def is_active_def valkey_get_def bindM_def returnM_def
        split: vval.splits json.splits)
qed

lemma is_active_uncached:
  assumes "\<not> cache_up s \<or> kv_get (clock s) (prefix_key env (stop_key owner)) (cache s) = None"
  shows "is_active env owner s = is_active_db env owner s"
  using assms by (auto simp: is_active_def valkey_get_def bindM_def)

lemma is_active_clear: "stop_clear env owner s \<Longrightarrow> is_active env owner s = (Ok False, s)"
  using is_active_uncached [of s env owner]
  by (cases rule: is_active_db_cases [of env owner s]) (auto simp: stop_clear_def)

lemma is_active_cases:
  assumes "stop_cache_ok env s"
  obtains (yes) c where "is_active env owner s = (Ok True, s\<lparr>cache := c\<rparr>)" "stop_cache_ok env (s\<lparr>cache := c\<rparr>)"
  | (no) "is_active env owner s = (Ok False, s)" "\<not> stop_active owner (committed s)"
proof (cases "\<not> cache_up s \<or> kv_get (clock s) (prefix_key env (stop_key owner)) (cache s) = None")
  case True
  note eq = is_active_uncached [OF True]
  show ?thesis
  proof (cases rule: is_active_db_cases [of env owner s])
    case (db_yes c)
    with eq assms show ?thesis by (intro yes [of c]) auto
  next
    case db_no
    with eq show ?thesis by (intro no) auto
  qed
next
  case False
  then obtain v where "kv_get (clock s) (prefix_key env (stop_key owner)) (cache s) = Some v" "cache_up s"
    by auto
  with is_active_cached [OF assms] assms show ?thesis by (intro yes [of "cache s"]) auto
qed

interpretation stop: stop_guard "is_active env" stop_active "stop_cache_ok env" for env
proof
  fix s owner
  assume ok: "stop_cache_ok env s"
  show "\<exists>b c. is_active env owner s = (Inr b, s\<lparr>cache := c\<rparr>) \<and> stop_cache_ok env (s\<lparr>cache := c\<rparr>)"
    using ok
  proof (cases rule: is_active_cases [where owner = owner])
    case (yes c)
    then show ?thesis by blast
  next
    case no
    then have "is_active env owner s = (Inr False, s\<lparr>cache := cache s\<rparr>)" by simp
    with ok show ?thesis by (intro exI conjI) (assumption, simp)
  qed
  show "\<not> stop_active owner (committed s)" if "is_active env owner s = (Inr False, t)" for t
    using ok that by (cases rule: is_active_cases [where owner = owner]) auto
qed

section \<open>Blocking the queued commands\<close>

definition block_rows :: "datetime \<Rightarrow> uuid list \<Rightarrow> command list \<Rightarrow> command list" where
  "block_rows now cids rows =
     map (\<lambda>c. if c_id c \<in> set cids then stamp now BLOCKED_BY_EMERGENCY_STOP None c else c) rows"

definition block_event :: "uuid \<Rightarrow> datetime \<Rightarrow> uuid \<Rightarrow> command_state_event" where
  "block_event eid now cid =
     transition_event eid now cid QUEUED BLOCKED_BY_EMERGENCY_STOP ''emergency_stop_activation'' None"

lemma block_rows_Nil [simp]: "block_rows now [] rows = rows"
  by (simp add: block_rows_def)

lemma block_rows_Cons:
  "x \<notin> set xs \<Longrightarrow>
     block_rows now xs (update_by c_id x (stamp now BLOCKED_BY_EMERGENCY_STOP None) rows) = block_rows now (x # xs) rows"
  by (auto simp: block_rows_def update_by_def)

lemma block_one:
  assumes "\<not> failed s" "row_by c_id cid (commands (working s)) = Some c" "c_state c = QUEUED" "texts_fit c"
    "gen_uuid env (entropy s) \<notin> ids_of (working s)"
  shows "block_command env cid s =
    (Ok (),
     s\<lparr>working := after_transition (gen_uuid env (entropy s)) (clock s) cid QUEUED
          BLOCKED_BY_EMERGENCY_STOP ''emergency_stop_activation'' None (working s), entropy := Suc (entropy s)\<rparr>)"
proof -
  have "gen_uuid env (entropy s) \<notin> e_id ` set (events (working s))" using assms(5) by (auto simp: ids_of_def)
  with assms(3,4) show ?thesis
    unfolding block_command_def catchM_def seqM_def bindM_def
    by (subst transition_permitted [OF assms(1,2)])
      (simp_all add: permitted_def validate_command_state_transition_def returnM_def)
qed

definition blockable :: "db \<Rightarrow> uuid \<Rightarrow> bool" where
  "blockable d cid = (\<exists>c. row_by c_id cid (commands d) = Some c \<and> c_state c = QUEUED \<and> texts_fit c)"

lemma block_loop:
  assumes "distinct cids" "\<not> failed s" "\<forall>cid \<in> set cids. blockable (working s) cid"
    "fresh_ids env (length cids + k) s"
  shows "\<exists>s' evs. forM cids (block_command env) s = (Ok (), s')
    \<and> s' = s\<lparr>working := (working s)\<lparr>commands := block_rows (clock s) cids (commands (working s)),
           events := events (working s) @ evs\<rparr>, entropy := entropy s + length cids\<rparr>
    \<and> list_all2 (\<lambda>cid e. \<exists>i. e = block_event i (clock s) cid) cids evs \<and> fresh_ids env k s'"
  using assms
proof (induction cids arbitrary: s)
  case Nil
  then show ?case by (simp add: returnM_def)
next
  case (Cons x xs)
  obtain c where c: "row_by c_id x (commands (working s)) = Some c" "c_state c = QUEUED" "texts_fit c"
    using Cons.prems(3) by (auto simp: blockable_def)
  have fr: "fresh_ids env (Suc (length xs + k)) s" using Cons.prems(4) by simp
  define s1 where "s1 = s\<lparr>working := after_transition (gen_uuid env (entropy s)) (clock s) x QUEUED
      BLOCKED_BY_EMERGENCY_STOP ''emergency_stop_activation'' None (working s), entropy := Suc (entropy s)\<rparr>"
  note run = block_one [OF Cons.prems(2) c fresh_ids_now [OF fr], folded s1_def]
  have "fresh_ids env (length xs + k) s1" unfolding s1_def by (rule fresh_ids_after [OF fr])
  moreover have "\<forall>cid \<in> set xs. blockable (working s1) cid"
    using Cons.prems(1,3) by (auto simp: blockable_def s1_def after_transition_def table_simps)
  moreover have "distinct xs" "\<not> failed s1" using Cons.prems(1,2) by (simp_all add: s1_def)
  ultimately obtain s' evs where s': "forM xs (block_command env) s1 = (Ok (), s')"
    "s' = s1\<lparr>working := (working s1)\<lparr>commands := block_rows (clock s1) xs (commands (working s1)),
           events := events (working s1) @ evs\<rparr>, entropy := entropy s1 + length xs\<rparr>"
    "list_all2 (\<lambda>cid e. \<exists>i. e = block_event i (clock s1) cid) xs evs" "fresh_ids env k s'"
    using Cons.IH [of s1] by blast
  let ?e = "block_event (gen_uuid env (entropy s)) (clock s) x"
  have "s' = s\<lparr>working := (working s)\<lparr>commands := block_rows (clock s) (x # xs) (commands (working s)),
           events := events (working s) @ ?e # evs\<rparr>, entropy := entropy s + length (x # xs)\<rparr>"
    using Cons.prems(1) by (simp add: s'(2) s1_def after_transition_def block_rows_Cons block_event_def)
  moreover have "list_all2 (\<lambda>cid e. \<exists>i. e = block_event i (clock s) cid) (x # xs) (?e # evs)"
    using s'(3) by (auto simp: s1_def)
  ultimately show ?case
    using run s'(1,4) by (intro exI [of _ s'] exI [of _ "?e # evs"]) (simp add: seqM_def bindM_def)
qed

definition owner_queue :: "uuid \<Rightarrow> db \<Rightarrow> uuid list" where
  "owner_queue owner d =
     map c_id (filter (\<lambda>c. c_device_id c \<in> set (map d_id (filter (\<lambda>v. d_owner_id v = owner) (devices d)))
       \<and> c_state c \<in> {QUEUED, APPROVED}) (commands d))"

lemma block_commands_run:
  assumes "\<not> failed s" "distinct (map c_id (commands (working s)))"
    "\<forall>cid \<in> set (owner_queue owner (working s)). blockable (working s) cid"
    "fresh_ids env (length (owner_queue owner (working s)) + k) s"
  shows "\<exists>s' evs. block_commands env owner s = (Ok (), s')
    \<and> s' = s\<lparr>working := (working s)\<lparr>
           commands := block_rows (clock s) (owner_queue owner (working s)) (commands (working s)),
           events := events (working s) @ evs\<rparr>, entropy := entropy s + length (owner_queue owner (working s))\<rparr>
    \<and> list_all2 (\<lambda>cid e. \<exists>i. e = block_event i (clock s) cid) (owner_queue owner (working s)) evs
    \<and> fresh_ids env k s'"
proof -
  let ?devs = "map d_id (filter (\<lambda>v. d_owner_id v = owner) (devices (working s)))"
  let ?q = "owner_queue owner (working s)"
  have q: "map c_id (filter (\<lambda>c. c_device_id c \<in> set ?devs \<and> c_state c \<in> {QUEUED, APPROVED})
      (commands (working s))) = ?q"
    by (simp add: owner_queue_def)
  show ?thesis
  proof (cases "?devs = []")
    case True
    then have none: "\<not> (\<exists>v \<in> set (devices (working s)). d_owner_id v = owner)"
      by (simp add: filter_empty_conv)
    then have "?q = []" by (auto simp: owner_queue_def filter_empty_conv)
    moreover have "block_commands env owner s = (Ok (), s)"
      using True assms(1) by (simp add: block_commands_def prog_simps bindM_def)
    ultimately show ?thesis using assms(4) by simp
  next
    case False
    have d: "distinct ?q" using assms(2) by (simp add: owner_queue_def distinct_map_filter)
    have "block_commands env owner s = forM ?q (block_command env) s"
      using False assms(1) q by (simp add: block_commands_def prog_simps bindM_def)
    with block_loop [OF d assms(1,3,4)] show ?thesis by simp
  qed
qed

lemma fresh_ids_working:
  "fresh_ids env n s \<Longrightarrow> ids_of d \<subseteq> ids_of (working s) \<Longrightarrow> fresh_ids env n (s\<lparr>working := d\<rparr>)"
  by (rule fresh_ids_same) simp_all

text \<open>The audit row and the outbox event that close an activation.\<close>

definition activation_audit :: "uuid \<Rightarrow> datetime \<Rightarrow> uuid \<Rightarrow> uuid \<Rightarrow> string \<Rightarrow> audit_log" where
  "activation_audit i now owner actor reason =
     audit_row i now CAT_EMERGENCY_STOP ACT_EMERGENCY_STOP_ACTIVATED ''success'' (Some actor) None None None
       (JObj [(''reason'', JStr reason), (''owner_id'', JStr (uuid_str owner))])"

definition activation_event :: "uuid \<Rightarrow> datetime \<Rightarrow> uuid \<Rightarrow> json \<Rightarrow> outbox_event" where
  "activation_event i now owner reason =
     new_outbox_event i now ''emergency_stop.activated'' ''owner'' (uuid_str owner)
       (subject_emergency_stop (uuid_str owner)) (stop_payload owner True (Some reason) now)"

lemma add_activated_event_run:
  assumes "\<not> failed s" "gen_uuid env (entropy s) \<notin> ids_of (working s)"
  shows "add_activated_event env owner reason s =
      (Ok (), s\<lparr>working := (working s)\<lparr>outbox := outbox (working s) @
          [activation_event (gen_uuid env (entropy s)) (clock s) owner reason]\<rparr>, entropy := Suc (entropy s)\<rparr>)"
proof -
  have "gen_uuid env (entropy s) \<notin> o_id ` set (outbox (working s))" using assms(2) by (auto simp: ids_of_def)
  from add_event_run [OF assms(1) this] show ?thesis
    by (simp add: add_activated_event_def prog_simps bindM_def seqM_def activation_event_def)
qed

text \<open>What follows the write of the stop row.\<close>

lemma activation_tail:
  assumes "\<not> failed s" "fresh_ids env 2 s" "actor \<in> u_id ` set (users (working s))"
  shows "\<exists>i j. close_activation env owner reason actor x s =
    (Ok x, s\<lparr>working := (working s)\<lparr>audits := audits (working s) @ [activation_audit i (clock s) owner actor reason],
               outbox := outbox (working s) @ [activation_event j (clock s) owner (JStr reason)]\<rparr>,
             committed := (working s)\<lparr>audits := audits (working s) @ [activation_audit i (clock s) owner actor reason],
               outbox := outbox (working s) @ [activation_event j (clock s) owner (JStr reason)]\<rparr>,
             entropy := entropy s + 2\<rparr>)"
proof -
  let ?i = "gen_uuid env (entropy s)"
  define s1 where "s1 = s\<lparr>working := (working s)\<lparr>audits := audits (working s) @
      [activation_audit ?i (clock s) owner actor reason]\<rparr>, entropy := Suc (entropy s)\<rparr>"
  have f2: "fresh_ids env (Suc 1) s" using assms(2) by (simp add: numeral_2_eq_2)
  have i: "?i \<notin> al_id ` set (audits (working s))" using fresh_ids_now [OF f2] by (auto simp: ids_of_def)
  have audit: "create_audit_log env CAT_EMERGENCY_STOP ACT_EMERGENCY_STOP_ACTIVATED ''success''
        (Some actor) None None None (JObj [(''reason'', JStr reason), (''owner_id'', JStr (uuid_str owner))]) s
      = (Ok (), s1)"
    using assms(3)
    by (subst create_audit_log_run [OF assms(1) i])
      (simp_all add: s1_def activation_audit_def audit_results_def fk_ok_def)
  have "fresh_ids env 1 s1"
    by (rule fresh_ids_step [OF f2]) (auto simp: s1_def ids_of_def activation_audit_def audit_row_def)
  then have f1: "gen_uuid env (entropy s1) \<notin> ids_of (working s1)" by (intro fresh_ids_now [of _ 0]) simp
  have nf: "\<not> failed s1" using assms(1) by (simp add: s1_def)
  from add_activated_event_run [OF nf f1] show ?thesis
    using assms(1) audit
    by (intro exI [of _ ?i] exI [of _ "gen_uuid env (entropy s1)"])
      (simp add: close_activation_def seqM_def bindM_def commit_def returnM_def s1_def)
qed

section \<open>Activation\<close>

definition can_block :: "uuid \<Rightarrow> db \<Rightarrow> bool" where
  "can_block owner d =
     (distinct (map c_id (commands d)) \<and> (\<forall>cid \<in> set (owner_queue owner d). blockable d cid))"

text \<open>The state in which the transaction of an activation ends, the stop row being written.\<close>

definition activated_db ::
  "datetime \<Rightarrow> uuid \<Rightarrow> uuid \<Rightarrow> string \<Rightarrow> uuid \<Rightarrow> uuid \<Rightarrow> command_state_event list \<Rightarrow> emergency_stop list \<Rightarrow> db \<Rightarrow> db" where
  "activated_db now owner actor reason i j evs stops d =
     d\<lparr>commands := block_rows now (owner_queue owner d) (commands d), events := events d @ evs,
       estops := stops, audits := audits d @ [activation_audit i now owner actor reason],
       outbox := outbox d @ [activation_event j now owner (JStr reason)]\<rparr>"

lemma activation_rest:
  assumes "\<not> failed s" "can_block owner (working s)" "actor \<in> u_id ` set (users (working s))"
    "fresh_ids env (length (owner_queue owner (working s)) + 2) s"
  shows "\<exists>i j evs t. seqM (block_commands env owner) (close_activation env owner reason actor x) s = (Ok x, t)
    \<and> committed t = activated_db (clock s) owner actor reason i j evs (estops (working s)) (working s)
    \<and> working t = committed t \<and> failed t = failed s \<and> cache t = cache s \<and> cache_up t = cache_up s \<and> clock t = clock s
    \<and> bus t = bus s \<and> list_all2 (\<lambda>cid e. \<exists>i. e = block_event i (clock s) cid) (owner_queue owner (working s)) evs"
proof -
  obtain s1 evs where s1: "block_commands env owner s = (Ok (), s1)"
    "s1 = s\<lparr>working := (working s)\<lparr>
           commands := block_rows (clock s) (owner_queue owner (working s)) (commands (working s)),
           events := events (working s) @ evs\<rparr>, entropy := entropy s + length (owner_queue owner (working s))\<rparr>"
    "list_all2 (\<lambda>cid e. \<exists>i. e = block_event i (clock s) cid) (owner_queue owner (working s)) evs"
    "fresh_ids env 2 s1"
    using block_commands_run [of s owner env 2] assms by (auto simp: can_block_def)
  have "\<not> failed s1" "actor \<in> u_id ` set (users (working s1))" using assms(1,3) s1(2) by simp_all
  from activation_tail [OF this(1) s1(4) this(2), of owner reason x]
  obtain i j t where t: "close_activation env owner reason actor x s1 = (Ok x, t)"
    "t = s1\<lparr>working := (working s1)\<lparr>audits := audits (working s1) @ [activation_audit i (clock s1) owner actor reason],
               outbox := outbox (working s1) @ [activation_event j (clock s1) owner (JStr reason)]\<rparr>,
             committed := (working s1)\<lparr>audits := audits (working s1) @ [activation_audit i (clock s1) owner actor reason],
               outbox := outbox (working s1) @ [activation_event j (clock s1) owner (JStr reason)]\<rparr>,
             entropy := entropy s1 + 2\<rparr>"
    by blast
  have "seqM (block_commands env owner) m s = m s1" for m :: "'a prog"
    using s1(1) by (simp add: seqM_def bindM_def)
  with t(1) have "seqM (block_commands env owner) (close_activation env owner reason actor x) s = (Ok x, t)"
    by (metis (no_types))
  moreover have "committed t = activated_db (clock s) owner actor reason i j evs (estops (working s)) (working s)"
    "working t = committed t" "failed t = failed s" "cache t = cache s" "cache_up t = cache_up s" "clock t = clock s"
    "bus t = bus s"
    by (simp_all add: t(2) s1(2) activated_db_def)
  ultimately show ?thesis using s1(3) by blast
qed

text \<open>Every case in which a stop is not active yet: with a row that was released, or with none.\<close>

lemma activate_tx_run:
  assumes "\<not> stop_active owner (committed s)" "can_block owner (committed s)"
    "owner \<in> u_id ` set (users (committed s))" "actor \<in> u_id ` set (users (committed s))"
    "fresh_ids env (length (owner_queue owner (committed s)) + 3) (open_session s)"
  shows "\<exists>row i j evs stops t. activate_tx env owner reason actor (open_session s) = (Ok (row, True), t)
    \<and> committed t = activated_db (clock s) owner actor reason i j evs stops (committed s)
    \<and> row_by es_owner_id owner stops = Some row \<and> es_active row
    \<and> (\<forall>k. k \<noteq> owner \<longrightarrow> row_by es_owner_id k stops = row_by es_owner_id k (estops (committed s)))
    \<and> working t = committed t \<and> \<not> failed t \<and> cache t = cache s \<and> cache_up t = cache_up s \<and> clock t = clock s
    \<and> list_all2 (\<lambda>cid e. \<exists>i. e = block_event i (clock s) cid) (owner_queue owner (committed s)) evs"
proof (cases "stop_row owner (committed s)")
  case None
  let ?row = "\<lparr>es_id = gen_uuid env (entropy s), es_owner_id = owner, es_active = True, es_reason = Some reason,
      es_activated_at = Some (clock s), es_released_at = None, es_activated_by = Some actor,
      es_released_by = None\<rparr>"
  define s1 where "s1 = (open_session s)\<lparr>entropy := Suc (entropy s),
      working := (committed s)\<lparr>estops := estops (committed s) @ [?row]\<rparr>\<rparr>"
  have new: "owner \<notin> es_owner_id ` set (estops (committed s))" using None by (simp add: stop_row_def)
  have fr: "fresh_ids env (Suc (length (owner_queue owner (committed s)) + 2)) (open_session s)"
    using assms(5) by (simp add: numeral_3_eq_3)
  have i: "gen_uuid env (entropy s) \<notin> es_id ` set (estops (committed s))"
    using fresh_ids_now [OF fr] by (auto simp: ids_of_def)
  have q: "owner_queue owner (working s1) = owner_queue owner (committed s)"
    by (simp add: s1_def owner_queue_def)
  have run: "activate_tx env owner reason actor (open_session s) =
      seqM (block_commands env owner) (close_activation env owner reason actor (?row, True)) s1"
    using None new i assms(3,4)
    by (simp add: activate_tx_def prog_simps bindM_def seqM_def Let_def insert_estop_def s1_def fk_ok_def)
  have fr1: "fresh_ids env (length (owner_queue owner (working s1)) + 2) s1"
    unfolding q by (rule fresh_ids_step [OF fr]) (auto simp: s1_def ids_of_def)
  have pre: "\<not> failed s1" "can_block owner (working s1)" "actor \<in> u_id ` set (users (working s1))"
    using assms(2,4) by (simp_all add: can_block_def q) (simp_all add: s1_def blockable_def)
  obtain i j evs t where "activate_tx env owner reason actor (open_session s) = (Ok (?row, True), t)"
    "committed t = activated_db (clock s1) owner actor reason i j evs (estops (working s1)) (working s1)"
    "working t = committed t" "failed t = failed s1" "cache t = cache s1" "cache_up t = cache_up s1"
    "clock t = clock s1"
    "list_all2 (\<lambda>cid e. \<exists>i. e = block_event i (clock s1) cid) (owner_queue owner (working s1)) evs"
    using activation_rest [OF pre fr1, of reason "(?row, True)"] unfolding run by blast
  moreover have "row_by es_owner_id k (estops (committed s) @ [?row]) =
      (if k = owner then Some ?row else row_by es_owner_id k (estops (committed s)))" for k
    using new by (simp add: table_simps)
  ultimately show ?thesis
    unfolding q
    by (intro exI [of _ ?row] exI [of _ i] exI [of _ j] exI [of _ evs]
        exI [of _ "estops (committed s) @ [?row]"] exI [of _ t])
      (simp add: s1_def activated_db_def owner_queue_def)
next
  case (Some r)
  then have na: "\<not> es_active r" using assms(1) by (simp add: stop_active_def)
  let ?set = "\<lambda>r. r\<lparr>es_active := True, es_reason := Some reason, es_activated_at := Some (clock s),
      es_activated_by := Some actor, es_released_at := None, es_released_by := None\<rparr>"
  let ?stops = "update_by es_owner_id owner ?set (estops (committed s))"
  define s1 where "s1 = (open_session s)\<lparr>working := (committed s)\<lparr>estops := ?stops\<rparr>\<rparr>"
  have row: "row_by es_owner_id owner (estops (committed s)) = Some r" using Some by (simp add: stop_row_def)
  have keys: "row_by es_owner_id k ?stops =
      (if k = owner then map_option ?set (row_by es_owner_id k (estops (committed s)))
       else row_by es_owner_id k (estops (committed s)))" for k
    by (rule keyed_update.row_by_update [of es_owner_id "\<lambda>_. ?set"]) (simp add: keyed_update_def)
  have ids: "es_id ` set ?stops = es_id ` set (estops (committed s))"
    by (rule image_update_by) simp
  have q: "owner_queue owner (working s1) = owner_queue owner (committed s)"
    by (simp add: s1_def owner_queue_def)
  have run: "activate_tx env owner reason actor (open_session s) =
      seqM (block_commands env owner) (close_activation env owner reason actor (?set r, True)) s1"
    using Some na row assms(4)
    by (simp add: activate_tx_def prog_simps bindM_def seqM_def Let_def update_estop_def s1_def fk_ok_def)
  have fr1: "fresh_ids env (length (owner_queue owner (working s1)) + 2) s1"
    unfolding q by (rule fresh_ids_same [OF fresh_ids_mono [OF assms(5)]]) (auto simp: s1_def ids_of_def ids)
  have pre: "\<not> failed s1" "can_block owner (working s1)" "actor \<in> u_id ` set (users (working s1))"
    using assms(2,4) by (simp_all add: can_block_def q) (simp_all add: s1_def blockable_def)
  obtain i j evs t where "activate_tx env owner reason actor (open_session s) = (Ok (?set r, True), t)"
    "committed t = activated_db (clock s1) owner actor reason i j evs (estops (working s1)) (working s1)"
    "working t = committed t" "failed t = failed s1" "cache t = cache s1" "cache_up t = cache_up s1"
    "clock t = clock s1"
    "list_all2 (\<lambda>cid e. \<exists>i. e = block_event i (clock s1) cid) (owner_queue owner (working s1)) evs"
    using activation_rest [OF pre fr1, of reason "(?set r, True)"] unfolding run by blast
  with keys row show ?thesis
    unfolding q
    by (intro exI [of _ "?set r"] exI [of _ i] exI [of _ j] exI [of _ evs] exI [of _ ?stops] exI [of _ t])
      (simp add: s1_def activated_db_def owner_queue_def)
qed

text \<open>
  C1. Activation of an emergency stop. For an owner without an active stop whose queued commands can
  be blocked, \<open>activate\<close> returns the active row, and in one commit: the stop is active, no other
  owner's stop changes, every queued command of the owner's devices (and no other command) is
  \<open>BLOCKED_BY_EMERGENCY_STOP\<close> with one state event each, one audit row and one pending outbox event
  are appended. Afterwards the cache holds the entry that says so.
\<close>

theorem activate_blocks_queued_commands:
  assumes "\<not> stop_active owner (committed s)" "can_block owner (committed s)"
    "owner \<in> u_id ` set (users (committed s))" "actor \<in> u_id ` set (users (committed s))"
    "fresh_ids env (length (owner_queue owner (committed s)) + 3) (open_session s)"
  shows "\<exists>row t i j evs. activate env owner reason actor s = (Ok row, t) \<and> es_active row
    \<and> stop_active owner (committed t)
    \<and> (\<forall>k. k \<noteq> owner \<longrightarrow> stop_row k (committed t) = stop_row k (committed s))
    \<and> commands (committed t) = block_rows (clock s) (owner_queue owner (committed s)) (commands (committed s))
    \<and> events (committed t) = events (committed s) @ evs
    \<and> list_all2 (\<lambda>cid e. \<exists>i. e = block_event i (clock s) cid) (owner_queue owner (committed s)) evs
    \<and> audits (committed t) = audits (committed s) @ [activation_audit i (clock s) owner actor reason]
    \<and> outbox (committed t) = outbox (committed s) @ [activation_event j (clock s) owner (JStr reason)]
    \<and> (cache_up s \<longrightarrow> kv_get (clock s) (prefix_key env (stop_key owner)) (cache t) = Some (VJson (stop_entry row)))"
proof -
  obtain row i j evs stops t where t: "activate_tx env owner reason actor (open_session s) = (Ok (row, True), t)"
    "committed t = activated_db (clock s) owner actor reason i j evs stops (committed s)"
    "row_by es_owner_id owner stops = Some row" "es_active row"
    "\<forall>k. k \<noteq> owner \<longrightarrow> row_by es_owner_id k stops = row_by es_owner_id k (estops (committed s))"
    "working t = committed t" "\<not> failed t" "cache t = cache s" "cache_up t = cache_up s" "clock t = clock s"
    "list_all2 (\<lambda>cid e. \<exists>i. e = block_event i (clock s) cid) (owner_queue owner (committed s)) evs"
    using activate_tx_run [OF assms] by blast
  define u where "u = (if cache_up s then t\<lparr>cache := kv_set (clock s) (prefix_key env (stop_key owner))
      (VJson (stop_entry row)) 3600 (cache s)\<rparr> else t)"
  have "with_session (activate_tx env owner reason actor) s = (Ok (row, True), t)"
    using t(1,6,7) by (simp add: with_session_def)
  then have "activate env owner reason actor s = (Ok row, u)"
    using t(8-10) by (simp add: activate_def u_def bindM_def seqM_def valkey_set_def ttl_or_default_def returnM_def)
  moreover have "committed u = committed t" by (simp add: u_def)
  moreover have "cache_up s \<longrightarrow> kv_get (clock s) (prefix_key env (stop_key owner)) (cache u) = Some (VJson (stop_entry row))"
    by (simp add: u_def kv.get_put_fresh)
  ultimately show ?thesis
    using t(2-5,11)
    by (intro exI [of _ row] exI [of _ u] exI [of _ i] exI [of _ j] exI [of _ evs])
      (simp add: activated_db_def stop_active_def stop_row_def)
qed

theorem activate_blocks_queued_commands_witness:
  "\<exists>row t. activate demo_env 1 ''fire'' 1 (demo_st (demo_db [demo_command 5 QUEUED, demo_command 6 RUNNING])) = (Ok row, t)
     \<and> map c_state (commands (committed t)) = [BLOCKED_BY_EMERGENCY_STOP, RUNNING]"
proof -
  let ?d = "demo_db [demo_command 5 QUEUED, demo_command 6 RUNNING]"
  have "\<not> stop_active 1 ?d" by (simp add: stop_active_def stop_row_def)
  moreover have q: "owner_queue 1 ?d = [5]" by (simp add: owner_queue_def)
  moreover have "can_block 1 ?d" by (simp add: can_block_def q blockable_def texts_fit_def fits_text_def)
  moreover have "fresh_ids demo_env 4 (open_session (demo_st ?d))"
    by (rule demo_fresh) (auto simp: ids_of_def)
  ultimately show ?thesis
    using activate_blocks_queued_commands [of 1 "demo_st ?d" 1 demo_env "''fire''"]
    by (fastforce simp: block_rows_def)
qed

section \<open>Activation with an approved command\<close>

lemma block_command_result: "fst (block_command env cid s) = Ok ()"
  by (auto simp: block_command_def catchM_def seqM_def bindM_def returnM_def split: prod.splits sum.splits)

lemma block_command_state: "snd (block_command env cid s) =
    snd (transition_command env cid BLOCKED_BY_EMERGENCY_STOP ''emergency_stop_activation'' None s)"
  by (auto simp: block_command_def catchM_def seqM_def bindM_def returnM_def split: prod.splits sum.splits)

lemma block_command_approved:
  assumes "\<not> failed s" "row_by c_id cid (commands (working s)) = Some c" "c_state c = APPROVED"
  shows "block_command env cid s = (Ok (), s\<lparr>failed := True\<rparr>)"
  using assms
  by (simp add: block_command_def catchM_def seqM_def bindM_def returnM_def permitted_def
      transition_permitted validate_command_state_transition_def)

lemma block_command_other:
  assumes "row_by c_id cid (commands (working s)) = Some c" "x \<noteq> cid" "\<not> failed s"
  shows "failed (snd (block_command env x s)) \<or>
    row_by c_id cid (commands (working (snd (block_command env x s)))) = Some c"
  unfolding block_command_state
  by (rule transition_final_state [of env x BLOCKED_BY_EMERGENCY_STOP "''emergency_stop_activation''" None s])
    (use assms in \<open>auto simp: after_transition_def table_simps\<close>)

lemma block_command_failed: "failed s \<Longrightarrow> block_command env x s = (Ok (), s)"
  by (simp add: block_command_def catchM_def seqM_def bindM_def transition_failed_session returnM_def)

lemma block_loop_fails:
  assumes "failed s \<or> (\<exists>cid \<in> set cids. \<exists>c. row_by c_id cid (commands (working s)) = Some c \<and> c_state c = APPROVED)"
  shows "fst (forM cids (block_command env) s) = Ok () \<and> failed (snd (forM cids (block_command env) s))"
  using assms
proof (induction cids arbitrary: s)
  case Nil
  then show ?case by (simp add: returnM_def)
next
  case (Cons x xs)
  obtain t where t: "block_command env x s = (Ok (), t)"
    using block_command_result [of env x s] by (metis prod.collapse)
  have "failed t \<or> (\<exists>cid \<in> set xs. \<exists>c. row_by c_id cid (commands (working t)) = Some c \<and> c_state c = APPROVED)"
  proof (cases "failed s")
    case True
    with t block_command_failed [OF True, of env x] show ?thesis by simp
  next
    case False
    with Cons.prems obtain cid c where c: "cid \<in> set (x # xs)" "row_by c_id cid (commands (working s)) = Some c"
      "c_state c = APPROVED" by auto
    show ?thesis
    proof (cases "x = cid")
      case True
      with c t False block_command_approved [of s cid c env] show ?thesis by auto
    next
      case neq: False
      with block_command_other [OF c(2) neq False, of env] t c show ?thesis by auto
    qed
  qed
  from Cons.IH [OF this] t show ?case by (simp add: seqM_def bindM_def)
qed

lemma tx_only_block_commands: "tx_only (block_commands env owner)"
  by (auto simp: block_commands_def block_command_def intro!: tx_only_rules tx_only_transition)

lemma block_commands_fails:
  assumes "\<not> failed s" "cid \<in> set (owner_queue owner (working s))"
    "row_by c_id cid (commands (working s)) = Some c" "c_state c = APPROVED"
  obtains t where "block_commands env owner s = (Ok (), t)" "failed t" "committed t = committed s"
proof -
  let ?q = "owner_queue owner (working s)"
  have "map d_id (filter (\<lambda>v. d_owner_id v = owner) (devices (working s))) \<noteq> []"
    using assms(2) by (auto simp: owner_queue_def filter_empty_conv)
  then have "block_commands env owner s = forM ?q (block_command env) s"
    using assms(1) by (simp add: block_commands_def prog_simps bindM_def owner_queue_def)
  moreover have "fst (forM ?q (block_command env) s) = Ok () \<and> failed (snd (forM ?q (block_command env) s))"
    using assms by (intro block_loop_fails) blast
  ultimately obtain t where t: "block_commands env owner s = (Ok (), t)" "failed t"
    by (metis prod.collapse)
  moreover from tx_onlyD [OF tx_only_block_commands t(1)] have "committed t = committed s"
    by (simp add: same_outside_def)
  ultimately show thesis by (intro that)
qed

lemma close_activation_failed:
  assumes "failed s"
  obtains t where "close_activation env owner reason actor x s = (Err PendingRollbackError, t)" "committed t = committed s"
proof -
  have "close_activation env owner reason actor x s = (Err PendingRollbackError, s\<lparr>entropy := Suc (entropy s)\<rparr>)"
    using assms by (simp add: close_activation_def create_audit_log_def repo_create_audit_log_def prog_defs)
  then show thesis by (rule that) simp
qed

text \<open>
  C24. The other side of activation: a per-command failure does abort it. When an approved command of
  the owner is among the commands to block, the trigger refuses \<open>APPROVED\<close> to
  \<open>BLOCKED_BY_EMERGENCY_STOP\<close>, the swallowed exception leaves the session unusable, and the whole
  activation raises and is rolled back: the stop is not recorded.
\<close>

theorem activate_fails_on_approved_command:
  assumes "\<not> stop_active owner (committed s)" "cid \<in> set (owner_queue owner (committed s))"
    "row_by c_id cid (commands (committed s)) = Some c" "c_state c = APPROVED"
    "owner \<in> u_id ` set (users (committed s))" "actor \<in> u_id ` set (users (committed s))"
    "gen_uuid env (entropy s) \<notin> es_id ` set (estops (committed s))"
  shows "\<exists>t. activate env owner reason actor s = (Err PendingRollbackError, t)
    \<and> committed t = committed s \<and> \<not> stop_active owner (committed t)"
proof -
  have rest: "\<exists>t. seqM (block_commands env owner) (close_activation env owner reason actor x) s1 =
      (Err PendingRollbackError, t) \<and> committed t = committed s1"
    if s1: "\<not> failed s1" "commands (working s1) = commands (committed s)" "devices (working s1) = devices (committed s)"
    for s1 and x :: "emergency_stop \<times> bool"
  proof -
    have "cid \<in> set (owner_queue owner (working s1))" using assms(2) s1 by (simp add: owner_queue_def)
    then obtain t where t: "block_commands env owner s1 = (Ok (), t)" "failed t" "committed t = committed s1"
      using block_commands_fails [OF s1(1)] assms(3,4) s1(2) by (metis (no_types))
    from close_activation_failed [OF t(2)] obtain u where
      "close_activation env owner reason actor x t = (Err PendingRollbackError, u)" "committed u = committed t" .
    with t show ?thesis by (simp add: seqM_def bindM_def)
  qed
  have "\<exists>t. activate_tx env owner reason actor (open_session s) = (Err PendingRollbackError, t)
      \<and> committed t = committed s"
  proof (cases "stop_row owner (committed s)")
    case None
    then have "owner \<notin> es_owner_id ` set (estops (committed s))" by (simp add: stop_row_def)
    with None assms(5,6,7) show ?thesis
      using rest [of "(open_session s)\<lparr>entropy := Suc (entropy s), working := (committed s)\<lparr>estops :=
          estops (committed s) @ [\<lparr>es_id = gen_uuid env (entropy s), es_owner_id = owner, es_active = True,
          es_reason = Some reason, es_activated_at = Some (clock s), es_released_at = None,
          es_activated_by = Some actor, es_released_by = None\<rparr>]\<rparr>\<rparr>"]
      by (simp add: activate_tx_def prog_simps bindM_def seqM_def Let_def insert_estop_def fk_ok_def)
  next
    case (Some r)
    then have "\<not> es_active r" "row_by es_owner_id owner (estops (committed s)) = Some r"
      using assms(1) by (simp_all add: stop_active_def stop_row_def)
    with Some assms(6) show ?thesis
      using rest [of "(open_session s)\<lparr>working := (committed s)\<lparr>estops := update_by es_owner_id owner
          (\<lambda>r. r\<lparr>es_active := True, es_reason := Some reason, es_activated_at := Some (clock s),
            es_activated_by := Some actor, es_released_at := None, es_released_by := None\<rparr>)
          (estops (committed s))\<rparr>\<rparr>"]
      by (simp add: activate_tx_def prog_simps bindM_def seqM_def Let_def update_estop_def fk_ok_def)
  qed
  then obtain t where "activate_tx env owner reason actor (open_session s) = (Err PendingRollbackError, t)"
    "committed t = committed s" by blast
  with assms(1) show ?thesis by (simp add: activate_def with_session_def bindM_def)
qed

theorem activate_fails_on_approved_command_witness:
  "\<exists>t. activate demo_env 1 ''fire'' 1 (demo_st (demo_db [demo_command 5 APPROVED])) = (Err PendingRollbackError, t)
     \<and> \<not> stop_active 1 (committed t)"
  using activate_fails_on_approved_command [of 1 "demo_st (demo_db [demo_command 5 APPROVED])" 5
      "demo_command 5 APPROVED" 1 demo_env "''fire''"]
  by (auto simp: stop_active_def stop_row_def owner_queue_def)

section \<open>Release and the check\<close>

lemma release_tx_run:
  assumes "stop_row owner (committed s) = Some r" "es_active r" "actor \<in> u_id ` set (users (committed s))"
    "fresh_ids env 2 (open_session s)"
  defines "row \<equiv> r\<lparr>es_active := False, es_released_at := Some (clock s), es_released_by := Some actor\<rparr>"
  shows "\<exists>a e t. release_tx env owner actor (open_session s) = (Ok (Some row), t)
    \<and> working t = committed t \<and> \<not> failed t \<and> cache t = cache s \<and> cache_up t = cache_up s \<and> clock t = clock s
    \<and> stop_row owner (committed t) = Some row
    \<and> commands (committed t) = commands (committed s) \<and> events (committed t) = events (committed s)
    \<and> audits (committed t) = audits (committed s) @ [a] \<and> al_action a = ACT_EMERGENCY_STOP_RELEASED
    \<and> outbox (committed t) = outbox (committed s) @ [e]
    \<and> o_subject e = subject_emergency_resume (uuid_str owner) \<and> o_status e = OUT_PENDING"
proof -
  let ?set = "\<lambda>r. r\<lparr>es_active := False, es_released_at := Some (clock s), es_released_by := Some actor\<rparr>"
  let ?stops = "update_by es_owner_id owner ?set (estops (committed s))"
  have row: "row_by es_owner_id owner (estops (committed s)) = Some r" using assms(1) by (simp add: stop_row_def)
  have new: "row_by es_owner_id owner ?stops = Some row"
    using keyed_update.row_by_update [of es_owner_id "\<lambda>_. ?set" owner owner undefined "estops (committed s)"] row
    by (simp add: keyed_update_def row_def)
  have f2: "fresh_ids env (Suc 1) (open_session s)" using assms(4) by (simp add: numeral_2_eq_2)
  have i: "gen_uuid env (entropy s) \<notin> ids_of (committed s)" using fresh_ids_now [OF f2] by simp
  have "fresh_ids env 1 ((open_session s)\<lparr>entropy := Suc (entropy s)\<rparr>)"
    by (rule fresh_ids_step [OF f2]) (auto simp: ids_of_def)
  then have j: "gen_uuid env (Suc (entropy s)) \<notin> ids_of (committed s)"
    using fresh_ids_now [of env 0 "(open_session s)\<lparr>entropy := Suc (entropy s)\<rparr>"] by simp
  have ids: "gen_uuid env (entropy s) \<notin> al_id ` set (audits (committed s))"
    "gen_uuid env (Suc (entropy s)) \<notin> o_id ` set (outbox (committed s))"
    using i j by (simp_all add: ids_of_def)
  have "\<exists>a e. release_tx env owner actor (open_session s) = (Ok (Some row),
      (open_session s)\<lparr>working := (committed s)\<lparr>estops := ?stops, audits := audits (committed s) @ [a],
         outbox := outbox (committed s) @ [e]\<rparr>, entropy := entropy s + 2, committed := (committed s)\<lparr>estops := ?stops,
         audits := audits (committed s) @ [a], outbox := outbox (committed s) @ [e]\<rparr>\<rparr>)
      \<and> al_action a = ACT_EMERGENCY_STOP_RELEASED \<and> o_subject e = subject_emergency_resume (uuid_str owner)
      \<and> o_status e = OUT_PENDING"
    unfolding release_tx_def
    using ids assms(1,2,3) row
    by (intro exI [of _ "audit_row (gen_uuid env (entropy s)) (clock s) CAT_EMERGENCY_STOP
          ACT_EMERGENCY_STOP_RELEASED ''success'' (Some actor) None None None
          (JObj [(''owner_id'', JStr (uuid_str owner))])"]
        exI [of _ "new_outbox_event (gen_uuid env (Suc (entropy s))) (clock s) ''emergency_stop.released''
          ''owner'' (uuid_str owner) (subject_emergency_resume (uuid_str owner))
          (stop_payload owner False None (clock s))"])
      (simp add: prog_simps bindM_def seqM_def Let_def update_estop_def fk_ok_def create_audit_log_run
        audit_results_def add_event_run row_def commit_def returnM_def audit_row_def)
  then obtain a e where
    "release_tx env owner actor (open_session s) = (Ok (Some row),
      (open_session s)\<lparr>working := (committed s)\<lparr>estops := ?stops, audits := audits (committed s) @ [a],
         outbox := outbox (committed s) @ [e]\<rparr>, entropy := entropy s + 2, committed := (committed s)\<lparr>estops := ?stops,
         audits := audits (committed s) @ [a], outbox := outbox (committed s) @ [e]\<rparr>\<rparr>)"
    "al_action a = ACT_EMERGENCY_STOP_RELEASED" "o_subject e = subject_emergency_resume (uuid_str owner)"
    "o_status e = OUT_PENDING"
    by blast
  with new show ?thesis by (intro exI [of _ a] exI [of _ e]) (simp add: stop_row_def)
qed

text \<open>
  Release. For an owner with an active stop, \<open>release\<close> makes the stop inactive, leaves every
  command and every state event as they are (blocked commands do not resume), appends one audit row
  and one pending outbox event, and, when the cache is reachable, the next \<open>is_active\<close> answers no.
\<close>

lemma release_clears_stop:
  assumes "stop_active owner (committed s)" "actor \<in> u_id ` set (users (committed s))"
    "fresh_ids env 2 (open_session s)" "cache_up s"
  shows "\<exists>row t a e. release env owner actor s = (Ok (Some row), t) \<and> \<not> stop_active owner (committed t)
    \<and> commands (committed t) = commands (committed s) \<and> events (committed t) = events (committed s)
    \<and> audits (committed t) = audits (committed s) @ [a] \<and> al_action a = ACT_EMERGENCY_STOP_RELEASED
    \<and> outbox (committed t) = outbox (committed s) @ [e]
    \<and> o_subject e = subject_emergency_resume (uuid_str owner) \<and> o_status e = OUT_PENDING
    \<and> is_active env owner t = (Ok False, t)"
proof -
  obtain r where r: "stop_row owner (committed s) = Some r" "es_active r"
    using assms(1) by (auto simp: stop_active_def split: option.splits)
  let ?row = "r\<lparr>es_active := False, es_released_at := Some (clock s), es_released_by := Some actor\<rparr>"
  obtain a e t where t: "release_tx env owner actor (open_session s) = (Ok (Some ?row), t)"
    "working t = committed t" "\<not> failed t" "cache t = cache s" "cache_up t = cache_up s" "clock t = clock s"
    "stop_row owner (committed t) = Some ?row"
    "commands (committed t) = commands (committed s)" "events (committed t) = events (committed s)"
    "audits (committed t) = audits (committed s) @ [a]" "al_action a = ACT_EMERGENCY_STOP_RELEASED"
    "outbox (committed t) = outbox (committed s) @ [e]"
    "o_subject e = subject_emergency_resume (uuid_str owner)" "o_status e = OUT_PENDING"
    using release_tx_run [OF r assms(2,3)] by blast
  define u where "u = t\<lparr>cache := kv_del (prefix_key env (stop_key owner)) (cache s)\<rparr>"
  have run: "release env owner actor s = (Ok (Some ?row), u)"
    using t(1-5) assms(4)
    by (simp add: release_def with_session_def bindM_def seqM_def valkey_delete_def returnM_def u_def)
  have na: "\<not> stop_active owner (committed u)" using t(7) by (simp add: u_def stop_active_def)
  have "kv_get (clock u) (prefix_key env (stop_key owner)) (cache u) = None"
    by (simp add: u_def kv.get_del)
  then have "is_active env owner u = is_active_db env owner u" by (intro is_active_uncached) simp
  with na have "is_active env owner u = (Ok False, u)"
    by (cases rule: is_active_db_cases [of env owner u]) auto
  with run na t(8-14) show ?thesis
    by (intro exI [of _ ?row] exI [of _ u] exI [of _ a] exI [of _ e]) (simp add: u_def)
qed

definition demo_stop :: emergency_stop where
  "demo_stop = \<lparr>es_id = 9, es_owner_id = 1, es_active = True, es_reason = None, es_activated_at = None,
     es_released_at = None, es_activated_by = None, es_released_by = None\<rparr>"

definition demo_stopped :: "command list \<Rightarrow> db" where
  "demo_stopped cmds = (demo_db cmds)\<lparr>estops := [demo_stop]\<rparr>"

lemma release_clears_stop_witness:
  "\<exists>row t. release demo_env 1 1 (demo_st (demo_stopped [demo_command 5 BLOCKED_BY_EMERGENCY_STOP])) = (Ok (Some row), t)
     \<and> map c_state (commands (committed t)) = [BLOCKED_BY_EMERGENCY_STOP]
     \<and> is_active demo_env 1 t = (Ok False, t)"
proof -
  let ?s = "demo_st (demo_stopped [demo_command 5 BLOCKED_BY_EMERGENCY_STOP])"
  have "stop_active 1 (committed ?s)"
    by (simp add: stop_active_def stop_row_def demo_stopped_def demo_stop_def)
  moreover have "fresh_ids demo_env 2 (open_session ?s)"
    by (rule demo_fresh) (auto simp: ids_of_def demo_stopped_def demo_stop_def)
  moreover have "1 \<in> u_id ` set (users (committed ?s))" "cache_up ?s" by (simp_all add: demo_stopped_def)
  ultimately obtain row t where "release demo_env 1 1 ?s = (Ok (Some row), t)"
    "commands (committed t) = commands (committed ?s)" "is_active demo_env 1 t = (Ok False, t)"
    using release_clears_stop [of 1 ?s 1 demo_env] by blast
  then show ?thesis by (intro exI [of _ row] exI [of _ t]) (simp add: demo_stopped_def)
qed

end
