(* ===== verification/Registry.thy ===== *)
theory Registry
  imports Database "HOL-Library.AList"
begin

text \<open>
  \<^verbatim>\<open>app/commands/registry.py\<close> and the parameter schemas of \<^verbatim>\<open>app/commands/schemas.py\<close>: which commands
  exist, their risk, whether they need approval, and which parameters each accepts. Pydantic's scalar
  conversions are parameters of the environment; the constraints of the fields are those of the
  source. Unknown keys are ignored, Pydantic's default.
\<close>

datatype param_schema =
    PingParams | DeviceStatusParams | OpenTestAppParams | TakeScreenshotParams | EmergencyStopTestParams

record command_definition =
  cd_command_type :: string
  cd_risk_level :: risk_level
  cd_parameter_schema :: param_schema
  cd_requires_approval :: bool
  cd_delayed_execution_allowed :: bool

type_synonym registry = "(string \<times> command_definition) list"

definition register :: "command_definition \<Rightarrow> registry \<Rightarrow> registry" where
  "register d r = AList.update (cd_command_type d) d r"

definition registry_get :: "registry \<Rightarrow> string \<Rightarrow> command_definition option" where
  "registry_get r command_type = map_of r command_type"

definition command_registry :: registry where
  "command_registry =
     fold register
       [\<lparr>cd_command_type = ''system.ping'', cd_risk_level = RISK_LOW, cd_parameter_schema = PingParams,
         cd_requires_approval = False, cd_delayed_execution_allowed = True\<rparr>,
        \<lparr>cd_command_type = ''device.get_status'', cd_risk_level = RISK_LOW,
         cd_parameter_schema = DeviceStatusParams, cd_requires_approval = False,
         cd_delayed_execution_allowed = True\<rparr>,
        \<lparr>cd_command_type = ''app.open_test'', cd_risk_level = RISK_MEDIUM,
         cd_parameter_schema = OpenTestAppParams, cd_requires_approval = False,
         cd_delayed_execution_allowed = True\<rparr>,
        \<lparr>cd_command_type = ''system.take_test_screenshot'', cd_risk_level = RISK_MEDIUM,
         cd_parameter_schema = TakeScreenshotParams, cd_requires_approval = False,
         cd_delayed_execution_allowed = True\<rparr>,
        \<lparr>cd_command_type = ''system.emergency_stop_test'', cd_risk_level = RISK_HIGH,
         cd_parameter_schema = EmergencyStopTestParams, cd_requires_approval = True,
         cd_delayed_execution_allowed = False\<rparr>]
       []"

section \<open>Parameter schemas\<close>

text \<open>A field with a default, and a field without one.\<close>

definition field_default :: "(json \<Rightarrow> bool) \<Rightarrow> string \<Rightarrow> dict \<Rightarrow> bool" where
  "field_default ok k d = (case map_of d k of None \<Rightarrow> True | Some v \<Rightarrow> ok v)"

definition field_required :: "(json \<Rightarrow> bool) \<Rightarrow> string \<Rightarrow> dict \<Rightarrow> bool" where
  "field_required ok k d = (case map_of d k of None \<Rightarrow> False | Some v \<Rightarrow> ok v)"

definition str_len :: "nat \<Rightarrow> nat \<Rightarrow> json \<Rightarrow> bool" where
  "str_len lo hi v = (case v of JStr x \<Rightarrow> lo \<le> length x \<and> length x \<le> hi | _ \<Rightarrow> False)"

definition is_str :: "json \<Rightarrow> bool" where
  "is_str v = (case v of JStr _ \<Rightarrow> True | _ \<Rightarrow> False)"

definition str_list :: "json \<Rightarrow> bool" where
  "str_list v = (case v of JList xs \<Rightarrow> list_all is_str xs | _ \<Rightarrow> False)"

definition optional_field :: "(json \<Rightarrow> bool) \<Rightarrow> json \<Rightarrow> bool" where
  "optional_field ok v = (v = JNull \<or> ok v)"

definition int_between :: "env \<Rightarrow> int \<Rightarrow> int \<Rightarrow> json \<Rightarrow> bool" where
  "int_between env lo hi v = (case pyd_int env v of None \<Rightarrow> False | Some n \<Rightarrow> lo \<le> n \<and> n \<le> hi)"

definition DeviceStatusParams_ok :: "env \<Rightarrow> dict \<Rightarrow> bool" where
  "DeviceStatusParams_ok env d =
     (field_default (\<lambda>v. pyd_bool env v \<noteq> None) ''include_disk'' d
      \<and> field_default (\<lambda>v. pyd_bool env v \<noteq> None) ''include_memory'' d
      \<and> field_default (\<lambda>v. pyd_bool env v \<noteq> None) ''include_network'' d)"

definition OpenTestAppParams_ok :: "dict \<Rightarrow> bool" where
  "OpenTestAppParams_ok d =
     (field_required (str_len 1 255) ''app_bundle_id'' d \<and> field_default str_list ''args'' d)"

definition TakeScreenshotParams_ok :: "env \<Rightarrow> dict \<Rightarrow> bool" where
  "TakeScreenshotParams_ok env d =
     (field_default (optional_field (\<lambda>v. pyd_int env v \<noteq> None)) ''display_id'' d
      \<and> field_default (\<lambda>v. v = JStr ''png'' \<or> v = JStr ''jpeg'') ''format'' d
      \<and> field_default (optional_field (int_between env 1 100)) ''quality'' d)"

definition EmergencyStopTestParams_ok :: "dict \<Rightarrow> bool" where
  "EmergencyStopTestParams_ok d = field_required (str_len 1 500) ''reason'' d"

fun params_ok :: "env \<Rightarrow> param_schema \<Rightarrow> dict \<Rightarrow> bool" where
  "params_ok env PingParams d = True"
| "params_ok env DeviceStatusParams d = DeviceStatusParams_ok env d"
| "params_ok env OpenTestAppParams d = OpenTestAppParams_ok d"
| "params_ok env TakeScreenshotParams d = TakeScreenshotParams_ok env d"
| "params_ok env EmergencyStopTestParams d = EmergencyStopTestParams_ok d"

section \<open>Facts\<close>

text \<open>The registry is a finite map with the laws of a dict.\<close>

locale registry_spec =
  fixes add :: "'d \<Rightarrow> 'r \<Rightarrow> 'r" and get :: "'r \<Rightarrow> string \<Rightarrow> 'd option" and name :: "'d \<Rightarrow> string" and empty :: 'r
  assumes get_empty: "get empty k = None"
    and get_add: "get (add d r) k = (if k = name d then Some d else get r k)"
begin

lemma get_fold:
  "get (fold add ds empty) k = find (\<lambda>d. name d = k) (rev ds)"
proof (induction ds rule: rev_induct)
  case Nil
  then show ?case by (simp add: get_empty)
next
  case (snoc d ds)
  then show ?case by (auto simp: get_add)
qed

lemma get_name: "get (fold add ds empty) k = Some d \<Longrightarrow> name d = k \<and> d \<in> set ds"
  by (auto simp: get_fold find_Some_iff in_set_conv_nth rev_nth)
    (metis diff_Suc_less length_rev list.size(3) not_less_zero rev_nth zero_less_iff_neq_zero)

end

interpretation reg: registry_spec register registry_get cd_command_type "[]"
  by unfold_locales (simp_all add: register_def registry_get_def update_conv' fun_upd_def)

end
