(* ===== verification/Approvals.thy ===== *)
theory Approvals
  imports EmergencyStop Registry
begin

text \<open>
  \<^verbatim>\<open>app/approvals\<close>: the repository, the service and the routes. \<open>decide_approval\<close> runs the decision,
  the transitions of the command, the outbox event and the audit row in one transaction.

  The nonce comparison \<^verbatim>\<open>hmac.compare_digest\<close> is equality of the two digests.
\<close>

section \<open>Repository\<close>

definition update_approval :: "uuid \<Rightarrow> (approval \<Rightarrow> approval) \<Rightarrow> db \<Rightarrow> db" where
  "update_approval i f d = d\<lparr>approvals := update_by a_id i f (approvals d)\<rparr>"

definition approval_row :: "uuid \<Rightarrow> db \<Rightarrow> approval option" where
  "approval_row i d = row_by a_id i (approvals d)"

definition new_approval ::
  "env \<Rightarrow> uuid \<Rightarrow> datetime \<Rightarrow> string \<Rightarrow> uuid \<Rightarrow> uuid \<Rightarrow> risk_level \<Rightarrow> string \<Rightarrow> string \<Rightarrow> int \<Rightarrow> approval" where
  "new_approval env i now decision_nonce command_id owner_id risk_level action_title action_description
       expires_in_minutes =
     \<lparr>a_id = i, a_command_id = command_id, a_owner_id = owner_id, a_risk_level = risk_level,
      a_action_title = action_title, a_action_description = action_description,
      a_status = APPROVAL_PENDING, a_decision_nonce_hash = sha256 env decision_nonce,
      a_expires_at = now + timedelta_minutes expires_in_minutes, a_decided_at = None,
      a_decision_note = None, a_created_at = now\<rparr>"

definition repo_create_approval ::
  "env \<Rightarrow> uuid \<Rightarrow> uuid \<Rightarrow> risk_level \<Rightarrow> string \<Rightarrow> string \<Rightarrow> int \<Rightarrow> (approval \<times> string) prog" where
  "repo_create_approval env command_id owner_id risk_level action_title action_description expires_in_minutes =
     bindM (token_urlsafe env) (\<lambda>decision_nonce.
     bindM (getM clock) (\<lambda>now.
     bindM (uuid4 env) (\<lambda>i.
       let a = new_approval env i now decision_nonce command_id owner_id risk_level action_title
                 action_description expires_in_minutes
       in seqM (flush (insert_approval a)) (returnM (a, decision_nonce)))))"

definition repo_list_approvals ::
  "uuid \<Rightarrow> string option \<Rightarrow> string option \<Rightarrow> nat \<Rightarrow> nat \<Rightarrow> (approval list \<times> nat) prog" where
  "repo_list_approvals owner_id status risk_level page page_size =
     select (\<lambda>d.
       let rows = filter (\<lambda>a. a_owner_id a = owner_id
             \<and> (case status of None \<Rightarrow> True | Some x \<Rightarrow> x = [] \<or> approval_status_value (a_status a) = x)
             \<and> (case risk_level of None \<Rightarrow> True | Some x \<Rightarrow> x = [] \<or> risk_level_value (a_risk_level a) = x))
             (approvals d)
       in (paginate page page_size (newest_first a_created_at rows), length rows))"

text \<open>
  The repository's own \<open>decide_approval\<close>, which the service does not call. It names
  \<^verbatim>\<open>hashlib.compare_digest\<close>, an attribute the module does not have.
\<close>

definition repo_decide_approval ::
  "env \<Rightarrow> uuid \<Rightarrow> uuid \<Rightarrow> string \<Rightarrow> string \<Rightarrow> string option \<Rightarrow> (bool \<times> string option) prog" where
  "repo_decide_approval env approval_id owner_id decision nonce note =
     bindM (select (approval_row approval_id)) (\<lambda>approval.
     bindM (getM clock) (\<lambda>now.
       case approval of
         None \<Rightarrow> returnM (False, Some ''Approval not found'')
       | Some a \<Rightarrow>
           if a_owner_id a \<noteq> owner_id then returnM (False, Some ''Not authorized'')
           else if a_status a \<noteq> APPROVAL_PENDING then
             bindM (liftM (dot_value (orm_enum env) approval_status_value (a_status a))) (\<lambda>v.
               returnM (False, Some (''Approval already '' @ v)))
           else if a_expires_at a < now then
             seqM (flush (\<lambda>d. Ok (update_approval approval_id (\<lambda>a. a\<lparr>a_status := APPROVAL_EXPIRED\<rparr>) d)))
             (returnM (False, Some ''Approval has expired''))
           else raiseM (AttributeError ''compare_digest'')))"

definition expire_rows :: "datetime \<Rightarrow> approval list \<Rightarrow> approval list" where
  "expire_rows now rows =
     map (\<lambda>a. if a_status a = APPROVAL_PENDING \<and> a_expires_at a < now
              then a\<lparr>a_status := APPROVAL_EXPIRED\<rparr> else a) rows"

definition repo_expire_pending_approvals :: "nat prog" where
  "repo_expire_pending_approvals =
     bindM (getM clock) (\<lambda>now.
     bindM (select (\<lambda>d. length (filter (\<lambda>a. a_status a = APPROVAL_PENDING \<and> a_expires_at a < now)
              (approvals d)))) (\<lambda>rowcount.
     seqM (flush (\<lambda>d. Ok (d\<lparr>approvals := expire_rows now (approvals d)\<rparr>)))
     (returnM rowcount)))"

section \<open>Service\<close>

definition create_approval ::
  "env \<Rightarrow> uuid \<Rightarrow> uuid \<Rightarrow> string \<Rightarrow> string \<Rightarrow> int \<Rightarrow> (approval \<times> string) option prog" where
  "create_approval env command_id owner_id action_title action_description expires_in_minutes =
     with_session
       (bindM (select (\<lambda>d. row_by c_id command_id (commands d))) (\<lambda>command.
          case command of
            None \<Rightarrow> returnM None
          | Some c \<Rightarrow>
              bindM (select (\<lambda>d. row_by d_id (c_device_id c) (devices d))) (\<lambda>device.
                case device of
                  None \<Rightarrow> returnM None
                | Some v \<Rightarrow>
                    if d_owner_id v \<noteq> owner_id then returnM None
                    else if c_state c \<noteq> AWAITING_APPROVAL then returnM None
                    else
                      (let risk_level = (case registry_get command_registry (c_command_type c) of
                                           None \<Rightarrow> RISK_MEDIUM | Some def \<Rightarrow> cd_risk_level def)
                       in bindM (repo_create_approval env command_id owner_id risk_level
                                   (if action_title = [] then ''Approve '' @ c_command_type c else action_title)
                                   (if action_description = []
                                    then ''Approve command '' @ c_command_type c @ '' for device ''
                                         @ uuid_str (c_device_id c)
                                    else action_description)
                                   expires_in_minutes) (\<lambda>r.
                          seqM commit (returnM (Some r)))))))"

definition list_approvals ::
  "uuid \<Rightarrow> string option \<Rightarrow> string option \<Rightarrow> nat \<Rightarrow> nat \<Rightarrow> (approval list \<times> nat) prog" where
  "list_approvals owner_id status risk_level page page_size =
     with_session (repo_list_approvals owner_id status risk_level page page_size)"

definition get_approval :: "uuid \<Rightarrow> approval option prog" where
  "get_approval approval_id = with_session (select (approval_row approval_id))"

text \<open>The payload of the \<open>command.queued\<close> event, written by this service and by the command service.\<close>

definition queued_payload :: "command \<Rightarrow> uuid \<Rightarrow> dict" where
  "queued_payload c device_id =
     [(''command_id'', JStr (uuid_str (c_id c))),
      (''device_id'', JStr (uuid_str device_id)),
      (''command_type'', JStr (c_command_type c)),
      (''parameters'', JObj (c_parameters c)),
      (''expires_at'', json_opt (\<lambda>t. JStr (isoformat t)) (c_expires_at c)),
      (''risk_level'', JStr (risk_level_value (c_risk_level c)))]"

definition add_queued_event :: "env \<Rightarrow> command \<Rightarrow> uuid \<Rightarrow> outbox_event prog" where
  "add_queued_event env c device_id =
     add_event env ''command.queued'' ''command'' (uuid_str (c_id c)) (command_ready (uuid_str device_id))
       (queued_payload c device_id)"

text \<open>\<^verbatim>\<open>except StateTransitionError as e: raise ApiError(INVALID_STATE, str(e), 409)\<close>\<close>

definition invalid_state :: "exn \<Rightarrow> 'a prog" where
  "invalid_state e =
     (case e of
        StateTransitionError cid old new \<Rightarrow>
          raiseM (ApiError INVALID_STATE
            (''Cannot transition '' @ command_state_value old @ '' -> '' @ command_state_value new) 409)
      | _ \<Rightarrow> raiseM e)"

definition queue_approved :: "env \<Rightarrow> approval \<Rightarrow> unit prog" where
  "queue_approved env a =
     seqM (catchM
       (seqM (transition_command env (a_command_id a) APPROVED ''approval'' None)
          (transition_command env (a_command_id a) QUEUED ''approval'' None))
       invalid_state)
     (bindM (select (\<lambda>d. row_by c_id (a_command_id a) (commands d))) (\<lambda>command.
        case command of
          None \<Rightarrow> returnM ()
        | Some c \<Rightarrow>
            bindM (select (\<lambda>d. row_by d_id (c_device_id c) (devices d))) (\<lambda>device.
              case device of
                None \<Rightarrow> returnM ()
              | Some v \<Rightarrow> seqM (add_queued_event env c (d_id v)) (returnM ()))))"

definition reject_command_of :: "env \<Rightarrow> approval \<Rightarrow> unit prog" where
  "reject_command_of env a =
     seqM (catchM (transition_command env (a_command_id a) REJECTED ''approval'' None) invalid_state)
     (returnM ())"

definition decided :: "datetime \<Rightarrow> bool \<Rightarrow> string option \<Rightarrow> approval \<Rightarrow> approval" where
  "decided now approve note a =
     a\<lparr>a_status := (if approve then APPROVAL_APPROVED else APPROVAL_REJECTED), a_decided_at := Some now,
       a_decision_note := note\<rparr>"

definition decide_tx ::
  "env \<Rightarrow> uuid \<Rightarrow> uuid \<Rightarrow> string \<Rightarrow> string \<Rightarrow> string option \<Rightarrow> (uuid \<times> string \<times> datetime option) option prog" where
  "decide_tx env approval_id owner_id decision nonce note =
     bindM (select (approval_row approval_id)) (\<lambda>approval.
     bindM (getM clock) (\<lambda>now.
       case approval of
         None \<Rightarrow> returnM None
       | Some a \<Rightarrow>
           if a_owner_id a \<noteq> owner_id then returnM None
           else if a_status a \<noteq> APPROVAL_PENDING then
             bindM (liftM (dot_value (orm_enum env) approval_status_value (a_status a))) (\<lambda>v.
               raiseM (ApiError APPROVAL_ALREADY_DECIDED (''Approval already '' @ v) 400))
           else if a_expires_at a < now then
             seqM (flush (\<lambda>d. Ok (update_approval approval_id (\<lambda>a. a\<lparr>a_status := APPROVAL_EXPIRED\<rparr>) d)))
             (seqM commit
             (raiseM (ApiError APPROVAL_EXPIRED_CODE ''Approval has expired'' 400)))
           else if sha256 env nonce \<noteq> a_decision_nonce_hash a then
             raiseM (ApiError INVALID_DECISION_NONCE ''Invalid decision nonce'' 400)
           else
             (let approve = (decision = ''approve'') in
              seqM (flush (\<lambda>d. Ok (update_approval approval_id (decided now approve note) d)))
              (seqM
                (if approve then
                   bindM (is_active env owner_id) (\<lambda>active.
                     if active
                     then raiseM (ApiError EMERGENCY_STOP_ACTIVE
                            ''Emergency stop is active. Cannot queue commands.'' 423)
                     else queue_approved env a)
                 else reject_command_of env a)
              (seqM (create_audit_log env CAT_APPROVAL
                       (if approve then ACT_APPROVAL_APPROVED else ACT_APPROVAL_REJECTED) ''success''
                       (Some owner_id) None (Some (a_command_id a)) (Some approval_id)
                       (case note of None \<Rightarrow> JNull
                        | Some x \<Rightarrow> if x = [] then JNull else JObj [(''note'', JStr x)]))
              (seqM commit
              (returnM (Some (approval_id, approval_status_value (a_status (decided now approve note a)),
                 Some now)))))))))"

definition decide_approval ::
  "env \<Rightarrow> uuid \<Rightarrow> uuid \<Rightarrow> string \<Rightarrow> string \<Rightarrow> string option \<Rightarrow> (uuid \<times> string \<times> datetime option) option prog" where
  "decide_approval env approval_id owner_id decision nonce note =
     with_session (decide_tx env approval_id owner_id decision nonce note)"

definition expire_pending_approvals :: "nat prog" where
  "expire_pending_approvals =
     with_session (bindM repo_expire_pending_approvals (\<lambda>count. seqM commit (returnM count)))"

section \<open>Routes\<close>

record decision_body =
  db_nonce :: string
  db_note :: "string option"

definition decision_body_valid :: "decision_body \<Rightarrow> bool" where
  "decision_body_valid b =
     (32 \<le> length (db_nonce b) \<and> length (db_nonce b) \<le> 512
      \<and> (case db_note b of None \<Rightarrow> True | Some x \<Rightarrow> length x \<le> 2000))"

definition route_decide ::
  "env \<Rightarrow> string \<Rightarrow> uuid \<Rightarrow> decision_body \<Rightarrow> uuid \<Rightarrow> (uuid \<times> string \<times> datetime option) prog" where
  "route_decide env decision approval_id request current_user =
     (if \<not> decision_body_valid request then raiseM PydanticValidationError
      else
        bindM (decide_approval env approval_id current_user decision (db_nonce request) (db_note request))
          (\<lambda>response.
             case response of
               None \<Rightarrow> raiseM (ApiError APPROVAL_NOT_FOUND ''Approval not found or cannot be decided'' 404)
             | Some r \<Rightarrow> returnM r))"

definition route_approve :: "env \<Rightarrow> uuid \<Rightarrow> decision_body \<Rightarrow> uuid \<Rightarrow> (uuid \<times> string \<times> datetime option) prog" where
  "route_approve env = route_decide env ''approve''"

definition route_reject :: "env \<Rightarrow> uuid \<Rightarrow> decision_body \<Rightarrow> uuid \<Rightarrow> (uuid \<times> string \<times> datetime option) prog" where
  "route_reject env = route_decide env ''reject''"

definition route_get_approval :: "uuid \<Rightarrow> uuid \<Rightarrow> approval prog" where
  "route_get_approval approval_id current_user =
     bindM (get_approval approval_id) (\<lambda>approval.
       case approval of
         None \<Rightarrow> raiseM (ApiError NOT_FOUND ''Approval not found'' 404)
       | Some a \<Rightarrow> if a_owner_id a \<noteq> current_user
                   then raiseM (ApiError NOT_FOUND ''Approval not found'' 404) else returnM a)"

definition route_list_approvals ::
  "approval_status option \<Rightarrow> string option \<Rightarrow> nat \<Rightarrow> nat \<Rightarrow> uuid \<Rightarrow> (approval list \<times> nat \<times> bool \<times> bool) prog" where
  "route_list_approvals status risk_level page page_size current_user =
     (if page < 1 \<or> page_size < 1 \<or> 100 < page_size then raiseM PydanticValidationError
      else
        bindM (list_approvals current_user (map_option approval_status_value status) risk_level page page_size)
          (\<lambda>(approvals, n).
             returnM (approvals, n, has_next page page_size n, has_prev page)))"

section \<open>Approving\<close>

lemma fresh_event_id: "fresh_ids env (Suc n) s \<Longrightarrow> gen_uuid env (entropy s) \<notin> o_id ` set (outbox (working s))"
  by (auto dest: fresh_ids_now simp: ids_of_def)

lemma fresh_audit_id: "fresh_ids env (Suc n) s \<Longrightarrow> gen_uuid env (entropy s) \<notin> al_id ` set (audits (working s))"
  by (auto dest: fresh_ids_now simp: ids_of_def)

definition queued_event :: "uuid \<Rightarrow> datetime \<Rightarrow> command \<Rightarrow> uuid \<Rightarrow> outbox_event" where
  "queued_event i now c device_id =
     new_outbox_event i now ''command.queued'' ''command'' (uuid_str (c_id c))
       (command_ready (uuid_str device_id)) (queued_payload c device_id)"

lemma queued_payload_stamp [simp]: "queued_payload (stamp now new md c) v = queued_payload c v"
  by (simp add: queued_payload_def)

lemma queue_approved_run:
  assumes "\<not> failed s" "row_by c_id (a_command_id a) (commands (working s)) = Some c"
    "c_state c = AWAITING_APPROVAL" "texts_fit c" "row_by d_id (c_device_id c) (devices (working s)) = Some v"
    "fresh_ids env (3 + n) s"
  shows "\<exists>i j k t. queue_approved env a s = (Ok (), t)
    \<and> t = s\<lparr>working := (after_two i j (clock s) (a_command_id a) AWAITING_APPROVAL APPROVED QUEUED ''approval''
          (working s))\<lparr>outbox := outbox (working s) @ [queued_event k (clock s) c (d_id v)]\<rparr>, entropy := entropy s + 3\<rparr>
    \<and> fresh_ids env n t"
proof -
  let ?cid = "a_command_id a" and ?now = "clock s"
  have eff: "effective (c_state c) APPROVED" "effective APPROVED QUEUED"
    using assms(3) by (simp_all add: effective_def permitted_def validate_command_state_transition_def)
  have f: "fresh_ids env (2 + Suc n) s" using assms(6) by (simp add: numeral_3_eq_3)
  let ?c2 = "stamp ?now QUEUED None (stamp ?now APPROVED None c)"
  obtain i j s2 where s2: "seqM (transition_command env ?cid APPROVED ''approval'' None)
      (transition_command env ?cid QUEUED ''approval'' None) s = (Ok (Some ?c2), s2)"
    "s2 = s\<lparr>working := after_two i j ?now ?cid (c_state c) APPROVED QUEUED ''approval'' (working s),
        entropy := entropy s + 2\<rparr>"
    "fresh_ids env (Suc n) s2" "row_by c_id ?cid (commands (working s2)) = Some ?c2"
    by (rule two_transitions [OF assms(1,2) eff assms(4) f])
  have nf: "\<not> failed s2" using assms(1) by (simp add: s2(2))
  let ?k = "gen_uuid env (entropy s2)"
  have dev: "row_by d_id (c_device_id ?c2) (devices (working s2)) = Some v"
    using assms(5) by (simp add: s2(2) after_two_def)
  define t where "t = s2\<lparr>working := (working s2)\<lparr>outbox := outbox (working s2) @
      [queued_event ?k (clock s2) ?c2 (d_id v)]\<rparr>, entropy := Suc (entropy s2)\<rparr>"
  have ev: "add_queued_event env ?c2 (d_id v) s2 = (Ok (queued_event ?k (clock s2) ?c2 (d_id v)), t)"
    using add_event_run [OF nf fresh_event_id [OF s2(3)]]
    by (simp add: add_queued_event_def queued_event_def t_def)
  have tr: "catchM (seqM (transition_command env ?cid APPROVED ''approval'' None)
      (transition_command env ?cid QUEUED ''approval'' None)) invalid_state s = (Ok (Some ?c2), s2)"
    by (simp add: catchM_def s2(1))
  have sel: "bindM (select (\<lambda>d. row_by c_id ?cid (commands d))) g s2 = g (Some ?c2) s2" for g :: "_ \<Rightarrow> unit prog"
    using nf s2(4) by (simp add: bindM_def select_def)
  have sel': "bindM (select (\<lambda>d. row_by d_id (c_device_id ?c2) (devices d))) g s2 = g (Some v) s2" for g :: "_ \<Rightarrow> unit prog"
    using nf dev by (simp add: bindM_def select_def)
  have "queue_approved env a s = (Ok (), t)"
    unfolding queue_approved_def
    by (simp add: seqM_Ok tr sel sel' ev returnM_def del: stamp_fields)
  moreover have "t = s\<lparr>working := (after_two i j ?now ?cid AWAITING_APPROVAL APPROVED QUEUED ''approval''
          (working s))\<lparr>outbox := outbox (working s) @ [queued_event ?k ?now c (d_id v)]\<rparr>, entropy := entropy s + 3\<rparr>"
    by (simp add: t_def s2(2) after_two_def queued_event_def assms(3))
  moreover have "fresh_ids env n t"
    by (rule fresh_ids_step [OF s2(3)]) (auto simp: t_def ids_of_def queued_event_def)
  ultimately show ?thesis by blast
qed

lemma row_by_decided:
  "row_by a_id k (update_by a_id i (decided now b note) rows) =
     (if k = i then map_option (decided now b note) (row_by a_id k rows) else row_by a_id k rows)"
  by (rule keyed_update.row_by_update [of a_id "\<lambda>_. decided now b note"]) (simp add: keyed_update_def decided_def)

lemma a_ids_decided: "a_id ` set (update_by a_id i (decided now b note) rows) = a_id ` set rows"
  by (rule image_update_by) (simp add: decided_def)

text \<open>An approval that may be decided now by its owner with this nonce.\<close>

definition decidable :: "env \<Rightarrow> uuid \<Rightarrow> uuid \<Rightarrow> string \<Rightarrow> st \<Rightarrow> approval \<Rightarrow> bool" where
  "decidable env aid owner nonce s a =
     (approval_row aid (committed s) = Some a \<and> a_owner_id a = owner \<and> a_status a = APPROVAL_PENDING
      \<and> clock s \<le> a_expires_at a \<and> sha256 env nonce = a_decision_nonce_hash a)"

lemma decide_tx_approve:
  assumes "decidable env aid owner nonce s a"
  shows "decide_tx env aid owner ''approve'' nonce note (open_session s) =
    seqM (bindM (is_active env owner) (\<lambda>active. if active
             then raiseM (ApiError EMERGENCY_STOP_ACTIVE ''Emergency stop is active. Cannot queue commands.'' 423)
             else queue_approved env a))
      (seqM (create_audit_log env CAT_APPROVAL ACT_APPROVAL_APPROVED ''success'' (Some owner) None
               (Some (a_command_id a)) (Some aid)
               (case note of None \<Rightarrow> JNull | Some x \<Rightarrow> if x = [] then JNull else JObj [(''note'', JStr x)]))
      (seqM commit (returnM (Some (aid, ''approved'', Some (clock s))))))
      ((open_session s)\<lparr>working := update_approval aid (decided (clock s) True note) (committed s)\<rparr>)"
  using assms
  by (simp add: decide_tx_def decidable_def prog_simps bindM_def seqM_def Let_def decided_def)

text \<open>
  C12. Approving. When the owner decides a pending, unexpired approval with the right nonce, no stop
  is active and the command waits for approval, \<open>decide_approval\<close> returns \<open>approved\<close> and commits, in
  one transaction: the decided approval, the command queued through \<open>APPROVED\<close> (two state events, no
  other command touched), one pending outbox event addressed to the device with the command's
  payload, and the audit row.
\<close>

theorem approve_queues_command:
  assumes "decidable env aid owner nonce s a" "stop_clear env owner s"
    "row_by c_id (a_command_id a) (commands (committed s)) = Some c" "c_state c = AWAITING_APPROVAL"
    "texts_fit c" "row_by d_id (c_device_id c) (devices (committed s)) = Some v"
    "owner \<in> u_id ` set (users (committed s))" "fresh_ids env 4 (open_session s)"
  shows "\<exists>t i j k l. decide_approval env aid owner ''approve'' nonce note s =
      (Ok (Some (aid, ''approved'', Some (clock s))), t)
    \<and> approval_row aid (committed t) = Some (decided (clock s) True note a)
    \<and> commands (committed t) = update_by c_id (a_command_id a) (\<lambda>c. stamp (clock s) QUEUED None
          (stamp (clock s) APPROVED None c)) (commands (committed s))
    \<and> events (committed t) = events (committed s) @
          [transition_event i (clock s) (a_command_id a) AWAITING_APPROVAL APPROVED ''approval'' None,
           transition_event j (clock s) (a_command_id a) APPROVED QUEUED ''approval'' None]
    \<and> outbox (committed t) = outbox (committed s) @ [queued_event k (clock s) c (d_id v)]
    \<and> audits (committed t) = audits (committed s) @ [l] \<and> al_action l = ACT_APPROVAL_APPROVED
    \<and> al_approval_id l = Some aid"
proof -
  define s1 where "s1 = (open_session s)\<lparr>working := update_approval aid (decided (clock s) True note) (committed s)\<rparr>"
  let ?cid = "a_command_id a"
  have clear: "is_active env owner s1 = (Ok False, s1)"
    using assms(2) by (intro is_active_clear) (simp add: stop_clear_def s1_def)
  have fr: "fresh_ids env (3 + 1) s1"
    by (rule fresh_ids_same [where s = "open_session s"])
      (use assms(8) in \<open>auto simp: s1_def update_approval_def ids_of_def a_ids_decided\<close>)
  obtain i j k t where t: "queue_approved env a s1 = (Ok (), t)"
    "t = s1\<lparr>working := (after_two i j (clock s) ?cid AWAITING_APPROVAL APPROVED QUEUED ''approval'' (working s1))\<lparr>outbox := outbox (working s1) @
          [queued_event k (clock s) c (d_id v)]\<rparr>, entropy := entropy s + 3\<rparr>" "fresh_ids env 1 t"
    using queue_approved_run [of s1 a c v env 1] assms(3-6) fr by (auto simp: s1_def update_approval_def)
  let ?md = "case note of None \<Rightarrow> JNull | Some x \<Rightarrow> if x = [] then JNull else JObj [(''note'', JStr x)]"
  let ?l = "audit_row (gen_uuid env (entropy t)) (clock t) CAT_APPROVAL ACT_APPROVAL_APPROVED ''success''
      (Some owner) None (Some ?cid) (Some aid) ?md"
  let ?d = "(working t)\<lparr>audits := audits (working t) @ [?l]\<rparr>"
  have nf: "\<not> failed t" by (simp add: t(2) s1_def)
  have cid: "?cid \<in> c_id ` set (commands (committed s))"
    by (rule row_by_SomeK [OF assms(3)])
  have aid: "aid \<in> a_id ` set (approvals (committed s))"
    using assms(1) by (auto simp: decidable_def approval_row_def intro: row_by_SomeK)
  have log: "create_audit_log env CAT_APPROVAL ACT_APPROVAL_APPROVED ''success'' (Some owner) None
               (Some ?cid) (Some aid) ?md t = (Ok (), t\<lparr>working := ?d, entropy := Suc (entropy t)\<rparr>)"
    using assms(7) cid aid fresh_audit_id [of env 0 t] t(3)
    by (intro create_audit_log_run [OF nf])
      (simp_all add: audit_results_def fk_ok_def t(2) s1_def after_two_def update_approval_def
        image_update_by a_ids_decided)
  have "decide_tx env aid owner ''approve'' nonce note (open_session s) =
      (Ok (Some (aid, ''approved'', Some (clock s))), t\<lparr>working := ?d, entropy := Suc (entropy t), committed := ?d\<rparr>)"
    unfolding decide_tx_approve [OF assms(1)] s1_def [symmetric]
    using nf by (simp add: seqM_def bindM_def clear t(1) log commit_def returnM_def)
  then have run: "decide_approval env aid owner ''approve'' nonce note s =
      (Ok (Some (aid, ''approved'', Some (clock s))), t\<lparr>working := ?d, entropy := Suc (entropy t), committed := ?d\<rparr>)"
    using nf by (simp add: decide_approval_def with_session_def)
  have row: "row_by a_id aid (approvals (committed s)) = Some a"
    using assms(1) by (simp add: decidable_def approval_row_def)
  show ?thesis
    by (rule exI [of _ "t\<lparr>working := ?d, entropy := Suc (entropy t), committed := ?d\<rparr>"], rule exI [of _ i],
        rule exI [of _ j], rule exI [of _ k], rule exI [of _ ?l], intro conjI run)
      (simp_all add: t(2) s1_def after_two_def update_approval_def approval_row_def
        row_by_decided row audit_row_def)
qed

definition demo_approval :: approval where
  "demo_approval = \<lparr>a_id = 7, a_command_id = 5, a_owner_id = 1, a_risk_level = RISK_LOW, a_action_title = ''t'',
     a_action_description = ''d'', a_status = APPROVAL_PENDING, a_decision_nonce_hash = ''#nonce'',
     a_expires_at = 9000000, a_decided_at = None, a_decision_note = None, a_created_at = 0\<rparr>"

definition demo_waiting :: db where
  "demo_waiting = (demo_db [demo_command 5 AWAITING_APPROVAL])\<lparr>approvals := [demo_approval]\<rparr>"

lemma demo_decidable: "decidable demo_env 7 1 ''nonce'' (demo_st demo_waiting) demo_approval"
  by (simp add: decidable_def approval_row_def demo_waiting_def demo_approval_def demo_env_def)

theorem approve_queues_command_witness:
  "\<exists>t. decide_approval demo_env 7 1 ''approve'' ''nonce'' None (demo_st demo_waiting) =
      (Ok (Some (7, ''approved'', Some 1000000)), t)
     \<and> map c_state (commands (committed t)) = [QUEUED] \<and> length (outbox (committed t)) = 1"
proof -
  let ?s = "demo_st demo_waiting"
  have clear: "stop_clear demo_env 1 ?s"
    by (simp add: stop_clear_def stop_active_def stop_row_def demo_waiting_def kv_get_def)
  have rows: "row_by c_id (a_command_id demo_approval) (commands (committed ?s)) = Some (demo_command 5 AWAITING_APPROVAL)"
    "row_by d_id (c_device_id (demo_command 5 AWAITING_APPROVAL)) (devices (committed ?s)) = Some demo_device"
    "1 \<in> u_id ` set (users (committed ?s))"
    by (simp_all add: demo_waiting_def demo_approval_def)
  have fit: "c_state (demo_command 5 AWAITING_APPROVAL) = AWAITING_APPROVAL" "texts_fit (demo_command 5 AWAITING_APPROVAL)"
    by (simp_all add: texts_fit_def fits_text_def)
  have fr: "fresh_ids demo_env 4 (open_session ?s)"
    by (rule demo_fresh) (auto simp: ids_of_def demo_waiting_def demo_approval_def)
  from approve_queues_command [OF demo_decidable clear rows(1) fit rows(2,3) fr, of None]
  show ?thesis by (auto simp: demo_waiting_def demo_approval_def update_by_def)
qed

section \<open>Refused decisions\<close>

lemma approve_stopped:
  assumes "stop_cache_ok env s" "stop_active owner (committed s)"
    "decide_approval env aid owner ''approve'' nonce note s = (r, t)"
  shows "(committed t = committed s \<or> committed t = update_approval aid (\<lambda>a. a\<lparr>a_status := APPROVAL_EXPIRED\<rparr>) (committed s))
    \<and> (\<forall>x. r \<noteq> Ok (Some x))"
proof -
  obtain r' u where u: "decide_tx env aid owner ''approve'' nonce note (open_session s) = (r', u)" by fastforce
  have "(committed u = committed s \<or> committed u = update_approval aid (\<lambda>a. a\<lparr>a_status := APPROVAL_EXPIRED\<rparr>) (committed s))
      \<and> (r' = Ok None \<and> working u = committed s \<or> (\<exists>e. r' = Err e))"
  proof (cases "\<exists>a. decidable env aid owner nonce s a")
    case True
    then obtain a where a: "decidable env aid owner nonce s a" by blast
    define s1 where "s1 = (open_session s)\<lparr>working := update_approval aid (decided (clock s) True note) (committed s)\<rparr>"
    have "stop_cache_ok env s1" "stop_active owner (committed s1)"
      using assms(1,2) by (simp_all add: s1_def stop_cache_ok_def)
    then obtain c where "bindM (is_active env owner) (\<lambda>active. if active
             then raiseM (ApiError EMERGENCY_STOP_ACTIVE ''Emergency stop is active. Cannot queue commands.'' 423)
             else queue_approved env a) s1 = (Inl (ApiError EMERGENCY_STOP_ACTIVE
               ''Emergency stop is active. Cannot queue commands.'' 423), s1\<lparr>cache := c\<rparr>)"
      by (rule stop.guarded_blocks)
    with u show ?thesis
      unfolding decide_tx_approve [OF a] s1_def [symmetric]
      by (auto simp: seqM_def bindM_Err s1_def)
  next
    case False
    with u show ?thesis
      by (auto simp: decide_tx_def decidable_def prog_simps bindM_def seqM_def returnM_def raiseM_def commit_def
          liftM_def dot_value_def update_approval_def split: option.splits if_splits)
  qed
  with u assms(3) show ?thesis
    by (auto simp: decide_approval_def with_session_def split: sum.splits if_splits)
qed

text \<open>
  No approval queues a command while a stop is active. Whatever approval, nonce and note are
  given, with an active stop of the owner and a trustworthy cache \<open>decide_approval\<close> with \<open>approve\<close>
  changes no command, writes no state event and no outbox event, and never answers \<open>approved\<close>.
\<close>

lemma approve_blocked_by_stop:
  assumes "stop_cache_ok env s" "stop_active owner (committed s)"
    "decide_approval env aid owner ''approve'' nonce note s = (r, t)"
  shows "commands (committed t) = commands (committed s) \<and> events (committed t) = events (committed s)
    \<and> outbox (committed t) = outbox (committed s) \<and> (\<forall>x. r \<noteq> Ok (Some x))"
  using approve_stopped [OF assms] by (auto simp: update_approval_def)

lemma approve_blocked_by_stop_witness:
  "\<exists>r t. decide_approval demo_env 7 1 ''approve'' ''nonce'' None (demo_st (demo_waiting\<lparr>estops := [demo_stop]\<rparr>)) = (r, t)
     \<and> map c_state (commands (committed t)) = [AWAITING_APPROVAL] \<and> outbox (committed t) = []"
proof -
  let ?s = "demo_st (demo_waiting\<lparr>estops := [demo_stop]\<rparr>)"
  have ok: "stop_cache_ok demo_env ?s" "stop_active 1 (committed ?s)"
    by (simp_all add: stop_cache_ok_def stop_active_def stop_row_def demo_stop_def)
  obtain r t where rt: "decide_approval demo_env 7 1 ''approve'' ''nonce'' None ?s = (r, t)" by fastforce
  from approve_blocked_by_stop [OF ok rt] rt show ?thesis by (auto simp: demo_waiting_def)
qed

text \<open>
  A decision that is not due changes nothing but an expiry. If the approval is not decidable by
  this owner with this nonce (unknown, of another owner, decided before, expired, or the wrong
  nonce), no command, state event, outbox event or audit row changes and the answer is an error or
  nothing; the approvals change at most by marking this one, expired and pending, as expired.
\<close>

lemma undecidable_changes_nothing:
  assumes "\<nexists>a. decidable env aid owner nonce s a" "decide_approval env aid owner decision nonce note s = (r, t)"
  shows "committed t = (committed s)\<lparr>approvals := approvals (committed t)\<rparr>
    \<and> (\<forall>x. r \<noteq> Ok (Some x))
    \<and> (approvals (committed t) = approvals (committed s)
       \<or> (\<exists>a. approval_row aid (committed s) = Some a \<and> a_status a = APPROVAL_PENDING \<and> a_expires_at a < clock s
            \<and> approvals (committed t) = update_by a_id aid (\<lambda>a. a\<lparr>a_status := APPROVAL_EXPIRED\<rparr>) (approvals (committed s))))"
  using assms
  by (auto simp: decide_approval_def decide_tx_def decidable_def prog_simps bindM_def seqM_def returnM_def raiseM_def
      commit_def liftM_def dot_value_def update_approval_def with_session_def split: option.splits if_splits)

lemma undecidable_changes_nothing_witness:
  "\<exists>r t. decide_approval demo_env 7 1 ''approve'' ''guess'' None (demo_st demo_waiting) = (r, t)
     \<and> map c_state (commands (committed t)) = [AWAITING_APPROVAL] \<and> (\<forall>x. r \<noteq> Ok (Some x))"
proof -
  let ?s = "demo_st demo_waiting"
  have nd: "\<nexists>a. decidable demo_env 7 1 ''guess'' ?s a"
    by (simp add: decidable_def approval_row_def demo_waiting_def demo_approval_def demo_env_def)
  obtain r t where rt: "decide_approval demo_env 7 1 ''approve'' ''guess'' None ?s = (r, t)" by fastforce
  from undecidable_changes_nothing [OF nd rt] have "commands (committed t) = commands (committed ?s)"
    "\<forall>x. r \<noteq> Ok (Some x)" by (metis db.select_convs(5) db.surjective db.update_convs(8), blast)
  with rt show ?thesis by (auto simp: demo_waiting_def)
qed

end
