(* ===== verification/Commands.thy ===== *)
theory Commands
  imports Approvals
begin

text \<open>
  \<^verbatim>\<open>app/commands\<close>: the repository, \<open>CommandService\<close>, \<open>TaskService\<close> and the routes.

  A request is a validated \<open>create_request\<close>; \<open>create_command\<close> checks the device, the emergency stop,
  the idempotency key, the registry and the parameters, and then writes the command, its task, its
  state events and either an approval or the outbox event in one transaction.
\<close>

section \<open>Requests and responses\<close>

record create_request =
  cr_device_id :: uuid
  cr_command_type :: string
  cr_parameters :: dict
  cr_idempotency_key :: string
  cr_expires_at :: "datetime option"
  cr_delayed_execution_allowed :: bool
  cr_requires_approval :: bool

definition create_request_valid :: "create_request \<Rightarrow> bool" where
  "create_request_valid r = (1 \<le> length (cr_idempotency_key r) \<and> length (cr_idempotency_key r) \<le> 255)"

record create_response =
  rs_command_id :: uuid
  rs_task_id :: uuid
  rs_state :: command_state
  rs_requires_approval :: bool
  rs_approval_id :: "uuid option"
  rs_decision_nonce :: "string option"

section \<open>Repository\<close>

definition get_by_id :: "uuid \<Rightarrow> db \<Rightarrow> command option" where
  "get_by_id command_id d = row_by c_id command_id (commands d)"

definition get_by_idempotency_key :: "uuid \<Rightarrow> string \<Rightarrow> db \<Rightarrow> command option" where
  "get_by_idempotency_key device_id key d =
     find (\<lambda>c. c_device_id c = device_id \<and> c_idempotency_key c = key) (commands d)"

text \<open>The owner of a command, through the relationship \<^verbatim>\<open>command.device.owner_id\<close>; the foreign key
  makes sure that the device exists.\<close>

definition command_owner :: "db \<Rightarrow> command \<Rightarrow> uuid option" where
  "command_owner d c = map_option d_owner_id (row_by d_id (c_device_id c) (devices d))"

definition repo_create_command ::
  "env \<Rightarrow> create_request \<Rightarrow> risk_level \<Rightarrow> bool \<Rightarrow> command prog" where
  "repo_create_command env request risk_level requires_approval =
     bindM (uuid4 env) (\<lambda>i.
     bindM (getM clock) (\<lambda>now.
       let command = \<lparr>c_id = i, c_device_id = cr_device_id request, c_command_type = cr_command_type request,
             c_parameters = cr_parameters request, c_risk_level = risk_level,
             c_idempotency_key = cr_idempotency_key request,
             c_state = (if requires_approval then AWAITING_APPROVAL else QUEUED),
             c_requires_approval = requires_approval,
             c_delayed_execution_allowed = cr_delayed_execution_allowed request,
             c_expires_at = cr_expires_at request, c_delivered_at = None, c_acknowledged_at = None,
             c_started_at = None, c_finished_at = None, c_result_data = JNull, c_result_summary = JNull,
             c_error_code = JNull, c_error_message = JNull, c_created_at = now, c_updated_at = now\<rparr>
       in seqM (flush (insert_command command)) (returnM command)))"

definition new_task :: "uuid \<Rightarrow> uuid \<Rightarrow> task" where
  "new_task i command_id = \<lparr>t_id = i, t_command_id = command_id, t_state = T_PENDING, t_attempt_count = 0,
     t_started_at = None, t_finished_at = None, t_result_summary = JNull, t_error_code = JNull,
     t_error_message = JNull\<rparr>"

definition repo_create_task :: "env \<Rightarrow> uuid \<Rightarrow> task prog" where
  "repo_create_task env command_id =
     bindM (uuid4 env) (\<lambda>i. seqM (flush (insert_task (new_task i command_id))) (returnM (new_task i command_id)))"

text \<open>
  \<open>record_state_event\<close> passes the keyword \<^verbatim>\<open>metadata\<close>, which is not a column of
  \<^verbatim>\<open>CommandStateEvent\<close>: the constructor raises a \<open>TypeError\<close> and nothing is written. \<open>update_state\<close>
  flushes the new state first and then fails in the same way.
\<close>

definition record_state_event :: "command_state_event prog" where
  "record_state_event = raiseM (TypeError ''metadata'')"

definition update_state_row :: "datetime \<Rightarrow> command_state \<Rightarrow> command \<Rightarrow> command" where
  "update_state_row now new_state command =
     (let c = command\<lparr>c_state := new_state, c_updated_at := now\<rparr> in
      if new_state = DELIVERED then c\<lparr>c_delivered_at := Some now\<rparr>
      else if new_state = ACKNOWLEDGED then c\<lparr>c_acknowledged_at := Some now\<rparr>
      else if new_state = RUNNING then c\<lparr>c_started_at := Some now\<rparr>
      else if new_state \<in> {SUCCEEDED, FAILED, CANCELLED, EXPIRED, TIMED_OUT}
        then c\<lparr>c_finished_at := Some now\<rparr>
      else c)"

definition update_state :: "uuid \<Rightarrow> command_state \<Rightarrow> bool prog" where
  "update_state command_id new_state =
     bindM (select (get_by_id command_id)) (\<lambda>command.
       case command of
         None \<Rightarrow> returnM False
       | Some c \<Rightarrow>
           bindM (getM clock) (\<lambda>now.
           seqM (flush (update_command command_id (update_state_row now new_state)))
           (seqM record_state_event (returnM True))))"

record command_filter =
  cf_owner_id :: "uuid option"
  cf_device_id :: "uuid option"
  cf_state :: "command_state option"
  cf_risk_level :: "string option"
  cf_command_type :: "string option"
  cf_start_date :: "datetime option"
  cf_end_date :: "datetime option"

definition str_filter :: "string option \<Rightarrow> string \<Rightarrow> bool" where
  "str_filter f x = (case f of None \<Rightarrow> True | Some y \<Rightarrow> y = [] \<or> x = y)"

definition command_matches :: "db \<Rightarrow> command_filter \<Rightarrow> command \<Rightarrow> bool" where
  "command_matches d f c =
     ((case cf_owner_id f of None \<Rightarrow> True | Some u \<Rightarrow> command_owner d c = Some u)
      \<and> opt_eq (cf_device_id f) (c_device_id c)
      \<and> opt_eq (cf_state f) (c_state c)
      \<and> str_filter (cf_risk_level f) (risk_level_value (c_risk_level c))
      \<and> str_filter (cf_command_type f) (c_command_type c)
      \<and> (case cf_start_date f of None \<Rightarrow> True | Some t \<Rightarrow> t \<le> c_created_at c)
      \<and> (case cf_end_date f of None \<Rightarrow> True | Some t \<Rightarrow> c_created_at c \<le> t))"

definition repo_list_commands :: "command_filter \<Rightarrow> nat \<Rightarrow> nat \<Rightarrow> (command list \<times> nat) prog" where
  "repo_list_commands f page page_size =
     select (\<lambda>d.
       let rows = filter (command_matches d f) (commands d)
       in (paginate page page_size (newest_first c_created_at rows), length rows))"

definition repo_get_state_events :: "uuid \<Rightarrow> db \<Rightarrow> command_state_event list" where
  "repo_get_state_events command_id d = sort_key e_created_at (events_of command_id d)"

definition get_pending_commands :: "nat \<Rightarrow> command list prog" where
  "get_pending_commands limit =
     bindM (getM clock) (\<lambda>now.
     select (\<lambda>d. take limit (sort_key c_created_at (filter (\<lambda>c.
       (case command_owner d c of None \<Rightarrow> False
        | Some owner \<Rightarrow> \<not> stop_active owner d)
       \<and> c_state c = QUEUED
       \<and> (case c_expires_at c of None \<Rightarrow> True | Some t \<Rightarrow> now < t)) (commands d)))))"

definition get_acknowledged_commands :: "nat \<Rightarrow> db \<Rightarrow> command list" where
  "get_acknowledged_commands limit d =
     (let rows = filter (\<lambda>c. c_state c = ACKNOWLEDGED) (commands d)
      in take limit (sort_key (\<lambda>c. the (c_acknowledged_at c)) (filter (\<lambda>c. c_acknowledged_at c \<noteq> None) rows)
           @ filter (\<lambda>c. c_acknowledged_at c = None) rows))"

section \<open>Command service\<close>

definition new_command ::
  "uuid \<Rightarrow> datetime \<Rightarrow> create_request \<Rightarrow> command_definition \<Rightarrow> command" where
  "new_command i now request definition =
     \<lparr>c_id = i, c_device_id = cr_device_id request, c_command_type = cr_command_type request,
      c_parameters = cr_parameters request, c_risk_level = cd_risk_level definition,
      c_idempotency_key = cr_idempotency_key request, c_state = RECEIVED,
      c_requires_approval = (cd_requires_approval definition \<or> cr_requires_approval request),
      c_delayed_execution_allowed =
        (cr_delayed_execution_allowed request \<or> cd_delayed_execution_allowed definition),
      c_expires_at = cr_expires_at request, c_delivered_at = None, c_acknowledged_at = None,
      c_started_at = None, c_finished_at = None, c_result_data = JNull, c_result_summary = JNull,
      c_error_code = JNull, c_error_message = JNull, c_created_at = now, c_updated_at = now\<rparr>"

definition received_event :: "uuid \<Rightarrow> datetime \<Rightarrow> uuid \<Rightarrow> command_state_event" where
  "received_event i now command_id =
     \<lparr>e_id = i, e_command_id = command_id, e_previous_state = None, e_new_state = RECEIVED,
      e_event_source = ''api'', e_event_metadata = JNull, e_created_at = now\<rparr>"

text \<open>The command, its task and its first event (lines 76 to 101).\<close>

definition insert_new_command ::
  "env \<Rightarrow> create_request \<Rightarrow> command_definition \<Rightarrow> (command \<times> task) prog" where
  "insert_new_command env request definition =
     bindM (uuid4 env) (\<lambda>i.
     bindM (getM clock) (\<lambda>now.
       let command = new_command i now request definition in
       seqM (flush (insert_command command))
       (bindM (uuid4 env) (\<lambda>ti.
        seqM (flush (insert_task (new_task ti i)))
        (bindM (uuid4 env) (\<lambda>ei.
         seqM (flush (insert_event (received_event ei now i)))
         (returnM (command, new_task ti i))))))))"

definition submit_for_approval :: "env \<Rightarrow> command \<Rightarrow> uuid \<Rightarrow> (approval \<times> string) prog" where
  "submit_for_approval env command owner_id =
     seqM (transition_command env (c_id command) VALIDATED ''api'' None)
     (seqM (transition_command env (c_id command) AWAITING_APPROVAL ''api'' None)
     (repo_create_approval env (c_id command) owner_id (c_risk_level command)
        (''Approve '' @ c_command_type command)
        (''Approve command '' @ c_command_type command @ '' for device '' @ uuid_str (c_device_id command))
        30))"

definition submit_for_delivery :: "env \<Rightarrow> command \<Rightarrow> uuid \<Rightarrow> outbox_event prog" where
  "submit_for_delivery env command device_id =
     seqM (transition_command env (c_id command) VALIDATED ''api'' None)
     (seqM (transition_command env (c_id command) QUEUED ''api'' None)
     (add_queued_event env command device_id))"

definition write_command ::
  "env \<Rightarrow> create_request \<Rightarrow> command_definition \<Rightarrow> uuid \<Rightarrow> uuid \<Rightarrow> create_response prog" where
  "write_command env request definition owner_id device_id =
     bindM (insert_new_command env request definition) (\<lambda>(command, task).
       if c_requires_approval command then
         bindM (submit_for_approval env command owner_id) (\<lambda>(approval, decision_nonce).
         seqM commit
         (returnM \<lparr>rs_command_id = c_id command, rs_task_id = t_id task, rs_state = AWAITING_APPROVAL,
            rs_requires_approval = True, rs_approval_id = Some (a_id approval),
            rs_decision_nonce = Some decision_nonce\<rparr>))
       else
         seqM (submit_for_delivery env command device_id)
         (seqM commit
         (returnM \<lparr>rs_command_id = c_id command, rs_task_id = t_id task, rs_state = QUEUED,
            rs_requires_approval = False, rs_approval_id = None, rs_decision_nonce = None\<rparr>)))"

text \<open>
  Lines 46 to 61 and 63 to 71. A repeated request reads \<^verbatim>\<open>repo.get_task\<close>, a method that
  \<^verbatim>\<open>CommandRepository\<close> does not have.
\<close>

definition create_checked ::
  "env \<Rightarrow> create_request \<Rightarrow> uuid \<Rightarrow> device \<Rightarrow> create_response prog" where
  "create_checked env request owner_id device =
     bindM (select (get_by_idempotency_key (cr_device_id request) (cr_idempotency_key request))) (\<lambda>existing.
       case existing of
         Some c \<Rightarrow>
           if c_command_type c \<noteq> cr_command_type request
           then raiseM (ApiError IDEMPOTENCY_CONFLICT
                  ''Idempotency key already used with a different command type'' 409)
           else raiseM (AttributeError ''get_task'')
       | None \<Rightarrow>
           (case registry_get command_registry (cr_command_type request) of
              None \<Rightarrow> raiseM (ApiError INVALID_COMMAND_TYPE
                        (''Unknown command type: '' @ cr_command_type request) 422)
            | Some definition \<Rightarrow>
                if \<not> params_ok env (cd_parameter_schema definition) (cr_parameters request)
                then raiseM PydanticValidationError
                else write_command env request definition owner_id (d_id device)))"

definition stop_error :: exn where
  "stop_error = ApiError EMERGENCY_STOP_ACTIVE ''Emergency stop is active. Cannot create new commands.'' 423"

definition create_tx :: "env \<Rightarrow> create_request \<Rightarrow> uuid \<Rightarrow> create_response prog" where
  "create_tx env request owner_id =
     bindM (select (\<lambda>d. row_by d_id (cr_device_id request) (devices d))) (\<lambda>device.
       case device of
         None \<Rightarrow> raiseM (ApiError DEVICE_NOT_FOUND ''Device not found'' 404)
       | Some v \<Rightarrow>
           if d_owner_id v \<noteq> owner_id then raiseM (ApiError DEVICE_NOT_FOUND ''Device not found'' 404)
           else
             bindM (liftM (dot_value (orm_enum env) device_status_value (d_trust_status v))) (\<lambda>trust.
               if trust \<noteq> ''trusted'' then raiseM (ApiError DEVICE_REVOKED ''Device is not trusted'' 403)
               else
                 bindM (is_active env owner_id) (\<lambda>active.
                   if active then raiseM stop_error else create_checked env request owner_id v)))"

definition create_command :: "env \<Rightarrow> create_request \<Rightarrow> uuid \<Rightarrow> create_response prog" where
  "create_command env request owner_id = with_session (create_tx env request owner_id)"

definition get_command :: "uuid \<Rightarrow> (command \<times> uuid option) option prog" where
  "get_command command_id =
     with_session (select (\<lambda>d. map_option (\<lambda>c. (c, command_owner d c)) (get_by_id command_id d)))"

text \<open>\<^verbatim>\<open>except StateTransitionError: return False\<close>\<close>

definition false_on_refusal :: "exn \<Rightarrow> bool prog" where
  "false_on_refusal e = (case e of StateTransitionError _ _ _ \<Rightarrow> returnM False | _ \<Rightarrow> raiseM e)"

definition cancel_command :: "env \<Rightarrow> uuid \<Rightarrow> uuid \<Rightarrow> bool prog" where
  "cancel_command env command_id owner_id =
     with_session
       (bindM (select (\<lambda>d. map_option (\<lambda>c. (c, command_owner d c)) (get_by_id command_id d))) (\<lambda>result.
          case result of
            None \<Rightarrow> returnM False
          | Some (c, owner) \<Rightarrow>
              if owner \<noteq> Some owner_id then returnM False
              else
                catchM
                  (seqM (transition_command env (c_id c) CANCELLED ''api'' None) (seqM commit (returnM True)))
                  false_on_refusal))"

definition command_state_of :: "string \<Rightarrow> command_state res" where
  "command_state_of v =
     (case find (\<lambda>x. command_state_value x = v)
        [RECEIVED, VALIDATED, AWAITING_APPROVAL, APPROVED, REJECTED, QUEUED, DELIVERED, ACKNOWLEDGED, RUNNING,
         SUCCEEDED, FAILED, TIMED_OUT, CANCELLED, EXPIRED, BLOCKED_BY_EMERGENCY_STOP] of
        None \<Rightarrow> Err (ValueError v) | Some x \<Rightarrow> Ok x)"

definition list_commands ::
  "uuid \<Rightarrow> command_filter \<Rightarrow> string option \<Rightarrow> nat \<Rightarrow> nat \<Rightarrow> (command list \<times> nat) prog" where
  "list_commands owner_id f state page page_size =
     with_session
       (bindM (liftM (case state of
                 None \<Rightarrow> Ok None
               | Some x \<Rightarrow> if x = [] then Ok None else map_sum id Some (command_state_of x))) (\<lambda>st.
          repo_list_commands (f\<lparr>cf_owner_id := Some owner_id, cf_state := st\<rparr>) page page_size))"

definition get_state_events :: "uuid \<Rightarrow> uuid \<Rightarrow> command_state_event list prog" where
  "get_state_events command_id owner_id =
     with_session
       (bindM (select (\<lambda>d. map_option (\<lambda>c. command_owner d c) (get_by_id command_id d))) (\<lambda>result.
          case result of
            None \<Rightarrow> returnM []
          | Some owner \<Rightarrow>
              if owner \<noteq> Some owner_id then returnM []
              else select (repo_get_state_events command_id)))"

definition approve_command :: "env \<Rightarrow> uuid \<Rightarrow> bool prog" where
  "approve_command env command_id =
     with_session
       (catchM
         (seqM (transition_command env command_id APPROVED ''approval'' None)
         (seqM (transition_command env command_id QUEUED ''approval'' None)
         (seqM commit (returnM True))))
         false_on_refusal)"

definition reject_command :: "env \<Rightarrow> uuid \<Rightarrow> bool prog" where
  "reject_command env command_id =
     with_session
       (catchM
         (seqM (transition_command env command_id REJECTED ''approval'' None) (seqM commit (returnM True)))
         false_on_refusal)"

section \<open>Task service\<close>

definition get_task :: "uuid \<Rightarrow> task option prog" where
  "get_task task_id = with_session (select (\<lambda>d. row_by t_id task_id (tasks d)))"

definition get_task_by_command :: "uuid \<Rightarrow> task option prog" where
  "get_task_by_command command_id = with_session (select (\<lambda>d. row_by t_command_id command_id (tasks d)))"

definition update_task_state ::
  "uuid \<Rightarrow> task_state \<Rightarrow> json \<Rightarrow> json \<Rightarrow> json \<Rightarrow> unit prog" where
  "update_task_state task_id state result_summary error_code error_message =
     with_session
       (bindM (getM clock) (\<lambda>now.
        bindM (select (\<lambda>d. case row_by t_id task_id (tasks d) of None \<Rightarrow> 0 | Some t \<Rightarrow> t_attempt_count t)) (\<lambda>current.
        seqM (flush (update_task task_id (\<lambda>t.
           t\<lparr>t_state := state,
             t_started_at := (if state = T_RUNNING then Some now else None),
             t_finished_at := (if state \<in> {T_SUCCEEDED, T_FAILED, T_CANCELLED} then Some now else None),
             t_result_summary := result_summary, t_error_code := error_code,
             t_error_message := error_message,
             t_attempt_count := (if state = T_RUNNING then current + 1 else t_attempt_count t)\<rparr>)))
        commit)))"

section \<open>Routes\<close>

definition route_create_command :: "env \<Rightarrow> create_request \<Rightarrow> uuid \<Rightarrow> create_response prog" where
  "route_create_command env request current_user =
     (if \<not> create_request_valid request then raiseM PydanticValidationError
      else create_command env request current_user)"

definition route_get_command :: "uuid \<Rightarrow> uuid \<Rightarrow> command prog" where
  "route_get_command command_id current_user =
     bindM (get_command command_id) (\<lambda>result.
       case result of
         None \<Rightarrow> raiseM (ApiError COMMAND_NOT_FOUND ''Command not found'' 404)
       | Some (c, owner) \<Rightarrow>
           if owner \<noteq> Some current_user then raiseM (ApiError COMMAND_NOT_FOUND ''Command not found'' 404)
           else returnM c)"

definition route_list_commands ::
  "command_filter \<Rightarrow> string option \<Rightarrow> nat \<Rightarrow> nat \<Rightarrow> uuid \<Rightarrow> (command list \<times> nat \<times> bool \<times> bool) prog" where
  "route_list_commands f state page page_size current_user =
     (if page < 1 \<or> page_size < 1 \<or> 100 < page_size then raiseM PydanticValidationError
      else
        bindM (list_commands current_user f state page page_size) (\<lambda>(rows, n).
          returnM (rows, n, has_next page page_size n, has_prev page)))"

definition route_cancel_command :: "env \<Rightarrow> uuid \<Rightarrow> uuid \<Rightarrow> bool prog" where
  "route_cancel_command env command_id current_user =
     bindM (cancel_command env command_id current_user) (\<lambda>success.
       if \<not> success
       then raiseM (ApiError COMMAND_NOT_FOUND ''Command not found or cannot be cancelled'' 404)
       else returnM True)"

definition route_get_command_events :: "uuid \<Rightarrow> uuid \<Rightarrow> command_state_event list prog" where
  "route_get_command_events command_id current_user = get_state_events command_id current_user"

definition route_get_task :: "uuid \<Rightarrow> uuid \<Rightarrow> task prog" where
  "route_get_task command_id current_user =
     bindM (get_command command_id) (\<lambda>result.
       case result of
         None \<Rightarrow> raiseM (ApiError NOT_FOUND ''Task not found'' 404)
       | Some (c, owner) \<Rightarrow>
           if owner \<noteq> Some current_user then raiseM (ApiError NOT_FOUND ''Task not found'' 404)
           else
             bindM (get_task_by_command command_id) (\<lambda>task.
               case task of
                 None \<Rightarrow> raiseM (ApiError NOT_FOUND ''Task not found'' 404)
               | Some t \<Rightarrow> returnM t))"

section \<open>Writing a new command\<close>

lemma new_command_fields [simp]:
  "c_id (new_command i now r def) = i" "c_state (new_command i now r def) = RECEIVED"
  "c_device_id (new_command i now r def) = cr_device_id r"
  "c_idempotency_key (new_command i now r def) = cr_idempotency_key r"
  "c_command_type (new_command i now r def) = cr_command_type r"
  "c_requires_approval (new_command i now r def) = (cd_requires_approval def \<or> cr_requires_approval r)"
  "c_expires_at (new_command i now r def) = cr_expires_at r"
  "c_risk_level (new_command i now r def) = cd_risk_level def"
  by (simp_all add: new_command_def)

lemma new_command_fits [simp]: "texts_fit (new_command i now r def)"
  by (simp add: new_command_def texts_fit_def fits_text_def)

lemma new_task_fields [simp]: "t_id (new_task i cid) = i" "t_command_id (new_task i cid) = cid"
  by (simp_all add: new_task_def)

lemma received_event_fields [simp]:
  "e_id (received_event i now cid) = i" "e_command_id (received_event i now cid) = cid"
  "e_previous_state (received_event i now cid) = None" "e_new_state (received_event i now cid) = RECEIVED"
  by (simp_all add: received_event_def)

definition inserted_db :: "command \<Rightarrow> task \<Rightarrow> command_state_event \<Rightarrow> db \<Rightarrow> db" where
  "inserted_db c t e d = d\<lparr>commands := commands d @ [c], tasks := tasks d @ [t], events := events d @ [e]\<rparr>"

text \<open>A task exists only for a command that exists: what the foreign key of the table says.\<close>

definition tasks_linked :: "db \<Rightarrow> bool" where
  "tasks_linked d = (t_command_id ` set (tasks d) \<subseteq> c_id ` set (commands d))"

lemma get_by_idempotency_key_None:
  "get_by_idempotency_key v k d = None \<longleftrightarrow>
     (\<forall>c \<in> set (commands d). \<not> (c_device_id c = v \<and> c_idempotency_key c = k))"
  by (auto simp: get_by_idempotency_key_def find_None_iff)

lemma insert_new_command_run:
  assumes "\<not> failed s" "cr_device_id r \<in> d_id ` set (devices (working s))"
    "get_by_idempotency_key (cr_device_id r) (cr_idempotency_key r) (working s) = None"
    "tasks_linked (working s)" "fresh_ids env (3 + n) s"
  shows "\<exists>i j k t. insert_new_command env r def s = (Ok (new_command i (clock s) r def, new_task j i), t)
    \<and> t = s\<lparr>working := inserted_db (new_command i (clock s) r def) (new_task j i) (received_event k (clock s) i)
          (working s), entropy := entropy s + 3\<rparr>
    \<and> fresh_ids env n t \<and> i \<notin> ids_of (working s)"
proof -
  let ?i = "gen_uuid env (entropy s)" and ?j = "gen_uuid env (Suc (entropy s))"
    and ?k = "gen_uuid env (Suc (Suc (entropy s)))"
  have f3: "fresh_ids env (Suc (Suc (Suc n))) s" using assms(5) by (simp add: numeral_3_eq_3)
  let ?s1 = "s\<lparr>entropy := Suc (entropy s)\<rparr>" and ?s2 = "s\<lparr>entropy := Suc (Suc (entropy s))\<rparr>"
  have f2: "fresh_ids env (Suc (Suc n)) ?s1" by (rule fresh_ids_step [OF f3]) auto
  have f1: "fresh_ids env (Suc n) ?s2" by (rule fresh_ids_step [OF f2]) auto
  have new: "?i \<notin> ids_of (working s)" "?j \<notin> ids_of (working s)" "?k \<notin> ids_of (working s)"
    using fresh_ids_now [OF f3] fresh_ids_now [OF f2] fresh_ids_now [OF f1] by simp_all
  then have ci: "?i \<notin> c_id ` set (commands (working s))" and ti: "?j \<notin> t_id ` set (tasks (working s))"
    and ei: "?k \<notin> e_id ` set (events (working s))" by (auto simp: ids_of_def)
  from ci assms(4) have tc: "?i \<notin> t_command_id ` set (tasks (working s))" by (auto simp: tasks_linked_def)
  have "\<forall>c \<in> set (commands (working s)). \<not> (c_device_id c = cr_device_id r \<and> c_idempotency_key c = cr_idempotency_key r)"
    using assms(3) by (simp add: get_by_idempotency_key_None)
  then have "insert_new_command env r def s = (Ok (new_command ?i (clock s) r def, new_task ?j ?i),
     s\<lparr>working := inserted_db (new_command ?i (clock s) r def) (new_task ?j ?i) (received_event ?k (clock s) ?i)
          (working s), entropy := entropy s + 3\<rparr>)"
    using assms(1,2) ci ti ei tc
    by (simp add: insert_new_command_def prog_defs Let_def insert_command_def insert_task_def insert_event_def
        inserted_db_def)
  moreover have "fresh_ids env n (s\<lparr>working := inserted_db (new_command ?i (clock s) r def) (new_task ?j ?i)
      (received_event ?k (clock s) ?i) (working s), entropy := entropy s + 3\<rparr>)"
    by (rule fresh_ids_steps [OF assms(5)])
      (auto simp: inserted_db_def ids_of_def image_iff Bex_def intro: exI [of _ "entropy s"]
        exI [of _ "Suc (entropy s)"] exI [of _ "Suc (Suc (entropy s))"])
  ultimately show ?thesis using new(1) by blast
qed

lemma submit_for_delivery_run:
  assumes "\<not> failed s" "row_by c_id (c_id c) (commands (working s)) = Some c" "c_state c = RECEIVED" "texts_fit c"
    "fresh_ids env (3 + n) s"
  shows "\<exists>i j k e t. submit_for_delivery env c v s = (Ok e, t)
    \<and> t = s\<lparr>working := (after_two i j (clock s) (c_id c) RECEIVED VALIDATED QUEUED ''api'' (working s))\<lparr>outbox :=
          outbox (working s) @ [queued_event k (clock s) c v]\<rparr>, entropy := entropy s + 3\<rparr>"
proof -
  have eff: "effective (c_state c) VALIDATED" "effective VALIDATED QUEUED"
    using assms(3) by (simp_all add: effective_def permitted_def validate_command_state_transition_def)
  have f: "fresh_ids env (2 + Suc n) s" using assms(5) by (simp add: numeral_3_eq_3)
  obtain i j c2 s2 where s2: "seqM (transition_command env (c_id c) VALIDATED ''api'' None)
      (transition_command env (c_id c) QUEUED ''api'' None) s = (Ok (Some c2), s2)"
    "s2 = s\<lparr>working := after_two i j (clock s) (c_id c) (c_state c) VALIDATED QUEUED ''api'' (working s),
        entropy := entropy s + 2\<rparr>" "fresh_ids env (Suc n) s2"
    by (rule two_transitions [OF assms(1,2) eff assms(4) f])
  have nf: "\<not> failed s2" using assms(1) by (simp add: s2(2))
  have "submit_for_delivery env c v s = add_queued_event env c v s2"
    unfolding submit_for_delivery_def seqM_assoc [symmetric] by (simp add: seqM_Ok s2(1))
  also have "\<dots> = (Ok (queued_event (gen_uuid env (entropy s2)) (clock s2) c v),
      s2\<lparr>working := (working s2)\<lparr>outbox := outbox (working s2) @
        [queued_event (gen_uuid env (entropy s2)) (clock s2) c v]\<rparr>, entropy := Suc (entropy s2)\<rparr>)"
    using add_event_run [OF nf fresh_event_id [OF s2(3)]] by (simp add: add_queued_event_def queued_event_def)
  also have "s2\<lparr>working := (working s2)\<lparr>outbox := outbox (working s2) @
        [queued_event (gen_uuid env (entropy s2)) (clock s2) c v]\<rparr>, entropy := Suc (entropy s2)\<rparr> =
      s\<lparr>working := (after_two i j (clock s) (c_id c) RECEIVED VALIDATED QUEUED ''api'' (working s))\<lparr>outbox :=
          outbox (working s) @ [queued_event (gen_uuid env (entropy s2)) (clock s) c v]\<rparr>, entropy := entropy s + 3\<rparr>"
    by (simp add: s2(2) after_two_def assms(3))
  finally show ?thesis by blast
qed

lemma submit_for_approval_run:
  assumes "\<not> failed s" "row_by c_id (c_id c) (commands (working s)) = Some c" "c_state c = RECEIVED" "texts_fit c"
    "fresh_ids env (4 + n) s" "c_id c \<notin> a_command_id ` set (approvals (working s))"
    "owner \<in> u_id ` set (users (working s))"
  shows "\<exists>i j a nonce t. submit_for_approval env c owner s = (Ok (a, nonce), t)
    \<and> t = s\<lparr>working := (after_two i j (clock s) (c_id c) RECEIVED VALIDATED AWAITING_APPROVAL ''api''
          (working s))\<lparr>approvals := approvals (working s) @ [a]\<rparr>, entropy := entropy s + 4\<rparr>
    \<and> a_command_id a = c_id c \<and> a_owner_id a = owner \<and> a_status a = APPROVAL_PENDING
    \<and> a_decision_nonce_hash a = sha256 env nonce \<and> a_expires_at a = clock s + timedelta_minutes 30
    \<and> a_risk_level a = c_risk_level c"
proof -
  have eff: "effective (c_state c) VALIDATED" "effective VALIDATED AWAITING_APPROVAL"
    using assms(3) by (simp_all add: effective_def permitted_def validate_command_state_transition_def)
  have f: "fresh_ids env (2 + Suc (Suc n)) s" using assms(5) by (simp add: eval_nat_numeral)
  obtain i j c2 s2 where s2: "seqM (transition_command env (c_id c) VALIDATED ''api'' None)
      (transition_command env (c_id c) AWAITING_APPROVAL ''api'' None) s = (Ok (Some c2), s2)"
    "s2 = s\<lparr>working := after_two i j (clock s) (c_id c) (c_state c) VALIDATED AWAITING_APPROVAL ''api'' (working s),
        entropy := entropy s + 2\<rparr>" "fresh_ids env (Suc (Suc n)) s2"
    by (rule two_transitions [OF assms(1,2) eff assms(4) f])
  have nf: "\<not> failed s2" using assms(1) by (simp add: s2(2))
  have "fresh_ids env (Suc n) (s2\<lparr>entropy := Suc (entropy s2)\<rparr>)" by (rule fresh_ids_step [OF s2(3)]) auto
  from fresh_ids_now [OF this] have ai: "gen_uuid env (Suc (entropy s2)) \<notin> a_id ` set (approvals (working s2))"
    by (auto simp: ids_of_def)
  have cm: "c_id c \<in> c_id ` set (commands (working s2))"
    using row_by_SomeK [OF assms(2)] by (simp add: s2(2) after_two_def image_update_by)
  have eq1: "submit_for_approval env c owner s = repo_create_approval env (c_id c) owner (c_risk_level c)
        (''Approve '' @ c_command_type c)
        (''Approve command '' @ c_command_type c @ '' for device '' @ uuid_str (c_device_id c)) 30 s2"
    unfolding submit_for_approval_def seqM_assoc [symmetric] by (simp add: seqM_Ok s2(1))
  obtain a nonce where eq2: "repo_create_approval env (c_id c) owner (c_risk_level c) (''Approve '' @ c_command_type c)
        (''Approve command '' @ c_command_type c @ '' for device '' @ uuid_str (c_device_id c)) 30 s2 =
      (Ok (a, nonce), s2\<lparr>entropy := entropy s2 + 2,
        working := (working s2)\<lparr>approvals := approvals (working s2) @ [a]\<rparr>\<rparr>)"
    and a: "a_command_id a = c_id c \<and> a_owner_id a = owner \<and> a_status a = APPROVAL_PENDING
      \<and> a_decision_nonce_hash a = sha256 env nonce \<and> a_expires_at a = clock s + timedelta_minutes 30
      \<and> a_risk_level a = c_risk_level c"
  proof
    let ?a = "new_approval env (gen_uuid env (Suc (entropy s2))) (clock s) (gen_token env (entropy s2)) (c_id c)
        owner (c_risk_level c) (''Approve '' @ c_command_type c)
        (''Approve command '' @ c_command_type c @ '' for device '' @ uuid_str (c_device_id c)) 30"
    have other: "c_id c \<notin> a_command_id ` set (approvals (working s2))" "owner \<in> u_id ` set (users (working s2))"
      "clock s2 = clock s"
      using assms(6,7) by (simp_all add: s2(2) after_two_def)
    show "repo_create_approval env (c_id c) owner (c_risk_level c) (''Approve '' @ c_command_type c)
        (''Approve command '' @ c_command_type c @ '' for device '' @ uuid_str (c_device_id c)) 30 s2 =
      (Ok (?a, gen_token env (entropy s2)), s2\<lparr>entropy := entropy s2 + 2,
        working := (working s2)\<lparr>approvals := approvals (working s2) @ [?a]\<rparr>\<rparr>)"
      using nf ai cm other
      by (simp add: repo_create_approval_def prog_defs Let_def insert_approval_def new_approval_def)
    show "a_command_id ?a = c_id c \<and> a_owner_id ?a = owner \<and> a_status ?a = APPROVAL_PENDING
      \<and> a_decision_nonce_hash ?a = sha256 env (gen_token env (entropy s2))
      \<and> a_expires_at ?a = clock s + timedelta_minutes 30 \<and> a_risk_level ?a = c_risk_level c"
      by (simp add: new_approval_def)
  qed
  have "s2\<lparr>entropy := entropy s2 + 2, working := (working s2)\<lparr>approvals := approvals (working s2) @ [a]\<rparr>\<rparr> =
      s\<lparr>working := (after_two i j (clock s) (c_id c) RECEIVED VALIDATED AWAITING_APPROVAL ''api''
          (working s))\<lparr>approvals := approvals (working s) @ [a]\<rparr>, entropy := entropy s + 4\<rparr>"
    by (rule st.equality) (simp_all add: s2(2) after_two_def assms(3))
  with a eq1 eq2 show ?thesis by auto
qed

text \<open>A request that passes every check.\<close>

definition acceptable :: "env \<Rightarrow> create_request \<Rightarrow> uuid \<Rightarrow> st \<Rightarrow> device \<Rightarrow> command_definition \<Rightarrow> bool" where
  "acceptable env r owner s v def =
     (row_by d_id (cr_device_id r) (devices (committed s)) = Some v \<and> d_owner_id v = owner
      \<and> d_trust_status v = DEV_TRUSTED \<and> orm_enum env \<and> stop_clear env owner s
      \<and> get_by_idempotency_key (cr_device_id r) (cr_idempotency_key r) (committed s) = None
      \<and> registry_get command_registry (cr_command_type r) = Some def
      \<and> params_ok env (cd_parameter_schema def) (cr_parameters r))"

lemma create_tx_acceptable:
  assumes "acceptable env r owner s v def"
  shows "create_tx env r owner (open_session s) = write_command env r def owner (d_id v) (open_session s)"
proof -
  have "is_active env owner (open_session s) = (Ok False, open_session s)"
    using assms by (intro is_active_clear) (simp add: acceptable_def stop_clear_def)
  then show ?thesis
    using assms
    by (simp add: acceptable_def create_tx_def create_checked_def prog_simps bindM_def dot_value_def
        split: option.splits)
qed

lemma acceptable_insert:
  assumes "acceptable env r owner s v def" "tasks_linked (committed s)" "fresh_ids env (3 + n) (open_session s)"
  obtains i j k t where
    "insert_new_command env r def (open_session s) = (Ok (new_command i (clock s) r def, new_task j i), t)"
    "t = (open_session s)\<lparr>working := inserted_db (new_command i (clock s) r def) (new_task j i)
        (received_event k (clock s) i) (committed s), entropy := entropy s + 3\<rparr>"
    "fresh_ids env n t" "i \<notin> ids_of (committed s)"
    "row_by c_id i (commands (working t)) = Some (new_command i (clock s) r def)"
proof -
  have v: "cr_device_id r \<in> d_id ` set (devices (working (open_session s)))"
    using assms(1) by (auto simp: acceptable_def intro: row_by_SomeK)
  obtain i j k t where
    "insert_new_command env r def (open_session s) = (Ok (new_command i (clock s) r def, new_task j i), t)"
    "t = (open_session s)\<lparr>working := inserted_db (new_command i (clock s) r def) (new_task j i)
        (received_event k (clock s) i) (committed s), entropy := entropy s + 3\<rparr>"
    "fresh_ids env n t" "i \<notin> ids_of (committed s)"
    using insert_new_command_run [OF _ v, of env n def] assms by (auto simp: acceptable_def)
  moreover from this have "row_by c_id i (commands (working t)) = Some (new_command i (clock s) r def)"
    by (simp add: inserted_db_def table_simps ids_of_def)
  ultimately show thesis by (rule that)
qed

text \<open>The first three events of a command: received, validated, and where it was submitted to.\<close>

definition created_events ::
  "uuid \<Rightarrow> uuid \<Rightarrow> uuid \<Rightarrow> datetime \<Rightarrow> uuid \<Rightarrow> command_state \<Rightarrow> command_state_event list" where
  "created_events k m n now cid state =
     [received_event k now cid, transition_event m now cid RECEIVED VALIDATED ''api'' None,
      transition_event n now cid VALIDATED state ''api'' None]"

definition created_command :: "uuid \<Rightarrow> datetime \<Rightarrow> create_request \<Rightarrow> command_definition \<Rightarrow> command_state \<Rightarrow> command" where
  "created_command i now r def state = stamp now state None (stamp now VALIDATED None (new_command i now r def))"


definition demo_request :: create_request where
  "demo_request = \<lparr>cr_device_id = 2, cr_command_type = ''system.ping'', cr_parameters = [],
     cr_idempotency_key = ''k1'', cr_expires_at = Some 5000000, cr_delayed_execution_allowed = False,
     cr_requires_approval = False\<rparr>"

lemma demo_ping: "\<exists>def. registry_get command_registry ''system.ping'' = Some def
    \<and> cd_parameter_schema def = PingParams \<and> \<not> cd_requires_approval def"
  by (simp add: command_registry_def reg.get_add)


definition approvals_linked :: "db \<Rightarrow> bool" where
  "approvals_linked d = (a_command_id ` set (approvals d) \<subseteq> c_id ` set (commands d))"



section \<open>Refused requests\<close>

lemma create_command_stopped:
  assumes "stop_cache_ok env s" "stop_active owner (committed s)"
    "create_command env r owner s = (res, t)"
  shows "committed t = committed s \<and> (\<exists>e. res = Err e)"
proof -
  have ok: "stop_cache_ok env (open_session s)" "stop_active owner (committed (open_session s))"
    using assms(1,2) by (simp_all add: stop_cache_ok_def)
  have guard: "\<exists>c. bindM (is_active env owner) (\<lambda>active. if active then raiseM stop_error else
      create_checked env r owner v) (open_session s) = (Inl stop_error, (open_session s)\<lparr>cache := c\<rparr>)" for v
    by (rule stop.guarded_blocks [OF ok, where e = stop_error and m = "create_checked env r owner v"]) blast
  have "\<exists>e c. create_tx env r owner (open_session s) = (Err e, (open_session s)\<lparr>cache := c\<rparr>)"
  proof (cases "row_by d_id (cr_device_id r) (devices (committed s))")
    case None
    then show ?thesis
      by (intro exI [of _ "ApiError DEVICE_NOT_FOUND ''Device not found'' 404"] exI [of _ "cache s"])
        (simp add: create_tx_def bindM_def select_def raiseM_def del: row_by_None)
  next
    case (Some v)
    obtain c where c: "bindM (is_active env owner) (\<lambda>active. if active then raiseM stop_error else
      create_checked env r owner v) (open_session s) = (Inl stop_error, (open_session s)\<lparr>cache := c\<rparr>)"
      using guard by blast
    have nf: "\<not> failed (open_session s)" by simp
    show ?thesis
    proof (cases "d_owner_id v = owner \<and> orm_enum env \<and> d_trust_status v = DEV_TRUSTED")
      case True
      then have "create_tx env r owner (open_session s) = (Err stop_error, (open_session s)\<lparr>cache := c\<rparr>)"
        using Some c by (simp add: create_tx_def prog_simps dot_value_def)
      then show ?thesis by blast
    next
      case False
      then have "\<exists>e. create_tx env r owner (open_session s) = (Err e, (open_session s)\<lparr>cache := cache s\<rparr>)"
        using Some
        by (cases "d_trust_status v") (auto simp: create_tx_def prog_simps dot_value_def raiseM_def liftM_def bindM_def)
      then show ?thesis by blast
    qed
  qed
  then obtain e c where "create_tx env r owner (open_session s) = (Err e, (open_session s)\<lparr>cache := c\<rparr>)" by blast
  with assms(3) show ?thesis by (auto simp: create_command_def with_session_def)
qed

text \<open>
  C11. No command is created while a stop is active: with an active stop of the owner and a
  trustworthy cache every call of \<open>create_command\<close> raises and leaves the committed database as it is.
\<close>

theorem create_command_blocked_by_stop:
  assumes "stop_cache_ok env s" "stop_active owner (committed s)"
    "create_command env r owner s = (res, t)"
  shows "committed t = committed s \<and> (\<exists>e. res = Err e)"
  using assms by (rule create_command_stopped)

theorem create_command_blocked_by_stop_witness:
  "\<exists>res t. create_command demo_env demo_request 1 (demo_st (demo_stopped [])) = (res, t)
     \<and> commands (committed t) = [] \<and> (\<exists>e. res = Err e)"
proof -
  let ?s = "demo_st (demo_stopped [])"
  have ok: "stop_cache_ok demo_env ?s" "stop_active 1 (committed ?s)"
    by (simp_all add: stop_cache_ok_def stop_active_def stop_row_def demo_stopped_def demo_stop_def)
  obtain res t where rt: "create_command demo_env demo_request 1 ?s = (res, t)" by fastforce
  from create_command_blocked_by_stop [OF ok rt] rt show ?thesis by (auto simp: demo_stopped_def)
qed



text \<open>
  What the ORM returns. When a \<^verbatim>\<open>String\<close> column is loaded as a plain string, which is what
  SQLAlchemy documents, \<open>create_command\<close> cannot succeed at all: for an existing device of the owner
  it raises an \<open>AttributeError\<close> (a 500 for the client) before any other check, and writes nothing.
\<close>

lemma create_command_plain_strings:
  assumes "\<not> orm_enum env" "row_by d_id (cr_device_id r) (devices (committed s)) = Some v" "d_owner_id v = owner"
  shows "\<exists>t. create_command env r owner s = (Err (AttributeError ''value''), t) \<and> committed t = committed s
    \<and> error_response (AttributeError ''value'') = (500, INTERNAL_ERROR)"
  using assms
  by (simp add: create_command_def with_session_def create_tx_def prog_simps dot_value_def error_response_def)

lemma create_command_plain_strings_witness:
  "\<exists>t. create_command (demo_env\<lparr>orm_enum := False\<rparr>) demo_request 1 (demo_st (demo_db [])) = (Err (AttributeError ''value''), t)"
  using create_command_plain_strings [of "demo_env\<lparr>orm_enum := False\<rparr>" demo_request "demo_st (demo_db [])" demo_device 1]
  by (auto simp: demo_request_def)

section \<open>Cancelling\<close>

definition cancellable :: "command_state list" where
  "cancellable = [AWAITING_APPROVAL, APPROVED, QUEUED, DELIVERED, ACKNOWLEDGED, RUNNING, CANCELLED]"

lemma effective_cancel: "effective x CANCELLED \<longleftrightarrow> x \<in> set cancellable"
  by (cases x) (simp_all add: effective_def permitted_def validate_command_state_transition_def cancellable_def)

lemma permitted_cancel: "permitted x CANCELLED \<longleftrightarrow> x \<in> set cancellable"
  by (cases x) (simp_all add: permitted_def cancellable_def)

text \<open>
  Cancelling. For the owner of the command \<open>cancel_command\<close> answers yes exactly when the command
  waits for approval, is approved, queued, delivered, acknowledged, running or cancelled already;
  then the command, and only it, is \<open>CANCELLED\<close> with one more state event. Otherwise the answer is no
  and nothing changes.
\<close>

lemma cancel_command_outcome:
  assumes "get_by_id cid (committed s) = Some c" "command_owner (committed s) c = Some owner" "texts_fit c"
    "fresh_ids env 1 (open_session s)"
  shows "\<exists>t. cancel_command env cid owner s = (Ok (c_state c \<in> set cancellable), t)
    \<and> (if c_state c \<in> set cancellable
       then \<exists>i. committed t = after_transition i (clock s) cid (c_state c) CANCELLED ''api'' None (committed s)
       else committed t = committed s)"
proof -
  have row: "row_by c_id cid (commands (working (open_session s))) = Some c" using assms(1) by (simp add: get_by_id_def)
  have cid: "c_id c = cid" using row_by_SomeD [OF row] by simp
  show ?thesis
  proof (cases "c_state c \<in> set cancellable")
    case True
    have f: "fresh_ids env (Suc 0) (open_session s)" using assms(4) by simp
    have "effective (c_state c) CANCELLED" using True by (simp add: effective_cancel)
    note run = transition_plain [OF _ row this assms(3) f, where src = "''api''"]
    show ?thesis
      using run(1) True assms(1,2)
      by (simp add: cancel_command_def with_session_def bindM_def select_def cid catchM_def seqM_def commit_def
          returnM_def get_by_id_def) blast
  next
    case False
    have "transition_command env cid CANCELLED ''api'' None (open_session s) =
        (Err (StateTransitionError cid (c_state c) CANCELLED), open_session s)"
      using False row by (intro transition_refused) (simp_all add: permitted_cancel)
    with False assms(1,2) show ?thesis
      by (simp add: cancel_command_def with_session_def bindM_def select_def cid catchM_def seqM_def
          false_on_refusal_def returnM_def get_by_id_def)
  qed
qed

lemma cancel_command_outcome_witness:
  "\<exists>t. cancel_command demo_env 5 1 (demo_st (demo_db [demo_command 5 QUEUED])) = (Ok True, t)
     \<and> map c_state (commands (committed t)) = [CANCELLED]"
proof -
  let ?s = "demo_st (demo_db [demo_command 5 QUEUED])"
  have pre: "get_by_id 5 (committed ?s) = Some (demo_command 5 QUEUED)"
    "command_owner (committed ?s) (demo_command 5 QUEUED) = Some 1" "texts_fit (demo_command 5 QUEUED)"
    by (simp_all add: get_by_id_def command_owner_def texts_fit_def fits_text_def)
  have fr: "fresh_ids demo_env 1 (open_session ?s)" by (rule demo_fresh) (auto simp: ids_of_def)
  from cancel_command_outcome [OF pre fr] show ?thesis
    by (auto simp: cancellable_def after_transition_def)
qed

section \<open>Listing\<close>

text \<open>
  Listing. The pages of \<open>list_commands\<close> partition the answer: each page holds only the owner's
  commands that match the filter, the reported total counts all of them, and the first \<open>k\<close> pages in
  sequence are the first \<open>k\<close> times page-size commands, newest first.
\<close>

lemma list_commands_pages:
  defines "rows \<equiv> \<lambda>d f owner. newest_first c_created_at
     (filter (command_matches d (f\<lparr>cf_owner_id := Some owner, cf_state := None\<rparr>)) (commands d))"
  shows "list_commands owner f None page n s =
      (Ok (paginate page n (rows (committed s) f owner), length (rows (committed s) f owner)), open_session s)
    \<and> (\<forall>c \<in> set (paginate page n (rows (committed s) f owner)). command_owner (committed s) c = Some owner)
    \<and> concat (map (\<lambda>p. paginate p n (rows (committed s) f owner)) [1..<Suc k]) = take (k * n) (rows (committed s) f owner)
    \<and> sorted (map (\<lambda>c. - c_created_at c) (rows (committed s) f owner))"
proof -
  let ?rows = "rows (committed s) f owner"
  have "list_commands owner f None page n s = (Ok (paginate page n ?rows, length ?rows), open_session s)"
    by (simp add: list_commands_def with_session_def repo_list_commands_def bindM_def liftM_def select_def Let_def rows_def)
  moreover have "command_owner (committed s) c = Some owner" if "c \<in> set (paginate page n ?rows)" for c
    using that by (auto simp: paginate_def rows_def command_matches_def dest!: in_set_takeD in_set_dropD)
  moreover have "sorted (map (\<lambda>c. - c_created_at c) ?rows)" by (simp add: rows_def newest_first_def)
  ultimately show ?thesis using concat_pages [of n ?rows k] by blast
qed

lemma list_commands_pages_witness:
  "\<exists>xs n. fst (list_commands 1 \<lparr>cf_owner_id = None, cf_device_id = None, cf_state = None, cf_risk_level = None,
      cf_command_type = None, cf_start_date = None, cf_end_date = None\<rparr> None 1 20
      (demo_st (demo_db [demo_command 5 QUEUED]))) = Ok (xs, n) \<and> length xs = 1"
proof -
  let ?f = "\<lparr>cf_owner_id = None, cf_device_id = None, cf_state = None, cf_risk_level = None,
      cf_command_type = None, cf_start_date = None, cf_end_date = None\<rparr>"
  from list_commands_pages [of 1 ?f 1 20 "demo_st (demo_db [demo_command 5 QUEUED])" 1] show ?thesis
    by (simp add: command_matches_def command_owner_def opt_eq_def str_filter_def newest_first_def paginate_def)
qed

end
