(* ===== verification/Consumer.thy ===== *)
theory Consumer
  imports Commands
begin

text \<open>
  \<^verbatim>\<open>app/workers/command_consumer.py\<close>: the four handlers of the command lifecycle and what the poll
  loop does with one message. A message is its subject and its decoded payload, or the error that
  decoding raised; the outcome is whether the message is acknowledged or refused (\<open>NAK\<close>, to be
  redelivered).

  A query for a duplicate compares the text of the JSON field \<open>dedup_key\<close>; the keys the code writes
  are strings, so only string values can match.
\<close>

section \<open>Helpers\<close>

definition payload_get :: "json \<Rightarrow> string \<Rightarrow> json \<Rightarrow> json res" where
  "payload_get p k dflt =
     (case p of JObj d \<Rightarrow> Ok (dict_get d k dflt) | _ \<Rightarrow> Err (AttributeError ''get''))"

text \<open>\<^verbatim>\<open>UUID(x)\<close> under \<^verbatim>\<open>except (ValueError, TypeError)\<close>: \<open>Ok None\<close> is the caught error.\<close>

definition uuid_or_caught :: "json \<Rightarrow> uuid option res" where
  "uuid_or_caught x =
     (case x of
        JNull \<Rightarrow> Ok None
      | JStr v \<Rightarrow> Ok (uuid_parse v)
      | _ \<Rightarrow> Err (AttributeError ''replace''))"

definition py_str_key :: "string \<Rightarrow> json \<Rightarrow> string" where
  "py_str_key p x = p @ (case x of JStr v \<Rightarrow> v | _ \<Rightarrow> ''None'')"

definition has_dedup_key :: "string \<Rightarrow> command_state_event \<Rightarrow> bool" where
  "has_dedup_key key e =
     (case e_event_metadata e of JObj m \<Rightarrow> map_of m ''dedup_key'' = Some (JStr key) | _ \<Rightarrow> False)"

definition is_duplicate :: "uuid \<Rightarrow> string \<Rightarrow> bool prog" where
  "is_duplicate command_id dedup_key =
     bindM (select (\<lambda>d. filter (has_dedup_key dedup_key) (events_of command_id d))) (\<lambda>rows.
       case rows of
         [] \<Rightarrow> returnM False
       | [_] \<Rightarrow> returnM True
       | _ \<Rightarrow> raiseM MultipleResultsFound)"

definition set_task ::
  "task_state \<Rightarrow> json \<Rightarrow> json \<Rightarrow> json \<Rightarrow> task \<Rightarrow> task" where
  "set_task new_task_state result_summary error_code error_message t =
     (let t1 = t\<lparr>t_state := new_task_state\<rparr>;
          t2 = (if result_summary \<noteq> JNull then t1\<lparr>t_result_summary := result_summary\<rparr> else t1);
          t3 = (if error_code \<noteq> JNull then t2\<lparr>t_error_code := error_code\<rparr> else t2)
      in (if error_message \<noteq> JNull then t3\<lparr>t_error_message := error_message\<rparr> else t3))"

definition update_task_of ::
  "uuid \<Rightarrow> task_state \<Rightarrow> json \<Rightarrow> json \<Rightarrow> json \<Rightarrow> unit prog" where
  "update_task_of command_id new_task_state result_summary error_code error_message =
     bindM (select (\<lambda>d. row_by t_command_id command_id (tasks d))) (\<lambda>task.
       case task of
         None \<Rightarrow> returnM ()
       | Some t \<Rightarrow> flush (update_task (t_id t) (set_task new_task_state result_summary error_code error_message)))"

text \<open>The device in the payload, when there is one, must be the command's.\<close>

definition device_mismatch :: "json \<Rightarrow> command \<Rightarrow> bool" where
  "device_mismatch device_id_str c = (truthy device_id_str \<and> device_id_str \<noteq> JStr (uuid_str (c_device_id c)))"

text \<open>\<^verbatim>\<open>except StateTransitionError\<close>: log and return, as \<open>False\<close>; other exceptions pass.\<close>

definition or_refused :: "unit prog \<Rightarrow> bool prog" where
  "or_refused m =
     catchM (seqM m (returnM True))
       (\<lambda>e. case e of StateTransitionError _ _ _ \<Rightarrow> returnM False | _ \<Rightarrow> raiseM e)"

section \<open>Handlers\<close>

text \<open>
  The frame that the handlers for deliveries, acknowledgements and results share: parse the
  identifier, open the session, skip duplicates, unknown commands and foreign devices, run the body.
\<close>

definition lifecycle_session :: "uuid \<Rightarrow> string \<Rightarrow> json \<Rightarrow> unit prog \<Rightarrow> unit prog" where
  "lifecycle_session command_id dedup_key device_id_str body =
     with_session
       (bindM (is_duplicate command_id dedup_key) (\<lambda>dup.
          if dup then returnM ()
          else
            bindM (select (get_by_id command_id)) (\<lambda>command.
              case command of
                None \<Rightarrow> returnM ()
              | Some c \<Rightarrow>
                  if device_mismatch device_id_str c then returnM ()
                  else bindM (or_refused body) (\<lambda>done. if done then commit else returnM ()))))"

definition lifecycle_handler :: "string \<Rightarrow> json \<Rightarrow> (uuid \<Rightarrow> string \<Rightarrow> unit prog) \<Rightarrow> unit prog" where
  "lifecycle_handler tag payload body =
     bindM (liftM (payload_get payload ''command_id'' JNull)) (\<lambda>command_id_str.
     bindM (liftM (payload_get payload ''device_id'' JNull)) (\<lambda>device_id_str.
     bindM (liftM (uuid_or_caught command_id_str)) (\<lambda>parsed.
       case parsed of
         None \<Rightarrow> returnM ()
       | Some command_id \<Rightarrow>
           (let dedup_key = py_str_key tag command_id_str in
            lifecycle_session command_id dedup_key device_id_str (body command_id dedup_key)))))"

definition handle_delivered :: "env \<Rightarrow> json \<Rightarrow> unit prog" where
  "handle_delivered env payload =
     lifecycle_handler ''delivered:'' payload (\<lambda>command_id dedup_key.
       seqM (transition_command env command_id DELIVERED ''gateway'' (Some [(''dedup_key'', JStr dedup_key)]))
       (update_task_of command_id T_RUNNING JNull JNull JNull))"

definition handle_acknowledged :: "env \<Rightarrow> json \<Rightarrow> unit prog" where
  "handle_acknowledged env payload =
     bindM (liftM (payload_get payload ''accepted'' (JBool True))) (\<lambda>accepted.
     lifecycle_handler ''acknowledged:'' payload (\<lambda>command_id dedup_key.
       if truthy accepted then
         seqM (transition_command env command_id ACKNOWLEDGED ''device'' (Some [(''dedup_key'', JStr dedup_key)]))
         (returnM ())
       else
         bindM (liftM (payload_get payload ''rejection_reason'' JNull)) (\<lambda>rejection_reason.
         seqM (transition_command env command_id FAILED ''device''
                 (Some [(''error_message'', rejection_reason), (''dedup_key'', JStr dedup_key)]))
         (update_task_of command_id T_FAILED JNull JNull rejection_reason))))"

definition handle_progress :: "env \<Rightarrow> json \<Rightarrow> unit prog" where
  "handle_progress env payload =
     bindM (liftM (payload_get payload ''command_id'' JNull)) (\<lambda>command_id_str.
     bindM (liftM (uuid_or_caught command_id_str)) (\<lambda>parsed.
       case parsed of
         None \<Rightarrow> returnM ()
       | Some command_id \<Rightarrow>
           with_session
             (bindM (select (get_by_id command_id)) (\<lambda>command.
                case command of
                  None \<Rightarrow> returnM ()
                | Some c \<Rightarrow>
                    seqM
                      (if c_state c = ACKNOWLEDGED then
                         seqM (or_refused
                           (seqM (transition_command env command_id RUNNING ''device''
                                    (Some [(''dedup_key'', JStr (py_str_key ''progress_first:'' command_id_str))]))
                           (update_task_of command_id T_RUNNING JNull JNull JNull)))
                         (returnM ())
                       else returnM ())
                      commit))))"

definition handle_result :: "env \<Rightarrow> json \<Rightarrow> unit prog" where
  "handle_result env payload =
     bindM (liftM (payload_get payload ''success'' (JBool False))) (\<lambda>success.
     lifecycle_handler ''result:'' payload (\<lambda>command_id dedup_key.
       if truthy success then
         bindM (liftM (payload_get payload ''result_data'' JNull)) (\<lambda>result_data.
         seqM (transition_command env command_id SUCCEEDED ''device''
                 (Some [(''result_data'', result_data), (''result_summary'', JStr ''success''),
                        (''dedup_key'', JStr dedup_key)]))
         (update_task_of command_id T_SUCCEEDED (JStr ''success'') JNull JNull))
       else
         bindM (liftM (payload_get payload ''error_code'' JNull)) (\<lambda>error_code.
         bindM (liftM (payload_get payload ''error_message'' JNull)) (\<lambda>error_message.
         seqM (transition_command env command_id FAILED ''device''
                 (Some [(''error_code'', error_code), (''error_message'', error_message),
                        (''dedup_key'', JStr dedup_key)]))
         (update_task_of command_id T_FAILED JNull error_code error_message)))))"

section \<open>The poll loop\<close>

definition HANDLERS :: "(string \<times> (env \<Rightarrow> json \<Rightarrow> unit prog)) list" where
  "HANDLERS = [(''delivered'', handle_delivered), (''acknowledged'', handle_acknowledged),
     (''progress'', handle_progress), (''result'', handle_result)]"

definition route_handler :: "string \<Rightarrow> (env \<Rightarrow> json \<Rightarrow> unit prog) option" where
  "route_handler subject = map_option snd (find (\<lambda>(key, _). py_in key subject) HANDLERS)"

datatype ack = ACK | NAK

definition process_message :: "env \<Rightarrow> string \<Rightarrow> json res \<Rightarrow> ack prog" where
  "process_message env subject data =
     (case route_handler subject of
        None \<Rightarrow> returnM ACK
      | Some handler \<Rightarrow>
          catchM (bindM (liftM data) (\<lambda>payload. seqM (handler env payload) (returnM ACK)))
            (\<lambda>exc. returnM NAK))"

fun process_messages :: "env \<Rightarrow> (string \<times> json res) list \<Rightarrow> ack list prog" where
  "process_messages env [] = returnM []"
| "process_messages env ((subject, data) # msgs) =
     bindM (process_message env subject data) (\<lambda>a. bindM (process_messages env msgs) (\<lambda>as. returnM (a # as)))"

section \<open>Redelivered messages\<close>

definition dedup_count :: "string \<Rightarrow> uuid \<Rightarrow> db \<Rightarrow> nat" where
  "dedup_count key cid d = length (filter (has_dedup_key key) (events_of cid d))"

lemma is_duplicate_run:
  assumes "\<not> failed s"
  shows "is_duplicate cid key s =
    (if dedup_count key cid (working s) = 0 then (Ok False, s)
     else if dedup_count key cid (working s) = 1 then (Ok True, s) else (Err MultipleResultsFound, s))"
  using assms
  by (auto simp: is_duplicate_def bindM_def select_def dedup_count_def returnM_def raiseM_def split: list.splits)

lemma update_task_of_ok:
  assumes "update_task_of cid st a b c s = (Ok (), t)"
  shows "events (working t) = events (working s) \<and> commands (working t) = commands (working s) \<and> failed t = failed s"
  using assms
  by (auto simp: update_task_of_def bindM_def select_def flush_def update_task_def returnM_def Let_def
      split: option.splits if_splits)

text \<open>A body that leaves one more event with its deduplication key whenever it succeeds.\<close>

definition leaves_mark :: "(uuid \<Rightarrow> string \<Rightarrow> unit prog) \<Rightarrow> bool" where
  "leaves_mark body = (\<forall>cid key s t. cid \<in> c_id ` set (commands (working s)) \<longrightarrow> body cid key s = (Ok (), t) \<longrightarrow>
     dedup_count key cid (working t) = Suc (dedup_count key cid (working s)))"

lemma dedup_count_after:
  "map_of md ''dedup_key'' = Some (JStr key) \<Longrightarrow>
     dedup_count key cid (after_transition eid now cid old new src (Some md) d) = Suc (dedup_count key cid d)"
  by (simp add: dedup_count_def events_of_after has_dedup_key_def transition_event_def)

lemma leaves_mark_transition:
  assumes "\<And>key. map_of (md key) ''dedup_key'' = Some (JStr key)"
  shows "leaves_mark (\<lambda>cid key. seqM (transition_command env cid new src (Some (md key))) (update_task_of cid st a b c))"
  unfolding leaves_mark_def
proof (intro allI impI)
  fix cid key s t
  assume cid: "cid \<in> c_id ` set (commands (working s))"
    and run: "seqM (transition_command env cid new src (Some (md key))) (update_task_of cid st a b c) s = (Ok (), t)"
  obtain r u where u: "transition_command env cid new src (Some (md key)) s = (Ok r, u)"
    using run by (auto simp: seqM_def bindM_def split: prod.splits sum.splits)
  with run have "update_task_of cid st a b c u = (Ok (), t)" by (simp add: seqM_def bindM_def)
  then have "dedup_count key cid (working t) = dedup_count key cid (working u)"
    using update_task_of_ok by (simp add: dedup_count_def events_of_def)
  also from u cid have "\<dots> = Suc (dedup_count key cid (working s))"
    by (elim transition_ok) (simp_all add: dedup_count_after assms)
  finally show "dedup_count key cid (working t) = Suc (dedup_count key cid (working s))" .
qed

lemma leaves_mark_plain:
  assumes "\<And>key. map_of (md key) ''dedup_key'' = Some (JStr key)"
  shows "leaves_mark (\<lambda>cid key. seqM (transition_command env cid new src (Some (md key))) (returnM ()))"
  unfolding leaves_mark_def
proof (intro allI impI)
  fix cid key s t
  assume cid: "cid \<in> c_id ` set (commands (working s))"
    and run: "seqM (transition_command env cid new src (Some (md key))) (returnM ()) s = (Ok (), t)"
  then obtain r where "transition_command env cid new src (Some (md key)) s = (Ok r, t)"
    by (auto simp: seqM_def bindM_def returnM_def split: prod.splits sum.splits)
  with cid show "dedup_count key cid (working t) = Suc (dedup_count key cid (working s))"
    by (elim transition_ok) (simp_all add: dedup_count_after assms)
qed

lemma payload_get_JObj [simp]: "payload_get (JObj d) k v = Ok (dict_get d k v)"
  by (simp add: payload_get_def)

lemma payload_get_Ok: "payload_get p k v = Inr x \<Longrightarrow> \<exists>d. p = JObj d \<and> x = dict_get d k v"
  by (auto simp: payload_get_def split: json.splits)

lemma lifecycle_handler_run:
  assumes "dict_get d ''command_id'' JNull = JStr x" "uuid_parse x = Some cid"
  shows "lifecycle_handler tag (JObj d) body =
    lifecycle_session cid (tag @ x) (dict_get d ''device_id'' JNull) (body cid (tag @ x))"
  using assms by (simp add: lifecycle_handler_def uuid_or_caught_def py_str_key_def Let_def)

lemma lifecycle_session_seen:
  "dedup_count key cid (committed s) = 1 \<Longrightarrow> lifecycle_session cid key v body s = (Ok (), open_session s)"
  by (simp add: lifecycle_session_def with_session_def bindM_def is_duplicate_run returnM_def)

lemma lifecycle_session_unseen:
  "dedup_count key cid (committed s) = 0 \<Longrightarrow> get_by_id cid (committed s) = Some c \<Longrightarrow> \<not> device_mismatch v c \<Longrightarrow>
     lifecycle_session cid key v body s =
       with_session (bindM (or_refused body) (\<lambda>done. if done then commit else returnM ())) s"
  by (simp add: lifecycle_session_def with_session_def bindM_def is_duplicate_run select_def)

lemma lifecycle_session_skipped:
  "dedup_count key cid (committed s) = 0 \<Longrightarrow>
     (\<And>c. get_by_id cid (committed s) = Some c \<Longrightarrow> device_mismatch v c) \<Longrightarrow>
     lifecycle_session cid key v body s = (Ok (), open_session s)"
  by (cases "get_by_id cid (committed s)")
    (simp_all add: lifecycle_session_def with_session_def bindM_def is_duplicate_run select_def returnM_def)

lemma lifecycle_session_broken:
  "1 < dedup_count key cid (committed s) \<Longrightarrow> fst (lifecycle_session cid key v body s) = Err MultipleResultsFound"
  by (simp add: lifecycle_session_def with_session_def bindM_def is_duplicate_run)

lemma or_refused_Ok:
  assumes "or_refused m s = (Ok b, t)"
  shows "b \<and> m s = (Ok (), t) \<or> \<not> b \<and> (\<exists>i x y. m s = (Err (StateTransitionError i x y), t))"
  using assms
  by (auto simp: or_refused_def catchM_def seqM_def bindM_def returnM_def raiseM_def
      split: prod.splits sum.splits exn.splits)

text \<open>A body that has written nothing when it is refused.\<close>

definition clean_refusal :: "(uuid \<Rightarrow> string \<Rightarrow> unit prog) \<Rightarrow> bool" where
  "clean_refusal body = (\<forall>cid key s t i x y. body cid key s = (Err (StateTransitionError i x y), t) \<longrightarrow>
     working t = working s \<and> committed t = committed s)"

lemma transition_refusal_clean:
  assumes "transition_command env cid new src md s = (Err (StateTransitionError i x y), t)"
  shows "t = s"
proof (cases "failed s \<or> cid \<notin> c_id ` set (commands (working s))")
  case True
  with assms show ?thesis
    by (cases "failed s") (simp_all add: transition_unknown transition_failed_session)
next
  case False
  then obtain c where f: "\<not> failed s" and c: "row_by c_id cid (commands (working s)) = Some c"
    by (metis not_Some_eq row_by_None)
  show ?thesis
  proof (cases "permitted (c_state c) new")
    case True
    from assms transition_permitted [OF f c True, of env src md] show ?thesis by (auto split: if_splits)
  next
    case False
    from assms transition_refused [OF f c False, of env src md] show ?thesis by simp
  qed
qed

lemma update_task_of_err:
  "update_task_of cid st a b c s \<noteq> (Err (StateTransitionError i x y), t)"
  by (auto simp: update_task_of_def bindM_def select_def flush_def update_task_def returnM_def Let_def
      split: option.splits if_splits)

lemma clean_refusal_transition:
  "clean_refusal (\<lambda>cid key. seqM (transition_command env cid new src (md key)) (update_task_of cid st a b c))"
  using update_task_of_err
  by (auto simp: clean_refusal_def seqM_def bindM_def dest: transition_refusal_clean split: prod.splits sum.splits)

lemma clean_refusal_plain:
  "clean_refusal (\<lambda>cid key. seqM (transition_command env cid new src (md key)) (returnM ()))"
  by (auto simp: clean_refusal_def seqM_def bindM_def returnM_def dest: transition_refusal_clean
      split: prod.splits sum.splits)

lemma lifecycle_changed:
  assumes "lifecycle_handler tag payload body s = (Ok (), t)" "committed t \<noteq> committed s"
    "leaves_mark body" "clean_refusal body"
  obtains d x cid where "payload = JObj d" "dict_get d ''command_id'' JNull = JStr x" "uuid_parse x = Some cid"
    "dedup_count (tag @ x) cid (committed t) = 1"
proof -
  let ?s = "open_session s"
  from assms(1) obtain d where d: "payload = JObj d"
    by (auto simp: lifecycle_handler_def raiseM_def payload_get_def split: json.splits)
  from assms(1,2) d obtain x cid where x: "dict_get d ''command_id'' JNull = JStr x" "uuid_parse x = Some cid"
    by (auto simp: lifecycle_handler_def uuid_or_caught_def returnM_def raiseM_def split: json.splits option.splits)
  let ?key = "tag @ x" and ?v = "dict_get d ''device_id'' JNull"
  have run: "lifecycle_session cid ?key ?v (body cid ?key) s = (Ok (), t)"
    using assms(1) unfolding d lifecycle_handler_run [OF x] .
  have zero: "dedup_count ?key cid (committed s) = 0"
    using run assms(2) lifecycle_session_broken [of ?key cid s ?v "body cid ?key"]
      lifecycle_session_seen [of ?key cid s ?v "body cid ?key"]
    by (cases "dedup_count ?key cid (committed s)" rule: linorder_cases [where y = 1]) auto
  obtain c where c: "get_by_id cid (committed s) = Some c" "\<not> device_mismatch ?v c"
    using run assms(2) lifecycle_session_skipped [OF zero, of ?v "body cid ?key"] by fastforce
  have run2: "with_session (bindM (or_refused (body cid ?key)) (\<lambda>done. if done then commit else returnM ())) s = (Ok (), t)"
    using run unfolding lifecycle_session_unseen [OF zero c] .
  then obtain b u where b: "or_refused (body cid (tag @ x)) ?s = (Ok b, u)"
    by (auto simp: with_session_def bindM_def split: prod.splits sum.splits)
  have cid: "cid \<in> c_id ` set (commands (working ?s))" using c by (auto simp: get_by_id_def intro: row_by_SomeK)
  show thesis
  proof (cases b)
    case True
    with or_refused_Ok [OF b] have u: "body cid (tag @ x) ?s = (Ok (), u)" by simp
    from assms(3) [unfolded leaves_mark_def, rule_format, OF cid u] zero
    have "dedup_count (tag @ x) cid (working u) = 1" by simp
    moreover have "committed t = working u"
      using run2 b True by (auto simp: with_session_def bindM_def commit_def split: if_splits)
    ultimately show thesis using that d x by simp
  next
    case False
    with or_refused_Ok [OF b] assms(4) have "working u = committed s" by (auto simp: clean_refusal_def)
    with run2 b False assms(2) show thesis by (auto simp: with_session_def bindM_def returnM_def split: if_splits)
  qed
qed

text \<open>The bodies of the three handlers, with their payload read.\<close>

lemma handle_acknowledged_eq:
  "handle_acknowledged env (JObj d) = lifecycle_handler ''acknowledged:'' (JObj d)
     (if truthy (dict_get d ''accepted'' (JBool True))
      then (\<lambda>cid key. seqM (transition_command env cid ACKNOWLEDGED ''device'' (Some [(''dedup_key'', JStr key)])) (returnM ()))
      else (\<lambda>cid key. seqM (transition_command env cid FAILED ''device''
             (Some [(''error_message'', dict_get d ''rejection_reason'' JNull), (''dedup_key'', JStr key)]))
           (update_task_of cid T_FAILED JNull JNull (dict_get d ''rejection_reason'' JNull))))"
  by (simp add: handle_acknowledged_def)

lemma handle_result_eq:
  "handle_result env (JObj d) = lifecycle_handler ''result:'' (JObj d)
     (if truthy (dict_get d ''success'' (JBool False))
      then (\<lambda>cid key. seqM (transition_command env cid SUCCEEDED ''device''
             (Some [(''result_data'', dict_get d ''result_data'' JNull), (''result_summary'', JStr ''success''),
                    (''dedup_key'', JStr key)]))
           (update_task_of cid T_SUCCEEDED (JStr ''success'') JNull JNull))
      else (\<lambda>cid key. seqM (transition_command env cid FAILED ''device''
             (Some [(''error_code'', dict_get d ''error_code'' JNull), (''error_message'', dict_get d ''error_message'' JNull),
                    (''dedup_key'', JStr key)]))
           (update_task_of cid T_FAILED JNull (dict_get d ''error_code'' JNull) (dict_get d ''error_message'' JNull))))"
  by (simp add: handle_result_def)

lemma handle_not_object:
  "payload_get payload ''x'' v = Inl e \<Longrightarrow> handle_delivered env payload = raiseM (AttributeError ''get'')
     \<and> handle_acknowledged env payload = raiseM (AttributeError ''get'')
     \<and> handle_result env payload = raiseM (AttributeError ''get'')"
  by (cases payload) (simp_all add: handle_delivered_def handle_acknowledged_def handle_result_def
      lifecycle_handler_def payload_get_def)

lemma redelivered:
  assumes "lifecycle_handler tag payload body s = (Ok (), t)" "committed t \<noteq> committed s"
    "leaves_mark body" "clean_refusal body"
  shows "lifecycle_handler tag payload body t = (Ok (), open_session t)"
proof -
  obtain d x cid where "payload = JObj d" "dict_get d ''command_id'' JNull = JStr x" "uuid_parse x = Some cid"
    "dedup_count (tag @ x) cid (committed t) = 1"
    by (rule lifecycle_changed [OF assms])
  then show ?thesis by (simp add: lifecycle_handler_run lifecycle_session_seen)
qed


end
