(* ===== verification/Lifecycle.thy ===== *)
theory Lifecycle
  imports Consumer
begin

text \<open>
  What the handlers of \<open>Consumer\<close> do to a command in flight: the four messages of a successful run take
  a queued command to \<open>SUCCEEDED\<close>; foreign, premature and refused reports leave the database alone.
\<close>

section \<open>Commands in flight\<close>

text \<open>
  \<open>flight env n cid dev x s\<close>: the open session sees the command in state \<open>x\<close> on its device, with its
  task, and the next \<open>n\<close> identifiers are fresh. Each step a handler takes leads from one such
  session to another.
\<close>

definition flight :: "env \<Rightarrow> nat \<Rightarrow> uuid \<Rightarrow> uuid \<Rightarrow> command_state \<Rightarrow> st \<Rightarrow> bool" where
  "flight env n cid dev x s =
     (\<not> failed s
      \<and> (\<exists>c. row_by c_id cid (commands (working s)) = Some c \<and> c_state c = x \<and> c_device_id c = dev \<and> texts_fit c)
      \<and> (\<exists>t. row_by t_command_id cid (tasks (working s)) = Some t \<and> row_by t_id (t_id t) (tasks (working s)) = Some t
            \<and> task_fits t)
      \<and> fresh_ids env n s)"

lemma set_task_keys [simp]:
  "t_id (set_task st a b c t) = t_id t" "t_command_id (set_task st a b c t) = t_command_id t"
  "t_state (set_task st a b c t) = st"
  by (simp_all add: set_task_def Let_def)

lemma set_task_fits:
  "task_fits t \<Longrightarrow> fits_text None a \<Longrightarrow> fits_text (Some 50) b \<Longrightarrow> fits_text None c \<Longrightarrow> task_fits (set_task st a b c t)"
  by (simp add: task_fits_def set_task_def Let_def)

lemma row_by_set_task:
  assumes "row_by t_command_id cid ts = Some t" "row_by t_id (t_id t) ts = Some t"
  shows "row_by t_command_id cid (update_by t_id (t_id t) (set_task st a b c) ts) = Some (set_task st a b c t)"
    and "row_by t_id (t_id t) (update_by t_id (t_id t) (set_task st a b c) ts) = Some (set_task st a b c t)"
  using assms by (induction ts) (auto dest: row_by_SomeD split: if_splits)

lemma dedup_count_tasks [simp]: "dedup_count k cid (d\<lparr>tasks := ts\<rparr>) = dedup_count k cid d"
  by (simp add: dedup_count_def events_of_def)

lemma dedup_count_after_other:
  "map_of md ''dedup_key'' \<noteq> Some (JStr k) \<Longrightarrow>
     dedup_count k cid (after_transition eid now cid old new src (Some md) d) = dedup_count k cid d"
  by (simp add: dedup_count_def events_of_after has_dedup_key_def transition_event_def)

lemma flight_transition:
  fixes src :: string
  assumes fl: "flight env (Suc n) cid dev x s" and eff: "effective x y"
    and md: "\<And>c now. texts_fit c \<Longrightarrow> texts_fit (stamp now y (Some md) c)"
  obtains c u where "transition_command env cid y src (Some md) s = (Ok (Some c), u)" "flight env n cid dev y u"
    "\<forall>k. map_of md ''dedup_key'' \<noteq> Some (JStr k) \<longrightarrow> dedup_count k cid (working u) = dedup_count k cid (working s)"
    "row_by c_id cid (commands (working u)) = Some c"
    "\<exists>c0. c = stamp (clock s) y (Some md) c0" "tasks (working u) = tasks (working s)" "clock u = clock s"
proof -
  from fl obtain c where c: "row_by c_id cid (commands (working s)) = Some c" "c_state c = x" "c_device_id c = dev" "texts_fit c"
    and f: "\<not> failed s" and fr: "fresh_ids env (Suc n) s"
    unfolding flight_def by blast
  define u where "u = s\<lparr>working := after_transition (gen_uuid env (entropy s)) (clock s) cid (c_state c) y src (Some md)
      (working s), entropy := Suc (entropy s)\<rparr>"
  have eid: "gen_uuid env (entropy s) \<notin> e_id ` set (events (working s))"
    using fresh_ids_now [OF fr] by (auto simp: ids_of_def)
  have "stamp_fits (clock s) y (Some md) c" using md [OF c(4)] by (simp add: stamp_fits_def texts_fit_def Let_def)
  then have run: "transition_command env cid y src (Some md) s = (Ok (Some (stamp (clock s) y (Some md) c)), u)"
    using transition_run [OF f c(1) _ _ eid] c(2) eff by (simp add: u_def)
  have same: "\<not> failed u" "tasks (working u) = tasks (working s)" "clock u = clock s"
    using f by (simp_all add: u_def after_transition_def)
  have row: "row_by c_id cid (commands (working u)) = Some (stamp (clock s) y (Some md) c)"
    using c(1) by (simp add: u_def after_transition_def table_simps)
  have fr': "fresh_ids env n u" unfolding u_def by (rule fresh_ids_after [OF fr])
  have "flight env n cid dev y u"
    using fl fr' same row md [OF c(4)] c(3) by (simp add: flight_def)
  then show thesis
    by (rule that [OF run]) (use row same in \<open>auto simp: u_def dedup_count_after_other\<close>)
qed

lemma flight_task:
  assumes fl: "flight env n cid dev x s"
    and fits: "fits_text None a" "fits_text (Some 50) b" "fits_text None e"
  obtains t u where "update_task_of cid st a b e s = (Ok (), u)" "flight env n cid dev x u"
    "\<forall>k. dedup_count k cid (working u) = dedup_count k cid (working s)"
    "commands (working u) = commands (working s)" "row_by t_command_id cid (tasks (working u)) = Some t"
    "t_state t = st" "clock u = clock s"
proof -
  from fl obtain t where t: "row_by t_command_id cid (tasks (working s)) = Some t"
      "row_by t_id (t_id t) (tasks (working s)) = Some t" "task_fits t"
    and f: "\<not> failed s" and fr: "fresh_ids env n s"
    unfolding flight_def by blast
  define u where "u = s\<lparr>working := (working s)\<lparr>tasks := update_by t_id (t_id t) (set_task st a b e) (tasks (working s))\<rparr>\<rparr>"
  note fits' = set_task_fits [OF t(3) fits, of st]
  have run: "update_task_of cid st a b e s = (Ok (), u)"
    using f t(1,2) fits'
    by (simp add: update_task_of_def bindM_def select_def flush_def update_task_def Let_def task_fits_def u_def)
  have rows: "row_by t_command_id cid (tasks (working u)) = Some (set_task st a b e t)"
    "row_by t_id (t_id t) (tasks (working u)) = Some (set_task st a b e t)"
    using row_by_set_task [OF t(1,2)] by (simp_all add: u_def)
  have fr': "fresh_ids env n u"
    by (rule fresh_ids_same [OF fr]) (auto simp: u_def ids_of_def image_update_by)
  have "flight env n cid dev x u"
    using fl fr' rows fits' by (simp add: flight_def u_def)
  then show thesis
    by (rule that [OF run]) (use rows in \<open>auto simp: u_def\<close>)
qed

text \<open>A handler whose body reaches the end commits what the body wrote.\<close>

lemma lifecycle_commits:
  assumes fl: "flight env m cid dev x (open_session s)"
    and msg: "dict_get d ''command_id'' JNull = JStr (uuid_str cid)"
      "dict_get d ''device_id'' JNull \<in> {JNull, JStr (uuid_str dev)}"
    and new: "dedup_count (tag @ uuid_str cid) cid (committed s) = 0"
    and body: "body cid (tag @ uuid_str cid) (open_session s) = (Ok (), u)" "\<not> failed u"
  shows "lifecycle_handler tag (JObj d) body s = (Ok (), u\<lparr>committed := working u\<rparr>)"
proof -
  from fl obtain c where c: "get_by_id cid (committed s) = Some c" "c_device_id c = dev"
    by (auto simp: flight_def get_by_id_def)
  then have "\<not> device_mismatch (dict_get d ''device_id'' JNull) c" using msg(2) by (auto simp: device_mismatch_def)
  then show ?thesis
    using body lifecycle_session_unseen [OF new c(1)]
    by (simp add: lifecycle_handler_run [OF msg(1)] with_session_def bindM_def or_refused_def catchM_def seqM_def
        returnM_def commit_def)
qed

lemma flight_committed: "flight env n cid dev x u \<Longrightarrow> flight env n cid dev x (open_session (u\<lparr>committed := working u\<rparr>))"
  by (simp add: flight_def fresh_ids_def)

lemma texts_fit_moved:
  "y \<notin> {SUCCEEDED, FAILED} \<Longrightarrow> texts_fit c \<Longrightarrow> texts_fit (stamp now y md c)"
  by (simp add: texts_fit_def stamp_def Let_def)

text \<open>
  \<open>arrives env n cid dev y s t\<close>: the run from \<open>s\<close> to \<open>t\<close> brought the command to state \<open>y\<close> and left
  the deduplication keys other than \<open>key\<close> alone.
\<close>

definition arrives :: "env \<Rightarrow> nat \<Rightarrow> uuid \<Rightarrow> uuid \<Rightarrow> command_state \<Rightarrow> string \<Rightarrow> st \<Rightarrow> st \<Rightarrow> bool" where
  "arrives env n cid dev y key s t =
     (flight env n cid dev y (open_session t) \<and> clock t = clock s
      \<and> (\<forall>k. k \<noteq> key \<longrightarrow> dedup_count k cid (committed t) = dedup_count k cid (committed s)))"

lemma body_with_task:
  fixes src :: string
  assumes fl: "flight env (Suc n) cid dev x s" and eff: "effective x y"
    and md: "\<And>c now. texts_fit c \<Longrightarrow> texts_fit (stamp now y (Some md) c)" "map_of md ''dedup_key'' = Some (JStr key)"
    and fits: "fits_text None a" "fits_text (Some 50) b" "fits_text None e"
  obtains u t where
    "seqM (transition_command env cid y src (Some md)) (update_task_of cid st a b e) s = (Ok (), u)"
    "flight env n cid dev y u" "clock u = clock s"
    "\<forall>k. k \<noteq> key \<longrightarrow> dedup_count k cid (working u) = dedup_count k cid (working s)"
    "\<exists>c0. row_by c_id cid (commands (working u)) = Some (stamp (clock s) y (Some md) c0)"
    "row_by t_command_id cid (tasks (working u)) = Some t" "t_state t = st"
proof -
  obtain c v where v: "transition_command env cid y src (Some md) s = (Ok (Some c), v)" "flight env n cid dev y v"
    "\<forall>k. map_of md ''dedup_key'' \<noteq> Some (JStr k) \<longrightarrow> dedup_count k cid (working v) = dedup_count k cid (working s)"
    "row_by c_id cid (commands (working v)) = Some c" "\<exists>c0. c = stamp (clock s) y (Some md) c0" "clock v = clock s"
    by (rule flight_transition [OF fl eff md(1), of src]) blast
  obtain t u where u: "update_task_of cid st a b e v = (Ok (), u)" "flight env n cid dev y u"
    "\<forall>k. dedup_count k cid (working u) = dedup_count k cid (working v)"
    "commands (working u) = commands (working v)" "row_by t_command_id cid (tasks (working u)) = Some t"
    "t_state t = st" "clock u = clock v"
    by (rule flight_task [OF v(2) fits, of st]) blast
  show thesis
    by (rule that [of u t]) (use u v md(2) in \<open>auto simp: seqM_def bindM_def\<close>)
qed

lemma arrives_committed:
  assumes "flight env n cid dev y u" "clock u = clock s"
    "\<forall>k. k \<noteq> key \<longrightarrow> dedup_count k cid (working u) = dedup_count k cid (committed s)"
  shows "arrives env n cid dev y key s (u\<lparr>committed := working u\<rparr>)"
  using assms flight_committed [OF assms(1)] by (simp add: arrives_def)

lemma task_handler_step:
  fixes src :: string
  assumes fl: "flight env (Suc n) cid dev x (open_session s)"
    and msg: "dict_get d ''command_id'' JNull = JStr (uuid_str cid)"
      "dict_get d ''device_id'' JNull \<in> {JNull, JStr (uuid_str dev)}"
    and new: "dedup_count (tag @ uuid_str cid) cid (committed s) = 0"
    and eff: "effective x y"
    and md: "\<And>c now key. texts_fit c \<Longrightarrow> texts_fit (stamp now y (Some (md key)) c)"
      "\<And>key. map_of (md key) ''dedup_key'' = Some (JStr key)"
    and fits: "fits_text None a" "fits_text (Some 50) b" "fits_text None e"
  obtains t where
    "lifecycle_handler tag (JObj d) (\<lambda>cid key. seqM (transition_command env cid y src (Some (md key)))
       (update_task_of cid st a b e)) s = (Ok (), t)"
    "arrives env n cid dev y (tag @ uuid_str cid) s t"
    "\<exists>c0. row_by c_id cid (commands (committed t)) = Some (stamp (clock s) y (Some (md (tag @ uuid_str cid))) c0)"
    "\<exists>tk. row_by t_command_id cid (tasks (committed t)) = Some tk \<and> t_state tk = st"
proof -
  let ?key = "tag @ uuid_str cid"
  obtain u tk where u: "seqM (transition_command env cid y src (Some (md ?key))) (update_task_of cid st a b e) (open_session s) = (Ok (), u)"
    "flight env n cid dev y u" "clock u = clock s"
    "\<forall>k. k \<noteq> ?key \<longrightarrow> dedup_count k cid (working u) = dedup_count k cid (committed s)"
    "\<exists>c0. row_by c_id cid (commands (working u)) = Some (stamp (clock s) y (Some (md ?key)) c0)"
    "row_by t_command_id cid (tasks (working u)) = Some tk" "t_state tk = st"
    by (rule body_with_task [OF fl eff md(1) md(2) fits, of src ?key st]) auto
  have "\<not> failed u" using u(2) by (simp add: flight_def)
  with u show thesis
    by (intro that [of "u\<lparr>committed := working u\<rparr>"])
      (simp_all add: lifecycle_commits [OF fl msg new] arrives_committed)
qed

lemmas effective_defs = effective_def permitted_def validate_command_state_transition_def

lemma handle_delivered_step:
  assumes fl: "flight env (Suc n) cid dev QUEUED (open_session s)"
    and msg: "dict_get d ''command_id'' JNull = JStr (uuid_str cid)"
      "dict_get d ''device_id'' JNull \<in> {JNull, JStr (uuid_str dev)}"
    and new: "dedup_count (''delivered:'' @ uuid_str cid) cid (committed s) = 0"
  obtains t where "handle_delivered env (JObj d) s = (Ok (), t)"
    "arrives env n cid dev DELIVERED (''delivered:'' @ uuid_str cid) s t"
  unfolding handle_delivered_def
  by (rule task_handler_step [OF fl msg new, of DELIVERED "\<lambda>key. [(''dedup_key'', JStr key)]" JNull JNull JNull
        "''gateway''" T_RUNNING])
    (auto simp: effective_defs texts_fit_moved fits_text_def)

lemma handle_acknowledged_step:
  assumes fl: "flight env (Suc n) cid dev DELIVERED (open_session s)"
    and msg: "dict_get d ''command_id'' JNull = JStr (uuid_str cid)"
      "dict_get d ''device_id'' JNull \<in> {JNull, JStr (uuid_str dev)}"
    and acc: "truthy (dict_get d ''accepted'' (JBool True))"
    and new: "dedup_count (''acknowledged:'' @ uuid_str cid) cid (committed s) = 0"
  obtains t where "handle_acknowledged env (JObj d) s = (Ok (), t)"
    "arrives env n cid dev ACKNOWLEDGED (''acknowledged:'' @ uuid_str cid) s t"
proof -
  let ?key = "''acknowledged:'' @ uuid_str cid"
  have eff: "effective DELIVERED ACKNOWLEDGED" by (simp add: effective_defs)
  obtain c u where u: "transition_command env cid ACKNOWLEDGED ''device'' (Some [(''dedup_key'', JStr ?key)]) (open_session s) = (Ok (Some c), u)"
    "flight env n cid dev ACKNOWLEDGED u"
    "\<forall>k. map_of [(''dedup_key'', JStr ?key)] ''dedup_key'' \<noteq> Some (JStr k) \<longrightarrow>
       dedup_count k cid (working u) = dedup_count k cid (working (open_session s))"
    "clock u = clock (open_session s)"
    by (rule flight_transition [OF fl eff, of "[(''dedup_key'', JStr ?key)]" "''device''"]) (auto simp: texts_fit_moved)
  have "\<not> failed u" using u(2) by (simp add: flight_def)
  with u show thesis
    by (intro that [of "u\<lparr>committed := working u\<rparr>"])
      (simp_all add: handle_acknowledged_eq acc lifecycle_commits [OF fl msg new] arrives_committed seqM_def bindM_def returnM_def)
qed

lemma handle_progress_step:
  assumes fl: "flight env (Suc n) cid dev ACKNOWLEDGED (open_session s)"
    and msg: "dict_get d ''command_id'' JNull = JStr (uuid_str cid)"
  obtains t where "handle_progress env (JObj d) s = (Ok (), t)"
    "arrives env n cid dev RUNNING (''progress_first:'' @ uuid_str cid) s t"
proof -
  let ?key = "''progress_first:'' @ uuid_str cid"
  have eff: "effective ACKNOWLEDGED RUNNING" by (simp add: effective_defs)
  obtain u tk where u: "seqM (transition_command env cid RUNNING ''device'' (Some [(''dedup_key'', JStr ?key)]))
      (update_task_of cid T_RUNNING JNull JNull JNull) (open_session s) = (Ok (), u)"
    "flight env n cid dev RUNNING u" "clock u = clock (open_session s)"
    "\<forall>k. k \<noteq> ?key \<longrightarrow> dedup_count k cid (working u) = dedup_count k cid (working (open_session s))"
    by (rule body_with_task [OF fl eff, of "[(''dedup_key'', JStr ?key)]" ?key JNull JNull JNull "''device''" T_RUNNING])
      (auto simp: texts_fit_moved fits_text_def)
  have f: "\<not> failed u" using u(2) by (simp add: flight_def)
  from fl obtain c where c: "get_by_id cid (committed s) = Some c" "c_state c = ACKNOWLEDGED"
    by (auto simp: flight_def get_by_id_def)
  have "handle_progress env (JObj d) s = (Ok (), u\<lparr>committed := working u\<rparr>)"
    using u(1) f c msg
    by (simp add: handle_progress_def uuid_or_caught_def py_str_key_def with_session_def bindM_def select_def
        seqM_def or_refused_def catchM_def returnM_def commit_def)
  then show thesis by (rule that) (use u in \<open>simp add: arrives_committed\<close>)
qed

lemma handle_result_step:
  assumes fl: "flight env (Suc n) cid dev RUNNING (open_session s)"
    and msg: "dict_get d ''command_id'' JNull = JStr (uuid_str cid)"
      "dict_get d ''device_id'' JNull \<in> {JNull, JStr (uuid_str dev)}"
    and suc: "truthy (dict_get d ''success'' (JBool False))"
    and new: "dedup_count (''result:'' @ uuid_str cid) cid (committed s) = 0"
  obtains t c tk where "handle_result env (JObj d) s = (Ok (), t)"
    "row_by c_id cid (commands (committed t)) = Some c" "c_state c = SUCCEEDED"
    "c_result_data c = dict_get d ''result_data'' JNull" "c_finished_at c = Some (clock s)"
    "row_by t_command_id cid (tasks (committed t)) = Some tk" "t_state tk = T_SUCCEEDED"
  unfolding handle_result_eq
  by (rule task_handler_step [OF fl msg new, of SUCCEEDED "\<lambda>key. [(''result_data'', dict_get d ''result_data'' JNull),
        (''result_summary'', JStr ''success''), (''dedup_key'', JStr key)]" "JStr ''success''" JNull JNull "''device''" T_SUCCEEDED])
    (auto simp: suc effective_defs texts_fit_def fits_text_def stamp_def Let_def has_key_def)

section \<open>The lifecycle\<close>

text \<open>The payload names the command and, if any, its device.\<close>

definition addressed :: "dict \<Rightarrow> uuid \<Rightarrow> uuid \<Rightarrow> bool" where
  "addressed d cid dev = (dict_get d ''command_id'' JNull = JStr (uuid_str cid)
     \<and> dict_get d ''device_id'' JNull \<in> {JNull, JStr (uuid_str dev)})"

text \<open>Each subject of the catalogue reaches its handler.\<close>

lemma py_in_subject:
  assumes "c \<in> set p" "c \<notin> set (uuid_str u)" "CHR ''.'' \<notin> set p"
  shows "py_in p (xs @ CHR ''.'' # uuid_str u) \<longleftrightarrow> py_in p xs"
  using assms py_in_sep [OF assms(3)] py_in_set [of p "uuid_str u"] by auto

lemma uuid_str_no_r: "CHR ''r'' \<notin> set (uuid_str u)" "CHR ''k'' \<notin> set (uuid_str u)"
  using set_uuid_str [of u] by (auto simp: hex_chars_def)

lemma routes:
  "route_handler (command_delivered (uuid_str u)) = Some handle_delivered"
  "route_handler (command_acknowledged (uuid_str u)) = Some handle_acknowledged"
  "route_handler (command_progress (uuid_str u)) = Some handle_progress"
  "route_handler (command_result (uuid_str u)) = Some handle_result"
proof -
  have keys: "py_in ''delivered'' (xs @ CHR ''.'' # uuid_str u) = py_in ''delivered'' xs"
    "py_in ''acknowledged'' (xs @ CHR ''.'' # uuid_str u) = py_in ''acknowledged'' xs"
    "py_in ''progress'' (xs @ CHR ''.'' # uuid_str u) = py_in ''progress'' xs"
    "py_in ''result'' (xs @ CHR ''.'' # uuid_str u) = py_in ''result'' xs" for xs
    using uuid_str_no_r [of u]
    by (simp_all add: py_in_subject [of "CHR ''r''"] py_in_subject [of "CHR ''k''"])
  note k = keys [of "''veyaan.command.delivered''"] keys [of "''veyaan.command.acknowledged''"]
    keys [of "''veyaan.command.progress''"] keys [of "''veyaan.command.result''"]
  show "route_handler (command_delivered (uuid_str u)) = Some handle_delivered"
    "route_handler (command_acknowledged (uuid_str u)) = Some handle_acknowledged"
    "route_handler (command_progress (uuid_str u)) = Some handle_progress"
    "route_handler (command_result (uuid_str u)) = Some handle_result"
    using k by (simp_all add: route_handler_def HANDLERS_def subject_defs)
qed

lemma process_message_Ok:
  "route_handler subj = Some h \<Longrightarrow> h env payload s = (Ok (), t) \<Longrightarrow>
     process_message env subj (Ok payload) s = (Ok ACK, t)"
  by (simp add: process_message_def catchM_def seqM_def bindM_def returnM_def)

lemma process_message_Err:
  "route_handler subj = Some h \<Longrightarrow> h env payload s = (Err e, t) \<Longrightarrow>
     process_message env subj (Ok payload) s = (Ok NAK, t)"
  by (simp add: process_message_def catchM_def seqM_def bindM_def returnM_def)

text \<open>
  C26. A queued command runs to completion. When the delivery, the acknowledgement, the first progress
  report and the successful result of a queued command arrive in order, none of them seen before,
  every message is acknowledged, the command ends \<open>SUCCEEDED\<close> with the reported result and the time
  it finished, and its task ends succeeded.
\<close>

theorem lifecycle_completes:
  assumes "flight env 4 cid dev QUEUED (open_session s)"
    and "\<forall>tag \<in> {''delivered:'', ''acknowledged:'', ''result:''}. dedup_count (tag @ uuid_str cid) cid (committed s) = 0"
    and "\<forall>d \<in> {d1, d2, d3, d4}. addressed d cid dev"
    and "truthy (dict_get d2 ''accepted'' (JBool True))" "truthy (dict_get d4 ''success'' (JBool False))"
  shows "\<exists>t c tk.
    process_messages env
      [(command_delivered (uuid_str cid), Ok (JObj d1)), (command_acknowledged (uuid_str cid), Ok (JObj d2)),
       (command_progress (uuid_str cid), Ok (JObj d3)), (command_result (uuid_str cid), Ok (JObj d4))] s =
      (Ok [ACK, ACK, ACK, ACK], t)
    \<and> row_by c_id cid (commands (committed t)) = Some c \<and> c_state c = SUCCEEDED
    \<and> c_result_data c = dict_get d4 ''result_data'' JNull \<and> c_finished_at c = Some (clock s)
    \<and> row_by t_command_id cid (tasks (committed t)) = Some tk \<and> t_state tk = T_SUCCEEDED"
proof -
  have msg: "dict_get d ''command_id'' JNull = JStr (uuid_str cid)"
    "dict_get d ''device_id'' JNull \<in> {JNull, JStr (uuid_str dev)}" if "d \<in> {d1, d2, d3, d4}" for d
    using assms(3) that unfolding addressed_def by blast+
  have ds: "d1 \<in> {d1, d2, d3, d4}" "d2 \<in> {d1, d2, d3, d4}" "d3 \<in> {d1, d2, d3, d4}" "d4 \<in> {d1, d2, d3, d4}" by simp_all
  have new: "dedup_count (''delivered:'' @ uuid_str cid) cid (committed s) = 0"
    "dedup_count (''acknowledged:'' @ uuid_str cid) cid (committed s) = 0"
    "dedup_count (''result:'' @ uuid_str cid) cid (committed s) = 0"
    using assms(2) by simp_all
  have n: "(4::nat) = Suc 3" "(3::nat) = Suc 2" "(2::nat) = Suc 1" "(1::nat) = Suc 0" by simp_all
  obtain s1 where s1: "handle_delivered env (JObj d1) s = (Ok (), s1)"
    "arrives env 3 cid dev DELIVERED (''delivered:'' @ uuid_str cid) s s1"
    by (rule handle_delivered_step [OF assms(1) [unfolded n(1)] msg [OF ds(1)] new(1)])
  then have f1: "flight env (Suc 2) cid dev DELIVERED (open_session s1)"
    and c1: "dedup_count (''acknowledged:'' @ uuid_str cid) cid (committed s1) = 0"
    using new(2) unfolding n(2) by (simp_all add: arrives_def)
  obtain s2 where s2: "handle_acknowledged env (JObj d2) s1 = (Ok (), s2)"
    "arrives env 2 cid dev ACKNOWLEDGED (''acknowledged:'' @ uuid_str cid) s1 s2"
    by (rule handle_acknowledged_step [OF f1 msg [OF ds(2)] assms(4) c1])
  then have f2: "flight env (Suc 1) cid dev ACKNOWLEDGED (open_session s2)"
    unfolding n(3) by (simp add: arrives_def)
  obtain s3 where s3: "handle_progress env (JObj d3) s2 = (Ok (), s3)"
    "arrives env 1 cid dev RUNNING (''progress_first:'' @ uuid_str cid) s2 s3"
    by (rule handle_progress_step [OF f2 msg(1) [OF ds(3)]])
  have f3: "flight env (Suc 0) cid dev RUNNING (open_session s3)" "clock s3 = clock s"
    and c3: "dedup_count (''result:'' @ uuid_str cid) cid (committed s3) = 0"
    using s1(2) s2(2) s3(2) new(3) by (simp_all add: arrives_def)
  obtain t c tk where t: "handle_result env (JObj d4) s3 = (Ok (), t)"
    "row_by c_id cid (commands (committed t)) = Some c" "c_state c = SUCCEEDED"
    "c_result_data c = dict_get d4 ''result_data'' JNull" "c_finished_at c = Some (clock s3)"
    "row_by t_command_id cid (tasks (committed t)) = Some tk" "t_state tk = T_SUCCEEDED"
    by (rule handle_result_step [OF f3(1) msg [OF ds(4)] assms(5) c3])
  note runs = process_message_Ok [OF routes(1) s1(1)] process_message_Ok [OF routes(2) s2(1)]
    process_message_Ok [OF routes(3) s3(1)] process_message_Ok [OF routes(4) t(1)]
  have "process_messages env
      [(command_delivered (uuid_str cid), Ok (JObj d1)), (command_acknowledged (uuid_str cid), Ok (JObj d2)),
       (command_progress (uuid_str cid), Ok (JObj d3)), (command_result (uuid_str cid), Ok (JObj d4))] s =
      (Ok [ACK, ACK, ACK, ACK], t)"
    using runs by (simp add: bindM_def returnM_def)
  with t f3(2) show ?thesis by auto
qed

definition demo_queued :: db where
  "demo_queued = (demo_db [demo_command 5 QUEUED])\<lparr>tasks := [new_task 6 5]\<rparr>"

definition demo_msg :: dict where
  "demo_msg = [(''command_id'', JStr (uuid_str 5)), (''device_id'', JStr (uuid_str 2)), (''success'', JBool True),
     (''result_data'', JObj [(''ok'', JBool True)])]"

lemma demo_msg_addressed: "addressed demo_msg 5 2"
  by (simp add: addressed_def demo_msg_def)

lemma demo_flight: "flight demo_env 4 5 2 QUEUED (open_session (demo_st demo_queued))"
proof -
  have "fresh_ids demo_env 4 (open_session (demo_st demo_queued))"
    by (rule demo_fresh) (auto simp: ids_of_def demo_queued_def new_task_def)
  then show ?thesis
    by (simp add: flight_def demo_queued_def new_task_def texts_fit_def task_fits_def fits_text_def)
qed

lemma demo_unseen: "dedup_count k 5 (committed (demo_st demo_queued)) = 0"
  by (simp add: demo_queued_def dedup_count_def events_of_def)

theorem lifecycle_completes_witness:
  "\<exists>t c. process_messages demo_env [(command_delivered (uuid_str 5), Ok (JObj demo_msg)),
       (command_acknowledged (uuid_str 5), Ok (JObj demo_msg)), (command_progress (uuid_str 5), Ok (JObj demo_msg)),
       (command_result (uuid_str 5), Ok (JObj demo_msg))] (demo_st demo_queued) = (Ok [ACK, ACK, ACK, ACK], t)
     \<and> row_by c_id 5 (commands (committed t)) = Some c \<and> c_state c = SUCCEEDED
     \<and> c_result_data c = JObj [(''ok'', JBool True)]"
proof -
  have d: "\<forall>d \<in> {demo_msg, demo_msg, demo_msg, demo_msg}. addressed d 5 2" by (simp add: demo_msg_addressed)
  have u: "\<forall>tag \<in> {''delivered:'', ''acknowledged:'', ''result:''}.
      dedup_count (tag @ uuid_str 5) 5 (committed (demo_st demo_queued)) = 0"
    by (simp add: demo_unseen del: demo_fields)
  have b: "truthy (dict_get demo_msg ''accepted'' (JBool True))" "truthy (dict_get demo_msg ''success'' (JBool False))"
    and r: "dict_get demo_msg ''result_data'' JNull = JObj [(''ok'', JBool True)]"
    by (simp_all add: demo_msg_def)
  from lifecycle_completes [OF demo_flight u d b] show ?thesis
    unfolding r by blast
qed

section \<open>Messages that change nothing\<close>

lemma lifecycle_unchanged:
  assumes "dict_get d ''command_id'' JNull = JStr x" "uuid_parse x = Some cid"
    "dict_get d ''device_id'' JNull = JStr v" "v \<noteq> []"
    "\<And>c. get_by_id cid (committed s) = Some c \<Longrightarrow> v \<noteq> uuid_str (c_device_id c)"
  shows "committed (snd (lifecycle_handler tag (JObj d) body s)) = committed s"
proof -
  have m: "get_by_id cid (committed s) = Some c \<Longrightarrow> device_mismatch (JStr v) c" for c
    using assms(4,5) by (auto simp: device_mismatch_def)
  consider "dedup_count (tag @ x) cid (committed s) = 0" | "dedup_count (tag @ x) cid (committed s) = 1"
    | "1 < dedup_count (tag @ x) cid (committed s)" by linarith
  then show ?thesis
  proof cases
    case 1
    with lifecycle_session_skipped [OF 1 m] assms(1-3) show ?thesis by (simp add: lifecycle_handler_run)
  next
    case 2
    with lifecycle_session_seen [OF 2] assms(1-3) show ?thesis by (simp add: lifecycle_handler_run)
  next
    case 3
    with assms(1-3) show ?thesis
      by (simp add: lifecycle_handler_run lifecycle_session_def with_session_def bindM_def is_duplicate_run)
  qed
qed

text \<open>
  A device cannot report on the commands of another. A delivery, acknowledgement or result whose
  \<open>device_id\<close> is not the command's device changes nothing, whatever else it says.
\<close>

lemma foreign_device_ignored:
  assumes "h \<in> {handle_delivered env, handle_acknowledged env, handle_result env}"
    "dict_get d ''command_id'' JNull = JStr (uuid_str cid)" "dict_get d ''device_id'' JNull = JStr (uuid_str dev)"
    "get_by_id cid (committed s) = Some c" "c_device_id c \<noteq> dev"
  shows "committed (snd (h (JObj d) s)) = committed s"
proof -
  have "committed (snd (lifecycle_handler tag (JObj d) body s)) = committed s" for tag body
    using assms(2-5) by (intro lifecycle_unchanged) auto
  with assms(1) show ?thesis
    by (auto simp: handle_delivered_def handle_acknowledged_eq handle_result_eq)
qed

lemma foreign_device_ignored_witness:
  "committed (snd (handle_result demo_env (JObj [(''command_id'', JStr (uuid_str 5)), (''device_id'', JStr (uuid_str 3)),
     (''success'', JBool True)]) (demo_st (demo_db [demo_command 5 RUNNING])))) = demo_db [demo_command 5 RUNNING]"
  using foreign_device_ignored [of "handle_result demo_env" demo_env
      "[(''command_id'', JStr (uuid_str 5)), (''device_id'', JStr (uuid_str 3)), (''success'', JBool True)]" 5 3
      "demo_st (demo_db [demo_command 5 RUNNING])" "demo_command 5 RUNNING"]
  by (simp add: get_by_id_def)

lemma lifecycle_refused:
  assumes "addressed d cid (c_device_id c)" "get_by_id cid (committed s) = Some c"
    "dedup_count (tag @ uuid_str cid) cid (committed s) = 0" "\<not> permitted (c_state c) y"
  shows "lifecycle_handler tag (JObj d) (\<lambda>cid key. seqM (transition_command env cid y src (md key)) (k cid key)) s =
    (Ok (), open_session s)"
proof -
  have dev: "\<not> device_mismatch (dict_get d ''device_id'' JNull) c" using assms(1) by (auto simp: addressed_def device_mismatch_def)
  have row: "row_by c_id cid (commands (working (open_session s))) = Some c" using assms(2) by (simp add: get_by_id_def)
  have "transition_command env cid y src (md (tag @ uuid_str cid)) (open_session s) =
      (Err (StateTransitionError cid (c_state c) y), open_session s)"
    by (rule transition_refused) (use row assms(4) in simp_all)
  with assms(1) dev show ?thesis
    using lifecycle_session_unseen [OF assms(3,2) dev]
    by (simp add: addressed_def lifecycle_handler_run with_session_def bindM_def or_refused_def catchM_def seqM_def
        returnM_def)
qed

text \<open>
  A result without a progress report is lost. When the successful result of a command arrives while
  the command is still \<open>DELIVERED\<close> or \<open>ACKNOWLEDGED\<close>, the message is acknowledged, so it is never
  delivered again, and nothing is recorded.
\<close>

lemma early_result_dropped:
  assumes "addressed d cid (c_device_id c)"
    "truthy (dict_get d ''success'' (JBool False))" "get_by_id cid (committed s) = Some c"
    "c_state c \<in> {DELIVERED, ACKNOWLEDGED}" "dedup_count (''result:'' @ uuid_str cid) cid (committed s) = 0"
  shows "process_message env (command_result (uuid_str cid)) (Ok (JObj d)) s = (Ok ACK, open_session s)"
proof -
  have "\<not> permitted (c_state c) SUCCEEDED" using assms(4) by (auto simp: permitted_def)
  then have "handle_result env (JObj d) s = (Ok (), open_session s)"
    using assms(2) lifecycle_refused [OF assms(1,3,5)] by (simp add: handle_result_eq)
  with process_message_Ok [OF routes(4)] show ?thesis by blast
qed

lemma early_result_dropped_witness:
  "process_message demo_env (command_result (uuid_str 5)) (Ok (JObj demo_msg)) (demo_st (demo_db [demo_command 5 ACKNOWLEDGED])) =
     (Ok ACK, demo_st (demo_db [demo_command 5 ACKNOWLEDGED]))"
proof -
  let ?s = "demo_st (demo_db [demo_command 5 ACKNOWLEDGED])" and ?c = "demo_command 5 ACKNOWLEDGED"
  have o: "open_session ?s = ?s" by (simp add: demo_st_def)
  have "process_message demo_env (command_result (uuid_str 5)) (Ok (JObj demo_msg)) ?s = (Ok ACK, open_session ?s)"
    by (rule early_result_dropped [of _ 5 ?c])
      (simp_all add: demo_msg_addressed get_by_id_def dedup_count_def events_of_def demo_msg_def addressed_def)
  then show ?thesis unfolding o .
qed

text \<open>
  A device's refusal is never recorded. The acknowledgement with \<open>accepted\<close> false of a delivered
  command asks for \<open>FAILED\<close>, which the table allows and the trigger refuses: the handler raises, the
  message is refused for redelivery and the database is unchanged.
\<close>

lemma rejection_not_recorded:
  assumes "addressed d cid (c_device_id c)"
    "\<not> truthy (dict_get d ''accepted'' (JBool True))" "get_by_id cid (committed s) = Some c"
    "c_state c = DELIVERED" "dedup_count (''acknowledged:'' @ uuid_str cid) cid (committed s) = 0"
  shows "process_message env (command_acknowledged (uuid_str cid)) (Ok (JObj d)) s = (Ok NAK, open_session s)"
proof -
  let ?key = "''acknowledged:'' @ uuid_str cid" and ?s = "open_session s"
  let ?md = "Some [(''error_message'', dict_get d ''rejection_reason'' JNull), (''dedup_key'', JStr ?key)]"
  have dev: "\<not> device_mismatch (dict_get d ''device_id'' JNull) c" using assms(1) by (auto simp: addressed_def device_mismatch_def)
  have row: "row_by c_id cid (commands (working ?s)) = Some c" using assms(3) by (simp add: get_by_id_def)
  have "transition_command env cid FAILED ''device'' ?md ?s = (Err (TriggerError DELIVERED FAILED), ?s\<lparr>failed := True\<rparr>)"
    using transition_permitted [OF _ row, of FAILED env "''device''" ?md] assms(4)
    by (simp add: permitted_def validate_command_state_transition_def)
  then have "handle_acknowledged env (JObj d) s = (Err (TriggerError DELIVERED FAILED), open_session s)"
    using assms(1,2) lifecycle_session_unseen [OF assms(5,3) dev]
    by (simp add: handle_acknowledged_eq addressed_def lifecycle_handler_run with_session_def bindM_def or_refused_def
        catchM_def seqM_def returnM_def raiseM_def)
  with process_message_Err [OF routes(2)] show ?thesis by blast
qed

lemma rejection_not_recorded_witness:
  "process_message demo_env (command_acknowledged (uuid_str 5)) (Ok (JObj ((''accepted'', JBool False) # demo_msg)))
     (demo_st (demo_db [demo_command 5 DELIVERED])) = (Ok NAK, demo_st (demo_db [demo_command 5 DELIVERED]))"
proof -
  let ?s = "demo_st (demo_db [demo_command 5 DELIVERED])" and ?c = "demo_command 5 DELIVERED"
  let ?d = "(''accepted'', JBool False) # demo_msg"
  have o: "open_session ?s = ?s" by (simp add: demo_st_def)
  have "process_message demo_env (command_acknowledged (uuid_str 5)) (Ok (JObj ?d)) ?s = (Ok NAK, open_session ?s)"
    by (rule rejection_not_recorded [of _ 5 ?c])
      (simp_all add: get_by_id_def dedup_count_def events_of_def demo_msg_def addressed_def)
  then show ?thesis unfolding o .
qed


end
