(* ===== verification/Worker.thy ===== *)
theory Worker
  imports Scenario
begin

text \<open>
  What the two background workers (\<^verbatim>\<open>app/workers/outbox_publisher.py\<close>, \<^verbatim>\<open>app/workers/scheduler.py\<close>)
  share: the shape of their \<open>start\<close> loop and their use of the standard \<^verbatim>\<open>logging\<close> module.

  Both modules log with \<^verbatim>\<open>logging.getLogger(__name__)\<close> and pass fields as keyword arguments
  (\<^verbatim>\<open>logger.warning("...", error=...)\<close>). The standard \<^verbatim>\<open>Logger\<close> methods return at once when the level
  is disabled; otherwise they hand the arguments to \<^verbatim>\<open>Logger._log\<close>, which knows no such keyword and
  raises \<^verbatim>\<open>TypeError\<close>. \<open>std_log env level\<close> is such a call; \<open>log_level env\<close> is the effective level of the
  process (\<^verbatim>\<open>main\<close> sets \<open>INFO\<close>, 20).

  A loop \<^verbatim>\<open>while self.running\<close> runs until another task clears the flag: \<open>worker_rounds n\<close> is the run
  that is stopped after \<open>n\<close> rounds, and raises exactly when the worker died before.
\<close>

definition std_log :: "env \<Rightarrow> int \<Rightarrow> unit prog" where
  "std_log env level =
     (if log_level env \<le> level then raiseM (TypeError ''unexpected keyword argument'') else returnM ())"

definition sleepM :: "int \<Rightarrow> unit prog" where
  "sleepM secs s = (Ok (), s\<lparr>clock := clock s + timedelta_seconds secs\<rparr>)"

definition worker_round :: "env \<Rightarrow> int \<Rightarrow> unit prog \<Rightarrow> unit prog" where
  "worker_round env interval body =
     seqM (catchM body (\<lambda>e. std_log env 40)) (sleepM interval)"

fun worker_rounds :: "env \<Rightarrow> int \<Rightarrow> unit prog \<Rightarrow> nat \<Rightarrow> unit prog" where
  "worker_rounds env interval body 0 = returnM ()"
| "worker_rounds env interval body (Suc n) =
     seqM (worker_round env interval body) (worker_rounds env interval body n)"

lemma std_log_enabled: "log_level env \<le> level \<Longrightarrow> std_log env level = raiseM (TypeError ''unexpected keyword argument'')"
  by (simp add: std_log_def)

lemma std_log_disabled: "level < log_level env \<Longrightarrow> std_log env level = returnM ()"
  by (simp add: std_log_def)

lemma tx_only_std_log: "tx_only (std_log env level)"
  by (simp add: std_log_def frame.guar_prims)

text \<open>A round whose body raises ends the worker when errors are logged.\<close>

lemma worker_dies:
  assumes "body s = (Err e, t)" "log_level env \<le> 40"
  shows "worker_rounds env interval body (Suc n) s = (Err (TypeError ''unexpected keyword argument''), t)"
  using assms by (simp add: worker_round_def std_log_enabled seqM_def bindM_def catchM_def raiseM_def)

text \<open>A round whose body returns goes on, later by the interval.\<close>

lemma worker_survives:
  assumes "body s = (Ok (), t)"
  shows "worker_rounds env interval body (Suc n) s =
    worker_rounds env interval body n (t\<lparr>clock := clock t + timedelta_seconds interval\<rparr>)"
  using assms by (simp add: worker_round_def sleepM_def seqM_def bindM_def catchM_def)

text \<open>Without error logging no exception of the body ends the worker.\<close>

lemma worker_immortal:
  assumes "40 < log_level env"
  shows "\<exists>t. worker_rounds env interval body n s = (Ok (), t)"
proof (induction n arbitrary: s)
  case 0
  then show ?case by (simp add: returnM_def)
next
  case (Suc n)
  obtain r t where b: "body s = (r, t)" by (cases "body s")
  have "worker_rounds env interval body (Suc n) s =
      worker_rounds env interval body n (t\<lparr>clock := clock t + timedelta_seconds interval\<rparr>)"
    using b assms
    by (cases r) (simp_all add: worker_round_def sleepM_def seqM_def bindM_def catchM_def std_log_disabled returnM_def)
  with Suc.IH show ?case by simp
qed

section \<open>State invariants\<close>

text \<open>
  \<open>keeps I\<close> relates states such that \<open>I\<close> is not lost. For an invariant that ignores the random supply
  and does not mind a failed session it is a session relation, so it is proved call by call.
\<close>

definition keeps :: "(st \<Rightarrow> bool) \<Rightarrow> st \<Rightarrow> st \<Rightarrow> bool" where
  "keeps I s t = (I s \<longrightarrow> I t)"

locale st_invariant =
  fixes I :: "st \<Rightarrow> bool"
  assumes I_entropy: "I s \<Longrightarrow> I (s\<lparr>entropy := Suc (entropy s)\<rparr>)"
    and I_fail: "I s \<Longrightarrow> I (s\<lparr>failed := True\<rparr>)"
begin

sublocale inv: session_relation "keeps I"
  by unfold_locales (auto simp: keeps_def I_entropy I_fail)

lemma guar_keepsD: "guar (keeps I) m \<Longrightarrow> I s \<Longrightarrow> m s = (r, t) \<Longrightarrow> I t"
  by (metis guar_def keeps_def snd_conv)

end

end
