(* ===== verification/Publisher.thy ===== *)
theory Publisher
  imports Commands Worker
begin

text \<open>
  \<^verbatim>\<open>app/workers/outbox_publisher.py\<close>: one batch of the outbox worker reads the pending events, refuses the
  queued commands of a stopped owner, publishes the rest to JetStream, records the outcome of each event
  and commits once at the end; \<open>publisher_start\<close> repeats it every five seconds.
\<close>

section \<open>The worker\<close>

text \<open>
  \<^verbatim>\<open>select(Command).where(Command.id == event.aggregate_id)\<close>: the identifier is bound as text, and text
  that is no UUID is an error of the database layer.
\<close>

definition command_by_text :: "string \<Rightarrow> command option prog" where
  "command_by_text cmd_id =
     (case uuid_parse cmd_id of
        None \<Rightarrow> raiseM (DataError ''uuid'')
      | Some i \<Rightarrow> select (get_by_id i))"

definition is_command_queued :: "outbox_event \<Rightarrow> bool" where
  "is_command_queued event = (o_aggregate_type event = ''command'' \<and> py_in ''queued'' (o_event_type event))"

definition refuse_event :: "env \<Rightarrow> uuid \<Rightarrow> uuid \<Rightarrow> unit prog" where
  "refuse_event env command_id event_id =
     seqM (catchM
             (seqM (transition_command env command_id BLOCKED_BY_EMERGENCY_STOP ''outbox_enforcement'' None) (returnM ()))
             (\<lambda>e. std_log env 30))
     (mark_failed event_id ''Blocked by active emergency stop'')"

text \<open>Whether the event was refused because of an emergency stop (the loop then continues).\<close>

definition stop_gate :: "env \<Rightarrow> outbox_event \<Rightarrow> bool prog" where
  "stop_gate env event =
     (if \<not> is_command_queued event then returnM False
      else
        bindM (command_by_text (o_aggregate_id event)) (\<lambda>command.
          case command of
            None \<Rightarrow> returnM False
          | Some c \<Rightarrow>
              bindM (select (\<lambda>d. row_by d_id (c_device_id c) (devices d))) (\<lambda>device.
                case device of
                  None \<Rightarrow> returnM False
                | Some dev \<Rightarrow>
                    bindM (is_active env (d_owner_id dev)) (\<lambda>active.
                      if active then seqM (refuse_event env (c_id c) (o_id event)) (returnM True)
                      else returnM False))))"

definition deliver_event :: "env \<Rightarrow> outbox_event \<Rightarrow> nat prog" where
  "deliver_event env event =
     seqM (publish_js env (o_subject event) (o_payload event) (Some (uuid_str (o_id event))) (o_headers event))
     (seqM (mark_published (o_id event))
     (returnM 1))"

definition publish_failed :: "env \<Rightarrow> outbox_event \<Rightarrow> exn \<Rightarrow> nat prog" where
  "publish_failed env event e =
     seqM (std_log env 30)
     (seqM (if o_attempt_count event \<ge> 3 then mark_failed (o_id event) (exn_str env e)
            else increment_attempt (o_id event) (exn_str env e))
     (returnM 0))"

text \<open>One iteration of the loop: how much it adds to \<^verbatim>\<open>published\<close>.\<close>

definition publish_event :: "env \<Rightarrow> outbox_event \<Rightarrow> nat prog" where
  "publish_event env event =
     catchM
       (bindM (stop_gate env event) (\<lambda>blocked. if blocked then returnM 0 else deliver_event env event))
       (publish_failed env event)"

fun publish_events :: "env \<Rightarrow> outbox_event list \<Rightarrow> nat prog" where
  "publish_events env [] = returnM 0"
| "publish_events env (event # rest) =
     bindM (publish_event env event) (\<lambda>n. bindM (publish_events env rest) (\<lambda>m. returnM (n + m)))"

definition process_batch :: "env \<Rightarrow> nat prog" where
  "process_batch env =
     with_session
       (bindM (get_unpublished 100) (\<lambda>batch.
          if batch = [] then returnM 0
          else bindM (publish_events env batch) (\<lambda>published. seqM commit (returnM published))))"

definition publisher_start :: "env \<Rightarrow> nat \<Rightarrow> unit prog" where
  "publisher_start env n = worker_rounds env 5 (seqM (process_batch env) (returnM ())) n"

section \<open>Frames\<close>

definition event_msg :: "outbox_event \<Rightarrow> nats_msg" where
  "event_msg e = \<lparr>m_subject = o_subject e, m_payload = o_payload e,
     m_headers = (''Nats-Msg-Id'', JStr (uuid_str (o_id e))) # o_headers e\<rparr>"

lemma publish_js_event:
  "publish_js env (o_subject e) (o_payload e) (Some (uuid_str (o_id e))) (o_headers e) s =
     (if nats_ack env (event_msg e) then (Ok (), s\<lparr>bus := bus s @ [event_msg e]\<rparr>) else (Err (NatsError ''publish''), s))"
  by (simp add: publish_js_def event_msg_def)

lemma is_active_frame: "\<exists>c. snd (is_active env owner s) = s\<lparr>cache := c\<rparr>"
proof -
  have eq: "snd (is_active_db env owner s) = s\<lparr>cache := cache s\<rparr> \<or> (\<exists>c. snd (is_active_db env owner s) = s\<lparr>cache := c\<rparr>)"
    by (cases rule: is_active_db_cases [of env owner s]) auto
  then have db: "\<exists>c. snd (is_active_db env owner s) = s\<lparr>cache := c\<rparr>" by blast
  have same: "\<exists>c. s = s\<lparr>cache := c\<rparr>" by (rule exI [of _ "cache s"]) simp
  show ?thesis
    using db same
    by (auto simp: is_active_def valkey_get_def bindM_def returnM_def split: option.splits vval.splits json.splits)
qed

lemma guar_active: "(\<And>s c. R s (s\<lparr>cache := c\<rparr>)) \<Longrightarrow> guar R (is_active env owner)"
  unfolding guar_def by (metis is_active_frame)

lemma tx_only_refuse: "tx_only (refuse_event env cid eid)"
  unfolding refuse_event_def
  by (intro tx_only_rules tx_only_transition tx_only_std_log tx_only_outbox)

lemma tx_only_publish_failed: "tx_only (publish_failed env e x)"
  unfolding publish_failed_def
  by (auto intro!: tx_only_rules tx_only_std_log tx_only_outbox)

section \<open>No queued command of a stopped owner is published\<close>

text \<open>What the session of a batch may do to commands and devices.\<close>

definition gate_rel :: "db \<Rightarrow> db \<Rightarrow> bool" where
  "gate_rel d d' = (commands_evolve d d' \<and> devices d' = devices d)"

interpretation gate_evo: db_preorder gate_rel
  by unfold_locales (auto simp: gate_rel_def cmd_evo.D_refl intro: cmd_evo.D_trans)

lemma gate_rel_outbox: "gate_rel d (update_outbox i f d)"
  by (simp add: gate_rel_def commands_evolve_same update_outbox_def)

lemma gate_evo_transition: "guar (evolves gate_rel) (transition_command env cid new src md)"
  by (rule evolves_transition [OF gate_evo.db_preorder_axioms])
    (simp add: gate_rel_def commands_evolve_after, simp add: after_transition_def)

lemma gate_evo_marks:
  "guar (evolves gate_rel) (mark_failed i x)" "guar (evolves gate_rel) (increment_attempt i x)"
  "guar (evolves gate_rel) (mark_published i)"
  unfolding mark_failed_def increment_attempt_def mark_published_def
  by (auto intro!: gate_evo.evolves_flush gate_evo.evolution.guar_rules simp: gate_rel_outbox)

lemma gate_evo_std_log: "guar (evolves gate_rel) (std_log env l)"
  by (simp add: std_log_def gate_evo.evolution.guar_prims)

lemma gate_evo_refuse: "guar (evolves gate_rel) (refuse_event env cid eid)"
  unfolding refuse_event_def
  by (intro gate_evo.evolution.guar_rules gate_evo_transition gate_evo_std_log gate_evo_marks)

lemma gate_evo_publish_failed: "guar (evolves gate_rel) (publish_failed env e x)"
  unfolding publish_failed_def
  by (auto intro!: gate_evo.evolution.guar_rules gate_evo_std_log gate_evo_marks)

text \<open>The event queues a command whose owner has an active stop.\<close>

definition stopped_event :: "db \<Rightarrow> outbox_event \<Rightarrow> bool" where
  "stopped_event d e = (is_command_queued e \<and>
     (case uuid_parse (o_aggregate_id e) of
        None \<Rightarrow> False
      | Some i \<Rightarrow>
          (case get_by_id i d of
             None \<Rightarrow> False
           | Some c \<Rightarrow>
               (case row_by d_id (c_device_id c) (devices d) of
                  None \<Rightarrow> False
                | Some dev \<Rightarrow> stop_active (d_owner_id dev) d))))"

definition batch_inv :: "env \<Rightarrow> db \<Rightarrow> nats_msg list \<Rightarrow> nats_msg set \<Rightarrow> st \<Rightarrow> bool" where
  "batch_inv env d b A s = (committed s = d \<and> stop_cache_ok env s \<and> (failed s \<or> gate_rel d (working s))
     \<and> (\<exists>ms. bus s = b @ ms \<and> set ms \<subseteq> A))"

interpretation batch: st_invariant "batch_inv env d b A" for env d b A
  by unfold_locales (auto simp: batch_inv_def stop_cache_ok_def)

lemma keeps_batch_tx:
  assumes "tx_only m" "guar (evolves gate_rel) m"
  shows "guar (keeps (batch_inv env d b A)) m"
  unfolding guar_def keeps_def
proof (intro allI impI)
  fix s assume inv: "batch_inv env d b A s"
  have "same_outside s (snd (m s))" "evolves gate_rel s (snd (m s))"
    using assms by (simp_all add: guar_def)
  with inv show "batch_inv env d b A (snd (m s))"
    by (auto simp: batch_inv_def same_outside_def evolves_def stop_cache_ok_def)
qed

lemma keeps_batch_active: "guar (keeps (batch_inv env d b A)) (is_active env owner)"
  unfolding guar_def keeps_def
proof (intro allI impI)
  fix s assume inv: "batch_inv env d b A s"
  then have "stop_cache_ok env s" by (simp add: batch_inv_def)
  then show "batch_inv env d b A (snd (is_active env owner s))"
    using inv by (cases rule: is_active_cases [where owner = owner]) (auto simp: batch_inv_def)
qed

lemmas keeps_batch_refuse = keeps_batch_tx [OF tx_only_refuse gate_evo_refuse]

lemma keeps_batch_gate: "guar (keeps (batch_inv env d b A)) (stop_gate env e)"
  unfolding stop_gate_def command_by_text_def
  by (auto split: option.splits
      intro!: batch.inv.guar_rules keeps_batch_active keeps_batch_refuse)

text \<open>The gate never lets a stopped event pass.\<close>

lemma stop_gate_closed:
  assumes inv: "batch_inv env d b A s" and stop: "stopped_event d e"
  shows "stop_gate env e s \<noteq> (Ok False, t)"
proof (cases "failed s")
  case True
  with stop show ?thesis
    by (auto simp: stopped_event_def stop_gate_def command_by_text_def bindM_def select_def split: option.splits)
next
  case False
  with inv have rel: "gate_rel d (working s)" and d: "committed s = d" and ok: "stop_cache_ok env s"
    by (simp_all add: batch_inv_def)
  from stop obtain i c dev where q: "is_command_queued e" "uuid_parse (o_aggregate_id e) = Some i"
    "row_by c_id i (commands d) = Some c" "row_by d_id (c_device_id c) (devices d) = Some dev"
    "stop_active (d_owner_id dev) d"
    by (auto simp: stopped_event_def get_by_id_def split: option.splits)
  obtain c' where c': "row_by c_id i (commands (working s)) = Some c'" "c_device_id c' = c_device_id c"
    using rel q(3) unfolding gate_rel_def commands_evolve_def by blast
  have dev: "row_by d_id (c_device_id c') (devices (working s)) = Some dev"
    using rel q(4) c'(2) by (simp add: gate_rel_def)
  obtain ch where "is_active env (d_owner_id dev) s = (Ok True, s\<lparr>cache := ch\<rparr>)"
    using ok q(5) d by (cases rule: is_active_cases [where owner = "d_owner_id dev"]) auto
  then show ?thesis
    using False q(1,2) c'(1) dev
    by (auto simp: stop_gate_def command_by_text_def get_by_id_def bindM_def select_def seqM_def returnM_def
        split: prod.splits sum.splits)
qed

lemma keeps_batch_deliver:
  assumes "event_msg e \<in> A"
  shows "guar (keeps (batch_inv env d b A)) (deliver_event env e)"
proof -
  have "guar (keeps (batch_inv env d b A)) (publish_js env (o_subject e) (o_payload e) (Some (uuid_str (o_id e))) (o_headers e))"
    using assms by (auto simp: guar_def keeps_def publish_js_event batch_inv_def stop_cache_ok_def)
  then show ?thesis
    unfolding deliver_event_def
    by (intro batch.inv.guar_rules keeps_batch_tx [OF tx_only_outbox(3) gate_evo_marks(3)])
qed

lemma publish_event_inv:
  assumes inv: "batch_inv env d b A s" and A: "\<not> stopped_event d e \<Longrightarrow> event_msg e \<in> A"
  shows "batch_inv env d b A (snd (publish_event env e s))"
proof -
  let ?body = "bindM (stop_gate env e) (\<lambda>blocked. if blocked then returnM 0 else deliver_event env e)"
  note gate = batch.guar_keepsD [OF keeps_batch_gate inv]
  have body: "batch_inv env d b A (snd (?body s))"
  proof (cases "stopped_event d e")
    case False
    have "guar (keeps (batch_inv env d b A)) ?body"
      using keeps_batch_deliver [OF A [OF False]]
      by (auto intro!: batch.inv.guar_rules keeps_batch_gate)
    with inv show ?thesis by (simp add: guar_def keeps_def)
  next
    case True
    obtain r t where g: "stop_gate env e s = (r, t)" by (cases "stop_gate env e s")
    with stop_gate_closed [OF inv True] gate [OF g] show ?thesis
      by (cases r) (auto simp: bindM_def returnM_def)
  qed
  have fail: "guar (keeps (batch_inv env d b A)) (publish_failed env e x)" for x
    by (intro keeps_batch_tx tx_only_publish_failed gate_evo_publish_failed)
  obtain r t where "?body s = (r, t)" by (cases "?body s")
  with body fail show ?thesis
    by (cases r) (auto simp: publish_event_def catchM_def guar_def keeps_def)
qed

lemma publish_events_inv:
  "batch_inv env d b A s \<Longrightarrow> \<forall>e \<in> set es. \<not> stopped_event d e \<longrightarrow> event_msg e \<in> A \<Longrightarrow>
     batch_inv env d b A (snd (publish_events env es s))"
proof (induction es arbitrary: s)
  case Nil
  then show ?case by (simp add: returnM_def)
next
  case (Cons e es)
  obtain r t where e: "publish_event env e s = (r, t)" by (cases "publish_event env e s")
  with publish_event_inv [of env d b A s e] Cons.prems have t: "batch_inv env d b A t" by simp
  show ?case
  proof (cases r)
    case (Inl x)
    with e t show ?thesis by (simp add: bindM_def)
  next
    case (Inr n)
    obtain r' u where es: "publish_events env es t = (r', u)" by (cases "publish_events env es t")
    with Cons.IH [OF t] Cons.prems(2) have "batch_inv env d b A u" by simp
    with e es Inr show ?thesis by (cases r') (simp_all add: bindM_def returnM_def)
  qed
qed

text \<open>
  C32. The outbox enforces the emergency stop. Whatever a batch of the publisher returns or raises, every
  message it puts on the bus is that of a pending, due event of the outbox, and none of them queues a
  command whose owner had an active stop when the batch started, provided the cache is trustworthy.
\<close>

theorem publisher_respects_stop:
  assumes "stop_cache_ok env s" "process_batch env s = (r, t)"
  shows "\<exists>ms. bus t = bus s @ ms \<and> set ms \<subseteq>
    event_msg ` {e \<in> set (unpublished (clock s) 100 (outbox (committed s))). \<not> stopped_event (committed s) e}"
proof -
  let ?es = "unpublished (clock s) 100 (outbox (committed s))" and ?d = "committed s"
  let ?A = "event_msg ` {e \<in> set ?es. \<not> stopped_event ?d e}"
  have inv: "batch_inv env ?d (bus s) ?A (open_session s)"
    using assms(1) by (simp add: batch_inv_def stop_cache_ok_def gate_evo.D_refl)
  obtain r' u where u: "publish_events env ?es (open_session s) = (r', u)" by (cases "publish_events env ?es (open_session s)")
  have "batch_inv env ?d (bus s) ?A u"
    using publish_events_inv [OF inv, of ?es] u by auto
  then have "\<exists>ms. bus u = bus s @ ms \<and> set ms \<subseteq> ?A" by (simp add: batch_inv_def)
  with assms(2) u show ?thesis
    by (cases r') (auto simp: process_batch_def with_session_def bindM_def get_unpublished_def getM_def select_def
        seqM_def commit_def returnM_def split: if_splits)
qed

end
