(* ===== verification/Delivery.thy ===== *)
theory Delivery
  imports Publisher
begin

text \<open>
  What the outbox worker of \<open>Publisher\<close> guarantees: published events are on the bus, retries are
  bounded, a batch without trouble publishes everything, and what a refused message does.
\<close>

section \<open>At least once, at most four times\<close>

text \<open>
  The invariant of the outbox: an event marked published is on the bus, and no event was tried again
  more than three times.
\<close>

definition event_ok :: "nats_msg list \<Rightarrow> outbox_event \<Rightarrow> bool" where
  "event_ok b e = ((o_status e = OUT_PUBLISHED \<longrightarrow> event_msg e \<in> set b) \<and> o_attempt_count e \<le> 3)"

definition outbox_ok :: "st \<Rightarrow> bool" where
  "outbox_ok s = (distinct (map o_id (outbox (committed s))) \<and> (\<forall>e \<in> set (outbox (committed s)). event_ok (bus s) e))"

text \<open>Programs that leave the outbox of the session and the bus alone.\<close>

definition outbox_same :: "st \<Rightarrow> st \<Rightarrow> bool" where
  "outbox_same s t = (failed t \<or> \<not> failed s \<and> outbox (working t) = outbox (working s) \<and> bus t = bus s)"

interpretation obs: session_relation outbox_same
  by unfold_locales (auto simp: outbox_same_def)

lemma obs_transition: "guar outbox_same (transition_command env cid new src md)"
  unfolding guar_def
proof
  fix s
  show "outbox_same s (snd (transition_command env cid new src md s))"
    by (rule transition_final_state [of env cid new src md s]) (auto simp: outbox_same_def after_transition_def)
qed

lemma obs_active: "guar outbox_same (is_active env owner)"
  by (rule guar_active) (simp add: outbox_same_def)

lemma obs_std_log: "guar outbox_same (std_log env l)"
  by (simp add: std_log_def obs.guar_prims)

text \<open>The same fields and attempts; the marks keep them, a retry counts one attempt more.\<close>

definition same_event :: "outbox_event \<Rightarrow> outbox_event \<Rightarrow> bool" where
  "same_event e r = (o_id r = o_id e \<and> event_msg r = event_msg e \<and> o_attempt_count r = o_attempt_count e)"

text \<open>Before event \<open>e\<close> is processed, with the events \<open>es\<close> still to come.\<close>

definition pending_inv :: "outbox_event \<Rightarrow> outbox_event list \<Rightarrow> st \<Rightarrow> bool" where
  "pending_inv e es s = (failed s \<or>
     (distinct (map o_id (outbox (working s))) \<and> (\<forall>x \<in> set (outbox (working s)). event_ok (bus s) x)
      \<and> set es \<subseteq> set (outbox (working s)) \<and> (\<exists>r \<in> set (outbox (working s)). same_event e r)))"

definition rest_inv :: "outbox_event list \<Rightarrow> st \<Rightarrow> bool" where
  "rest_inv es s = (failed s \<or>
     (distinct (map o_id (outbox (working s))) \<and> (\<forall>x \<in> set (outbox (working s)). event_ok (bus s) x)
      \<and> set es \<subseteq> set (outbox (working s))))"

interpretation pend: st_invariant "pending_inv e es" for e es
  by unfold_locales (auto simp: pending_inv_def)

lemma pending_obs: "guar outbox_same m \<Longrightarrow> guar (keeps (pending_inv e es)) m"
  unfolding guar_def keeps_def outbox_same_def pending_inv_def by metis

lemma update_one:
  assumes "distinct (map o_id rows)" "r \<in> set rows" "same_event e r" "o_id e \<notin> o_id ` set es" "set es \<subseteq> set rows"
    "\<forall>x \<in> set rows. event_ok b x" "\<And>x. o_id (f x) = o_id x" "event_ok b (f r)"
  shows "distinct (map o_id (update_by o_id (o_id e) f rows))" "\<forall>x \<in> set (update_by o_id (o_id e) f rows). event_ok b x"
    "set es \<subseteq> set (update_by o_id (o_id e) f rows)" "f r \<in> set (update_by o_id (o_id e) f rows)"
proof -
  have only: "x = r" if "x \<in> set rows" "o_id x = o_id e" for x
    using that assms(1-3) by (metis distinct_map inj_onD same_event_def)
  have mem: "set (update_by o_id (o_id e) f rows) = (\<lambda>x. if o_id x = o_id e then f x else x) ` set rows"
    by (simp add: update_by_def)
  show "distinct (map o_id (update_by o_id (o_id e) f rows))" using assms(1,7) by (simp add: map_update_by)
  show "\<forall>x \<in> set (update_by o_id (o_id e) f rows). event_ok b x"
    using assms(6,8) only unfolding mem by auto
  show "set es \<subseteq> set (update_by o_id (o_id e) f rows)"
    using assms(4,5) unfolding mem by (force simp: image_iff)
  show "f r \<in> set (update_by o_id (o_id e) f rows)"
    using assms(2,3) unfolding mem by (auto simp: same_event_def image_iff intro!: bexI [of _ r])
qed

lemma pending_mark_failed:
  assumes "o_id e \<notin> o_id ` set es"
  shows "guar (keeps (pending_inv e es)) (mark_failed (o_id e) x)"
  unfolding guar_def keeps_def
proof (intro allI impI)
  fix s assume inv: "pending_inv e es s"
  let ?f = "\<lambda>e. e\<lparr>o_status := OUT_FAILED, o_last_error := Some (take 1000 x)\<rparr>"
  show "pending_inv e es (snd (mark_failed (o_id e) x s))"
  proof (cases "failed s")
    case False
    with inv obtain r where r: "distinct (map o_id (outbox (working s)))" "r \<in> set (outbox (working s))" "same_event e r"
      "set es \<subseteq> set (outbox (working s))" "\<forall>x \<in> set (outbox (working s)). event_ok (bus s) x"
      by (auto simp: pending_inv_def)
    then have "event_ok (bus s) (?f r)" by (simp add: event_ok_def)
    note u = update_one [OF r(1-3) assms r(4,5), of ?f, OF _ this]
    have "same_event e (?f r)" using r(3) by (simp add: same_event_def event_msg_def)
    with u False show ?thesis
      by (auto simp: mark_failed_def flush_def update_outbox_def pending_inv_def)
  qed (simp add: mark_failed_def flush_def pending_inv_def)
qed

lemma pending_deliver:
  assumes "o_id e \<notin> o_id ` set es"
  shows "guar (keeps (pending_inv e es)) (deliver_event env e)"
  unfolding guar_def keeps_def
proof (intro allI impI)
  fix s assume inv: "pending_inv e es s"
  let ?f = "\<lambda>e. e\<lparr>o_status := OUT_PUBLISHED, o_published_at := Some (clock s)\<rparr>" and ?b = "bus s @ [event_msg e]"
  show "pending_inv e es (snd (deliver_event env e s))"
  proof (cases "failed s \<or> \<not> nats_ack env (event_msg e)")
    case False
    with inv obtain r where r: "distinct (map o_id (outbox (working s)))" "r \<in> set (outbox (working s))" "same_event e r"
      "set es \<subseteq> set (outbox (working s))" "\<forall>x \<in> set (outbox (working s)). event_ok (bus s) x"
      by (auto simp: pending_inv_def)
    have b: "\<forall>x \<in> set (outbox (working s)). event_ok ?b x" using r(5) by (auto simp: event_ok_def)
    have "event_msg (?f r) = event_msg e" using r(3) by (simp add: same_event_def event_msg_def)
    then have "event_ok ?b (?f r)" using r(2,5) by (simp add: event_ok_def)
    note u = update_one [OF r(1-3) assms r(4) b, of ?f, OF _ this]
    have "same_event e (?f r)" using r(3) by (simp add: same_event_def event_msg_def)
    with u False show ?thesis
      by (auto simp: deliver_event_def publish_js_event mark_published_def flush_def update_outbox_def pending_inv_def
          seqM_def bindM_def getM_def select_def returnM_def)
  qed (use inv in \<open>auto simp: deliver_event_def publish_js_event mark_published_def pending_inv_def
          seqM_def bindM_def getM_def select_def\<close>)
qed

lemma pending_gate:
  assumes "o_id e \<notin> o_id ` set es"
  shows "guar (keeps (pending_inv e es)) (stop_gate env e)"
proof -
  have "guar (keeps (pending_inv e es)) (refuse_event env cid (o_id e))" for cid
    unfolding refuse_event_def
    by (intro pend.inv.guar_rules pending_mark_failed [OF assms] pending_obs [OF obs_transition] pending_obs [OF obs_std_log])
  then show ?thesis
    unfolding stop_gate_def command_by_text_def
    by (auto split: option.splits intro!: pend.inv.guar_rules pending_obs [OF obs_active])
qed

lemma rest_publish_failed:
  assumes "o_id e \<notin> o_id ` set es" "pending_inv e es s"
  shows "rest_inv es (snd (publish_failed env e x s))"
proof (cases "failed s \<or> log_level env \<le> 30")
  case True
  with assms(2) show ?thesis
    by (auto simp: publish_failed_def std_log_def seqM_def bindM_def raiseM_def returnM_def mark_failed_def
        increment_attempt_def flush_def rest_inv_def pending_inv_def)
next
  case False
  let ?m = "exn_str env x"
  let ?f = "\<lambda>e. e\<lparr>o_attempt_count := o_attempt_count e + 1, o_last_error := Some (take 1000 ?m), o_status := OUT_PENDING\<rparr>"
  let ?g = "\<lambda>e. e\<lparr>o_status := OUT_FAILED, o_last_error := Some (take 1000 ?m)\<rparr>"
  from False assms(2) obtain r where r: "distinct (map o_id (outbox (working s)))" "r \<in> set (outbox (working s))" "same_event e r"
      "set es \<subseteq> set (outbox (working s))" "\<forall>x \<in> set (outbox (working s)). event_ok (bus s) x"
    by (auto simp: pending_inv_def)
  have g: "event_ok (bus s) (?g r)" using r(2,5) by (simp add: event_ok_def)
  show ?thesis
  proof (cases "3 \<le> o_attempt_count e")
    case True
    with False update_one [OF r(1-3) assms(1) r(4,5), of ?g, OF _ g] show ?thesis
      by (simp add: publish_failed_def std_log_def seqM_def bindM_def returnM_def mark_failed_def flush_def
          update_outbox_def rest_inv_def)
  next
    case less: False
    then have "event_ok (bus s) (?f r)" using r(3) by (simp add: event_ok_def same_event_def)
    with False less update_one [OF r(1-3) assms(1) r(4,5), of ?f] show ?thesis
      by (simp add: publish_failed_def std_log_def seqM_def bindM_def returnM_def increment_attempt_def flush_def
          update_outbox_def rest_inv_def)
  qed
qed

lemma publish_event_rest:
  assumes "o_id e \<notin> o_id ` set es" "rest_inv (e # es) s"
  shows "rest_inv es (snd (publish_event env e s))"
proof -
  let ?body = "bindM (stop_gate env e) (\<lambda>blocked. if blocked then returnM 0 else deliver_event env e)"
  have inv: "pending_inv e es s" using assms(2) by (auto simp: rest_inv_def pending_inv_def same_event_def)
  have "guar (keeps (pending_inv e es)) ?body"
    using pending_deliver [OF assms(1)] by (auto intro!: pend.inv.guar_rules pending_gate [OF assms(1)])
  then obtain r t where t: "?body s = (r, t)" "pending_inv e es t"
    using inv by (metis guar_def keeps_def prod.exhaust_sel)
  then have "rest_inv es t" by (auto simp: rest_inv_def pending_inv_def)
  with t rest_publish_failed [OF assms(1) t(2)] show ?thesis
    by (cases r) (auto simp: publish_event_def catchM_def)
qed

lemma publish_events_rest:
  "distinct (map o_id es) \<Longrightarrow> rest_inv es s \<Longrightarrow> rest_inv [] (snd (publish_events env es s))"
proof (induction es arbitrary: s)
  case Nil
  then show ?case by (simp add: returnM_def)
next
  case (Cons e es)
  then have dis: "o_id e \<notin> o_id ` set es" "distinct (map o_id es)" by simp_all
  obtain r t where e: "publish_event env e s = (r, t)" by (cases "publish_event env e s")
  with publish_event_rest [OF dis(1) Cons.prems(2), of env] have t: "rest_inv es t" by simp
  then have t0: "rest_inv [] t" by (auto simp: rest_inv_def)
  show ?case
  proof (cases r)
    case (Inl x)
    with e t0 show ?thesis by (simp add: bindM_def)
  next
    case (Inr n)
    obtain r' u where es: "publish_events env es t = (r', u)" by (cases "publish_events env es t")
    with Cons.IH [OF dis(2) t] have "rest_inv [] u" by simp
    with e es Inr show ?thesis by (cases r') (simp_all add: bindM_def returnM_def)
  qed
qed

text \<open>The bus only grows and nothing is committed inside the loop.\<close>

definition bus_grows :: "st \<Rightarrow> st \<Rightarrow> bool" where
  "bus_grows s t = (committed t = committed s \<and> prefix (bus s) (bus t))"

interpretation grow: session_relation bus_grows
  by unfold_locales (auto simp: bus_grows_def)

lemma grow_tx: "tx_only m \<Longrightarrow> guar bus_grows m"
  by (auto simp: guar_def same_outside_def bus_grows_def)

lemma grow_active: "guar bus_grows (is_active env owner)"
  by (rule guar_active) (simp add: bus_grows_def)

lemma grow_publish_event: "guar bus_grows (publish_event env e)"
proof -
  have "guar bus_grows (publish_js env (o_subject e) (o_payload e) (Some (uuid_str (o_id e))) (o_headers e))"
    by (auto simp: guar_def bus_grows_def publish_js_event)
  then have "guar bus_grows (deliver_event env e)"
    unfolding deliver_event_def by (intro grow.guar_rules grow_tx [OF tx_only_outbox(3)])
  then show ?thesis
    unfolding publish_event_def stop_gate_def command_by_text_def
    by (auto split: option.splits
        intro!: grow.guar_rules grow_active grow_tx [OF tx_only_refuse] grow_tx [OF tx_only_publish_failed])
qed

lemma grow_publish_events: "guar bus_grows (publish_events env es)"
  by (induction es) (auto intro!: grow.guar_rules grow_publish_event)

lemma distinct_unpublished:
  assumes "distinct (map o_id rows)"
  shows "distinct (map o_id (unpublished now n rows))"
proof -
  have "distinct (map o_id (filter P rows))" for P using assms by (simp add: distinct_map_filter)
  then have "distinct (map o_id (sort_key o_created_at (filter P rows)))" for P
    by (metis distinct_map distinct_sort set_sort)
  then show ?thesis unfolding unpublished_def take_map [symmetric] by (rule distinct_take)
qed


section \<open>Batches without trouble\<close>

text \<open>The gate is open for an event: it queues no command, or the command's owner has no stop.\<close>

definition gate_open :: "env \<Rightarrow> st \<Rightarrow> outbox_event \<Rightarrow> bool" where
  "gate_open env s e = (is_command_queued e \<longrightarrow>
     (\<exists>i c dev. uuid_parse (o_aggregate_id e) = Some i \<and> get_by_id i (committed s) = Some c
        \<and> row_by d_id (c_device_id c) (devices (committed s)) = Some dev \<and> stop_clear env (d_owner_id dev) s))"

text \<open>A session that has only worked on the outbox.\<close>

definition only_outbox :: "st \<Rightarrow> st \<Rightarrow> bool" where
  "only_outbox s t = (committed t = committed s \<and> (\<exists>rows. working t = (committed s)\<lparr>outbox := rows\<rparr>) \<and> \<not> failed t
     \<and> cache t = cache s \<and> cache_up t = cache_up s \<and> clock t = clock s)"

lemma stop_gate_open:
  assumes "gate_open env s e" "only_outbox s t"
  shows "stop_gate env e t = (Ok False, t)"
proof (cases "is_command_queued e")
  case False
  then show ?thesis by (simp add: stop_gate_def returnM_def)
next
  case True
  with assms(1) obtain i c dev where q: "uuid_parse (o_aggregate_id e) = Some i" "get_by_id i (committed s) = Some c"
    "row_by d_id (c_device_id c) (devices (committed s)) = Some dev" "stop_clear env (d_owner_id dev) s"
    by (auto simp: gate_open_def)
  have t: "\<not> failed t" "get_by_id i (working t) = Some c" "row_by d_id (c_device_id c) (devices (working t)) = Some dev"
    "stop_clear env (d_owner_id dev) t"
    using assms(2) q by (auto simp: only_outbox_def get_by_id_def stop_clear_def)
  with True q(1) is_active_clear [OF t(4)] show ?thesis
    by (simp add: stop_gate_def command_by_text_def bindM_def select_def returnM_def)
qed

definition published :: "datetime \<Rightarrow> outbox_event \<Rightarrow> outbox_event" where
  "published now e = e\<lparr>o_status := OUT_PUBLISHED, o_published_at := Some now\<rparr>"

definition publish_rows :: "datetime \<Rightarrow> uuid set \<Rightarrow> outbox_event list \<Rightarrow> outbox_event list" where
  "publish_rows now ids rows = map (\<lambda>x. if o_id x \<in> ids then published now x else x) rows"

lemma publish_rows_empty [simp]: "publish_rows now {} rows = rows"
  by (simp add: publish_rows_def)

lemma publish_rows_insert:
  "publish_rows now ids (update_by o_id i (published now) rows) = publish_rows now (insert i ids) rows"
  by (simp add: publish_rows_def update_by_def published_def)

lemma publish_event_run:
  assumes "gate_open env s e" "only_outbox s t" "nats_ack env (event_msg e)"
  shows "publish_event env e t = (Ok 1, t\<lparr>working := update_outbox (o_id e) (published (clock t)) (working t),
    bus := bus t @ [event_msg e]\<rparr>)"
proof -
  have "\<not> failed t" using assms(2) by (auto simp: only_outbox_def)
  then show ?thesis
    using stop_gate_open [OF assms(1,2)] assms(3)
    by (simp add: publish_event_def deliver_event_def catchM_def bindM_def seqM_def publish_js_event mark_published_def
        getM_def select_def flush_def returnM_def published_def [abs_def])
qed

lemma publish_events_run:
  assumes "\<forall>e \<in> set es. gate_open env s e \<and> nats_ack env (event_msg e)"
  shows "only_outbox s t \<Longrightarrow> publish_events env es t = (Ok (length es),
    t\<lparr>working := (working t)\<lparr>outbox := publish_rows (clock s) (o_id ` set es) (outbox (working t))\<rparr>,
      bus := bus t @ map event_msg es\<rparr>)"
  using assms
proof (induction es arbitrary: t)
  case Nil
  then show ?case by (simp add: returnM_def)
next
  case (Cons e es)
  define u where "u = t\<lparr>working := update_outbox (o_id e) (published (clock t)) (working t), bus := bus t @ [event_msg e]\<rparr>"
  have clk: "clock t = clock s" using Cons.prems(1) by (auto simp: only_outbox_def)
  have run: "publish_event env e t = (Ok 1, u)"
    unfolding u_def using Cons.prems by (intro publish_event_run) simp_all
  have "only_outbox s u" using Cons.prems(1) by (auto simp: only_outbox_def u_def update_outbox_def; blast)
  then have "publish_events env es u = (Ok (length es),
      u\<lparr>working := (working u)\<lparr>outbox := publish_rows (clock s) (o_id ` set es) (outbox (working u))\<rparr>,
        bus := bus u @ map event_msg es\<rparr>)"
    using Cons.IH Cons.prems(2) by simp
  then show ?case
    using run by (simp add: bindM_def returnM_def u_def update_outbox_def publish_rows_insert clk)
qed

text \<open>
  A batch without trouble publishes every pending event. When no owner concerned has a stop and the
  server accepts the messages, \<open>process_batch\<close> returns the number of pending events, the bus receives
  their messages oldest first, exactly these events are marked published, and nothing else in the
  database changes.
\<close>

lemma process_batch_publishes:
  fixes s :: st
  defines "batch \<equiv> unpublished (clock s) 100 (outbox (committed s))"
  assumes "\<forall>e \<in> set batch. gate_open env s e \<and> nats_ack env (event_msg e)"
  shows "\<exists>t. process_batch env s = (Ok (length batch), t) \<and> bus t = bus s @ map event_msg batch
    \<and> committed t = (committed s)\<lparr>outbox := map (\<lambda>e. if o_id e \<in> o_id ` set batch
        then e\<lparr>o_status := OUT_PUBLISHED, o_published_at := Some (clock s)\<rparr> else e) (outbox (committed s))\<rparr>"
proof -
  have "only_outbox s (open_session s)"
    by (auto simp: only_outbox_def intro: exI [of _ "outbox (committed s)"])
  from publish_events_run [OF assms(2) this]
  have run: "publish_events env batch (open_session s) = (Ok (length batch),
      (open_session s)\<lparr>working := (committed s)\<lparr>outbox := publish_rows (clock s) (o_id ` set batch) (outbox (committed s))\<rparr>,
        bus := bus s @ map event_msg batch\<rparr>)"
    by simp
  have rows: "publish_rows (clock s) ids rows = map (\<lambda>e. if o_id e \<in> ids
      then e\<lparr>o_status := OUT_PUBLISHED, o_published_at := Some (clock s)\<rparr> else e) rows" for ids rows
    by (simp add: publish_rows_def published_def)
  show ?thesis
    using run unfolding batch_def [symmetric]
    by (auto simp: process_batch_def with_session_def bindM_def get_unpublished_def getM_def select_def seqM_def
        commit_def returnM_def rows batch_def [symmetric])
qed

definition demo_event :: outbox_event where
  "demo_event = queued_event 9 0 (demo_command 5 QUEUED) 2"

definition demo_outbox :: db where
  "demo_outbox = (demo_db [demo_command 5 QUEUED])\<lparr>outbox := [demo_event]\<rparr>"

lemma demo_event_fields [simp]:
  "o_id demo_event = 9" "o_status demo_event = OUT_PENDING" "o_available_at demo_event = 0"
  "o_aggregate_id demo_event = uuid_str 5" "is_command_queued demo_event" "o_created_at demo_event = 0"
  "o_attempt_count demo_event = 0"
  by (simp_all add: demo_event_def queued_event_def is_command_queued_def)

lemma demo_batch: "unpublished (clock (demo_st d)) 100 [demo_event] = [demo_event]"
  by (simp add: unpublished_def)

lemma demo_gate_open: "gate_open demo_env (demo_st demo_outbox) demo_event"
  by (simp add: gate_open_def get_by_id_def demo_outbox_def stop_clear_def stop_active_def stop_row_def kv_get_def)

lemma process_batch_publishes_witness:
  "\<exists>t. process_batch demo_env (demo_st demo_outbox) = (Ok 1, t) \<and> bus t = [event_msg demo_event]
     \<and> map o_status (outbox (committed t)) = [OUT_PUBLISHED]"
proof -
  have b: "unpublished (clock (demo_st demo_outbox)) 100 (outbox (committed (demo_st demo_outbox))) = [demo_event]"
    unfolding demo_fields(1) using demo_batch by (simp add: demo_outbox_def)
  have "\<forall>e \<in> set (unpublished (clock (demo_st demo_outbox)) 100 (outbox (committed (demo_st demo_outbox)))).
      gate_open demo_env (demo_st demo_outbox) e \<and> nats_ack demo_env (event_msg e)"
    unfolding b by (simp add: demo_gate_open) (simp add: demo_env_def)
  from process_batch_publishes [OF this] show ?thesis
    unfolding b by (auto simp: demo_outbox_def)
qed

theorem publisher_respects_stop_witness:
  "\<exists>r t. process_batch demo_env (demo_st (demo_outbox\<lparr>estops := [demo_stop]\<rparr>)) = (r, t) \<and> bus t = []"
proof -
  let ?s = "demo_st (demo_outbox\<lparr>estops := [demo_stop]\<rparr>)"
  have ok: "stop_cache_ok demo_env ?s" by (simp add: stop_cache_ok_def)
  have st: "stopped_event (committed ?s) demo_event"
    by (simp add: stopped_event_def get_by_id_def demo_outbox_def stop_active_def stop_row_def demo_stop_def)
  obtain r t where rt: "process_batch demo_env ?s = (r, t)" by fastforce
  have b: "unpublished (clock ?s) 100 (outbox (committed ?s)) = [demo_event]"
    unfolding demo_fields(1) using demo_batch by (simp add: demo_outbox_def)
  have none: "{e \<in> set [demo_event]. \<not> stopped_event (committed ?s) e} = {}" using st by auto
  from publisher_respects_stop [OF ok rt] have "bus t = []" unfolding b none by simp
  with rt show ?thesis by blast
qed


section \<open>A refused message\<close>

text \<open>
  A message the server refuses stops the publisher. At any log level that shows warnings (the worker's
  \<open>main\<close> sets \<open>INFO\<close>) the attempt to log the failure raises \<open>TypeError\<close>; the batch is rolled back, the
  attempt is not counted, and the attempt to log that error ends \<open>start\<close>.
\<close>

lemma publisher_dies_on_refusal:
  assumes "unpublished (clock s) 100 (outbox (committed s)) = e # es" "gate_open env s e"
    "\<not> nats_ack env (event_msg e)" "log_level env \<le> 30"
  shows "publisher_start env (Suc n) s = (Err (TypeError ''unexpected keyword argument''), open_session s)"
proof -
  have "only_outbox s (open_session s)"
    by (auto simp: only_outbox_def intro: exI [of _ "outbox (committed s)"])
  from stop_gate_open [OF assms(2) this]
  have "publish_event env e (open_session s) = (Err (TypeError ''unexpected keyword argument''), open_session s)"
    using assms(3,4)
    by (simp add: publish_event_def deliver_event_def publish_failed_def catchM_def bindM_def seqM_def publish_js_event
        std_log_enabled raiseM_def)
  then have "process_batch env s = (Err (TypeError ''unexpected keyword argument''), open_session s)"
    using assms(1)
    by (simp add: process_batch_def with_session_def bindM_def get_unpublished_def getM_def select_def)
  then show ?thesis
    unfolding publisher_start_def using assms(4) by (intro worker_dies) (simp_all add: seqM_def bindM_def)
qed

lemma publisher_dies_on_refusal_witness:
  "publisher_start (demo_env\<lparr>nats_ack := (\<lambda>_. False), log_level := 20\<rparr>) (Suc 0) (demo_st demo_outbox) =
     (Err (TypeError ''unexpected keyword argument''), demo_st demo_outbox)"
proof -
  let ?s = "demo_st demo_outbox" and ?env = "demo_env\<lparr>nats_ack := (\<lambda>_. False), log_level := 20\<rparr>"
  have o: "open_session ?s = ?s" by (simp add: demo_st_def)
  have b: "unpublished (clock ?s) 100 (outbox (committed ?s)) = [demo_event]"
    unfolding demo_fields(1) using demo_batch by (simp add: demo_outbox_def)
  have g: "gate_open ?env ?s demo_event"
    by (simp add: gate_open_def get_by_id_def demo_outbox_def stop_clear_def stop_active_def stop_row_def kv_get_def)
  from publisher_dies_on_refusal [OF b g, of 0] show ?thesis unfolding o by simp
qed

end
