(* ===== verification/Devices.thy ===== *)
theory Devices
  imports Approvals
begin

text \<open>
  \<^verbatim>\<open>app/devices\<close>: pairing, listing and revocation. \<open>start_pairing\<close> stores the hash of a one-time
  code; \<open>confirm_pairing\<close> counts every attempt durably, creates the device and its credential on the
  right code; \<open>revoke_device\<close> revokes the device with all its credentials and tells the gateway
  through the outbox. The older functions of the repository, which compute expiry times with
  \<^verbatim>\<open>datetime.replace\<close>, are modelled too.
\<close>

section \<open>Calendar arithmetic of \<^verbatim>\<open>datetime.replace\<close>\<close>

definition days_of_civil :: "int \<Rightarrow> int \<Rightarrow> int \<Rightarrow> int" where
  "days_of_civil y m d =
     (let y' = (if m \<le> 2 then y - 1 else y);
          era = y' div 400;
          yoe = y' mod 400;
          doy = (153 * (if m > 2 then m - 3 else m + 9) + 2) div 5 + d - 1;
          doe = yoe * 365 + yoe div 4 - yoe div 100 + doy
      in era * 146097 + doe - 719468)"

definition is_leap :: "int \<Rightarrow> bool" where
  "is_leap y = (4 dvd y \<and> (\<not> 100 dvd y \<or> 400 dvd y))"

text \<open>\<^verbatim>\<open>now.replace(minute=now.minute + 10)\<close>\<close>

definition replace_minute_plus_10 :: "datetime \<Rightarrow> datetime res" where
  "replace_minute_plus_10 now =
     (if now div 60000000 mod 60 + 10 > 59 then Err (ValueError ''minute must be in 0..59'')
      else Ok (now + 600000000))"

text \<open>\<^verbatim>\<open>now.replace(year=now.year + 1)\<close>\<close>

definition replace_year_plus_1 :: "datetime \<Rightarrow> datetime res" where
  "replace_year_plus_1 now =
     (let (y, m, d) = civil_of_days (now div 86400000000)
      in if m = 2 \<and> d = 29 \<and> \<not> is_leap (y + 1) then Err (ValueError ''day is out of range for month'')
         else Ok (days_of_civil (y + 1) m d * 86400000000 + now mod 86400000000))"

section \<open>Repository\<close>

definition pairing_row :: "uuid \<Rightarrow> db \<Rightarrow> pairing_request option" where
  "pairing_row i d = row_by p_id i (pairings d)"

definition device_row :: "uuid \<Rightarrow> db \<Rightarrow> device option" where
  "device_row i d = row_by d_id i (devices d)"

definition update_pairing :: "uuid \<Rightarrow> (pairing_request \<Rightarrow> pairing_request) \<Rightarrow> db \<Rightarrow> db res" where
  "update_pairing i f d =
     (case row_by p_id i (pairings d) of
        None \<Rightarrow> Ok d
      | Some p \<Rightarrow>
          if p_owner_id (f p) \<noteq> p_owner_id p \<and> \<not> fk_ok (p_owner_id (f p)) (u_id ` set (users d))
          then Err (IntegrityError ''pairing_requests_owner_id_fkey'')
          else Ok (d\<lparr>pairings := update_by p_id i f (pairings d)\<rparr>))"

definition new_device :: "uuid \<Rightarrow> datetime \<Rightarrow> uuid \<Rightarrow> pairing_request \<Rightarrow> device" where
  "new_device i now owner_id p =
     \<lparr>d_id = i, d_owner_id = owner_id, d_display_name = p_device_name p, d_device_type = p_device_type p,
      d_operating_system = p_operating_system p, d_app_version = p_app_version p,
      d_protocol_version = p_protocol_version p, d_public_identity = p_public_identity p,
      d_trust_status = DEV_TRUSTED, d_last_seen_at = None, d_revoked_at = None, d_created_at = now\<rparr>"

definition new_credential :: "uuid \<Rightarrow> datetime \<Rightarrow> uuid \<Rightarrow> string \<Rightarrow> datetime \<Rightarrow> device_credential" where
  "new_credential i now device_id hash expires_at =
     \<lparr>dc_id = i, dc_device_id = device_id, dc_credential_hash = hash, dc_created_at = now,
      dc_expires_at = Some expires_at, dc_revoked_at = None\<rparr>"

definition repo_create_pairing_request ::
  "env \<Rightarrow> string \<Rightarrow> string \<Rightarrow> string \<Rightarrow> string \<Rightarrow> string \<Rightarrow> string \<Rightarrow> (pairing_request \<times> string) prog" where
  "repo_create_pairing_request env device_name device_type operating_system app_version identity protocol_version =
     bindM (token_urlsafe env) (\<lambda>code.
     bindM (getM clock) (\<lambda>now.
     bindM (liftM (replace_minute_plus_10 now)) (\<lambda>expires_at.
     bindM (uuid4 env) (\<lambda>i.
       let p = \<lparr>p_id = i, p_device_name = device_name, p_device_type = device_type,
             p_operating_system = operating_system, p_app_version = app_version,
             p_protocol_version = protocol_version, p_public_identity = identity,
             p_pairing_code_hash = sha256 env code, p_attempt_count = 0, p_owner_id = None,
             p_status = PAIR_PENDING, p_expires_at = expires_at, p_confirmed_at = None\<rparr>
       in seqM (flush (insert_pairing p)) (returnM (p, code))))))"

definition confirmed :: "datetime \<Rightarrow> uuid \<Rightarrow> pairing_request \<Rightarrow> pairing_request" where
  "confirmed now owner_id p =
     p\<lparr>p_status := PAIR_CONFIRMED, p_owner_id := Some owner_id, p_confirmed_at := Some now\<rparr>"

definition repo_confirm_pairing :: "env \<Rightarrow> uuid \<Rightarrow> uuid \<Rightarrow> (device \<times> string) option prog" where
  "repo_confirm_pairing env pairing_id owner_id =
     bindM (select (pairing_row pairing_id)) (\<lambda>pairing.
     bindM (getM clock) (\<lambda>now.
       case pairing of
         None \<Rightarrow> returnM None
       | Some p \<Rightarrow>
           if p_status p \<noteq> PAIR_PENDING then returnM None
           else if p_expires_at p < now then
             seqM (flush (update_pairing pairing_id (\<lambda>p. p\<lparr>p_status := PAIR_EXPIRED\<rparr>))) (returnM None)
           else
             bindM (token_urlsafe env) (\<lambda>credential.
             bindM (uuid4 env) (\<lambda>i.
             seqM (flush (insert_device (new_device i now owner_id p)))
             (bindM (liftM (replace_year_plus_1 now)) (\<lambda>expires_at.
             bindM (uuid4 env) (\<lambda>ci.
             seqM (flush (insert_credential (new_credential ci now i (sha256 env credential) expires_at)))
             (seqM (flush (update_pairing pairing_id (confirmed now owner_id)))
             (returnM (Some (new_device i now owner_id p, credential))))))))))) "

definition list_devices_by_owner :: "uuid \<Rightarrow> db \<Rightarrow> device list" where
  "list_devices_by_owner owner_id d =
     newest_first d_created_at (filter (\<lambda>v. d_owner_id v = owner_id) (devices d))"

definition revoke_credentials :: "datetime \<Rightarrow> uuid \<Rightarrow> device_credential list \<Rightarrow> device_credential list" where
  "revoke_credentials now device_id rows =
     map (\<lambda>c. if dc_device_id c = device_id then c\<lparr>dc_revoked_at := Some now\<rparr> else c) rows"

definition repo_revoke_device :: "uuid \<Rightarrow> uuid \<Rightarrow> bool prog" where
  "repo_revoke_device device_id owner_id =
     bindM (select (device_row device_id)) (\<lambda>device.
     bindM (getM clock) (\<lambda>now.
       case device of
         None \<Rightarrow> returnM False
       | Some v \<Rightarrow>
           if d_owner_id v \<noteq> owner_id then returnM False
           else
             seqM (flush (\<lambda>d. Ok (d\<lparr>devices := update_by d_id device_id
                     (\<lambda>v. v\<lparr>d_trust_status := DEV_REVOKED, d_revoked_at := Some now\<rparr>) (devices d),
                   credentials := revoke_credentials now device_id (credentials d)\<rparr>)))
             (returnM True)))"

text \<open>\<^verbatim>\<open>scalar_one_or_none\<close> on a query that may return several rows.\<close>

definition active_credentials :: "datetime \<Rightarrow> uuid \<Rightarrow> db \<Rightarrow> device_credential list" where
  "active_credentials now device_id d =
     newest_first dc_created_at (filter (\<lambda>c. dc_device_id c = device_id \<and> dc_revoked_at c = None
       \<and> (case dc_expires_at c of None \<Rightarrow> False | Some t \<Rightarrow> now < t)) (credentials d))"

definition get_active_credential :: "uuid \<Rightarrow> device_credential option prog" where
  "get_active_credential device_id =
     bindM (getM clock) (\<lambda>now.
     bindM (select (active_credentials now device_id)) (\<lambda>rows.
       case rows of
         [] \<Rightarrow> returnM None
       | [c] \<Rightarrow> returnM (Some c)
       | _ \<Rightarrow> raiseM MultipleResultsFound))"

definition update_last_seen :: "uuid \<Rightarrow> bool prog" where
  "update_last_seen device_id =
     bindM (getM clock) (\<lambda>now.
     bindM (select (\<lambda>d. device_id \<in> d_id ` set (devices d))) (\<lambda>found.
     seqM (flush (\<lambda>d. Ok (d\<lparr>devices := update_by d_id device_id (\<lambda>v. v\<lparr>d_last_seen_at := Some now\<rparr>) (devices d)\<rparr>)))
     (returnM found)))"

section \<open>Service\<close>

record pairing_input =
  pi_display_name :: string
  pi_device_type :: string
  pi_operating_system :: string
  pi_app_version :: string
  pi_device_public_identity :: string
  pi_protocol_version :: string

definition len_between :: "nat \<Rightarrow> nat \<Rightarrow> string \<Rightarrow> bool" where
  "len_between lo hi x = (lo \<le> length x \<and> length x \<le> hi)"

definition pairing_input_valid :: "pairing_input \<Rightarrow> bool" where
  "pairing_input_valid r =
     (len_between 1 255 (pi_display_name r) \<and> len_between 1 100 (pi_device_type r)
      \<and> len_between 1 100 (pi_operating_system r) \<and> len_between 1 50 (pi_app_version r)
      \<and> 1 \<le> length (pi_device_public_identity r) \<and> length (pi_protocol_version r) \<le> 20)"

definition new_pairing :: "env \<Rightarrow> uuid \<Rightarrow> datetime \<Rightarrow> string \<Rightarrow> pairing_input \<Rightarrow> pairing_request" where
  "new_pairing env i now code r =
     \<lparr>p_id = i, p_device_name = pi_display_name r, p_device_type = pi_device_type r,
      p_operating_system = pi_operating_system r, p_app_version = pi_app_version r,
      p_protocol_version = (if pi_protocol_version r = [] then ''v1'' else pi_protocol_version r),
      p_public_identity = pi_device_public_identity r, p_pairing_code_hash = sha256 env code,
      p_attempt_count = 0, p_owner_id = None, p_status = PAIR_PENDING,
      p_expires_at = now + timedelta_minutes (PAIRING_CODE_TTL_MINUTES (settings env)),
      p_confirmed_at = None\<rparr>"

definition start_pairing :: "env \<Rightarrow> pairing_input \<Rightarrow> (uuid \<times> string \<times> datetime) prog" where
  "start_pairing env request =
     with_session
       (bindM (token_urlsafe env) (\<lambda>pairing_code.
        bindM (getM clock) (\<lambda>now.
        bindM (uuid4 env) (\<lambda>i.
          let p = new_pairing env i now pairing_code request in
          seqM (flush (insert_pairing p))
          (seqM commit
          (returnM (i, pairing_code, p_expires_at p)))))))"

definition attempted :: "pairing_request \<Rightarrow> pairing_request" where
  "attempted p = p\<lparr>p_attempt_count := p_attempt_count p + 1\<rparr>"

definition confirm_success :: "env \<Rightarrow> uuid \<Rightarrow> uuid \<Rightarrow> pairing_request \<Rightarrow> (uuid \<times> string \<times> string) prog" where
  "confirm_success env pairing_id owner_id p =
     bindM (getM clock) (\<lambda>now.
     bindM (uuid4 env) (\<lambda>i.
     seqM (flush (update_pairing pairing_id attempted))
     (seqM (flush (insert_device (new_device i now owner_id p)))
     (bindM (token_urlsafe env) (\<lambda>credential_secret.
      bindM (uuid4 env) (\<lambda>ci.
      seqM (flush (insert_credential (new_credential ci now i (sha256 env credential_secret)
              (now + timedelta_days (DEVICE_CREDENTIAL_TTL_DAYS (settings env))))))
      (seqM (flush (update_pairing pairing_id (confirmed now owner_id)))
      (seqM (create_audit_log env CAT_DEVICE ACT_DEVICE_PAIR_CONFIRMED ''success'' (Some owner_id) (Some i)
               None None (JObj [(''device_name'', JStr (p_device_name p))]))
      (seqM commit
      (returnM (i, credential_secret, ''confirmed''))))))))))) "

definition confirm_tx :: "env \<Rightarrow> uuid \<Rightarrow> uuid \<Rightarrow> string \<Rightarrow> (uuid \<times> string \<times> string) prog" where
  "confirm_tx env pairing_id owner_id pairing_code =
     bindM (select (pairing_row pairing_id)) (\<lambda>pairing.
     bindM (getM clock) (\<lambda>now.
       case pairing of
         None \<Rightarrow> raiseM (ApiError PAIRING_INVALID ''Pairing request not found'' 404)
       | Some p \<Rightarrow>
           if p_status p \<noteq> PAIR_PENDING then
             bindM (liftM (dot_value (orm_enum env) pairing_status_value (p_status p))) (\<lambda>v.
               raiseM (ApiError PAIRING_INVALID (''Pairing is '' @ v) 400))
           else if p_expires_at p < now then
             seqM (flush (update_pairing pairing_id (\<lambda>p. p\<lparr>p_status := PAIR_EXPIRED\<rparr>)))
             (seqM commit
             (raiseM (ApiError PAIRING_EXPIRED ''Pairing code has expired'' 400)))
           else if p_attempt_count p + 1 > MAX_PAIRING_ATTEMPTS (settings env) then
             seqM (flush (update_pairing pairing_id (\<lambda>p. (attempted p)\<lparr>p_status := PAIR_REJECTED\<rparr>)))
             (seqM commit
             (raiseM (ApiError PAIRING_INVALID ''Too many failed pairing attempts'' 429)))
           else if sha256 env pairing_code \<noteq> p_pairing_code_hash p then
             seqM (flush (update_pairing pairing_id attempted))
             (seqM commit
             (raiseM (ApiError PAIRING_INVALID ''Invalid pairing code'' 400)))
           else confirm_success env pairing_id owner_id p))"

definition confirm_pairing :: "env \<Rightarrow> uuid \<Rightarrow> uuid \<Rightarrow> string \<Rightarrow> (uuid \<times> string \<times> string) prog" where
  "confirm_pairing env pairing_id owner_id pairing_code =
     with_session (confirm_tx env pairing_id owner_id pairing_code)"

definition list_devices :: "uuid \<Rightarrow> device list prog" where
  "list_devices owner_id = with_session (select (list_devices_by_owner owner_id))"

definition revoke_tx :: "env \<Rightarrow> uuid \<Rightarrow> uuid \<Rightarrow> bool prog" where
  "revoke_tx env device_id owner_id =
     bindM (repo_revoke_device device_id owner_id) (\<lambda>result.
       if \<not> result then returnM False
       else
         seqM (create_audit_log env CAT_DEVICE ACT_DEVICE_REVOKED ''success'' (Some owner_id) (Some device_id)
                 None None JNull)
         (seqM (add_event env ''device.revoked'' ''device'' (uuid_str device_id)
                  (device_lifecycle (uuid_str device_id))
                  [(''device_id'', JStr (uuid_str device_id)), (''state'', JStr ''revoked''),
                   (''owner_id'', JStr (uuid_str owner_id))])
         (seqM commit (returnM True))))"

definition revoke_device :: "env \<Rightarrow> uuid \<Rightarrow> uuid \<Rightarrow> bool prog" where
  "revoke_device env device_id owner_id = with_session (revoke_tx env device_id owner_id)"

section \<open>Routes\<close>

definition route_start_pairing :: "env \<Rightarrow> pairing_input \<Rightarrow> (uuid \<times> string \<times> datetime) prog" where
  "route_start_pairing env request =
     (if \<not> pairing_input_valid request then raiseM PydanticValidationError else start_pairing env request)"

definition route_confirm_pairing :: "env \<Rightarrow> uuid \<Rightarrow> string \<Rightarrow> uuid \<Rightarrow> (uuid \<times> string \<times> string) prog" where
  "route_confirm_pairing env pairing_id pairing_code current_user =
     confirm_pairing env pairing_id current_user pairing_code"

definition route_list_devices :: "uuid \<Rightarrow> device list prog" where
  "route_list_devices current_user = list_devices current_user"

definition route_get_device :: "uuid \<Rightarrow> uuid \<Rightarrow> device prog" where
  "route_get_device device_id current_user =
     with_session
       (bindM (select (device_row device_id)) (\<lambda>device.
          case device of
            None \<Rightarrow> raiseM (ApiError DEVICE_NOT_FOUND ''Device not found'' 404)
          | Some v \<Rightarrow> if d_owner_id v \<noteq> current_user
                      then raiseM (ApiError DEVICE_NOT_FOUND ''Device not found'' 404) else returnM v))"

definition route_revoke_device :: "env \<Rightarrow> uuid \<Rightarrow> uuid \<Rightarrow> bool prog" where
  "route_revoke_device env device_id current_user =
     seqM (revoke_device env device_id current_user) (returnM True)"

section \<open>Guessing the pairing code\<close>

lemma row_by_pairing:
  "(\<And>p. p_id (f p) = p_id p) \<Longrightarrow> row_by p_id k (update_by p_id i f rows) =
     (if k = i then map_option f (row_by p_id k rows) else row_by p_id k rows)"
  by (rule keyed_update.row_by_update [of p_id "\<lambda>_. f"]) (simp add: keyed_update_def)

lemma attempted_fields [simp]:
  "p_id (attempted p) = p_id p" "p_status (attempted p) = p_status p" "p_owner_id (attempted p) = p_owner_id p"
  "p_attempt_count (attempted p) = p_attempt_count p + 1" "p_pairing_code_hash (attempted p) = p_pairing_code_hash p"
  by (simp_all add: attempted_def)

text \<open>A call that does not verify the right code against a live request.\<close>

definition refused_attempt :: "env \<Rightarrow> datetime \<Rightarrow> string \<Rightarrow> pairing_request \<Rightarrow> bool" where
  "refused_attempt env now code p =
     (p_status p \<noteq> PAIR_PENDING \<or> p_expires_at p < now \<or> MAX_PAIRING_ATTEMPTS (settings env) < p_attempt_count p + 1
      \<or> sha256 env code \<noteq> p_pairing_code_hash p)"

lemma confirm_refused:
  assumes "pairing_row pid (committed s) = Some p" "refused_attempt env (clock s) code p"
  obtains e t p' where "confirm_pairing env pid owner code s = (Err e, t)"
    "committed t = (committed s)\<lparr>pairings := pairings (committed t)\<rparr>" "pairing_row pid (committed t) = Some p'"
    "p_pairing_code_hash p' = p_pairing_code_hash p"
    "p_status p' \<noteq> PAIR_PENDING \<or> p_status p = PAIR_PENDING \<and> p_attempt_count p' = p_attempt_count p + 1
       \<and> p_attempt_count p + 1 \<le> MAX_PAIRING_ATTEMPTS (settings env)"
proof -
  note run_simps = confirm_pairing_def with_session_def confirm_tx_def bindM_def select_def getM_def
    seqM_def flush_def commit_def raiseM_def update_pairing_def pairing_row_def
  have row: "row_by p_id pid (pairings (committed s)) = Some p" using assms(1) by (simp add: pairing_row_def)
  consider (settled) "p_status p \<noteq> PAIR_PENDING"
    | (expired) "p_status p = PAIR_PENDING" "p_expires_at p < clock s"
    | (toomany) "p_status p = PAIR_PENDING" "\<not> p_expires_at p < clock s" "MAX_PAIRING_ATTEMPTS (settings env) < p_attempt_count p + 1"
    | (wrong) "p_status p = PAIR_PENDING" "\<not> p_expires_at p < clock s" "p_attempt_count p + 1 \<le> MAX_PAIRING_ATTEMPTS (settings env)"
        "sha256 env code \<noteq> p_pairing_code_hash p"
    using assms(2) unfolding refused_attempt_def by linarith
  then show thesis
  proof cases
    case settled
    then have "\<exists>e. confirm_pairing env pid owner code s = (Err e, open_session s)"
      using assms(1) by (auto simp: confirm_pairing_def with_session_def confirm_tx_def prog_simps bindM_def
          dot_value_def raiseM_def liftM_def)
    then obtain e where e: "confirm_pairing env pid owner code s = (Err e, open_session s)" ..
    show thesis by (rule that [OF e]) (use assms(1) settled in simp_all)
  next
    case expired
    then have "\<exists>e t. confirm_pairing env pid owner code s = (Err e, t) \<and>
        committed t = (committed s)\<lparr>pairings := update_by p_id pid (\<lambda>p. p\<lparr>p_status := PAIR_EXPIRED\<rparr>) (pairings (committed s))\<rparr>"
      using row by (simp add: run_simps)
    then obtain e t where t: "confirm_pairing env pid owner code s = (Err e, t)"
      "committed t = (committed s)\<lparr>pairings := update_by p_id pid (\<lambda>p. p\<lparr>p_status := PAIR_EXPIRED\<rparr>) (pairings (committed s))\<rparr>"
      by blast
    show thesis by (rule that [of e t "p\<lparr>p_status := PAIR_EXPIRED\<rparr>", OF t(1)]) (use expired row t(2) in \<open>simp_all add: pairing_row_def row_by_pairing\<close>)
  next
    case toomany
    then have "\<exists>e t. confirm_pairing env pid owner code s = (Err e, t) \<and>
        committed t = (committed s)\<lparr>pairings := update_by p_id pid (\<lambda>p. (attempted p)\<lparr>p_status := PAIR_REJECTED\<rparr>) (pairings (committed s))\<rparr>"
      using row by (simp add: run_simps)
    then obtain e t where t: "confirm_pairing env pid owner code s = (Err e, t)"
      "committed t = (committed s)\<lparr>pairings := update_by p_id pid (\<lambda>p. (attempted p)\<lparr>p_status := PAIR_REJECTED\<rparr>) (pairings (committed s))\<rparr>"
      by blast
    show thesis by (rule that [of e t "(attempted p)\<lparr>p_status := PAIR_REJECTED\<rparr>", OF t(1)]) (use toomany row t(2) in \<open>simp_all add: pairing_row_def row_by_pairing\<close>)
  next
    case wrong
    then have "\<exists>e t. confirm_pairing env pid owner code s = (Err e, t) \<and>
        committed t = (committed s)\<lparr>pairings := update_by p_id pid (attempted) (pairings (committed s))\<rparr>"
      using row by (simp add: run_simps)
    then obtain e t where t: "confirm_pairing env pid owner code s = (Err e, t)"
      "committed t = (committed s)\<lparr>pairings := update_by p_id pid (attempted) (pairings (committed s))\<rparr>"
      by blast
    show thesis by (rule that [of e t "attempted p", OF t(1)]) (use wrong row t(2) in \<open>simp_all add: pairing_row_def row_by_pairing\<close>)
  qed
qed

text \<open>A series of attempts at given times by any callers with any codes.\<close>

fun attempts ::
  "env \<Rightarrow> uuid \<Rightarrow> (datetime \<times> uuid \<times> string) list \<Rightarrow> st \<Rightarrow> (uuid \<times> string \<times> string) res list \<times> st" where
  "attempts env pid [] s = ([], s)"
| "attempts env pid ((now, owner, code) # xs) s =
     (let (r, t) = confirm_pairing env pid owner code (s\<lparr>clock := now\<rparr>);
          (rs, u) = attempts env pid xs t
      in (r # rs, u))"

text \<open>
  C19. Pairing codes cannot be guessed at leisure. If none of the codes tried while attempts are left
  has the stored hash, no later attempt of the series succeeds either, however long it is and
  whatever it tries: every answer is an error, and no device and no credential is created.
\<close>

theorem pairing_guesses_bounded:
  assumes "pairing_row pid (committed s) = Some p"
    "\<forall>(now, owner, code) \<in> set (take (nat (MAX_PAIRING_ATTEMPTS (settings env) - p_attempt_count p)) xs).
       sha256 env code \<noteq> p_pairing_code_hash p"
    "attempts env pid xs s = (rs, t)"
  shows "(\<forall>r \<in> set rs. \<exists>e. r = Err e) \<and> committed t = (committed s)\<lparr>pairings := pairings (committed t)\<rparr>"
proof -
  have "(\<forall>r \<in> set rs. \<exists>e. r = Err e) \<and> committed t = (committed s)\<lparr>pairings := pairings (committed t)\<rparr>"
    if "pairing_row pid (committed s) = Some p"
      "p_status p \<noteq> PAIR_PENDING \<or> (\<forall>(now, owner, code) \<in> set (take (nat (MAX_PAIRING_ATTEMPTS (settings env) - p_attempt_count p)) xs).
       sha256 env code \<noteq> p_pairing_code_hash p)"
      "attempts env pid xs s = (rs, t)" for s p rs
    using that
  proof (induction xs arbitrary: s p rs)
    case Nil
    then show ?case by simp
  next
    case (Cons x xs)
    obtain now owner code where x: "x = (now, owner, code)" by (cases x)
    let ?s = "s\<lparr>clock := now\<rparr>"
    let ?left = "MAX_PAIRING_ATTEMPTS (settings env) - p_attempt_count p"
    have ref: "refused_attempt env (clock ?s) code p"
    proof (cases "0 < ?left")
      case True
      then have "nat ?left = Suc (nat (?left - 1))" by simp
      with Cons.prems(2) show ?thesis by (auto simp: x refused_attempt_def)
    qed (simp add: refused_attempt_def)
    have row': "pairing_row pid (committed ?s) = Some p" using Cons.prems(1) by simp
    obtain e u p' where u: "confirm_pairing env pid owner code ?s = (Err e, u)"
      "committed u = (committed ?s)\<lparr>pairings := pairings (committed u)\<rparr>" "pairing_row pid (committed u) = Some p'"
      "p_pairing_code_hash p' = p_pairing_code_hash p"
      "p_status p' \<noteq> PAIR_PENDING \<or> p_status p = PAIR_PENDING \<and> p_attempt_count p' = p_attempt_count p + 1
         \<and> p_attempt_count p + 1 \<le> MAX_PAIRING_ATTEMPTS (settings env)"
      by (rule confirm_refused [OF row' ref])
    obtain rs' where rs': "attempts env pid xs u = (rs', t)" "rs = Err e # rs'"
      using Cons.prems(3) u(1) by (auto simp: x split: prod.splits)
    have "p_status p' \<noteq> PAIR_PENDING \<or> (\<forall>(now, owner, code) \<in> set (take (nat (MAX_PAIRING_ATTEMPTS (settings env) - p_attempt_count p')) xs).
       sha256 env code \<noteq> p_pairing_code_hash p')"
    proof (cases "p_status p' = PAIR_PENDING")
      case True
      with u(5) have pend: "p_status p = PAIR_PENDING" "p_attempt_count p' = p_attempt_count p + 1"
        "p_attempt_count p + 1 \<le> MAX_PAIRING_ATTEMPTS (settings env)" by auto
      then have "nat ?left = Suc (nat (MAX_PAIRING_ATTEMPTS (settings env) - p_attempt_count p'))" by simp
      with Cons.prems(2) pend(1) u(4) show ?thesis by auto
    qed simp
    from Cons.IH [OF u(3) this rs'(1)] have ih: "\<forall>r \<in> set rs'. \<exists>e. r = Err e"
      "committed t = (committed u)\<lparr>pairings := pairings (committed t)\<rparr>" by blast+
    from u(2) obtain y where "committed u = (committed s)\<lparr>pairings := y\<rparr>" by auto
    with ih(2) have "committed t = (committed s)\<lparr>pairings := pairings (committed t)\<rparr>" by simp
    with ih(1) rs'(2) show ?case by simp
  qed
  with assms show ?thesis by blast
qed

definition demo_pairing :: pairing_request where
  "demo_pairing = \<lparr>p_id = 8, p_device_name = ''Mac'', p_device_type = ''macbook'', p_operating_system = ''macos'',
     p_app_version = ''1'', p_protocol_version = ''v1'', p_public_identity = ''pk'', p_pairing_code_hash = ''#code'',
     p_attempt_count = 4, p_owner_id = None, p_status = PAIR_PENDING, p_expires_at = 9000000, p_confirmed_at = None\<rparr>"

definition demo_pairing_db :: db where
  "demo_pairing_db = (demo_db [])\<lparr>pairings := [demo_pairing]\<rparr>"

theorem pairing_guesses_bounded_witness:
  "\<exists>rs t. attempts demo_env 8 [(1, 1, ''x''), (2, 1, ''code''), (3, 1, ''code'')] (demo_st demo_pairing_db) = (rs, t)
     \<and> (\<forall>r \<in> set rs. \<exists>e. r = Err e)"
proof -
  let ?xs = "[(1, 1, ''x''), (2, 1, ''code''), (3, 1, ''code'')] :: (datetime \<times> uuid \<times> string) list"
  have row: "pairing_row 8 (committed (demo_st demo_pairing_db)) = Some demo_pairing"
    by (simp add: pairing_row_def demo_pairing_db_def demo_pairing_def)
  have wrong: "\<forall>(now, owner, code) \<in> set (take (nat (MAX_PAIRING_ATTEMPTS (settings demo_env) - p_attempt_count demo_pairing)) ?xs).
       sha256 demo_env code \<noteq> p_pairing_code_hash demo_pairing"
    by (simp add: demo_env_def default_settings_def demo_pairing_def)
  obtain rs t where rt: "attempts demo_env 8 ?xs (demo_st demo_pairing_db) = (rs, t)" by fastforce
  from pairing_guesses_bounded [OF row wrong rt] rt show ?thesis by blast
qed

section \<open>Confirming\<close>

lemma confirm_tx_success:
  assumes "pairing_row pid (committed s) = Some p" "\<not> refused_attempt env (clock s) code p"
  shows "confirm_tx env pid owner code (open_session s) = confirm_success env pid owner p (open_session s)"
  using assms by (simp add: confirm_tx_def refused_attempt_def bindM_def select_def getM_def)

text \<open>
  C20. Confirming a pairing. The right code, in time and within the allowed attempts, for a supported
  device type, creates in one commit a trusted device of the caller with the data of the request, a
  credential whose stored hash is that of the returned secret and which expires after the configured
  number of days, and the audit row; the request is confirmed, so that no later attempt succeeds.
\<close>

theorem confirm_pairing_creates_device:
  assumes "pairing_row pid (committed s) = Some p" "\<not> refused_attempt env (clock s) code p"
    "owner \<in> u_id ` set (users (committed s))" "p_device_type p \<in> set device_types"
    "fresh_ids env 4 (open_session s)"
  shows "\<exists>t i ci secret l. confirm_pairing env pid owner code s = (Ok (i, secret, ''confirmed''), t)
    \<and> devices (committed t) = devices (committed s) @ [new_device i (clock s) owner p]
    \<and> credentials (committed t) = credentials (committed s) @ [new_credential ci (clock s) i (sha256 env secret)
         (clock s + timedelta_days (DEVICE_CREDENTIAL_TTL_DAYS (settings env)))]
    \<and> pairing_row pid (committed t) = Some (confirmed (clock s) owner (attempted p))
    \<and> audits (committed t) = audits (committed s) @ [l] \<and> al_action l = ACT_DEVICE_PAIR_CONFIRMED
    \<and> al_device_id l = Some i
    \<and> (\<forall>now' code'. refused_attempt env now' code' (confirmed (clock s) owner (attempted p)))"
proof -
  let ?g = "\<lambda>n. gen_uuid env (entropy s + n)"
  have g: "?g n \<notin> ids_of (committed s)" if "n < 4" for n
    using assms(5) that by (simp add: fresh_ids_def)
  have ids: "?g 0 \<notin> d_id ` set (devices (committed s))" "?g 2 \<notin> dc_id ` set (credentials (committed s))"
    "?g 3 \<notin> al_id ` set (audits (committed s))"
    using g [of 0] g [of 2] g [of 3] by (simp_all add: ids_of_def)
  have row: "row_by p_id pid (pairings (committed s)) = Some p" using assms(1) by (simp add: pairing_row_def)
  let ?l = "audit_row (?g 3) (clock s) CAT_DEVICE ACT_DEVICE_PAIR_CONFIRMED ''success'' (Some owner) (Some (?g 0))
      None None (JObj [(''device_name'', JStr (p_device_name p))])"
  let ?d = "(committed s)\<lparr>pairings := update_by p_id pid (confirmed (clock s) owner) (update_by p_id pid attempted
      (pairings (committed s))), devices := devices (committed s) @ [new_device (?g 0) (clock s) owner p],
      credentials := credentials (committed s) @ [new_credential (?g 2) (clock s) (?g 0) (sha256 env (gen_token env (entropy s + 1)))
         (clock s + timedelta_days (DEVICE_CREDENTIAL_TTL_DAYS (settings env)))],
      audits := audits (committed s) @ [?l]\<rparr>"
  have "\<exists>t. confirm_success env pid owner p (open_session s) = (Ok (?g 0, gen_token env (entropy s + 1), ''confirmed''), t)
      \<and> working t = ?d \<and> committed t = ?d \<and> \<not> failed t"
    using ids assms(3,4) row
    by (simp add: confirm_success_def bindM_def seqM_def getM_def uuid4_def token_urlsafe_def flush_def commit_def
        returnM_def update_pairing_def insert_device_def insert_credential_def create_audit_log_def repo_create_audit_log_def insert_audit_def
        row_by_pairing new_device_def new_credential_def confirmed_def fk_ok_def audit_results_def audit_row_def
        numeral_2_eq_2 numeral_3_eq_3)
  then obtain t where t: "confirm_success env pid owner p (open_session s) =
      (Ok (?g 0, gen_token env (entropy s + 1), ''confirmed''), t)" "working t = ?d" "committed t = ?d" "\<not> failed t"
    by blast
  have "confirm_pairing env pid owner code s = (Ok (?g 0, gen_token env (entropy s + 1), ''confirmed''),
      t\<lparr>committed := ?d\<rparr>)"
    using t by (simp add: confirm_pairing_def with_session_def confirm_tx_success [OF assms(1,2)])
  moreover have "pairing_row pid ?d = Some (confirmed (clock s) owner (attempted p))"
    by (simp add: pairing_row_def row_by_pairing row confirmed_def)
  moreover have "refused_attempt env now' code' (confirmed (clock s) owner (attempted p))" for now' code'
    by (simp add: refused_attempt_def confirmed_def)
  ultimately show ?thesis
    by - (rule exI [of _ "t\<lparr>committed := ?d\<rparr>"], rule exI [of _ "?g 0"], rule exI [of _ "?g 2"],
        rule exI [of _ "gen_token env (entropy s + 1)"], rule exI [of _ ?l], simp add: audit_row_def)
qed

theorem confirm_pairing_creates_device_witness:
  "\<exists>t i secret. confirm_pairing demo_env 8 1 ''code'' (demo_st demo_pairing_db) = (Ok (i, secret, ''confirmed''), t)
     \<and> length (devices (committed t)) = 2"
proof -
  let ?s = "demo_st demo_pairing_db"
  have pre: "pairing_row 8 (committed ?s) = Some demo_pairing" "\<not> refused_attempt demo_env (clock ?s) ''code'' demo_pairing"
    "1 \<in> u_id ` set (users (committed ?s))" "p_device_type demo_pairing \<in> set device_types"
    by (simp_all add: pairing_row_def demo_pairing_db_def demo_pairing_def refused_attempt_def demo_env_def default_settings_def
        device_types_def)
  have fr: "fresh_ids demo_env 4 (open_session ?s)"
    by (rule demo_fresh) (auto simp: ids_of_def demo_pairing_db_def demo_pairing_def)
  from confirm_pairing_creates_device [OF pre fr] show ?thesis by (auto simp: demo_pairing_db_def)
qed

text \<open>
  A device type that the schema does not know. The request schema accepts any type, the table
  only three: confirming with the right code then fails on the check constraint, and the rollback
  undoes the attempt as well, so the database is unchanged and the request stays pending.
\<close>

lemma confirm_pairing_unsupported_type:
  assumes "pairing_row pid (committed s) = Some p" "\<not> refused_attempt env (clock s) code p"
    "owner \<in> u_id ` set (users (committed s))" "p_device_type p \<notin> set device_types"
    "fresh_ids env 4 (open_session s)"
  shows "\<exists>t. confirm_pairing env pid owner code s = (Err (IntegrityError ''chk_device_type''), t)
    \<and> committed t = committed s"
proof -
  have "gen_uuid env (entropy s) \<notin> ids_of (committed s)" using assms(5) fresh_ids_now [of env 3 "open_session s"] by simp
  then have "gen_uuid env (entropy s) \<notin> d_id ` set (devices (committed s))" by (simp add: ids_of_def)
  then show ?thesis
    using assms(3,4) assms(1)
    by (simp add: confirm_pairing_def with_session_def confirm_tx_success [OF assms(1,2)] confirm_success_def bindM_def
        seqM_def getM_def uuid4_def flush_def update_pairing_def insert_device_def new_device_def pairing_row_def)
qed

lemma confirm_pairing_unsupported_type_witness:
  "\<exists>t. confirm_pairing demo_env 8 1 ''code''
      (demo_st (demo_pairing_db\<lparr>pairings := [demo_pairing\<lparr>p_device_type := ''android''\<rparr>]\<rparr>)) =
      (Err (IntegrityError ''chk_device_type''), t)"
proof -
  let ?p = "demo_pairing\<lparr>p_device_type := ''android''\<rparr>"
  let ?s = "demo_st (demo_pairing_db\<lparr>pairings := [?p]\<rparr>)"
  have pre: "pairing_row 8 (committed ?s) = Some ?p" "\<not> refused_attempt demo_env (clock ?s) ''code'' ?p"
    "1 \<in> u_id ` set (users (committed ?s))" "p_device_type ?p \<notin> set device_types"
    by (simp_all add: pairing_row_def demo_pairing_db_def demo_pairing_def refused_attempt_def demo_env_def default_settings_def
        device_types_def)
  have fr: "fresh_ids demo_env 4 (open_session ?s)"
    by (rule demo_fresh) (auto simp: ids_of_def demo_pairing_db_def demo_pairing_def)
  from confirm_pairing_unsupported_type [OF pre fr] show ?thesis by blast
qed

section \<open>Revocation\<close>

text \<open>
  Revocation. Revoking a device of the caller marks it revoked, leaves it without any active
  credential at any later time, changes no other device and no credential of another device, and
  appends the audit row and the pending event that tells the gateway. A device of somebody else is
  not touched.
\<close>

lemma revoke_device_outcome:
  assumes "device_row vid (committed s) = Some v" "owner \<in> u_id ` set (users (committed s))"
    "fresh_ids env 2 (open_session s)"
  shows "\<exists>t. revoke_device env vid owner s = (Ok (d_owner_id v = owner), t)
    \<and> (if d_owner_id v = owner
       then devices (committed t) = update_by d_id vid (\<lambda>v. v\<lparr>d_trust_status := DEV_REVOKED, d_revoked_at := Some (clock s)\<rparr>)
              (devices (committed s))
          \<and> (\<forall>now. active_credentials now vid (committed t) = [])
          \<and> (\<forall>k now. k \<noteq> vid \<longrightarrow> active_credentials now k (committed t) = active_credentials now k (committed s))
          \<and> (\<exists>e. outbox (committed t) = outbox (committed s) @ [e] \<and> o_status e = OUT_PENDING
               \<and> o_subject e = device_lifecycle (uuid_str vid))
          \<and> (\<exists>l. audits (committed t) = audits (committed s) @ [l] \<and> al_action l = ACT_DEVICE_REVOKED)
       else committed t = committed s)"
proof (cases "d_owner_id v = owner")
  case True
  let ?g = "\<lambda>n. gen_uuid env (entropy s + n)"
  have g: "?g n \<notin> ids_of (committed s)" if "n < 2" for n
    using assms(3) that by (simp add: fresh_ids_def)
  have ids: "?g 0 \<notin> al_id ` set (audits (committed s))" "?g 1 \<notin> o_id ` set (outbox (committed s))"
    using g [of 0] g [of 1] by (simp_all add: ids_of_def)
  let ?f = "\<lambda>v. v\<lparr>d_trust_status := DEV_REVOKED, d_revoked_at := Some (clock s)\<rparr>"
  have vid: "vid \<in> d_id ` set (update_by d_id vid ?f (devices (committed s)))"
    using assms(1) by (simp add: image_update_by device_row_def row_by_SomeK)
  let ?l = "audit_row (?g 0) (clock s) CAT_DEVICE ACT_DEVICE_REVOKED ''success'' (Some owner) (Some vid) None None JNull"
  let ?e = "new_outbox_event (?g 1) (clock s) ''device.revoked'' ''device'' (uuid_str vid) (device_lifecycle (uuid_str vid))
      [(''device_id'', JStr (uuid_str vid)), (''state'', JStr ''revoked''), (''owner_id'', JStr (uuid_str owner))]"
  let ?d = "(committed s)\<lparr>devices := update_by d_id vid ?f (devices (committed s)),
      credentials := revoke_credentials (clock s) vid (credentials (committed s)),
      audits := audits (committed s) @ [?l], outbox := outbox (committed s) @ [?e]\<rparr>"
  have "\<exists>t. revoke_tx env vid owner (open_session s) = (Ok True, t) \<and> working t = ?d \<and> committed t = ?d \<and> \<not> failed t"
    using True assms(1,2) vid ids
    by (simp add: revoke_tx_def repo_revoke_device_def bindM_def seqM_def select_def getM_def flush_def returnM_def commit_def
        create_audit_log_run add_event_run audit_results_def fk_ok_def)
  then obtain t where t: "revoke_tx env vid owner (open_session s) = (Ok True, t)" "working t = ?d" "committed t = ?d" "\<not> failed t"
    by blast
  then have run: "revoke_device env vid owner s = (Ok True, t\<lparr>committed := ?d\<rparr>)"
    by (simp add: revoke_device_def with_session_def)
  have "filter (\<lambda>c. dc_device_id c = vid \<and> dc_revoked_at c = None \<and> P c) (revoke_credentials (clock s) vid cs) = []" for P cs
    by (induction cs) (auto simp: revoke_credentials_def)
  then have none: "active_credentials now vid ?d = []" for now
    by (simp add: active_credentials_def newest_first_def)
  have "filter (\<lambda>c. dc_device_id c = k \<and> P c) (revoke_credentials (clock s) vid cs) = filter (\<lambda>c. dc_device_id c = k \<and> P c) cs"
    if "k \<noteq> vid" for P k cs
    using that by (induction cs) (auto simp: revoke_credentials_def)
  then have others: "k \<noteq> vid \<longrightarrow> active_credentials now k ?d = active_credentials now k (committed s)" for k now
    by (simp add: active_credentials_def)
  show ?thesis
    using True run none others by (intro exI [of _ "t\<lparr>committed := ?d\<rparr>"]) (simp add: audit_row_def)
next
  case False
  with assms(1) show ?thesis
    by (simp add: revoke_device_def with_session_def revoke_tx_def repo_revoke_device_def bindM_def select_def getM_def returnM_def)
qed

lemma revoke_device_outcome_witness:
  "\<exists>t. revoke_device demo_env 2 1 (demo_st (demo_db [])) = (Ok True, t)
     \<and> map d_trust_status (devices (committed t)) = [DEV_REVOKED]"
proof -
  let ?s = "demo_st (demo_db [])"
  have pre: "device_row 2 (committed ?s) = Some demo_device" "1 \<in> u_id ` set (users (committed ?s))"
    by (simp_all add: device_row_def)
  have fr: "fresh_ids demo_env 2 (open_session ?s)" by (rule demo_fresh) (auto simp: ids_of_def)
  from revoke_device_outcome [OF pre fr] show ?thesis by auto
qed

end
