(* ===== verification/Scheduler.thy ===== *)
theory Scheduler
  imports Commands Devices Worker
begin

text \<open>
  \<^verbatim>\<open>app/workers/scheduler.py\<close>: the periodic run that expires pairings, approvals and commands in one
  transaction and afterwards compares the connection and presence keys in Valkey. \<^verbatim>\<open>SKIP LOCKED\<close> has no
  effect in the model, where one session is open at a time; the batch of 100 commands is the first 100
  rows in insertion order (the query has no \<^verbatim>\<open>ORDER BY\<close>).
\<close>

section \<open>Expiry\<close>

definition pairing_due :: "datetime \<Rightarrow> pairing_request \<Rightarrow> bool" where
  "pairing_due now p = (p_status p = PAIR_PENDING \<and> p_expires_at p < now)"

definition expire_stale_pairings :: "nat prog" where
  "expire_stale_pairings =
     bindM (getM clock) (\<lambda>now.
     bindM (select (\<lambda>d. length (filter (pairing_due now) (pairings d)))) (\<lambda>rowcount.
     seqM (flush (\<lambda>d. Ok (d\<lparr>pairings := map (\<lambda>p. if pairing_due now p then p\<lparr>p_status := PAIR_EXPIRED\<rparr> else p)
                                 (pairings d)\<rparr>)))
     (returnM rowcount)))"

definition expire_approvals :: "nat prog" where
  "expire_approvals = repo_expire_pending_approvals"

definition command_due :: "datetime \<Rightarrow> command \<Rightarrow> bool" where
  "command_due now c = (c_state c \<in> {QUEUED, AWAITING_APPROVAL, APPROVED, DELIVERED}
     \<and> (case c_expires_at c of None \<Rightarrow> False | Some t \<Rightarrow> t < now))"

definition expired_task :: "task \<Rightarrow> task" where
  "expired_task t = t\<lparr>t_state := T_FAILED, t_result_summary := JStr ''expired''\<rparr>"

definition expire_task :: "uuid \<Rightarrow> unit prog" where
  "expire_task command_id =
     bindM (select (\<lambda>d. row_by t_command_id command_id (tasks d))) (\<lambda>task.
       case task of
         None \<Rightarrow> returnM ()
       | Some t \<Rightarrow>
           if t_state t \<in> {T_SUCCEEDED, T_FAILED, T_CANCELLED} then returnM ()
           else flush (update_task (t_id t) expired_task))"

text \<open>One iteration of the loop: how much it adds to \<^verbatim>\<open>expired_count\<close>.\<close>

definition expire_command :: "env \<Rightarrow> uuid \<Rightarrow> nat prog" where
  "expire_command env command_id =
     catchM
       (seqM (transition_command env command_id EXPIRED ''scheduler'' None)
       (seqM (expire_task command_id)
       (returnM 1)))
       (\<lambda>exc. case exc of
          StateTransitionError _ _ _ \<Rightarrow> seqM (std_log env 30) (returnM 0)
        | _ \<Rightarrow> seqM (std_log env 40) (returnM 0))"

fun expire_each :: "env \<Rightarrow> uuid list \<Rightarrow> nat prog" where
  "expire_each env [] = returnM 0"
| "expire_each env (command_id # rest) =
     bindM (expire_command env command_id) (\<lambda>n. bindM (expire_each env rest) (\<lambda>m. returnM (n + m)))"

definition expire_commands :: "env \<Rightarrow> nat prog" where
  "expire_commands env =
     bindM (getM clock) (\<lambda>now.
     bindM (select (\<lambda>d. map c_id (take 100 (filter (command_due now) (commands d))))) (\<lambda>due.
     expire_each env due))"

section \<open>Presence\<close>

definition hash_present :: "(string \<times> string) list option \<Rightarrow> bool" where
  "hash_present h = (h \<noteq> None \<and> h \<noteq> Some [])"

definition is_stale :: "env \<Rightarrow> uuid \<Rightarrow> bool prog" where
  "is_stale env device_id =
     bindM (valkey_get_hash env (''device:connection:'' @ uuid_str device_id)) (\<lambda>connection_data.
       if hash_present connection_data then
         bindM (valkey_get_hash env (''device:presence:'' @ uuid_str device_id)) (\<lambda>presence.
           returnM (\<not> hash_present presence))
       else returnM False)"

fun stale_ids :: "env \<Rightarrow> uuid list \<Rightarrow> uuid list prog" where
  "stale_ids env [] = returnM []"
| "stale_ids env (device_id # rest) =
     bindM (is_stale env device_id) (\<lambda>stale.
     bindM (stale_ids env rest) (\<lambda>ids. returnM (if stale then device_id # ids else ids)))"

definition set_last_seen :: "datetime \<Rightarrow> uuid \<Rightarrow> unit prog" where
  "set_last_seen now device_id =
     flush (\<lambda>d. Ok (d\<lparr>devices := update_by d_id device_id (\<lambda>v. v\<lparr>d_last_seen_at := Some now\<rparr>) (devices d)\<rparr>))"

definition detect_stale_device_presence :: "env \<Rightarrow> nat prog" where
  "detect_stale_device_presence env =
     catchM
       (bindM (with_session (select (\<lambda>d. map d_id (filter (\<lambda>v. d_trust_status v = DEV_TRUSTED \<and> d_revoked_at v = None)
                 (devices d))))) (\<lambda>device_ids.
        bindM (stale_ids env device_ids) (\<lambda>stale_device_ids.
          if stale_device_ids = [] then returnM 0
          else
            bindM (getM clock) (\<lambda>now.
            seqM (with_session (seqM (forM stale_device_ids (set_last_seen now)) commit))
            (returnM (length stale_device_ids))))))
       (\<lambda>e. seqM (std_log env 40) (returnM 0))"

section \<open>The worker\<close>

text \<open>\<^verbatim>\<open>if count: logger.info("...", count=count)\<close>.\<close>

definition log_count :: "env \<Rightarrow> nat \<Rightarrow> unit prog" where
  "log_count env count = (if count \<noteq> 0 then std_log env 20 else returnM ())"

definition expiry_tx :: "env \<Rightarrow> unit prog" where
  "expiry_tx env =
     bindM expire_stale_pairings (\<lambda>expired_pairings.
     seqM (log_count env expired_pairings)
     (bindM expire_approvals (\<lambda>expired_approvals.
     seqM (log_count env expired_approvals)
     (bindM (expire_commands env) (\<lambda>expired_commands.
     seqM (log_count env expired_commands)
     commit)))))"

definition run_tasks :: "env \<Rightarrow> unit prog" where
  "run_tasks env =
     seqM (with_session (expiry_tx env))
     (bindM (detect_stale_device_presence env) (\<lambda>stale_devices.
     log_count env stale_devices))"

definition scheduler_start :: "env \<Rightarrow> nat \<Rightarrow> unit prog" where
  "scheduler_start env n = worker_rounds env 30 (run_tasks env) n"

section \<open>What a run expires\<close>

definition mark_commands :: "datetime \<Rightarrow> uuid set \<Rightarrow> command list \<Rightarrow> command list" where
  "mark_commands now ids cs = map (\<lambda>c. if c_id c \<in> ids then stamp now EXPIRED None c else c) cs"

definition mark_tasks :: "uuid set \<Rightarrow> task list \<Rightarrow> task list" where
  "mark_tasks ids ts = map (\<lambda>t. if t_command_id t \<in> ids \<and> t_state t \<notin> {T_SUCCEEDED, T_FAILED, T_CANCELLED}
     then expired_task t else t) ts"

definition expirable :: "command_state \<Rightarrow> bool" where
  "expirable x = (x \<in> {QUEUED, AWAITING_APPROVAL})"

definition expiring :: "uuid list \<Rightarrow> command list \<Rightarrow> uuid set" where
  "expiring ids cs = {i \<in> set ids. \<exists>c. row_by c_id i cs = Some c \<and> expirable (c_state c)}"

text \<open>The task table is well formed: keys are unique and texts fit their columns.\<close>

definition tasks_ok :: "task list \<Rightarrow> bool" where
  "tasks_ok ts = (distinct (map t_id ts) \<and> distinct (map t_command_id ts) \<and> (\<forall>t \<in> set ts. task_fits t))"

lemma expired_task_fields [simp]:
  "t_id (expired_task t) = t_id t" "t_command_id (expired_task t) = t_command_id t" "t_state (expired_task t) = T_FAILED"
  by (simp_all add: expired_task_def)

lemma expired_task_fits: "task_fits t \<Longrightarrow> task_fits (expired_task t)"
  by (simp add: task_fits_def expired_task_def fits_text_def)

lemma tasks_ok_mark: "tasks_ok ts \<Longrightarrow> tasks_ok (mark_tasks ids ts)"
proof -
  have "map t_id (mark_tasks ids ts) = map t_id ts" "map t_command_id (mark_tasks ids ts) = map t_command_id ts"
    by (simp_all add: mark_tasks_def)
  moreover have "\<forall>t \<in> set ts. task_fits t \<Longrightarrow> \<forall>t \<in> set (mark_tasks ids ts). task_fits t"
    by (auto simp: mark_tasks_def expired_task_fits)
  ultimately show "tasks_ok ts \<Longrightarrow> tasks_ok (mark_tasks ids ts)" by (simp add: tasks_ok_def)
qed

lemma mark_tasks_insert: "mark_tasks ids (mark_tasks {i} ts) = mark_tasks (insert i ids) ts"
  by (auto simp: mark_tasks_def)

lemma mark_commands_insert:
  "i \<notin> ids \<Longrightarrow> mark_commands now ids (update_by c_id i (stamp now EXPIRED None) cs) = mark_commands now (insert i ids) cs"
  by (auto simp: mark_commands_def update_by_def)

lemma mark_tasks_update:
  assumes "tasks_ok ts" "row_by t_command_id i ts = Some t" "t_state t \<notin> {T_SUCCEEDED, T_FAILED, T_CANCELLED}"
  shows "update_by t_id (t_id t) expired_task ts = mark_tasks {i} ts"
proof -
  have t: "t \<in> set ts" "t_command_id t = i" using row_by_SomeD [OF assms(2)] by auto
  have "t_id x = t_id t \<longleftrightarrow> x = t" "t_command_id x = i \<longleftrightarrow> x = t" if "x \<in> set ts" for x
    using that t assms(1) by (auto simp: tasks_ok_def distinct_map dest: inj_onD)
  then show ?thesis using assms(3) by (auto simp: mark_tasks_def update_by_def)
qed

lemma mark_tasks_none:
  assumes "tasks_ok ts" "\<And>t. row_by t_command_id i ts = Some t \<Longrightarrow> t_state t \<in> {T_SUCCEEDED, T_FAILED, T_CANCELLED}"
  shows "mark_tasks {i} ts = ts"
proof -
  have "row_by t_command_id i ts = Some x" if "x \<in> set ts" "t_command_id x = i" for x
    using that assms(1) row_by_mem [of t_command_id ts x] by (simp add: tasks_ok_def)
  with assms(2) have "(if t_command_id x \<in> {i} \<and> t_state x \<notin> {T_SUCCEEDED, T_FAILED, T_CANCELLED} then expired_task x else x) = x"
    if "x \<in> set ts" for x using that by auto
  then show ?thesis unfolding mark_tasks_def by (intro map_idI) auto
qed

lemma expire_task_run:
  assumes "\<not> failed s" "tasks_ok (tasks (working s))"
  shows "expire_task i s = (Ok (), s\<lparr>working := (working s)\<lparr>tasks := mark_tasks {i} (tasks (working s))\<rparr>\<rparr>)"
proof (cases "row_by t_command_id i (tasks (working s))")
  case None
  then have "mark_tasks {i} (tasks (working s)) = tasks (working s)"
    using assms(2) by (intro mark_tasks_none) auto
  with None assms(1) show ?thesis by (simp add: expire_task_def bindM_def select_def returnM_def del: row_by_None)
next
  case (Some t)
  show ?thesis
  proof (cases "t_state t \<in> {T_SUCCEEDED, T_FAILED, T_CANCELLED}")
    case True
    with Some have "mark_tasks {i} (tasks (working s)) = tasks (working s)"
      using assms(2) by (intro mark_tasks_none) auto
    with Some True assms(1) show ?thesis by (simp add: expire_task_def bindM_def select_def returnM_def)
  next
    case False
    have mem: "t \<in> set (tasks (working s))" using row_by_SomeD [OF Some] by simp
    then have "row_by t_id (t_id t) (tasks (working s)) = Some t" "task_fits (expired_task t)"
      using assms(2) by (auto simp: tasks_ok_def row_by_mem expired_task_fits)
    with Some False assms(1) mark_tasks_update [OF assms(2) Some False] show ?thesis
      by (simp add: expire_task_def bindM_def select_def flush_def update_task_def Let_def task_fits_def)
  qed
qed

text \<open>The session after the loop: the expired commands are stamped, their tasks failed, only events were added.\<close>

definition expired_session :: "uuid set \<Rightarrow> st \<Rightarrow> st \<Rightarrow> bool" where
  "expired_session ids s t = (\<not> failed t \<and> same_outside s t
     \<and> (\<exists>evs. working t = (working s)\<lparr>commands := mark_commands (clock s) ids (commands (working s)),
          events := evs, tasks := mark_tasks ids (tasks (working s))\<rparr>))"

lemma expire_command_run:
  assumes "\<not> failed s" "tasks_ok (tasks (working s))" "row_by c_id i (commands (working s)) = Some c" "texts_fit c"
    "expirable (c_state c)" "fresh_ids env (Suc n) s"
  obtains t where "expire_command env i s = (Ok 1, t)" "expired_session {i} s t" "fresh_ids env n t"
proof -
  have eff: "effective (c_state c) EXPIRED" using assms(5)
    by (auto simp: expirable_def effective_def permitted_def validate_command_state_transition_def)
  let ?s1 = "s\<lparr>working := after_transition (gen_uuid env (entropy s)) (clock s) i (c_state c) EXPIRED ''scheduler'' None
          (working s), entropy := Suc (entropy s)\<rparr>"
  note s1 = transition_plain [OF assms(1,3) eff assms(4,6), of "''scheduler''"]
  have tk: "tasks (working ?s1) = tasks (working s)" by (simp add: after_transition_def)
  let ?t = "?s1\<lparr>working := (working ?s1)\<lparr>tasks := mark_tasks {i} (tasks (working s))\<rparr>\<rparr>"
  have ids: "ids_of (working ?t) \<subseteq> ids_of (working ?s1)"
    by (auto simp: ids_of_def after_transition_def mark_tasks_def image_image)
  show thesis
  proof
    have "expire_task i ?s1 = (Ok (), ?t)"
      using expire_task_run [OF s1(3)] assms(2) tk by simp
    with s1(1) show "expire_command env i s = (Ok 1, ?t)"
      by (simp add: expire_command_def catchM_def seqM_def bindM_def returnM_def)
    show "expired_session {i} s ?t"
      using assms(1)
      by (auto simp: expired_session_def same_outside_def after_transition_def mark_commands_def update_by_def)
    show "fresh_ids env n ?t" by (rule fresh_ids_same [OF s1(2)]) (use ids in simp_all)
  qed
qed

lemma expire_command_skipped:
  assumes "\<not> failed s" "row_by c_id i (commands (working s)) = Some c" "c_state c = DELIVERED" "30 < log_level env"
  shows "expire_command env i s = (Ok 0, s)"
proof -
  have "\<not> permitted (c_state c) EXPIRED" using assms(3) by (simp add: permitted_def)
  from transition_refused [OF assms(1,2) this, of env "''scheduler''" None] assms(4) show ?thesis
    by (simp add: expire_command_def catchM_def seqM_def bindM_def std_log_disabled returnM_def)
qed

lemma expired_session_trans:
  assumes "expired_session {i} s t" "expired_session ids t u" "i \<notin> ids"
  shows "expired_session (insert i ids) s u"
proof -
  obtain e1 where t: "working t = (working s)\<lparr>commands := mark_commands (clock s) {i} (commands (working s)),
      events := e1, tasks := mark_tasks {i} (tasks (working s))\<rparr>" "same_outside s t"
    using assms(1) by (auto simp: expired_session_def)
  obtain e2 where u: "working u = (working t)\<lparr>commands := mark_commands (clock t) ids (commands (working t)),
      events := e2, tasks := mark_tasks ids (tasks (working t))\<rparr>" "same_outside t u" "\<not> failed u"
    using assms(2) by (auto simp: expired_session_def)
  have clk: "clock t = clock s" using t(2) by (simp add: same_outside_def)
  have "mark_commands (clock s) ids (mark_commands (clock s) {i} cs) = mark_commands (clock s) (insert i ids) cs" for cs
    using assms(3) by (auto simp: mark_commands_def)
  then have "working u = (working s)\<lparr>commands := mark_commands (clock s) (insert i ids) (commands (working s)),
      events := e2, tasks := mark_tasks (insert i ids) (tasks (working s))\<rparr>"
    using t(1) u(1) clk by (simp add: mark_tasks_insert)
  with frame.R_trans [OF t(2) u(2)] u(3) show ?thesis by (auto simp: expired_session_def)
qed

lemma expired_session_refl: "\<not> failed s \<Longrightarrow> expired_session {} s s"
  by (auto simp: expired_session_def mark_commands_def mark_tasks_def frame.R_refl intro!: exI [of _ "events (working s)"])

lemma row_by_mark:
  "row_by c_id k (mark_commands now ids cs) = map_option (\<lambda>c. if c_id c \<in> ids then stamp now EXPIRED None c else c) (row_by c_id k cs)"
  by (induction cs) (auto simp: mark_commands_def)

lemma expire_each_run:
  assumes "distinct ids" "\<not> failed s" "tasks_ok (tasks (working s))" "fresh_ids env (length ids) s" "30 < log_level env"
    "\<forall>i \<in> set ids. \<exists>c. row_by c_id i (commands (working s)) = Some c \<and> texts_fit c
       \<and> c_state c \<in> {QUEUED, AWAITING_APPROVAL, DELIVERED}"
  shows "\<exists>n t. expire_each env ids s = (Ok n, t) \<and> expired_session (expiring ids (commands (working s))) s t"
  using assms
proof (induction ids arbitrary: s)
  case Nil
  then show ?case by (simp add: returnM_def expiring_def expired_session_refl)
next
  case (Cons i ids)
  obtain c where c: "row_by c_id i (commands (working s)) = Some c" "texts_fit c"
    "c_state c \<in> {QUEUED, AWAITING_APPROVAL, DELIVERED}"
    using Cons.prems(6) by auto
  show ?case
  proof (cases "expirable (c_state c)")
    case True
    have fr: "fresh_ids env (Suc (length ids)) s" using Cons.prems(4) by simp
    obtain t where t: "expire_command env i s = (Ok 1, t)" "expired_session {i} s t" "fresh_ids env (length ids) t"
      by (rule expire_command_run [OF Cons.prems(2,3) c(1,2) True fr])
    obtain evs where w: "working t = (working s)\<lparr>commands := mark_commands (clock s) {i} (commands (working s)),
        events := evs, tasks := mark_tasks {i} (tasks (working s))\<rparr>" and nf: "\<not> failed t"
      using t(2) by (auto simp: expired_session_def)
    have rows: "row_by c_id j (commands (working t)) = row_by c_id j (commands (working s))" if "j \<noteq> i" for j
      using that w row_by_SomeD [of c_id j "commands (working s)"]
      by (cases "row_by c_id j (commands (working s))") (auto simp: row_by_mark simp del: row_by_None)
    have same: "\<forall>j \<in> set ids. row_by c_id j (commands (working t)) = row_by c_id j (commands (working s))"
      using Cons.prems(1) rows by (metis distinct.simps(2))
    have E: "expiring ids (commands (working t)) = expiring ids (commands (working s))"
      using same by (auto simp: expiring_def)
    obtain n u where u: "expire_each env ids t = (Ok n, u)" "expired_session (expiring ids (commands (working s))) t u"
      using Cons.IH [OF _ nf _ t(3) Cons.prems(5)] Cons.prems(1,6) same tasks_ok_mark [OF Cons.prems(3)] w
      unfolding E by auto
    have "expiring (i # ids) (commands (working s)) = insert i (expiring ids (commands (working s)))"
      using c(1) True by (auto simp: expiring_def)
    moreover have "i \<notin> expiring ids (commands (working s))" using Cons.prems(1) by (simp add: expiring_def)
    ultimately show ?thesis
      using t(1) u expired_session_trans [OF t(2) u(2)] by (simp add: bindM_def returnM_def)
  next
    case False
    then have d: "c_state c = DELIVERED" using c(3) by (auto simp: expirable_def)
    have run: "expire_command env i s = (Ok 0, s)" by (rule expire_command_skipped [OF Cons.prems(2) c(1) d Cons.prems(5)])
    have fr: "fresh_ids env (length ids) s" using Cons.prems(4) by (rule fresh_ids_mono) simp
    obtain n u where u: "expire_each env ids s = (Ok n, u)" "expired_session (expiring ids (commands (working s))) s u"
      using Cons.IH [OF _ Cons.prems(2,3) fr Cons.prems(5)] Cons.prems(1,6) by auto
    have "expiring (i # ids) (commands (working s)) = expiring ids (commands (working s))"
      using c(1) False by (auto simp: expiring_def)
    with run u show ?thesis by (simp add: bindM_def returnM_def)
  qed
qed

section \<open>A quiet scheduler expires what is due\<close>

lemma expire_stale_pairings_run:
  "\<not> failed s \<Longrightarrow> expire_stale_pairings s = (Ok (length (filter (pairing_due (clock s)) (pairings (working s)))),
     s\<lparr>working := (working s)\<lparr>pairings := map (\<lambda>p. if pairing_due (clock s) p then p\<lparr>p_status := PAIR_EXPIRED\<rparr> else p)
        (pairings (working s))\<rparr>\<rparr>)"
  by (simp add: expire_stale_pairings_def bindM_def seqM_def getM_def select_def flush_def returnM_def)

lemma expire_approvals_run:
  "\<not> failed s \<Longrightarrow> expire_approvals s = (Ok (length (filter (\<lambda>a. a_status a = APPROVAL_PENDING \<and> a_expires_at a < clock s)
        (approvals (working s)))),
     s\<lparr>working := (working s)\<lparr>approvals := expire_rows (clock s) (approvals (working s))\<rparr>\<rparr>)"
  by (simp add: expire_approvals_def repo_expire_pending_approvals_def bindM_def seqM_def getM_def select_def flush_def
      returnM_def)

lemma image_map_keep: "(\<And>x. g (f x) = g x) \<Longrightarrow> g ` set (map f xs) = g ` set xs"
  by (simp add: image_image)

lemma log_count_quiet: "20 < log_level env \<Longrightarrow> log_count env n = returnM ()"
  by (simp add: log_count_def std_log_disabled)

text \<open>The commands that a run expires are the due ones that the machine lets expire.\<close>

lemma expiring_due:
  assumes "distinct (map c_id cs)" "\<forall>c \<in> set cs. command_due now c \<longrightarrow> c_state c \<noteq> APPROVED"
  shows "i \<in> expiring (map c_id (filter (command_due now) cs)) cs \<longleftrightarrow>
    (\<exists>c \<in> set cs. c_id c = i \<and> command_due now c \<and> c_state c \<noteq> DELIVERED)"
proof -
  let ?E = "expiring (map c_id (filter (command_due now) cs)) cs"
  have E: "c_id c \<in> ?E \<longleftrightarrow> command_due now c \<and> c_state c \<noteq> DELIVERED" if c: "c \<in> set cs" for c
  proof -
    have "c_id c \<in> set (map c_id (filter (command_due now) cs)) \<longleftrightarrow> command_due now c"
      using c assms(1) by (auto simp: distinct_map dest: inj_onD)
    moreover have "command_due now c \<Longrightarrow> expirable (c_state c) \<longleftrightarrow> c_state c \<noteq> DELIVERED"
      using c assms(2) by (auto simp: command_due_def expirable_def)
    ultimately show ?thesis using row_by_mem [OF assms(1) c] by (auto simp: expiring_def)
  qed
  have "i \<in> ?E \<Longrightarrow> \<exists>c \<in> set cs. c_id c = i" by (auto simp: expiring_def)
  with E show ?thesis by blast
qed

lemma expiring_marks:
  assumes "distinct (map c_id cs)" "\<forall>c \<in> set cs. command_due now c \<longrightarrow> c_state c \<noteq> APPROVED"
  defines "E \<equiv> expiring (map c_id (filter (command_due now) cs)) cs"
  shows "mark_commands now E cs =
      map (\<lambda>c. if command_due now c \<and> c_state c \<noteq> DELIVERED then stamp now EXPIRED None c else c) cs"
    and "mark_tasks E ts = map (\<lambda>t. if (\<exists>c \<in> set cs. c_id c = t_command_id t \<and> command_due now c
        \<and> c_state c \<noteq> DELIVERED) \<and> t_state t \<notin> {T_SUCCEEDED, T_FAILED, T_CANCELLED}
      then t\<lparr>t_state := T_FAILED, t_result_summary := JStr ''expired''\<rparr> else t) ts"
proof -
  note due = expiring_due [OF assms(1,2), folded E_def]
  have "c_id c \<in> E \<longleftrightarrow> command_due now c \<and> c_state c \<noteq> DELIVERED" if "c \<in> set cs" for c
    unfolding due using that assms(1) by (auto simp: distinct_map dest: inj_onD)
  then show "mark_commands now E cs =
      map (\<lambda>c. if command_due now c \<and> c_state c \<noteq> DELIVERED then stamp now EXPIRED None c else c) cs"
    unfolding mark_commands_def by (intro map_cong) auto
  show "mark_tasks E ts = map (\<lambda>t. if (\<exists>c \<in> set cs. c_id c = t_command_id t \<and> command_due now c
        \<and> c_state c \<noteq> DELIVERED) \<and> t_state t \<notin> {T_SUCCEEDED, T_FAILED, T_CANCELLED}
      then t\<lparr>t_state := T_FAILED, t_result_summary := JStr ''expired''\<rparr> else t) ts"
    unfolding mark_tasks_def due expired_task_def ..
qed


definition demo_overdue :: db where
  "demo_overdue = (demo_db [(demo_command 5 QUEUED)\<lparr>c_expires_at := Some 1\<rparr>, demo_command 7 RUNNING])
     \<lparr>tasks := [new_task 6 5]\<rparr>"


section \<open>A scheduler that logs expires nothing\<close>

lemma expire_command_loud:
  assumes "log_level env \<le> 30" "expire_command env i s = (Ok n, t)"
  shows "n = 1"
  using assms
  by (auto simp: expire_command_def catchM_def seqM_def bindM_def std_log_def raiseM_def returnM_def
      split: prod.splits sum.splits exn.splits if_splits)

lemma expire_each_loud:
  "log_level env \<le> 30 \<Longrightarrow> expire_each env ids s = (Ok n, t) \<Longrightarrow> n = length ids"
proof (induction ids arbitrary: s n t)
  case Nil
  then show ?case by (simp add: returnM_def)
next
  case (Cons i ids)
  then obtain a u b v where "expire_command env i s = (Ok a, u)" "expire_each env ids u = (Ok b, v)" "n = a + b"
    by (auto simp: bindM_def returnM_def split: prod.splits sum.splits)
  with Cons.IH [OF Cons.prems(1)] expire_command_loud [OF Cons.prems(1)] show ?case by fastforce
qed

lemma tx_only_expire_each: "tx_only (expire_each env ids)"
proof -
  have "tx_only (expire_command env i)" for i
    unfolding expire_command_def expire_task_def
    by (auto split: option.splits exn.splits
        intro!: tx_only_rules tx_only_transition tx_only_std_log)
  then show ?thesis by (induction ids) (auto intro!: tx_only_rules)
qed

text \<open>Either the transaction raises with nothing committed, or it had nothing to do.\<close>

lemma expiry_tx_loud:
  assumes "log_level env \<le> 20" "expiry_tx env (open_session s) = (r, t)"
  shows "committed t = committed s \<and> (r = Ok () \<longrightarrow> working t = committed s)"
proof -
  let ?s = "open_session s"
  let ?p = "filter (pairing_due (clock s)) (pairings (committed s))"
    and ?a = "filter (\<lambda>a. a_status a = APPROVAL_PENDING \<and> a_expires_at a < clock s) (approvals (committed s))"
  have loud: "log_count env n = (if n = 0 then returnM () else raiseM (TypeError ''unexpected keyword argument''))" for n
    using assms(1) by (simp add: log_count_def std_log_def)
  show ?thesis
  proof (cases "?p = []")
    case False
    then show ?thesis
      using assms(2) expire_stale_pairings_run [of ?s]
      by (auto simp: expiry_tx_def bindM_def seqM_def loud raiseM_def)
  next
    case p: True
    then have "map (\<lambda>p. if pairing_due (clock s) p then p\<lparr>p_status := PAIR_EXPIRED\<rparr> else p) (pairings (committed s)) = pairings (committed s)"
      by (auto simp: filter_empty_conv intro: map_idI)
    then have run1: "expire_stale_pairings ?s = (Ok 0, ?s)" using p expire_stale_pairings_run [of ?s] by simp
    show ?thesis
    proof (cases "?a = []")
      case False
      then show ?thesis
        using assms(2) run1 expire_approvals_run [of ?s]
        by (auto simp: expiry_tx_def bindM_def seqM_def loud raiseM_def returnM_def)
    next
      case a: True
      then have "expire_rows (clock s) (approvals (committed s)) = approvals (committed s)"
        by (auto simp: expire_rows_def filter_empty_conv intro: map_idI)
      then have run2: "expire_approvals ?s = (Ok 0, ?s)" using a expire_approvals_run [of ?s] by simp
      let ?ids = "map c_id (take 100 (filter (command_due (clock s)) (commands (committed s))))"
      obtain r3 u where u: "expire_each env ?ids ?s = (r3, u)" by (cases "expire_each env ?ids ?s")
      have out: "committed u = committed s" using tx_onlyD [OF tx_only_expire_each u] by (simp add: same_outside_def)
      have run3: "expire_commands env ?s = (r3, u)"
        using u by (simp add: expire_commands_def bindM_def getM_def select_def)
      show ?thesis
      proof (cases r3)
        case (Inl e)
        with assms(2) run1 run2 run3 out show ?thesis
          by (auto simp: expiry_tx_def bindM_def seqM_def loud returnM_def)
      next
        case (Inr n)
        with expire_each_loud [of env ?ids ?s n u] assms(1) u have n: "n = length ?ids" by simp
        show ?thesis
        proof (cases "?ids = []")
          case True
          with u Inr have "u = ?s" "n = 0" by (auto simp: returnM_def n)
          with assms(2) run1 run2 run3 Inr show ?thesis
            by (auto simp: expiry_tx_def bindM_def seqM_def loud returnM_def commit_def)
        next
          case False
          then have "n \<noteq> 0" using n by simp
          with assms(2) run1 run2 run3 Inr out show ?thesis
            by (auto simp: expiry_tx_def bindM_def seqM_def loud returnM_def raiseM_def)
        qed
      qed
    qed
  qed
qed

lemma is_stale_state: "snd (is_stale env i s) = s"
  by (auto simp: is_stale_def bindM_def returnM_def valkey_get_hash_def split: option.splits vval.splits)

lemma stale_ids_state: "snd (stale_ids env ids s) = s"
proof (induction ids)
  case Nil
  then show ?case by (simp add: returnM_def)
next
  case (Cons i ids)
  obtain r1 r2 where "is_stale env i s = (r1, s)" "stale_ids env ids s = (r2, s)"
    using is_stale_state [of env i s] Cons by (metis prod.collapse)
  then show ?case by (cases r1; cases r2) (simp_all add: bindM_def returnM_def)
qed

lemma set_last_seen_run:
  "\<not> failed s \<Longrightarrow> set_last_seen now i s = (Ok (), s\<lparr>working := (working s)\<lparr>devices :=
     update_by d_id i (\<lambda>v. v\<lparr>d_last_seen_at := Some now\<rparr>) (devices (working s))\<rparr>\<rparr>)"
  by (simp add: set_last_seen_def flush_def)

lemma set_last_seen_all:
  "\<exists>ds. \<not> failed s \<longrightarrow> forM ids (set_last_seen now) s = (Ok (), s\<lparr>working := (working s)\<lparr>devices := ds\<rparr>\<rparr>)"
proof (induction ids arbitrary: s)
  case Nil
  then show ?case by (intro exI [of _ "devices (working s)"]) (simp add: returnM_def)
next
  case (Cons i ids)
  let ?ds = "update_by d_id i (\<lambda>v. v\<lparr>d_last_seen_at := Some now\<rparr>) (devices (working s))"
  let ?s = "s\<lparr>working := (working s)\<lparr>devices := ?ds\<rparr>\<rparr>"
  obtain ds where "\<not> failed ?s \<longrightarrow> forM ids (set_last_seen now) ?s = (Ok (), ?s\<lparr>working := (working ?s)\<lparr>devices := ds\<rparr>\<rparr>)"
    using Cons by blast
  then show ?case
    by (intro exI [of _ ds]) (simp add: seqM_def bindM_def set_last_seen_run)
qed

definition only_devices :: "db \<Rightarrow> db \<Rightarrow> bool" where
  "only_devices d d' = (\<exists>ds. d' = d\<lparr>devices := ds\<rparr>)"

lemma only_devices_refl: "only_devices d d"
  unfolding only_devices_def by (intro exI [of _ "devices d"]) simp

lemma only_devices_trans: "only_devices d e \<Longrightarrow> only_devices e f \<Longrightarrow> only_devices d f"
  by (auto simp: only_devices_def)

lemma detect_only_devices: "only_devices (committed s) (committed (snd (detect_stale_device_presence env s)))"
proof -
  let ?q = "\<lambda>d. map d_id (filter (\<lambda>v. d_trust_status v = DEV_TRUSTED \<and> d_revoked_at v = None) (devices d))"
  have one: "with_session (select ?q) s = (Ok (?q (committed s)), open_session s)"
    by (simp add: with_session_def select_def)
  obtain r where st: "stale_ids env (?q (committed s)) (open_session s) = (r, open_session s)"
    using stale_ids_state [of env "?q (committed s)" "open_session s"]
    by (cases "stale_ids env (?q (committed s)) (open_session s)") auto
  show ?thesis
  proof (cases r)
    case (Inl e)
    with one st show ?thesis
      by (simp add: detect_stale_device_presence_def catchM_def bindM_def seqM_def std_log_def raiseM_def returnM_def
          only_devices_refl)
  next
    case (Inr ids)
    define m where "m = with_session (seqM (forM ids (set_last_seen (clock s))) commit)"
    define s1 where "s1 = open_session s"
    obtain ds where "forM ids (set_last_seen (clock s)) s1 = (Ok (), s1\<lparr>working := (working s1)\<lparr>devices := ds\<rparr>\<rparr>)"
      using set_last_seen_all [of s1 ids "clock s"] by (auto simp: s1_def)
    then obtain u where u: "m s1 = (Ok (), u)" "committed u = (committed s)\<lparr>devices := ds\<rparr>"
      by (simp add: m_def s1_def with_session_def seqM_def bindM_def commit_def)
    have clk: "clock s1 = clock s" "committed s1 = committed s" by (simp_all add: s1_def)
    have "snd (detect_stale_device_presence env s) = (if ids = [] then s1 else u)"
      using one [folded s1_def] st [folded s1_def] Inr u(1) clk
      unfolding detect_stale_device_presence_def catchM_def bindM_def seqM_def getM_def returnM_def m_def by simp
    moreover have "only_devices (committed s) (committed u)" unfolding only_devices_def using u(2) by blast
    ultimately show ?thesis using clk by (simp add: only_devices_refl)
  qed
qed

lemma run_tasks_loud:
  assumes "log_level env \<le> 20"
  shows "only_devices (committed s) (committed (snd (run_tasks env s)))"
proof -
  obtain r t where tx: "expiry_tx env (open_session s) = (r, t)" by (cases "expiry_tx env (open_session s)")
  have t: "committed t = committed s" "r = Ok () \<Longrightarrow> working t = committed s"
    using expiry_tx_loud [OF assms tx] by simp_all
  show ?thesis
  proof (cases "r = Ok () \<and> \<not> failed t")
    case True
    with tx have "with_session (expiry_tx env) s = (Ok (), t\<lparr>committed := working t\<rparr>)" by (simp add: with_session_def)
    with detect_only_devices [of "t\<lparr>committed := working t\<rparr>" env] t True show ?thesis
      by (auto simp: run_tasks_def seqM_def bindM_def log_count_def std_log_def raiseM_def returnM_def
          split: prod.splits sum.splits)
  next
    case False
    with tx t(1) show ?thesis
      by (cases r) (auto simp: run_tasks_def seqM_def bindM_def with_session_def only_devices_refl)
  qed
qed

text \<open>
  C35. As configured the scheduler never expires anything. At the level \<open>INFO\<close>, which \<^verbatim>\<open>main\<close> sets, the run
  that finds something to expire raises while logging the count, inside the transaction: however long
  the worker runs, no pairing, approval, command or task is ever changed; only \<open>last_seen_at\<close> of devices
  may be.
\<close>

theorem scheduler_never_expires_at_info:
  assumes "log_level env \<le> 20"
  shows "\<exists>ds. committed (snd (scheduler_start env n s)) = (committed s)\<lparr>devices := ds\<rparr>"
proof -
  have "only_devices (committed s) (committed (snd (worker_rounds env 30 (run_tasks env) n s)))" for s
  proof (induction n arbitrary: s)
    case 0
    then show ?case by (simp add: returnM_def only_devices_refl)
  next
    case (Suc n)
    obtain r t where rt: "run_tasks env s = (r, t)" by (cases "run_tasks env s")
    have step: "only_devices (committed s) (committed t)" using run_tasks_loud [OF assms, of s] rt by simp
    show ?case
    proof (cases r)
      case (Inl e)
      have "worker_rounds env 30 (run_tasks env) (Suc n) s = (Err (TypeError ''unexpected keyword argument''), t)"
        using rt Inl assms by (intro worker_dies) auto
      with step show ?thesis by simp
    next
      case (Inr u)
      then have "worker_rounds env 30 (run_tasks env) (Suc n) s =
          worker_rounds env 30 (run_tasks env) n (t\<lparr>clock := clock t + timedelta_seconds 30\<rparr>)"
        using rt by (intro worker_survives) simp
      with Suc.IH [of "t\<lparr>clock := clock t + timedelta_seconds 30\<rparr>"] step show ?thesis
        by (auto intro: only_devices_trans)
    qed
  qed
  then show ?thesis by (simp add: scheduler_start_def only_devices_def)
qed

theorem scheduler_never_expires_at_info_witness:
  "\<exists>ds. committed (snd (scheduler_start (demo_env\<lparr>log_level := 20\<rparr>) 3 (demo_st demo_overdue))) = demo_overdue\<lparr>devices := ds\<rparr>"
  using scheduler_never_expires_at_info [of "demo_env\<lparr>log_level := 20\<rparr>" 3 "demo_st demo_overdue"] by simp

end
