(* ===== verification/Protocol.thy ===== *)
theory Protocol
  imports Cache
begin

text \<open>
  \<^verbatim>\<open>app/websocket/protocol\<close>: the message models, the validator and the challenge-response
  authentication.

  A frame from a device is its size in bytes and what \<^verbatim>\<open>json.loads(raw.decode("utf-8"))\<close> does with it: a
  document or the exception. A Pydantic model is its constructor's validation: each field is read
  from the document, converted by Pydantic (a parameter) and checked; a field that is missing takes its
  default. Unknown fields are ignored, as Pydantic does.
\<close>

section \<open>Python text\<close>

text \<open>\<^verbatim>\<open>f"{x}"\<close> of a loaded document.\<close>

fun dec_digits :: "nat \<Rightarrow> string" where
  "dec_digits n = (if n < 10 then [digit_char (int n)] else dec_digits (n div 10) @ [digit_char (int n)])"

declare dec_digits.simps [simp del]

definition py_str_int :: "int \<Rightarrow> string" where
  "py_str_int n = (if n < 0 then ''-'' @ dec_digits (nat (- n)) else dec_digits (nat n))"

definition py_format :: "env \<Rightarrow> json \<Rightarrow> string" where
  "py_format env v =
     (case v of
        JNull \<Rightarrow> ''None''
      | JBool b \<Rightarrow> if b then ''True'' else ''False''
      | JInt n \<Rightarrow> py_str_int n
      | JStr x \<Rightarrow> x
      | _ \<Rightarrow> py_repr env v)"

section \<open>Messages\<close>

datatype client_message =
    HelloMessage uuid string string
  | HeartbeatMessage datetime string int string
  | CommandAckMessage uuid bool "string option" datetime
  | CommandProgressMessage uuid "int option" "string option" "string option"
  | CommandResultMessage uuid bool "dict option" "string option" "string option" datetime datetime
  | DeviceStatusUpdateMessage string "dict option"

datatype server_message =
    WelcomeMessage uuid datetime int string bool
  | CommandRequestMessage uuid string dict datetime dict uuid
  | CancelCommandMessage uuid string
  | EmergencyStopMessage string
  | ResumeAfterEmergencyStopMessage
  | PingMessage
  | ConfigRefreshMessage dict

text \<open>Validation of single fields.\<close>

definition str_field :: "dict \<Rightarrow> string \<Rightarrow> string option" where
  "str_field d k = (case map_of d k of Some (JStr v) \<Rightarrow> Some v | _ \<Rightarrow> None)"

definition opt_str_field :: "dict \<Rightarrow> string \<Rightarrow> string option option" where
  "opt_str_field d k =
     (case map_of d k of None \<Rightarrow> Some None | Some JNull \<Rightarrow> Some None | Some (JStr v) \<Rightarrow> Some (Some v) | _ \<Rightarrow> None)"

definition opt_dict_field :: "dict \<Rightarrow> string \<Rightarrow> dict option option" where
  "opt_dict_field d k =
     (case map_of d k of None \<Rightarrow> Some None | Some JNull \<Rightarrow> Some None | Some (JObj v) \<Rightarrow> Some (Some v) | _ \<Rightarrow> None)"

definition conv_field :: "(json \<Rightarrow> 'a option) \<Rightarrow> dict \<Rightarrow> string \<Rightarrow> 'a option" where
  "conv_field conv d k = Option.bind (map_of d k) conv"

definition opt_conv_field :: "(json \<Rightarrow> 'a option) \<Rightarrow> dict \<Rightarrow> string \<Rightarrow> 'a option option" where
  "opt_conv_field conv d k =
     (case map_of d k of None \<Rightarrow> Some None | Some JNull \<Rightarrow> Some None | Some v \<Rightarrow> map_option Some (conv v))"

definition parse_hello :: "env \<Rightarrow> dict \<Rightarrow> client_message option" where
  "parse_hello env d =
     Option.bind (conv_field (pyd_uuid env) d ''device_id'') (\<lambda>device_id.
     Option.bind (str_field d ''protocol_version'') (\<lambda>protocol_version.
     Option.bind (str_field d ''app_version'') (\<lambda>app_version.
     Some (HelloMessage device_id protocol_version app_version))))"

definition parse_heartbeat :: "env \<Rightarrow> dict \<Rightarrow> client_message option" where
  "parse_heartbeat env d =
     Option.bind (conv_field (pyd_datetime env) d ''device_time'') (\<lambda>device_time.
     Option.bind (str_field d ''state'') (\<lambda>state.
     Option.bind (conv_field (pyd_int env) d ''active_command_count'') (\<lambda>active_command_count.
     Option.bind (str_field d ''app_version'') (\<lambda>app_version.
     Some (HeartbeatMessage device_time state active_command_count app_version)))))"

definition parse_acknowledge :: "env \<Rightarrow> dict \<Rightarrow> client_message option" where
  "parse_acknowledge env d =
     Option.bind (conv_field (pyd_uuid env) d ''command_id'') (\<lambda>command_id.
     Option.bind (conv_field (pyd_bool env) d ''accepted'') (\<lambda>accepted.
     Option.bind (opt_str_field d ''rejection_reason'') (\<lambda>rejection_reason.
     Option.bind (conv_field (pyd_datetime env) d ''device_timestamp'') (\<lambda>device_timestamp.
     Some (CommandAckMessage command_id accepted rejection_reason device_timestamp)))))"

definition parse_progress :: "env \<Rightarrow> dict \<Rightarrow> client_message option" where
  "parse_progress env d =
     Option.bind (conv_field (pyd_uuid env) d ''command_id'') (\<lambda>command_id.
     Option.bind (opt_conv_field (pyd_int env) d ''progress_percent'') (\<lambda>progress_percent.
     Option.bind (opt_str_field d ''stage'') (\<lambda>stage.
     Option.bind (opt_str_field d ''status_message'') (\<lambda>status_message.
     Some (CommandProgressMessage command_id progress_percent stage status_message)))))"

definition parse_result :: "env \<Rightarrow> dict \<Rightarrow> client_message option" where
  "parse_result env d =
     Option.bind (conv_field (pyd_uuid env) d ''command_id'') (\<lambda>command_id.
     Option.bind (conv_field (pyd_bool env) d ''success'') (\<lambda>success.
     Option.bind (opt_dict_field d ''result_data'') (\<lambda>result_data.
     Option.bind (opt_str_field d ''error_code'') (\<lambda>error_code.
     Option.bind (opt_str_field d ''error_message'') (\<lambda>error_message.
     Option.bind (conv_field (pyd_datetime env) d ''started_at'') (\<lambda>started_at.
     Option.bind (conv_field (pyd_datetime env) d ''finished_at'') (\<lambda>finished_at.
     Some (CommandResultMessage command_id success result_data error_code error_message started_at finished_at))))))))"

definition parse_status_update :: "dict \<Rightarrow> client_message option" where
  "parse_status_update d =
     Option.bind (str_field d ''state'') (\<lambda>state.
     Option.bind (opt_dict_field d ''metadata'') (\<lambda>metadata.
     Some (DeviceStatusUpdateMessage state metadata)))"

text \<open>\<^verbatim>\<open>message.model_dump(mode="json")\<close> of the server's messages.\<close>

fun model_dump :: "env \<Rightarrow> server_message \<Rightarrow> dict" where
  "model_dump env (WelcomeMessage connection_id server_time heartbeat_interval protocol_version emergency_stop_active) =
     [(''type'', JStr ''welcome''), (''connection_id'', JStr (uuid_str connection_id)),
      (''server_time'', JStr (pyd_dump_datetime env server_time)), (''heartbeat_interval'', JInt heartbeat_interval),
      (''protocol_version'', JStr protocol_version), (''emergency_stop_active'', JBool emergency_stop_active)]"
| "model_dump env (CommandRequestMessage command_id command_type parameters expires_at risk_metadata trace_id) =
     [(''type'', JStr ''command''), (''command_id'', JStr (uuid_str command_id)), (''command_type'', JStr command_type),
      (''parameters'', JObj parameters), (''expires_at'', JStr (pyd_dump_datetime env expires_at)),
      (''risk_metadata'', JObj risk_metadata), (''trace_id'', JStr (uuid_str trace_id))]"
| "model_dump env (CancelCommandMessage command_id reason) =
     [(''type'', JStr ''cancel''), (''command_id'', JStr (uuid_str command_id)), (''reason'', JStr reason)]"
| "model_dump env (EmergencyStopMessage reason) = [(''type'', JStr ''emergency_stop''), (''reason'', JStr reason)]"
| "model_dump env ResumeAfterEmergencyStopMessage = [(''type'', JStr ''resume'')]"
| "model_dump env PingMessage = [(''type'', JStr ''ping'')]"
| "model_dump env (ConfigRefreshMessage config) = [(''type'', JStr ''config_refresh''), (''config'', JObj config)]"

section \<open>The validator\<close>

definition SUPPORTED_PROTOCOLS :: "string list" where
  "SUPPORTED_PROTOCOLS = [''v1'']"

definition MAX_MESSAGE_SIZE :: nat where
  "MAX_MESSAGE_SIZE = 1024 * 1024"

definition TYPE_TO_MODEL :: "env \<Rightarrow> (string \<times> (dict \<Rightarrow> client_message option)) list" where
  "TYPE_TO_MODEL env =
     [(''hello'', parse_hello env), (''heartbeat'', parse_heartbeat env), (''acknowledge'', parse_acknowledge env),
      (''progress'', parse_progress env), (''result'', parse_result env), (''status_update'', parse_status_update)]"

record frame =
  f_size :: nat
  f_data :: "json res"

definition validate_protocol_version :: "string \<Rightarrow> unit res" where
  "validate_protocol_version version =
     (if version \<in> set SUPPORTED_PROTOCOLS then Ok ()
      else Err (ProtocolError ''UNSUPPORTED_PROTOCOL''
        (''Protocol version '' @ [CHR 0x27] @ version @ [CHR 0x27] @ '' not supported. Supported: [''
         @ [CHR 0x27] @ ''v1'' @ [CHR 0x27] @ '']'')))"

definition validate_message_size :: "nat \<Rightarrow> unit res" where
  "validate_message_size n =
     (if n > MAX_MESSAGE_SIZE then Err (ProtocolError ''MESSAGE_TOO_LARGE'' ''Message exceeds maximum size of 1048576 bytes'') else Ok ())"

text \<open>
  The look-up of the type in \<^verbatim>\<open>TYPE_TO_MODEL\<close> raises \<^verbatim>\<open>TypeError\<close> for an unhashable value; any other
  value that is no string is no key.
\<close>

definition parse_typed :: "env \<Rightarrow> dict \<Rightarrow> client_message res" where
  "parse_typed env d =
     (let msg_type = dict_get d ''type'' JNull in
      if \<not> truthy msg_type then Err (ProtocolError ''MISSING_TYPE'' ''Message type is required'')
      else (case msg_type of
              JStr t \<Rightarrow>
                (case map_of (TYPE_TO_MODEL env) t of
                   None \<Rightarrow> Err (ProtocolError ''UNKNOWN_MESSAGE_TYPE'' (''Unknown message type: '' @ py_format env msg_type))
                 | Some model \<Rightarrow>
                     (case model d of
                        None \<Rightarrow> Err (ProtocolError ''VALIDATION_ERROR''
                               (''Invalid message format: '' @ exn_str env PydanticValidationError))
                      | Some m \<Rightarrow> Ok m))
            | JList _ \<Rightarrow> Err (TypeError ''unhashable type'')
            | JObj _ \<Rightarrow> Err (TypeError ''unhashable type'')
            | _ \<Rightarrow> Err (ProtocolError ''UNKNOWN_MESSAGE_TYPE'' (''Unknown message type: '' @ py_format env msg_type))))"

definition parse_client_message :: "env \<Rightarrow> frame \<Rightarrow> client_message res" where
  "parse_client_message env raw_data =
     (case validate_message_size (f_size raw_data) of
        Inl e \<Rightarrow> Err e
      | Inr _ \<Rightarrow>
          (case f_data raw_data of
             Inl JSONDecodeError \<Rightarrow> Err (ProtocolError ''INVALID_JSON'' (''Invalid JSON: '' @ exn_str env JSONDecodeError))
           | Inl e \<Rightarrow> Err e
           | Inr (JObj d) \<Rightarrow> parse_typed env d
           | Inr _ \<Rightarrow> Err (AttributeError ''get'')))"

text \<open>\<^verbatim>\<open>model_dump(exclude_none=True, mode="json")\<close> and \<^verbatim>\<open>json.dumps\<close>: the document that is sent.\<close>

definition serialize_server_message :: "env \<Rightarrow> server_message \<Rightarrow> dict" where
  "serialize_server_message env message = filter (\<lambda>(k, v). v \<noteq> JNull) (model_dump env message)"

section \<open>Challenge and response\<close>

definition CHALLENGE_TTL :: int where
  "CHALLENGE_TTL = 30"

definition challenge_key :: "string \<Rightarrow> string" where
  "challenge_key nonce = ''ws:challenge:'' @ nonce"

text \<open>The stored creation time is never read; it is the clock's reading here, a float in the code.\<close>

definition generate_challenge :: "env \<Rightarrow> string prog" where
  "generate_challenge env s =
     (let nonce = gen_nonce env (entropy s) in
      bindM (valkey_set env (challenge_key nonce)
               (JObj [(''created_at'', JInt (clock s)), (''nonce'', JStr nonce)]) (Some CHALLENGE_TTL))
        (\<lambda>_. returnM nonce) (s\<lparr>entropy := Suc (entropy s)\<rparr>))"

definition consume_challenge :: "env \<Rightarrow> string \<Rightarrow> bool prog" where
  "consume_challenge env nonce =
     bindM (valkey_getdel env (challenge_key nonce)) (\<lambda>v. returnM (v \<noteq> None))"

definition build_challenge_message :: "uuid \<Rightarrow> uuid \<Rightarrow> string \<Rightarrow> string \<Rightarrow> string \<Rightarrow> string \<Rightarrow> string" where
  "build_challenge_message device_id connection_id nonce server_time_iso protocol_version app_version =
     uuid_str device_id @ '':'' @ uuid_str connection_id @ '':'' @ nonce @ '':'' @ server_time_iso @ '':''
     @ protocol_version @ '':'' @ app_version"

text \<open>Every exception of the library is caught, so a signature that is no text is invalid.\<close>

definition verify_ed25519_signature :: "env \<Rightarrow> string \<Rightarrow> string \<Rightarrow> json \<Rightarrow> bool" where
  "verify_ed25519_signature env public_key_b64 message signature_b64 =
     (case signature_b64 of JStr sig \<Rightarrow> ed25519_verify env public_key_b64 message sig | _ \<Rightarrow> False)"

definition verify_device_challenge_response ::
  "env \<Rightarrow> uuid \<Rightarrow> uuid \<Rightarrow> string \<Rightarrow> json \<Rightarrow> json \<Rightarrow> string \<Rightarrow> json \<Rightarrow> json \<Rightarrow> (bool \<times> string) prog" where
  "verify_device_challenge_response env device_id connection_id nonce server_time_iso signature_b64 public_key_b64
       protocol_version app_version =
     bindM (consume_challenge env nonce) (\<lambda>nonce_valid.
       if \<not> nonce_valid then returnM (False, ''Challenge nonce invalid or expired'')
       else
         (let message = build_challenge_message device_id connection_id nonce (py_format env server_time_iso)
                (py_format env protocol_version) (py_format env app_version)
          in if \<not> verify_ed25519_signature env public_key_b64 message signature_b64
             then returnM (False, ''Invalid device signature'')
             else returnM (True, [])))"

end
