(* ===== verification/Gateway.thy ===== *)
theory Gateway
  imports Consumer Devices Protocol
begin

text \<open>
  \<^verbatim>\<open>app/websocket/gateway.py\<close>: the connection table, the authentication of a device, what a connection does
  with the frames of its device and with the commands NATS offers it, and the two NATS callbacks.

  A socket is named by its connection identifier. A send succeeds unless the socket was closed or the
  network fails (\<open>ws_ok\<close>). The life of an authenticated connection is the list of the events it sees, ended by
  the end of the list: frames of the device, the end of the stream, and messages of the durable NATS
  consumer, in the order in which the two tasks of the connection handle them. A subscription that fails is the
  empty life. Time stamps that a device reports are instants, printed in UTC.
\<close>

section \<open>Sockets and connections\<close>

definition ws_send :: "env \<Rightarrow> uuid \<Rightarrow> dict \<Rightarrow> unit prog" where
  "ws_send env connection_id data s =
     (if ws_ok env connection_id \<and> connection_id \<notin> fst ` set (closed s)
      then (Ok (), s\<lparr>sent := sent s @ [(connection_id, data)]\<rparr>)
      else (Err (RuntimeError ''websocket''), s))"

definition ws_close :: "uuid \<Rightarrow> int \<Rightarrow> unit prog" where
  "ws_close connection_id code s =
     (if connection_id \<notin> fst ` set (closed s) then (Ok (), s\<lparr>closed := closed s @ [(connection_id, code)]\<rparr>)
      else (Err (RuntimeError ''websocket''), s))"

definition conn_send_json :: "env \<Rightarrow> uuid \<Rightarrow> dict \<Rightarrow> bool prog" where
  "conn_send_json env connection_id data =
     catchM (seqM (ws_send env connection_id data) (returnM True)) (\<lambda>e. returnM False)"

definition conn_close :: "uuid \<Rightarrow> int \<Rightarrow> unit prog" where
  "conn_close connection_id code = catchM (ws_close connection_id code) (\<lambda>e. returnM ())"

definition new_connection :: "uuid \<Rightarrow> uuid \<Rightarrow> uuid \<Rightarrow> uuid \<Rightarrow> datetime \<Rightarrow> connection" where
  "new_connection device_id owner_id connection_id gateway_instance_id now =
     \<lparr>k_device_id = device_id, k_owner_id = owner_id, k_connection_id = connection_id, k_authenticated_at = now,
      k_last_heartbeat = now, k_protocol_version = JStr ''v1'', k_app_version = JStr '''',
      k_gateway_instance_id = gateway_instance_id, k_violations = 0\<rparr>"

definition connection_key :: "uuid \<Rightarrow> string" where
  "connection_key device_id = ''device:connection:'' @ uuid_str device_id"

definition presence_key :: "uuid \<Rightarrow> string" where
  "presence_key device_id = ''device:presence:'' @ uuid_str device_id"

definition put_connection :: "uuid \<Rightarrow> connection option \<Rightarrow> unit prog" where
  "put_connection device_id c s = (Ok (), s\<lparr>active_connections := (active_connections s)(device_id := c)\<rparr>)"

definition manager_get :: "uuid \<Rightarrow> connection option prog" where
  "manager_get device_id = getM (\<lambda>s. active_connections s device_id)"

definition is_connected :: "uuid \<Rightarrow> bool prog" where
  "is_connected device_id = getM (\<lambda>s. active_connections s device_id \<noteq> None)"

definition register_connection :: "env \<Rightarrow> connection \<Rightarrow> unit prog" where
  "register_connection env connection =
     (let device_id = k_device_id connection in
      bindM (manager_get device_id) (\<lambda>old.
      seqM (case old of None \<Rightarrow> returnM () | Some c \<Rightarrow> conn_close (k_connection_id c) 4000)
      (seqM (put_connection device_id (Some connection))
      (bindM (getM clock) (\<lambda>now.
      seqM (valkey_set_hash env (connection_key device_id)
              [(''connection_id'', uuid_str (k_connection_id connection)),
               (''gateway_id'', uuid_str (k_gateway_instance_id connection)), (''connected_at'', isoformat now)]
              (Some 180))
      (returnM ()))))))"

definition unregister_connection :: "env \<Rightarrow> uuid \<Rightarrow> uuid \<Rightarrow> unit prog" where
  "unregister_connection env device_id connection_id =
     bindM (valkey_get_hash env (connection_key device_id)) (\<lambda>valkey_conn.
     seqM (if (case valkey_conn of None \<Rightarrow> False
               | Some h \<Rightarrow> h \<noteq> [] \<and> map_of h ''connection_id'' = Some (uuid_str connection_id))
           then seqM (valkey_delete_hash env (connection_key device_id))
                (seqM (valkey_delete env (presence_key device_id)) (returnM ()))
           else returnM ())
     (bindM (manager_get device_id) (\<lambda>conn.
        case conn of
          Some c \<Rightarrow> if k_connection_id c = connection_id then put_connection device_id None else returnM ()
        | None \<Rightarrow> returnM ())))"

definition send_command :: "env \<Rightarrow> uuid \<Rightarrow> uuid \<Rightarrow> server_message \<Rightarrow> bool prog" where
  "send_command env device_id owner_id message =
     bindM (is_active env owner_id) (\<lambda>active.
       if active then returnM False
       else
         bindM (manager_get device_id) (\<lambda>conn.
           case conn of
             None \<Rightarrow> returnM False
           | Some c \<Rightarrow> conn_send_json env (k_connection_id c) (model_dump env message)))"

definition close_device_connection :: "env \<Rightarrow> uuid \<Rightarrow> unit prog" where
  "close_device_connection env device_id =
     bindM (manager_get device_id) (\<lambda>conn.
       case conn of
         None \<Rightarrow> returnM ()
       | Some c \<Rightarrow>
           seqM (conn_close (k_connection_id c) 4002) (unregister_connection env device_id (k_connection_id c)))"

text \<open>\<^verbatim>\<open>EmergencyStopMessage(reason=reason)\<close> raises for a reason that is no text.\<close>

definition stop_message :: "bool \<Rightarrow> json \<Rightarrow> server_message res" where
  "stop_message active reason =
     (if active then (case reason of JStr r \<Rightarrow> Ok (EmergencyStopMessage r) | _ \<Rightarrow> Err PydanticValidationError)
      else Ok ResumeAfterEmergencyStopMessage)"

definition broadcast_to :: "env \<Rightarrow> bool \<Rightarrow> json \<Rightarrow> device \<Rightarrow> unit prog" where
  "broadcast_to env active reason device =
     bindM (manager_get (d_id device)) (\<lambda>conn.
       case conn of
         None \<Rightarrow> returnM ()
       | Some c \<Rightarrow>
           bindM (liftM (stop_message active reason)) (\<lambda>msg.
           seqM (conn_send_json env (k_connection_id c) (model_dump env msg)) (returnM ())))"

definition broadcast_emergency_stop :: "env \<Rightarrow> uuid \<Rightarrow> bool \<Rightarrow> json \<Rightarrow> unit prog" where
  "broadcast_emergency_stop env owner_id active reason =
     with_session
       (bindM (select (list_devices_by_owner owner_id)) (\<lambda>devs.
          forM devs (broadcast_to env active reason)))"

definition get_device_for_auth :: "uuid \<Rightarrow> device option prog" where
  "get_device_for_auth device_id =
     with_session
       (bindM (select (device_row device_id)) (\<lambda>device.
          case device of
            None \<Rightarrow> returnM None
          | Some d \<Rightarrow>
              if d_trust_status d \<noteq> DEV_TRUSTED \<or> d_revoked_at d \<noteq> None then returnM None else returnM (Some d)))"

section \<open>Authentication\<close>

definition send_error :: "env \<Rightarrow> uuid \<Rightarrow> string \<Rightarrow> string \<Rightarrow> unit prog" where
  "send_error env connection_id code message =
     ws_send env connection_id [(''type'', JStr ''error''), (''code'', JStr code), (''message'', JStr message)]"

definition refuse_auth :: "env \<Rightarrow> uuid \<Rightarrow> string \<Rightarrow> string \<Rightarrow> 'a option prog" where
  "refuse_auth env connection_id code message =
     seqM (send_error env connection_id code message) (seqM (ws_close connection_id 4001) (returnM None))"

text \<open>\<^verbatim>\<open>UUID(x)\<close> under \<^verbatim>\<open>except (ValueError, AttributeError)\<close>.\<close>

definition auth_device_id :: "json \<Rightarrow> uuid option res" where
  "auth_device_id x = (case x of JStr v \<Rightarrow> Ok (uuid_parse v) | JNull \<Rightarrow> Err (TypeError ''UUID'') | _ \<Rightarrow> Ok None)"

text \<open>Step 4: the public key and the owner of a trusted device.\<close>

definition load_trusted :: "env \<Rightarrow> uuid \<Rightarrow> uuid \<Rightarrow> (string \<times> uuid) option prog" where
  "load_trusted env connection_id device_id =
     with_session
       (bindM (select (device_row device_id)) (\<lambda>device.
          case device of
            None \<Rightarrow> refuse_auth env connection_id ''AUTH_FAILED'' ''Device not found or not trusted''
          | Some d \<Rightarrow>
              if d_trust_status d \<noteq> DEV_TRUSTED \<or> d_revoked_at d \<noteq> None
              then refuse_auth env connection_id ''AUTH_FAILED'' ''Device not found or not trusted''
              else returnM (Some (d_public_identity d, d_owner_id d))))"

text \<open>Steps 6 and 7: the connection is created, welcomed and registered.\<close>

definition welcome_device :: "env \<Rightarrow> uuid \<Rightarrow> uuid \<Rightarrow> uuid \<Rightarrow> json \<Rightarrow> json \<Rightarrow> connection option prog" where
  "welcome_device env connection_id device_id owner_id client_protocol client_app_version =
     bindM (is_active env owner_id) (\<lambda>emergency_stop_active.
     bindM (uuid4 env) (\<lambda>gateway_instance_id.
     bindM (getM clock) (\<lambda>now.
       let conn = (new_connection device_id owner_id connection_id gateway_instance_id now)
             \<lparr>k_protocol_version := client_protocol, k_app_version := client_app_version\<rparr>
       in seqM (ws_send env connection_id (model_dump env
                  (WelcomeMessage connection_id now (WS_HEARTBEAT_INTERVAL (settings env)) ''v1'' emergency_stop_active)))
          (seqM (register_connection env conn)
          (returnM (Some conn))))))"

text \<open>Steps 3 to 7, on the decoded answer of the device.\<close>

definition answer_challenge ::
  "env \<Rightarrow> uuid \<Rightarrow> string \<Rightarrow> string \<Rightarrow> string \<Rightarrow> string \<Rightarrow> dict \<Rightarrow> connection option prog" where
  "answer_challenge env connection_id nonce server_time_iso protocol_version app_version auth_data =
     (if dict_get auth_data ''type'' JNull \<noteq> JStr ''auth_response''
      then refuse_auth env connection_id ''AUTH_FAILED'' ''Expected auth_response''
      else
        (let device_id_str = dict_get auth_data ''device_id'' (JStr '''');
             signature_b64 = dict_get auth_data ''signature'' (JStr '''');
             client_protocol = dict_get auth_data ''protocol_version'' (JStr protocol_version);
             client_app_version = dict_get auth_data ''app_version'' (JStr app_version);
             auth_server_time = dict_get auth_data ''server_time'' (JStr server_time_iso)
         in bindM (liftM (auth_device_id device_id_str)) (\<lambda>parsed.
              case parsed of
                None \<Rightarrow> refuse_auth env connection_id ''AUTH_FAILED'' ''Invalid device_id''
              | Some device_id \<Rightarrow>
                  bindM (load_trusted env connection_id device_id) (\<lambda>loaded.
                    case loaded of
                      None \<Rightarrow> returnM None
                    | Some (public_key_b64, owner_id) \<Rightarrow>
                        bindM (verify_device_challenge_response env device_id connection_id nonce auth_server_time
                                 signature_b64 public_key_b64 client_protocol client_app_version) (\<lambda>(ok, err).
                          if \<not> ok then refuse_auth env connection_id ''AUTH_FAILED'' ''Authentication failed''
                          else welcome_device env connection_id device_id owner_id client_protocol client_app_version)))))"

datatype auth_event = AuthFrame "json res" | AuthEmpty | AuthTimeout | AuthError

definition await_answer ::
  "env \<Rightarrow> uuid \<Rightarrow> string \<Rightarrow> string \<Rightarrow> string \<Rightarrow> string \<Rightarrow> auth_event \<Rightarrow> connection option prog" where
  "await_answer env connection_id nonce server_time_iso protocol_version app_version ev =
     (case ev of
        AuthEmpty \<Rightarrow> seqM (ws_close connection_id 4001) (returnM None)
      | AuthTimeout \<Rightarrow> refuse_auth env connection_id ''AUTH_TIMEOUT'' ''Authentication timed out''
      | AuthError \<Rightarrow> seqM (ws_close connection_id 4001) (returnM None)
      | AuthFrame (Inl e) \<Rightarrow> refuse_auth env connection_id ''INVALID_JSON'' ''Invalid auth response''
      | AuthFrame (Inr (JObj auth_data)) \<Rightarrow>
          answer_challenge env connection_id nonce server_time_iso protocol_version app_version auth_data
      | AuthFrame (Inr _) \<Rightarrow> raiseM (AttributeError ''get''))"

definition authenticate :: "env \<Rightarrow> uuid \<Rightarrow> string \<Rightarrow> string \<Rightarrow> string \<Rightarrow> auth_event \<Rightarrow> connection option prog" where
  "authenticate env connection_id server_time_iso protocol_version app_version ev =
     bindM (generate_challenge env) (\<lambda>nonce.
     seqM (ws_send env connection_id
             [(''type'', JStr ''auth_challenge''), (''nonce'', JStr nonce),
              (''connection_id'', JStr (uuid_str connection_id)), (''server_time'', JStr server_time_iso),
              (''supported_protocols'', JList [JStr ''v1''])])
     (await_answer env connection_id nonce server_time_iso protocol_version app_version ev))"

section \<open>Commands offered by NATS\<close>

definition command_belongs_to_device :: "uuid \<Rightarrow> uuid \<Rightarrow> bool prog" where
  "command_belongs_to_device command_id device_id =
     catchM
       (with_session
          (bindM (select (get_by_id command_id)) (\<lambda>row.
             case row of None \<Rightarrow> returnM False | Some c \<Rightarrow> returnM (c_device_id c = device_id))))
       (\<lambda>e. returnM False)"

definition pre_delivery_check :: "uuid \<Rightarrow> uuid \<Rightarrow> bool prog" where
  "pre_delivery_check command_id device_id =
     catchM
       (with_session
          (bindM (select (get_by_id command_id)) (\<lambda>command.
           bindM (getM clock) (\<lambda>now.
             case command of
               None \<Rightarrow> returnM False
             | Some c \<Rightarrow>
                 if c_device_id c \<noteq> device_id then returnM False
                 else if c_state c \<noteq> QUEUED then returnM False
                 else returnM (case c_expires_at c of None \<Rightarrow> True | Some t \<Rightarrow> \<not> t < now)))))
       (\<lambda>e. returnM False)"

definition py_getitem :: "json \<Rightarrow> string \<Rightarrow> json res" where
  "py_getitem v k =
     (case v of
        JObj d \<Rightarrow> (case map_of d k of None \<Rightarrow> Err (KeyError k) | Some x \<Rightarrow> Ok x)
      | _ \<Rightarrow> Err (TypeError k))"

definition py_uuid :: "json \<Rightarrow> uuid res" where
  "py_uuid v =
     (case v of
        JStr x \<Rightarrow> (case uuid_parse x of None \<Rightarrow> Err (ValueError x) | Some u \<Rightarrow> Ok u)
      | JNull \<Rightarrow> Err (TypeError ''UUID'')
      | _ \<Rightarrow> Err (AttributeError ''replace''))"

definition command_request :: "env \<Rightarrow> uuid \<Rightarrow> json \<Rightarrow> json \<Rightarrow> json \<Rightarrow> json \<Rightarrow> json \<Rightarrow> server_message res" where
  "command_request env command_id command_type parameters expires_at risk trace_id =
     (case (command_type, parameters, pyd_datetime env expires_at, pyd_uuid env trace_id) of
        (JStr ty, JObj ps, Some t, Some tr) \<Rightarrow>
          Ok (CommandRequestMessage command_id ty ps t [(''level'', risk)] tr)
      | _ \<Rightarrow> Err PydanticValidationError)"

text \<open>The part after the two checks: build the message, send it, report the delivery, acknowledge.\<close>

definition send_ready :: "env \<Rightarrow> uuid \<Rightarrow> uuid \<Rightarrow> json \<Rightarrow> dict \<Rightarrow> ack prog" where
  "send_ready env device_id connection_id cmd_id payload =
     bindM (liftM (py_uuid cmd_id)) (\<lambda>command_id.
     bindM (liftM (py_getitem (JObj payload) ''command_type'')) (\<lambda>command_type.
     bindM (uuid4 env) (\<lambda>fresh.
     bindM (liftM (command_request env command_id command_type (dict_get payload ''parameters'' (JObj []))
              (dict_get payload ''expires_at'' JNull) (dict_get payload ''risk_level'' (JStr ''low''))
              (dict_get payload ''trace_id'' (JStr (uuid_str fresh))))) (\<lambda>cmd_msg.
     bindM (conn_send_json env connection_id (model_dump env cmd_msg)) (\<lambda>ok.
       if ok then
         seqM (publish_js env (command_delivered (py_str_key '''' cmd_id))
                 [(''command_id'', cmd_id), (''device_id'', JStr (uuid_str device_id))]
                 (Some (py_str_key ''delivered-'' cmd_id)) [])
         (returnM ACK)
       else returnM NAK)))))"

definition offer_command :: "env \<Rightarrow> uuid \<Rightarrow> uuid \<Rightarrow> uuid \<Rightarrow> json \<Rightarrow> ack prog" where
  "offer_command env device_id owner_id connection_id payload =
     bindM (liftM (py_getitem payload ''command_id'')) (\<lambda>cmd_id.
     bindM (is_active env owner_id) (\<lambda>is_stopped.
       if is_stopped then returnM NAK
       else
         bindM (liftM (py_uuid cmd_id)) (\<lambda>command_id.
         bindM (pre_delivery_check command_id device_id) (\<lambda>pre_check_ok.
           if \<not> pre_check_ok then returnM ACK
           else (case payload of JObj d \<Rightarrow> send_ready env device_id connection_id cmd_id d
                 | _ \<Rightarrow> raiseM (TypeError ''command_id''))))))"

definition nats_listener_msg :: "env \<Rightarrow> uuid \<Rightarrow> uuid \<Rightarrow> uuid \<Rightarrow> json res \<Rightarrow> ack prog" where
  "nats_listener_msg env device_id owner_id connection_id data =
     catchM (bindM (liftM data) (offer_command env device_id owner_id connection_id)) (\<lambda>e. returnM NAK)"

section \<open>Frames from the device\<close>

definition record_violation :: "uuid \<Rightarrow> unit prog" where
  "record_violation device_id =
     bindM (manager_get device_id) (\<lambda>conn.
       case conn of
         None \<Rightarrow> returnM ()
       | Some c \<Rightarrow>
           (let c' = c\<lparr>k_violations := k_violations c + 1\<rparr> in
            seqM (put_connection device_id (Some c'))
            (if k_violations c' \<ge> 5 then conn_close (k_connection_id c') 4005 else returnM ())))"

definition record_heartbeat :: "env \<Rightarrow> uuid \<Rightarrow> string \<Rightarrow> int \<Rightarrow> unit prog" where
  "record_heartbeat env device_id state active_command_count =
     bindM (manager_get device_id) (\<lambda>conn.
     bindM (getM clock) (\<lambda>now.
     seqM (case conn of None \<Rightarrow> returnM ()
           | Some c \<Rightarrow> put_connection device_id (Some (c\<lparr>k_last_heartbeat := now\<rparr>)))
     (seqM (valkey_set_hash env (presence_key device_id)
              [(''last_heartbeat'', isoformat now), (''state'', state),
               (''active_command_count'', py_str_int active_command_count)] (Some 90))
     (returnM ()))))"

definition if_owned :: "uuid \<Rightarrow> uuid \<Rightarrow> unit prog \<Rightarrow> unit prog" where
  "if_owned command_id device_id body =
     bindM (command_belongs_to_device command_id device_id) (\<lambda>owned. if \<not> owned then returnM () else body)"

fun dispatch_message :: "env \<Rightarrow> uuid \<Rightarrow> client_message \<Rightarrow> unit prog" where
  "dispatch_message env device_id (HeartbeatMessage device_time state active_command_count app_version) =
     record_heartbeat env device_id state active_command_count"
| "dispatch_message env device_id (CommandAckMessage command_id accepted rejection_reason device_timestamp) =
     if_owned command_id device_id
       (nats_publish env (command_acknowledged (uuid_str command_id))
          [(''command_id'', JStr (uuid_str command_id)), (''device_id'', JStr (uuid_str device_id)),
           (''accepted'', JBool accepted), (''rejection_reason'', json_opt JStr rejection_reason)])"
| "dispatch_message env device_id (CommandProgressMessage command_id progress_percent stage status_message) =
     if_owned command_id device_id
       (nats_publish env (command_progress (uuid_str command_id))
          [(''command_id'', JStr (uuid_str command_id)), (''device_id'', JStr (uuid_str device_id)),
           (''progress_percent'', json_opt JInt progress_percent), (''stage'', json_opt JStr stage)])"
| "dispatch_message env device_id (CommandResultMessage command_id success result_data error_code error_message
       started_at finished_at) =
     if_owned command_id device_id
       (nats_publish env (command_result (uuid_str command_id))
          [(''command_id'', JStr (uuid_str command_id)), (''device_id'', JStr (uuid_str device_id)),
           (''success'', JBool success), (''result_data'', json_opt JObj result_data),
           (''error_code'', json_opt JStr error_code), (''error_message'', json_opt JStr error_message),
           (''started_at'', JStr (isoformat started_at)), (''finished_at'', JStr (isoformat finished_at))])"
| "dispatch_message env device_id (DeviceStatusUpdateMessage state metadata) =
     nats_publish env (device_lifecycle (uuid_str device_id))
       [(''device_id'', JStr (uuid_str device_id)), (''state'', JStr state)]"
| "dispatch_message env device_id (HelloMessage _ _ _) = returnM ()"

definition handle_device_message :: "env \<Rightarrow> uuid \<Rightarrow> frame \<Rightarrow> unit prog" where
  "handle_device_message env device_id data =
     catchM (bindM (liftM (parse_client_message env data)) (dispatch_message env device_id))
       (\<lambda>e. case e of ProtocolError _ _ \<Rightarrow> record_violation device_id | _ \<Rightarrow> returnM ())"

section \<open>The life of a connection\<close>

datatype ws_event = WsFrame frame | WsEnd | WsReady "json res"

fun serve_events :: "env \<Rightarrow> uuid \<Rightarrow> uuid \<Rightarrow> uuid \<Rightarrow> ws_event list \<Rightarrow> ack list prog" where
  "serve_events env device_id owner_id connection_id [] = returnM []"
| "serve_events env device_id owner_id connection_id (WsEnd # evs) = returnM []"
| "serve_events env device_id owner_id connection_id (WsFrame data # evs) =
     (case validate_message_size (f_size data) of
        Inl e \<Rightarrow> seqM (conn_close connection_id 1009) (returnM [])
      | Inr _ \<Rightarrow>
          seqM (handle_device_message env device_id data) (serve_events env device_id owner_id connection_id evs))"
| "serve_events env device_id owner_id connection_id (WsReady data # evs) =
     bindM (nats_listener_msg env device_id owner_id connection_id data) (\<lambda>a.
     bindM (serve_events env device_id owner_id connection_id evs) (\<lambda>as. returnM (a # as)))"

definition websocket_endpoint ::
  "env \<Rightarrow> string \<Rightarrow> string \<Rightarrow> auth_event \<Rightarrow> ws_event list \<Rightarrow> ack list prog" where
  "websocket_endpoint env protocol_version app_version auth evs =
     bindM (uuid4 env) (\<lambda>connection_id.
     bindM (getM clock) (\<lambda>server_time.
       case validate_protocol_version protocol_version of
         Inl e \<Rightarrow> seqM (ws_close connection_id 4003) (returnM [])
       | Inr _ \<Rightarrow>
           bindM (authenticate env connection_id (isoformat server_time) protocol_version app_version auth) (\<lambda>conn.
             case conn of
               None \<Rightarrow> returnM []
             | Some c \<Rightarrow>
                 bindM (serve_events env (k_device_id c) (k_owner_id c) connection_id evs) (\<lambda>acks.
                 seqM (unregister_connection env (k_device_id c) connection_id) (returnM acks)))))"

section \<open>Callbacks\<close>

definition security_callback :: "env \<Rightarrow> string \<Rightarrow> json res \<Rightarrow> unit prog" where
  "security_callback env subject data =
     catchM
       (bindM (liftM data) (\<lambda>doc.
          let parts = py_split (CHR ''.'') subject in
          if length parts \<ge> 4 then
            bindM (liftM (py_uuid (JStr (parts ! 3)))) (\<lambda>owner_id.
            bindM (liftM (payload_get doc ''reason'' (JStr ''''))) (\<lambda>reason.
            broadcast_emergency_stop env owner_id (parts ! 2 = ''emergency_stop'') reason))
          else returnM ()))
       (\<lambda>e. returnM ())"

definition device_lifecycle_callback :: "env \<Rightarrow> json res \<Rightarrow> unit prog" where
  "device_lifecycle_callback env data =
     catchM
       (bindM (liftM data) (\<lambda>doc.
        bindM (liftM (payload_get doc ''state'' (JStr ''''))) (\<lambda>state.
        bindM (liftM (payload_get doc ''device_id'' (JStr ''''))) (\<lambda>device_id_str.
          if state = JStr ''revoked'' \<and> truthy device_id_str then
            bindM (liftM (py_uuid device_id_str)) (\<lambda>device_id. close_device_connection env device_id)
          else returnM ()))))
       (\<lambda>e. returnM ())"

definition protocol_supported :: "env \<Rightarrow> string option \<Rightarrow> bool" where
  "protocol_supported env version =
     (case version of None \<Rightarrow> False | Some v \<Rightarrow> v \<noteq> [] \<and> v \<in> set (WS_SUPPORTED_PROTOCOLS (settings env)))"

text \<open>Readiness: whether Valkey answers and NATS is connected, and the HTTP status.\<close>

definition readiness :: "bool \<Rightarrow> (bool \<times> int) prog" where
  "readiness nats_connected =
     getM (\<lambda>s. let all_ready = (cache_up s \<and> nats_connected) in (all_ready, if all_ready then 200 else 503))"

end
