(* ===== verification/Authentication.thy ===== *)
theory Authentication
  imports Gateway
begin

text \<open>
  The challenge-response authentication of \<open>Protocol\<close> and \<open>Gateway\<close>: challenges are used once and expire, and
  an accepted connection belongs to a trusted device that signed this exchange.
\<close>

section \<open>Runs that return\<close>

lemma bindM_OkE:
  assumes "bindM m f s = (Inr b, t)"
  obtains a u where "m s = (Inr a, u)" "f a u = (Inr b, t)"
  using assms by (auto simp: bindM_def split: prod.splits sum.splits)

lemma seqM_OkE:
  assumes "seqM m k s = (Inr b, t)"
  obtains a u where "m s = (Inr a, u)" "k u = (Inr b, t)"
  using assms by (auto simp: seqM_def elim: bindM_OkE)

lemma refuse_auth_None [simp]: "refuse_auth env cid code msg s \<noteq> (Ok (Some x), t)"
  by (auto simp: refuse_auth_def returnM_def elim!: seqM_OkE)

section \<open>Challenges\<close>

lemma consume_challenge_run:
  assumes "consume_challenge env nonce s = (Ok b, t)"
  shows "t = s \<and> \<not> b \<or> b \<and> cache_up s \<and> kv_get (clock s) (prefix_key env (challenge_key nonce)) (cache s) \<noteq> None
    \<and> t = s\<lparr>cache := kv_del (prefix_key env (challenge_key nonce)) (cache s)\<rparr>"
  using assms
  by (auto simp: consume_challenge_def bindM_def returnM_def valkey_getdel_def split: option.splits vval.splits if_splits)

text \<open>
  A challenge is used at most once and only within thirty seconds. If a challenge was generated in \<open>v\<close>
  and nobody else touched its key until it was consumed in \<open>s\<close>, then less than thirty seconds have passed,
  and consuming it once more fails at any time and whatever other keys were written in between.
\<close>

lemma challenge_single_use:
  fixes env :: env and nonce :: string
  defines "key \<equiv> prefix_key env (challenge_key nonce)"
  assumes "generate_challenge env v = (Ok nonce, w)" "cache_up v" "cache s key = cache w key"
    and "consume_challenge env nonce s = (Ok True, t)"
  shows "clock s < clock v + timedelta_seconds 30
    \<and> (\<forall>u. cache u key = cache t key \<longrightarrow> consume_challenge env nonce u = (Ok False, u))"
proof
  note run = consume_challenge_run [OF assms(5), folded key_def]
  have "\<exists>val. cache w key = Some (val, clock v + timedelta_seconds 30)"
    using assms(2,3)
    by (auto simp: key_def generate_challenge_def valkey_set_def bindM_def returnM_def Let_def kv_set_def
        ttl_or_default_def CHALLENGE_TTL_def)
  with run assms(4) show "clock s < clock v + timedelta_seconds 30"
    by (auto simp: kv_get_def split: if_splits)
  have "cache t key = None" using run by (auto simp: kv_del_def)
  then show "\<forall>u. cache u key = cache t key \<longrightarrow> consume_challenge env nonce u = (Ok False, u)"
    by (auto simp: consume_challenge_def bindM_def returnM_def valkey_getdel_def kv_get_def key_def)
qed

lemma challenge_single_use_witness:
  "\<exists>w t. generate_challenge demo_env (demo_st empty_db) = (Ok '''', w) \<and> consume_challenge demo_env '''' w = (Ok True, t)
     \<and> consume_challenge demo_env '''' t = (Ok False, t)"
proof -
  let ?v = "demo_st empty_db"
  have n: "gen_nonce demo_env 0 = ''''" by (simp add: demo_env_def)
  obtain w where w: "generate_challenge demo_env ?v = (Ok '''', w)" "cache_up w" "clock w = clock ?v"
    "kv_get (clock w) (prefix_key demo_env (challenge_key '''')) (cache w) =
       Some (VJson (JObj [(''created_at'', JInt (clock ?v)), (''nonce'', JStr '''')]))"
    by (simp add: generate_challenge_def valkey_set_def bindM_def returnM_def kv.get_put ttl_or_default_def
        CHALLENGE_TTL_def timedelta_seconds_def n)
  then obtain t where t: "consume_challenge demo_env '''' w = (Ok True, t)"
    by (simp add: consume_challenge_def bindM_def returnM_def valkey_getdel_def)
  have "consume_challenge demo_env '''' t = (Ok False, t)"
    using challenge_single_use [OF w(1) _ _ t] by simp
  with w(1) t show ?thesis by blast
qed

section \<open>Authentication\<close>

lemma ws_send_frame: "ws_send env cid d s = (r, t) \<Longrightarrow> \<exists>x. t = s\<lparr>sent := x\<rparr>"
  by (cases s) (auto simp: ws_send_def split: if_splits)

lemma load_trusted_Some:
  assumes "load_trusted env cid dev s = (Ok (Some (key, owner)), t)"
  obtains d where "device_row dev (committed s) = Some d" "d_trust_status d = DEV_TRUSTED" "d_revoked_at d = None"
    "key = d_public_identity d" "owner = d_owner_id d" "t = open_session s"
proof -
  let ?s = "open_session s"
  from assms obtain u where u: "(case device_row dev (committed s) of
      None \<Rightarrow> refuse_auth env cid ''AUTH_FAILED'' ''Device not found or not trusted''
    | Some d \<Rightarrow> if d_trust_status d \<noteq> DEV_TRUSTED \<or> d_revoked_at d \<noteq> None
        then refuse_auth env cid ''AUTH_FAILED'' ''Device not found or not trusted''
        else returnM (Some (d_public_identity d, d_owner_id d))) ?s = (Ok (Some (key, owner)), u)"
    and t: "t = u\<lparr>committed := working u\<rparr>"
    by (auto simp: load_trusted_def with_session_def bindM_def select_def split: prod.splits sum.splits if_splits)
  then obtain d where d: "device_row dev (committed s) = Some d" "d_trust_status d = DEV_TRUSTED" "d_revoked_at d = None"
    "key = d_public_identity d" "owner = d_owner_id d" "u = ?s"
    using refuse_auth_None by (fastforce simp: returnM_def split: option.splits if_splits)
  then show thesis by (intro that) (simp_all add: t)
qed

lemma verify_Ok:
  assumes "verify_device_challenge_response env dev cid nonce st sig key pv av s = (Ok (True, err), t)"
  shows "(\<exists>x. sig = JStr x \<and> ed25519_verify env key (build_challenge_message dev cid nonce (py_format env st)
            (py_format env pv) (py_format env av)) x)
    \<and> cache_up s \<and> t = s\<lparr>cache := kv_del (prefix_key env (challenge_key nonce)) (cache s)\<rparr>"
proof -
  from assms obtain b u where b: "consume_challenge env nonce s = (Ok b, u)"
    by (auto simp: verify_device_challenge_response_def elim: bindM_OkE)
  with assms have "b" "u = t" "verify_ed25519_signature env key (build_challenge_message dev cid nonce (py_format env st)
            (py_format env pv) (py_format env av)) sig"
    by (auto simp: verify_device_challenge_response_def bindM_def returnM_def Let_def split: if_splits)
  with consume_challenge_run [OF b] show ?thesis
    by (auto simp: verify_ed25519_signature_def split: json.splits)
qed

lemma challenge_not_stop: "prefix_key env (challenge_key n) \<noteq> prefix_key env (stop_key o1)"
  "prefix_key env (challenge_key n) \<noteq> prefix_key env (connection_key dev)"
  by (simp_all add: challenge_key_def stop_key_def connection_key_def)

text \<open>No later step of the welcome puts a challenge back.\<close>

lemma is_active_challenge:
  assumes "is_active env owner s = (r, t)"
  shows "cache t (prefix_key env (challenge_key n)) = cache s (prefix_key env (challenge_key n))"
proof -
  have db: "cache (snd (is_active_db env owner s)) (prefix_key env (challenge_key n)) = cache s (prefix_key env (challenge_key n))"
    using challenge_not_stop(1)
    by (auto simp: is_active_db_def bindM_def seqM_def read_session_def valkey_set_def returnM_def kv_set_def
        split: option.splits)
  have "cache (snd (is_active env owner s)) (prefix_key env (challenge_key n)) = cache s (prefix_key env (challenge_key n))"
    using db
    by (auto simp: is_active_def bindM_def valkey_get_def returnM_def split: option.splits vval.splits json.splits)
  with assms show ?thesis by simp
qed

lemma conn_close_frame: "\<exists>x. conn_close i code s = (Ok (), s\<lparr>closed := x\<rparr>)"
  by (cases s) (auto simp: conn_close_def catchM_def ws_close_def returnM_def)

lemma register_run:
  assumes "register_connection env c s = (Ok (), t)"
  shows "active_connections t (k_device_id c) = Some c
    \<and> cache t (prefix_key env (challenge_key n)) = cache s (prefix_key env (challenge_key n)) \<and> committed t = committed s"
proof -
  obtain x where x: "(case active_connections s (k_device_id c) of None \<Rightarrow> returnM ()
      | Some c \<Rightarrow> conn_close (k_connection_id c) 4000) s = (Ok (), s\<lparr>closed := x\<rparr>)"
  proof (cases "active_connections s (k_device_id c)")
    case None
    then show thesis by (intro that [of "closed s"]) (simp add: returnM_def)
  next
    case (Some a)
    with conn_close_frame [of "k_connection_id a" 4000 s] that show thesis by auto
  qed
  show ?thesis
    using assms x challenge_not_stop(2) [of env n "k_device_id c"]
    by (auto simp: register_connection_def manager_get_def bindM_def seqM_def getM_def put_connection_def returnM_def
        valkey_set_hash_def kv_set_def Let_def split: prod.splits sum.splits option.splits vval.splits if_splits)
qed

lemma welcome_Some:
  assumes "welcome_device env cid dev owner pv av s = (Ok (Some c), t)"
  shows "k_device_id c = dev \<and> k_owner_id c = owner \<and> k_connection_id c = cid
    \<and> active_connections t dev = Some c
    \<and> cache t (prefix_key env (challenge_key n)) = cache s (prefix_key env (challenge_key n))"
proof -
  obtain b s1 where s1: "is_active env owner s = (Ok b, s1)"
    using assms by (auto simp: welcome_device_def elim: bindM_OkE)
  let ?s2 = "s1\<lparr>entropy := Suc (entropy s1)\<rparr>"
  let ?c = "(new_connection dev owner cid (gen_uuid env (entropy s1)) (clock s1))\<lparr>k_protocol_version := pv, k_app_version := av\<rparr>"
  let ?w = "model_dump env (WelcomeMessage cid (clock s1) (WS_HEARTBEAT_INTERVAL (settings env)) ''v1'' b)"
  have rest: "seqM (ws_send env cid ?w) (seqM (register_connection env ?c) (returnM (Some ?c))) ?s2 = (Ok (Some c), t)"
    using assms s1 by (simp add: welcome_device_def bindM_def uuid4_def getM_def Let_def)
  obtain s3 where s3: "ws_send env cid ?w ?s2 = (Ok (), s3)" "seqM (register_connection env ?c) (returnM (Some ?c)) s3 = (Ok (Some c), t)"
    by (rule seqM_OkE [OF rest]) simp
  then have reg: "register_connection env ?c s3 = (Ok (), t)" and c: "c = ?c"
    by (auto simp: returnM_def elim!: seqM_OkE)
  have "cache s3 = cache s1" using ws_send_frame [OF s3(1)] by auto
  with register_run [OF reg, of n] is_active_challenge [OF s1, of n] show ?thesis
    by (simp add: c new_connection_def)
qed

lemma answer_Some:
  assumes "answer_challenge env cid nonce tm pv av d s = (Ok (Some c), t)"
  obtains dev x where "device_row (k_device_id c) (committed s) = Some dev" "d_trust_status dev = DEV_TRUSTED"
    "d_revoked_at dev = None" "k_owner_id c = d_owner_id dev" "k_connection_id c = cid"
    "dict_get d ''signature'' (JStr '''') = JStr x"
    "ed25519_verify env (d_public_identity dev) (build_challenge_message (k_device_id c) cid nonce
       (py_format env (dict_get d ''server_time'' (JStr tm))) (py_format env (dict_get d ''protocol_version'' (JStr pv)))
       (py_format env (dict_get d ''app_version'' (JStr av)))) x"
    "active_connections t (k_device_id c) = Some c" "cache t (prefix_key env (challenge_key nonce)) = None"
proof -
  let ?dev = "auth_device_id (dict_get d ''device_id'' (JStr ''''))"
  let ?pv = "dict_get d ''protocol_version'' (JStr pv)" and ?av = "dict_get d ''app_version'' (JStr av)"
    and ?st = "dict_get d ''server_time'' (JStr tm)" and ?sig = "dict_get d ''signature'' (JStr '''')"
  have "dict_get d ''type'' JNull = JStr ''auth_response''"
    using assms refuse_auth_None by (auto simp: answer_challenge_def split: if_splits)
  then have run: "bindM (liftM ?dev) (\<lambda>parsed. case parsed of
        None \<Rightarrow> refuse_auth env cid ''AUTH_FAILED'' ''Invalid device_id''
      | Some device_id \<Rightarrow> bindM (load_trusted env cid device_id) (\<lambda>loaded. case loaded of
          None \<Rightarrow> returnM None
        | Some (key, owner) \<Rightarrow> bindM (verify_device_challenge_response env device_id cid nonce ?st ?sig key ?pv ?av)
            (\<lambda>(ok, err). if \<not> ok then refuse_auth env cid ''AUTH_FAILED'' ''Authentication failed''
               else welcome_device env cid device_id owner ?pv ?av))) s = (Ok (Some c), t)"
    using assms by (simp add: answer_challenge_def Let_def)
  then obtain device_id where dev: "?dev = Inr (Some device_id)"
    using refuse_auth_None by (cases ?dev) (auto simp: raiseM_def split: option.splits)
  with run obtain l s1 where l: "load_trusted env cid device_id s = (Ok l, s1)"
    and run1: "(case l of None \<Rightarrow> returnM None
        | Some (key, owner) \<Rightarrow> bindM (verify_device_challenge_response env device_id cid nonce ?st ?sig key ?pv ?av)
            (\<lambda>(ok, err). if \<not> ok then refuse_auth env cid ''AUTH_FAILED'' ''Authentication failed''
               else welcome_device env cid device_id owner ?pv ?av)) s1 = (Ok (Some c), t)"
    by (auto elim: bindM_OkE)
  then obtain key owner where ko: "l = Some (key, owner)" by (auto simp: returnM_def split: option.splits)
  then obtain r where r: "device_row device_id (committed s) = Some r" "d_trust_status r = DEV_TRUSTED" "d_revoked_at r = None"
    "key = d_public_identity r" "owner = d_owner_id r" "s1 = open_session s"
    using l by (auto elim: load_trusted_Some)
  from run1 ko obtain ok err s2 where v: "verify_device_challenge_response env device_id cid nonce ?st ?sig key ?pv ?av s1 = (Ok (ok, err), s2)"
    and run2: "(if \<not> ok then refuse_auth env cid ''AUTH_FAILED'' ''Authentication failed''
               else welcome_device env cid device_id owner ?pv ?av) s2 = (Ok (Some c), t)"
    by (auto elim: bindM_OkE)
  then have ok: "ok" and w: "welcome_device env cid device_id owner ?pv ?av s2 = (Ok (Some c), t)"
    using refuse_auth_None by (auto split: if_splits)
  from v ok verify_Ok [of env device_id cid nonce ?st ?sig key ?pv ?av s1 err s2] obtain x where
    x: "?sig = JStr x" "ed25519_verify env key (build_challenge_message device_id cid nonce (py_format env ?st)
            (py_format env ?pv) (py_format env ?av)) x"
    and s2: "s2 = s1\<lparr>cache := kv_del (prefix_key env (challenge_key nonce)) (cache s1)\<rparr>" by auto
  show thesis
    by (rule that [of r x]) (use welcome_Some [OF w, of nonce] r x s2 in \<open>simp_all add: kv_del_def\<close>)
qed

text \<open>
  C36. Authentication is sound. When the challenge-response exchange accepts a connection, the device exists,
  is trusted and not revoked; the answer carried a signature that the device's public key verifies for the
  message naming the device, this connection and the nonce of this exchange; the nonce is gone; and the
  connection is registered for the device and its owner.
\<close>

theorem authenticate_sound:
  assumes "authenticate env cid tm pv av ev s = (Ok (Some c), t)"
  shows "\<exists>d dev x. ev = AuthFrame (Ok (JObj d)) \<and> device_row (k_device_id c) (committed s) = Some dev
    \<and> d_trust_status dev = DEV_TRUSTED \<and> d_revoked_at dev = None
    \<and> k_owner_id c = d_owner_id dev \<and> k_connection_id c = cid \<and> dict_get d ''signature'' (JStr '''') = JStr x
    \<and> ed25519_verify env (d_public_identity dev)
        (build_challenge_message (k_device_id c) cid (gen_nonce env (entropy s))
          (py_format env (dict_get d ''server_time'' (JStr tm))) (py_format env (dict_get d ''protocol_version'' (JStr pv)))
          (py_format env (dict_get d ''app_version'' (JStr av)))) x
    \<and> cache t (prefix_key env (challenge_key (gen_nonce env (entropy s)))) = None
    \<and> active_connections t (k_device_id c) = Some c"
proof -
  let ?n = "gen_nonce env (entropy s)"
  obtain s1 where s1: "generate_challenge env s = (Ok ?n, s1)" "committed s1 = committed s"
    by (cases "cache_up s") (simp_all add: generate_challenge_def valkey_set_def bindM_def returnM_def Let_def)
  let ?msg = "[(''type'', JStr ''auth_challenge''), (''nonce'', JStr ?n), (''connection_id'', JStr (uuid_str cid)),
    (''server_time'', JStr tm), (''supported_protocols'', JList [JStr ''v1''])]"
  have "seqM (ws_send env cid ?msg) (await_answer env cid ?n tm pv av ev) s1 = (Ok (Some c), t)"
    using assms s1(1) by (simp add: authenticate_def bindM_def)
  then obtain u s2 where snd1: "ws_send env cid ?msg s1 = (Ok u, s2)"
    and run: "await_answer env cid ?n tm pv av ev s2 = (Ok (Some c), t)"
    by (rule seqM_OkE)
  have s2: "committed s2 = committed s" using ws_send_frame [OF snd1] s1(2) by auto
  obtain d where ev: "ev = AuthFrame (Ok (JObj d))" and ans: "answer_challenge env cid ?n tm pv av d s2 = (Ok (Some c), t)"
    using run refuse_auth_None
    by (auto simp: await_answer_def raiseM_def returnM_def elim!: seqM_OkE split: auth_event.splits sum.splits json.splits)
  show ?thesis
    by (rule answer_Some [OF ans]) (use ev s2 in auto)
qed

definition demo_answer :: "string \<Rightarrow> dict" where
  "demo_answer sig = [(''type'', JStr ''auth_response''), (''device_id'', JStr (uuid_str 2)), (''signature'', JStr sig)]"

lemma demo_stop_clear: "stop_clear demo_env o1 (demo_st (demo_db cs))"
  by (simp add: stop_clear_def stop_active_def stop_row_def kv_get_def)

definition demo_challenge :: string where
  "demo_challenge = build_challenge_message 2 77 '''' ''t'' ''v1'' ''''"

lemma demo_nonce: "gen_nonce demo_env 0 = ''''" "gen_nonce demo_env n = replicate n CHR ''n''"
  "ed25519_verify demo_env k m x = (x = k @ m)" "ws_ok demo_env c"
  by (simp_all add: demo_env_def)

lemma demo_device_keys: "d_public_identity demo_device = ''pk''" "d_revoked_at demo_device = None"
  by (simp_all add: demo_device_def)

lemma demo_authenticated:
  "\<exists>c t. authenticate demo_env 77 ''t'' ''v1'' '''' (AuthFrame (Ok (JObj (demo_answer (''pk'' @ demo_challenge)))))
     (demo_st (demo_db [])) = (Ok (Some c), t)"
proof -
  let ?s = "demo_st (demo_db [])" and ?key = "prefix_key demo_env (challenge_key '''')"
  let ?msg = "[(''type'', JStr ''auth_challenge''), (''nonce'', JStr ''''), (''connection_id'', JStr (uuid_str 77)),
    (''server_time'', JStr ''t''), (''supported_protocols'', JList [JStr ''v1''])]"
  define c1 where "c1 = kv_set (clock ?s) ?key (VJson (JObj [(''created_at'', JInt (clock ?s)), (''nonce'', JStr '''')])) 30 (cache ?s)"
  define s1 where "s1 = ?s\<lparr>entropy := 1, cache := c1, sent := [(77, ?msg)]\<rparr>"
  have gen: "authenticate demo_env 77 ''t'' ''v1'' '''' ev ?s = await_answer demo_env 77 '''' ''t'' ''v1'' '''' ev s1" for ev
    by (simp add: authenticate_def generate_challenge_def valkey_set_def bindM_def seqM_def returnM_def Let_def ws_send_def
        demo_nonce s1_def c1_def ttl_or_default_def CHALLENGE_TTL_def) (simp add: demo_st_def)
  have s1: "committed s1 = demo_db []" "cache s1 = c1" "cache_up s1" "clock s1 = clock ?s" "closed s1 = []"
    "active_connections s1 = (\<lambda>_. None)" "entropy s1 = 1"
    by (simp_all add: s1_def) (simp_all add: demo_st_def)
  have load: "load_trusted demo_env 77 2 s1 = (Ok (Some (''pk'', 1)), open_session s1)"
    by (simp add: load_trusted_def with_session_def bindM_def select_def device_row_def s1 demo_device_keys returnM_def)
  let ?s2 = "(open_session s1)\<lparr>cache := kv_del ?key c1\<rparr>"
  have get: "kv_get (clock ?s) ?key c1 = Some (VJson (JObj [(''created_at'', JInt (clock ?s)), (''nonce'', JStr '''')]))"
    by (simp add: c1_def kv.get_put timedelta_seconds_def)
  have ver: "verify_device_challenge_response demo_env 2 77 '''' (JStr ''t'') (JStr (''pk'' @ demo_challenge)) ''pk'' (JStr ''v1'') (JStr '''')
      (open_session s1) = (Ok (True, ''''), ?s2)"
    using get
    by (simp add: verify_device_challenge_response_def consume_challenge_def bindM_def valkey_getdel_def s1 returnM_def
        verify_ed25519_signature_def demo_nonce demo_challenge_def py_format_def)
  have clear: "stop_clear demo_env 1 ?s2"
    using challenge_not_stop(1) [of demo_env "''''" 1]
    by (simp add: stop_clear_def s1 stop_active_def stop_row_def kv.get_del c1_def kv.get_put) (simp add: kv_get_def)
  have hash: "kv_get (clock ?s) (prefix_key demo_env (connection_key 2)) (kv_del ?key c1) = None"
    using challenge_not_stop(2) [of demo_env "''''" 2]
    by (simp add: kv.get_del c1_def kv.get_put) (simp add: kv_get_def)
  have "\<exists>c t. welcome_device demo_env 77 2 1 (JStr ''v1'') (JStr '''') ?s2 = (Ok (Some c), t)"
    using is_active_clear [OF clear] hash
    by (simp add: welcome_device_def bindM_def seqM_def uuid4_def getM_def Let_def ws_send_def demo_nonce s1
        register_connection_def manager_get_def new_connection_def put_connection_def valkey_set_hash_def returnM_def)
  then show ?thesis
    using load ver
    by (simp add: gen await_answer_def answer_challenge_def demo_answer_def auth_device_id_def bindM_def Let_def)
qed

theorem authenticate_sound_witness:
  "\<exists>c t. authenticate demo_env 77 ''t'' ''v1'' '''' (AuthFrame (Ok (JObj (demo_answer (''pk'' @ demo_challenge)))))
     (demo_st (demo_db [])) = (Ok (Some c), t) \<and> k_connection_id c = 77 \<and> active_connections t (k_device_id c) = Some c"
proof -
  obtain c t where run: "authenticate demo_env 77 ''t'' ''v1'' '''' (AuthFrame (Ok (JObj (demo_answer (''pk'' @ demo_challenge)))))
     (demo_st (demo_db [])) = (Ok (Some c), t)"
    using demo_authenticated by blast
  from authenticate_sound [OF run] run show ?thesis by blast
qed

end
