(* ===== verification/Connections.thy ===== *)
theory Connections
  imports Authentication
begin

text \<open>
  What a gateway connection sends and when it ends: only valid commands reach a device, commands without an
  expiry never do, a late disconnect spares the newer connection, a revocation closes the socket.
\<close>

section \<open>Delivery\<close>

lemma pre_delivery_run:
  "pre_delivery_check cid dev s = (Ok (case get_by_id cid (committed s) of None \<Rightarrow> False
     | Some c \<Rightarrow> c_device_id c = dev \<and> c_state c = QUEUED \<and> (case c_expires_at c of None \<Rightarrow> True | Some x \<Rightarrow> clock s \<le> x)),
     open_session s)"
  by (auto simp: pre_delivery_check_def catchM_def with_session_def bindM_def select_def getM_def returnM_def
      split: option.splits)

lemma conn_send_json_run:
  "conn_send_json env cid d s = (if ws_ok env cid \<and> cid \<notin> fst ` set (closed s)
     then (Ok True, s\<lparr>sent := sent s @ [(cid, d)]\<rparr>) else (Ok False, s))"
  by (simp add: conn_send_json_def catchM_def seqM_def bindM_def ws_send_def returnM_def)

lemma publish_js_frame:
  "publish_js env subj p i h s = (r, t) \<Longrightarrow> sent t = sent s \<and> committed t = committed s"
  by (auto simp: publish_js_def Let_def split: if_splits)

lemma send_ready_sent:
  assumes "send_ready env dev cid cmd d s = (r, t)" "sent t \<noteq> sent s"
  shows "\<exists>i ty ps ex risk tr. py_uuid cmd = Ok i
    \<and> sent t = sent s @ [(cid, model_dump env (CommandRequestMessage i ty ps ex risk tr))]"
proof -
  obtain i where i: "py_uuid cmd = Inr i" using assms by (cases "py_uuid cmd") (auto simp: send_ready_def raiseM_def)
  obtain ty where ty: "py_getitem (JObj d) ''command_type'' = Inr ty"
    using assms i by (cases "py_getitem (JObj d) ''command_type''") (auto simp: send_ready_def raiseM_def)
  let ?req = "command_request env i ty (dict_get d ''parameters'' (JObj [])) (dict_get d ''expires_at'' JNull)
      (dict_get d ''risk_level'' (JStr ''low'')) (dict_get d ''trace_id'' (JStr (uuid_str (gen_uuid env (entropy s)))))"
  obtain m where m: "?req = Inr m"
    using assms i ty by (cases ?req) (auto simp: send_ready_def bindM_def liftM_def uuid4_def raiseM_def)
  then obtain a b c e f where shape: "m = CommandRequestMessage i a b c e f"
    by (auto simp: command_request_def split: json.splits option.splits)
  have "sent t = sent s @ [(cid, model_dump env m)]"
    using assms i ty m
    by (auto simp: send_ready_def bindM_def liftM_def uuid4_def conn_send_json_run seqM_def returnM_def
        dest!: publish_js_frame split: prod.splits sum.splits if_splits)
  with i shape show ?thesis by blast
qed

lemma offer_command_sent:
  assumes ok: "stop_cache_ok env s" and run: "offer_command env dev owner cid payload s = (r, t)" and new: "sent t \<noteq> sent s"
  shows "\<not> stop_active owner (committed s) \<and> (\<exists>i c m. get_by_id i (committed s) = Some c \<and> c_device_id c = dev
    \<and> c_state c = QUEUED \<and> (case c_expires_at c of None \<Rightarrow> True | Some x \<Rightarrow> clock s \<le> x)
    \<and> sent t = sent s @ [(cid, m)] \<and> dict_get m ''type'' JNull = JStr ''command''
    \<and> dict_get m ''command_id'' JNull = JStr (uuid_str i))"
proof -
  obtain cmd where cmd: "py_getitem payload ''command_id'' = Inr cmd"
    using run new by (cases "py_getitem payload ''command_id''") (auto simp: offer_command_def raiseM_def)
  then obtain d where d: "payload = JObj d" by (auto simp: py_getitem_def split: json.splits)
  from ok show ?thesis
  proof (cases rule: is_active_cases [where owner = owner])
    case (yes c)
    with run new cmd show ?thesis by (auto simp: offer_command_def bindM_def returnM_def)
  next
    case no
    obtain i where i: "py_uuid cmd = Inr i"
      using run new cmd no(1) by (cases "py_uuid cmd") (auto simp: offer_command_def bindM_def liftM_def raiseM_def)
    obtain c where c: "get_by_id i (committed s) = Some c" "c_device_id c = dev" "c_state c = QUEUED"
      "case c_expires_at c of None \<Rightarrow> True | Some x \<Rightarrow> clock s \<le> x"
      and send: "send_ready env dev cid cmd d (open_session s) = (r, t)"
      using run new cmd no(1) i d
      by (auto simp: offer_command_def bindM_def liftM_def pre_delivery_run returnM_def split: option.splits if_splits)
    from send_ready_sent [OF send] new i obtain ty ps ex risk tr where
      "sent t = sent s @ [(cid, model_dump env (CommandRequestMessage i ty ps ex risk tr))]" by auto
    with c no(2) show ?thesis by (intro conjI exI [of _ i] exI [of _ c] exI) auto
  qed
qed

text \<open>
  C37. The gateway sends only what may run. If handling a message of the durable consumer puts a frame on a
  socket, then the owner has no active stop (with a trustworthy cache), and the frame is the one command
  request for a command that is queued for exactly this device and has not expired, sent to the connection
  that asked.
\<close>

theorem gateway_sends_only_valid:
  assumes "stop_cache_ok env s" "nats_listener_msg env dev owner cid data s = (r, t)" "sent t \<noteq> sent s"
  shows "\<not> stop_active owner (committed s) \<and> (\<exists>i c m. get_by_id i (committed s) = Some c \<and> c_device_id c = dev
    \<and> c_state c = QUEUED \<and> (case c_expires_at c of None \<Rightarrow> True | Some x \<Rightarrow> clock s \<le> x)
    \<and> sent t = sent s @ [(cid, m)] \<and> dict_get m ''type'' JNull = JStr ''command''
    \<and> dict_get m ''command_id'' JNull = JStr (uuid_str i))"
proof -
  obtain payload where p: "data = Inr payload"
    using assms(2,3) by (cases data) (auto simp: nats_listener_msg_def catchM_def raiseM_def returnM_def)
  obtain r' where "offer_command env dev owner cid payload s = (r', t)"
    using assms(2) p
    by (auto simp: nats_listener_msg_def catchM_def returnM_def split: prod.splits sum.splits)
  from offer_command_sent [OF assms(1) this assms(3)] show ?thesis .
qed

definition demo_ready :: dict where
  "demo_ready = [(''command_id'', JStr (uuid_str 5)), (''command_type'', JStr ''system.ping''), (''expires_at'', JInt 5000000)]"

lemma demo_ready_sent:
  "\<exists>m t. nats_listener_msg demo_env 2 1 77 (Ok (JObj demo_ready)) (demo_st (demo_db [demo_command 5 QUEUED])) = (Ok ACK, t)
     \<and> sent t = [(77, m)]"
proof -
  let ?s = "demo_st (demo_db [demo_command 5 QUEUED])"
  have pyd: "pyd_datetime demo_env (JInt n) = Some n" "pyd_uuid demo_env (JStr x) = uuid_parse x" "nats_ack demo_env m" for n x m
    by (simp_all add: demo_env_def)
  have o: "open_session ?s = ?s" "closed ?s = []" "sent ?s = []" by (simp_all add: demo_st_def)
  show ?thesis
    using is_active_clear [OF demo_stop_clear, of 1 "[demo_command 5 QUEUED]"]
    by (simp add: nats_listener_msg_def offer_command_def catchM_def bindM_def liftM_def py_getitem_def demo_ready_def
        py_uuid_def pre_delivery_run o get_by_id_def send_ready_def uuid4_def command_request_def pyd conn_send_json_run
        demo_nonce seqM_def publish_js_def Let_def returnM_def)
qed

theorem gateway_sends_only_valid_witness:
  "\<exists>i c t. snd (nats_listener_msg demo_env 2 1 77 (Ok (JObj demo_ready)) (demo_st (demo_db [demo_command 5 QUEUED]))) = t
     \<and> sent t \<noteq> [] \<and> get_by_id i (demo_db [demo_command 5 QUEUED]) = Some c \<and> c_state c = QUEUED"
proof -
  let ?s = "demo_st (demo_db [demo_command 5 QUEUED])"
  obtain m t where t: "nats_listener_msg demo_env 2 1 77 (Ok (JObj demo_ready)) ?s = (Ok ACK, t)" "sent t = [(77, m)]"
    using demo_ready_sent by blast
  have ok: "stop_cache_ok demo_env ?s" and ne: "sent t \<noteq> sent ?s"
    using t(2) by (simp_all add: stop_cache_ok_def demo_st_def)
  from gateway_sends_only_valid [OF ok t(1) ne] t show ?thesis by auto
qed

text \<open>
  A command without an expiry is never delivered. The message that the outbox carries for a queued command
  whose \<open>expires_at\<close> is null is refused by the gateway every time it is offered (the request model requires a
  time stamp), and nothing is sent: the command stays queued.
\<close>

lemma no_expiry_never_delivered:
  assumes "pyd_datetime env JNull = None" "stop_clear env owner s"
    "get_by_id (c_id c) (committed s) = Some c" "c_state c = QUEUED" "c_expires_at c = None"
  shows "\<exists>t. nats_listener_msg env (c_device_id c) owner cid (Ok (JObj (queued_payload c (c_device_id c)))) s = (Ok NAK, t)
    \<and> sent t = sent s \<and> committed t = committed s"
proof -
  have req: "command_request env i ty ps JNull risk tr = Err PydanticValidationError" for i ty ps risk tr
    using assms(1) by (simp add: command_request_def split: json.splits)
  show ?thesis
    using is_active_clear [OF assms(2)] assms(3-5)
    by (simp add: nats_listener_msg_def offer_command_def catchM_def bindM_def liftM_def py_getitem_def queued_payload_def
        py_uuid_def pre_delivery_run send_ready_def uuid4_def req returnM_def raiseM_def)
qed

lemma no_expiry_never_delivered_witness:
  "\<exists>t. nats_listener_msg demo_env 2 1 77 (Ok (JObj (queued_payload ((demo_command 5 QUEUED)\<lparr>c_expires_at := None\<rparr>) 2)))
      (demo_st (demo_db [(demo_command 5 QUEUED)\<lparr>c_expires_at := None\<rparr>])) = (Ok NAK, t) \<and> sent t = []"
proof -
  let ?c = "(demo_command 5 QUEUED)\<lparr>c_expires_at := None\<rparr>"
  have h: "pyd_datetime demo_env JNull = None" "get_by_id (c_id ?c) (committed (demo_st (demo_db [?c]))) = Some ?c"
    "c_state ?c = QUEUED" "c_expires_at ?c = None" "c_device_id ?c = 2" "sent (demo_st (demo_db [?c])) = []"
    by (simp_all add: get_by_id_def) (simp_all add: demo_env_def demo_st_def demo_command_def)
  from no_expiry_never_delivered [OF h(1) demo_stop_clear h(2-4), of 1 77] show ?thesis
    unfolding h(5,6) by blast
qed

section \<open>Connections that were replaced or revoked\<close>

text \<open>
  A late disconnect does not remove the newer connection. After a connection was registered for a device,
  unregistering any other connection of that device leaves the table, the Valkey record and everything
  else as they are.
\<close>

lemma old_disconnect_harmless:
  assumes "register_connection env c s = (Ok (), t)" "old \<noteq> k_connection_id c"
  shows "unregister_connection env (k_device_id c) old t = (Ok (), t)"
proof -
  let ?key = "prefix_key env (connection_key (k_device_id c))"
  obtain x where x: "(case active_connections s (k_device_id c) of None \<Rightarrow> returnM ()
      | Some c \<Rightarrow> conn_close (k_connection_id c) 4000) s = (Ok (), s\<lparr>closed := x\<rparr>)"
  proof (cases "active_connections s (k_device_id c)")
    case None
    then show thesis by (intro that [of "closed s"]) (simp add: returnM_def)
  next
    case (Some a)
    with conn_close_frame [of "k_connection_id a" 4000 s] that show thesis by auto
  qed
  have conn: "active_connections t (k_device_id c) = Some c" using register_run [OF assms(1)] by simp
  have hash: "\<not> cache_up t \<or> (\<exists>h. kv_get (clock t) ?key (cache t) = Some (VHash h)
      \<and> map_of h ''connection_id'' = Some (uuid_str (k_connection_id c)))"
    using assms(1) x
    by (auto simp: register_connection_def manager_get_def bindM_def seqM_def getM_def put_connection_def returnM_def
        valkey_set_hash_def Let_def hash_merge_def kv.get_put timedelta_seconds_def ttl_or_default_def
        split: option.splits vval.splits if_splits)
  show ?thesis
    using conn hash assms(2)
    by (auto simp: unregister_connection_def bindM_def seqM_def valkey_get_hash_def manager_get_def getM_def returnM_def)
qed

lemma old_disconnect_harmless_witness:
  "\<exists>t. register_connection demo_env (new_connection 2 1 77 78 0) (demo_st (demo_db [])) = (Ok (), t)
     \<and> unregister_connection demo_env 2 76 t = (Ok (), t)"
proof -
  let ?c = "new_connection 2 1 77 78 0"
  have k: "k_device_id ?c = 2" "k_connection_id ?c = 77" by (simp_all add: new_connection_def)
  obtain t where t: "register_connection demo_env ?c (demo_st (demo_db [])) = (Ok (), t)"
    by (simp add: register_connection_def manager_get_def bindM_def seqM_def getM_def put_connection_def returnM_def
        valkey_set_hash_def kv_get_def Let_def demo_st_def)
  with old_disconnect_harmless [OF t, of 76] show ?thesis unfolding k by auto
qed

text \<open>
  Revocation closes the connection. When the lifecycle message that \<open>revoke_device\<close> writes reaches the
  gateway, the socket of the device's connection is closed, and no further frame can be sent on it.
\<close>

lemma revocation_closes_connection:
  assumes "active_connections s dev = Some c"
    "device_lifecycle_callback env (Ok (JObj [(''device_id'', JStr (uuid_str dev)), (''state'', JStr ''revoked''),
       (''owner_id'', JStr (uuid_str owner))])) s = (r, t)"
  shows "r = Ok () \<and> k_connection_id c \<in> fst ` set (closed t)
    \<and> (\<forall>d. conn_send_json env (k_connection_id c) d t = (Ok False, t))"
proof -
  let ?id = "k_connection_id c"
  obtain u where u: "conn_close ?id 4002 s = (Ok (), u)" "?id \<in> fst ` set (closed u)"
    by (cases "?id \<in> fst ` set (closed s)") (simp_all add: conn_close_def catchM_def ws_close_def returnM_def)
  obtain r2 v where v: "unregister_connection env dev ?id u = (r2, v)" by (cases "unregister_connection env dev ?id u")
  have "closed v = closed u"
    using v
    by (auto simp: unregister_connection_def bindM_def seqM_def valkey_get_hash_def valkey_delete_hash_def valkey_delete_def
        manager_get_def getM_def put_connection_def returnM_def split: option.splits vval.splits if_splits)
  moreover have "t = v \<and> r = Ok ()"
    using assms u(1) v
    by (cases r2) (auto simp: device_lifecycle_callback_def catchM_def bindM_def liftM_def payload_get_def py_uuid_def
        close_device_connection_def manager_get_def getM_def seqM_def returnM_def)
  ultimately show ?thesis using u(2) by (simp add: conn_send_json_run)
qed

lemma revocation_closes_connection_witness:
  "\<exists>t. device_lifecycle_callback demo_env (Ok (JObj [(''device_id'', JStr (uuid_str 2)), (''state'', JStr ''revoked''),
       (''owner_id'', JStr (uuid_str 1))])) ((demo_st (demo_db []))\<lparr>active_connections := [2 \<mapsto> new_connection 2 1 77 78 0]\<rparr>) = (Ok (), t)
     \<and> 77 \<in> fst ` set (closed t)"
proof -
  let ?s = "(demo_st (demo_db []))\<lparr>active_connections := [2 \<mapsto> new_connection 2 1 77 78 0]\<rparr>"
  have a: "active_connections ?s 2 = Some (new_connection 2 1 77 78 0)" by simp
  obtain r t where t: "device_lifecycle_callback demo_env (Ok (JObj [(''device_id'', JStr (uuid_str 2)), (''state'', JStr ''revoked''),
       (''owner_id'', JStr (uuid_str 1))])) ?s = (r, t)" by fastforce
  from revocation_closes_connection [OF a t] t show ?thesis by (auto simp: new_connection_def)
qed

end
