(* ===== verification/Users.thy ===== *)
theory Users
  imports EmergencyStop
begin

text \<open>
  Users and API authentication: \<^verbatim>\<open>app/users\<close> and \<^verbatim>\<open>app/auth\<close>.

  The JWT library (python-jose) and the key server are parameters, collected in \<open>jwt_lib\<close>; the key cache of
  \<^verbatim>\<open>SupabaseAuth\<close> is the state \<open>auth_state\<close>. The dependency \<^verbatim>\<open>get_current_user_context\<close> looks the user up, or
  adds the row, in the session of the request, which is committed only after the route has returned; the services
  that the route calls open sessions of their own, which see the committed database. \<open>with_user_context\<close> keeps the
  rows that the request's session has added aside and appends them when the route has returned.
\<close>

section \<open>Tokens\<close>

record token_claims =
  tc_sub :: string
  tc_email :: string
  tc_role :: string
  tc_user_metadata :: dict
  tc_app_metadata :: dict
  tc_aud :: string
  tc_exp :: int
  tc_iat :: int
  tc_iss :: string

text \<open>The exceptions of the JWT library; an expired signature is also a \<^verbatim>\<open>JWTError\<close>, but caught first.\<close>

datatype jose_error = ExpiredSignatureError | JWTError string | OtherError exn

record jwt_lib =
  fetch_jwks :: "datetime \<Rightarrow> json res"
  get_unverified_header :: "string \<Rightarrow> jose_error + dict"
  rsa_from_jwk :: "dict \<Rightarrow> jose_error + string"
  jwt_decode :: "string \<Rightarrow> string \<Rightarrow> jose_error + dict"

record auth_state =
  jwks_cache :: "json option"
  jwks_fetched_at :: datetime

definition get_jwks :: "jwt_lib \<Rightarrow> datetime \<Rightarrow> auth_state \<Rightarrow> json res \<times> auth_state" where
  "get_jwks lib now a =
     (let fetch = (case fetch_jwks lib now of
                     Inl e \<Rightarrow> (Err e, a)
                   | Inr keys \<Rightarrow> (Ok keys, \<lparr>jwks_cache = Some keys, jwks_fetched_at = now\<rparr>))
      in case jwks_cache a of
           None \<Rightarrow> fetch
         | Some keys \<Rightarrow> if truthy keys \<and> now - jwks_fetched_at a < timedelta_seconds 3600 then (Ok keys, a) else fetch)"

text \<open>Pydantic's \<^verbatim>\<open>TokenClaims(**payload)\<close>.\<close>

definition str_field :: "dict \<Rightarrow> string \<Rightarrow> string option \<Rightarrow> string option" where
  "str_field p k dflt = (case map_of p k of None \<Rightarrow> dflt | Some (JStr x) \<Rightarrow> Some x | Some _ \<Rightarrow> None)"

definition dict_field :: "dict \<Rightarrow> string \<Rightarrow> dict option" where
  "dict_field p k = (case map_of p k of None \<Rightarrow> Some [] | Some (JObj d) \<Rightarrow> Some d | Some _ \<Rightarrow> None)"

definition int_field :: "env \<Rightarrow> dict \<Rightarrow> string \<Rightarrow> int option" where
  "int_field env p k = (case map_of p k of None \<Rightarrow> None | Some v \<Rightarrow> pyd_int env v)"

definition parse_claims :: "env \<Rightarrow> dict \<Rightarrow> token_claims res" where
  "parse_claims env p =
     (case (str_field p ''sub'' None, str_field p ''email'' None, str_field p ''role'' (Some ''authenticated''),
            dict_field p ''user_metadata'', dict_field p ''app_metadata'', str_field p ''aud'' (Some ''authenticated''),
            int_field env p ''exp'', int_field env p ''iat'', str_field p ''iss'' None) of
        (Some sub, Some email, Some role, Some um, Some am, Some aud, Some ex, Some ia, Some iss) \<Rightarrow>
          Ok \<lparr>tc_sub = sub, tc_email = email, tc_role = role, tc_user_metadata = um, tc_app_metadata = am,
              tc_aud = aud, tc_exp = ex, tc_iat = ia, tc_iss = iss\<rparr>
      | _ \<Rightarrow> Err PydanticValidationError)"

fun find_in_keys :: "jwt_lib \<Rightarrow> json list \<Rightarrow> json \<Rightarrow> jose_error + string option" where
  "find_in_keys lib [] kid = Inr None"
| "find_in_keys lib (JObj key # keys) kid =
     (if dict_get key ''kid'' JNull = kid then map_sum id Some (rsa_from_jwk lib key) else find_in_keys lib keys kid)"
| "find_in_keys lib (_ # keys) kid = Inl (OtherError (AttributeError ''get''))"

definition find_key :: "jwt_lib \<Rightarrow> json \<Rightarrow> json \<Rightarrow> jose_error + string option" where
  "find_key lib jwks kid =
     (case jwks of
        JObj d \<Rightarrow>
          (case dict_get d ''keys'' (JList []) of
             JList keys \<Rightarrow> find_in_keys lib keys kid
           | JObj m \<Rightarrow> if m = [] then Inr None else Inl (OtherError (AttributeError ''get''))
           | JStr x \<Rightarrow> if x = [] then Inr None else Inl (OtherError (AttributeError ''get''))
           | _ \<Rightarrow> Inl (OtherError (TypeError ''not iterable'')))
      | _ \<Rightarrow> Inl (OtherError (AttributeError ''get'')))"

text \<open>The \<^verbatim>\<open>except\<close> clauses of \<^verbatim>\<open>verify_token\<close>.\<close>

fun jose_caught :: "jose_error \<Rightarrow> exn" where
  "jose_caught ExpiredSignatureError = ApiError EXPIRED_TOKEN ''Token has expired'' 400"
| "jose_caught (JWTError m) = ApiError INVALID_TOKEN (''Invalid token: '' @ m) 400"
| "jose_caught (OtherError e) = e"

definition decode_token :: "env \<Rightarrow> jwt_lib \<Rightarrow> json \<Rightarrow> string \<Rightarrow> token_claims res" where
  "decode_token env lib jwks token =
     (case get_unverified_header lib token of
        Inl e \<Rightarrow> Err (jose_caught e)
      | Inr header \<Rightarrow>
          (case find_key lib jwks (dict_get header ''kid'' JNull) of
             Inl e \<Rightarrow> Err (jose_caught e)
           | Inr None \<Rightarrow> Err (ApiError INVALID_TOKEN ''Invalid token key'' 400)
           | Inr (Some key) \<Rightarrow>
               (case jwt_decode lib token key of
                  Inl e \<Rightarrow> Err (jose_caught e)
                | Inr payload \<Rightarrow> parse_claims env payload)))"

definition verify_token ::
  "env \<Rightarrow> jwt_lib \<Rightarrow> datetime \<Rightarrow> string \<Rightarrow> auth_state \<Rightarrow> token_claims res \<times> auth_state" where
  "verify_token env lib now token a =
     (case get_jwks lib now a of
        (Inl e, a') \<Rightarrow> (Err e, a')
      | (Inr jwks, a') \<Rightarrow> (decode_token env lib jwks token, a'))"

definition get_current_token :: "string option \<Rightarrow> string res" where
  "get_current_token creds =
     (case creds of
        None \<Rightarrow> Err (ApiError INVALID_TOKEN ''Missing authorization header'' 401)
      | Some token \<Rightarrow> Ok token)"

section \<open>Users\<close>

definition get_by_supabase_id :: "string \<Rightarrow> db \<Rightarrow> user option" where
  "get_by_supabase_id supabase_user_id d = row_by u_supabase_user_id supabase_user_id (users d)"

definition repo_get_user :: "uuid \<Rightarrow> db \<Rightarrow> user option" where
  "repo_get_user user_id d = row_by u_id user_id (users d)"

definition new_user :: "uuid \<Rightarrow> string \<Rightarrow> string \<Rightarrow> string \<Rightarrow> user" where
  "new_user i supabase_user_id email display_name =
     \<lparr>u_id = i, u_supabase_user_id = supabase_user_id,
      u_display_name = (if display_name = [] then hd (py_split (CHR ''@'') email) else display_name),
      u_email = email, u_status = USER_ACTIVE\<rparr>"

definition repo_create_user :: "env \<Rightarrow> string \<Rightarrow> string \<Rightarrow> string \<Rightarrow> user prog" where
  "repo_create_user env supabase_user_id email display_name =
     bindM (uuid4 env) (\<lambda>i.
       let user = new_user i supabase_user_id email display_name
       in seqM (flush (insert_user user)) (returnM user))"

text \<open>\<^verbatim>\<open>claims.user_metadata.get("full_name") or claims.email\<close>; a name that is no text is refused by the column.\<close>

definition get_or_create_user :: "env \<Rightarrow> token_claims \<Rightarrow> user prog" where
  "get_or_create_user env claims =
     with_session
       (bindM (select (get_by_supabase_id (tc_sub claims))) (\<lambda>user.
          case user of
            Some u \<Rightarrow> returnM u
          | None \<Rightarrow>
              (let full_name = dict_get (tc_user_metadata claims) ''full_name'' JNull in
               if \<not> truthy full_name then repo_create_user env (tc_sub claims) (tc_email claims) (tc_email claims)
               else (case full_name of
                       JStr x \<Rightarrow> repo_create_user env (tc_sub claims) (tc_email claims) x
                     | _ \<Rightarrow> seqM (flush (\<lambda>d. Err (DataError ''users''))) (raiseM (DataError ''users''))))))"

definition get_user :: "uuid \<Rightarrow> user option prog" where
  "get_user user_id = with_session (select (repo_get_user user_id))"

section \<open>The user of a request\<close>

record user_context =
  uc_id :: uuid
  uc_supabase_user_id :: string
  uc_email :: string
  uc_status :: string

fun user_status_value :: "user_status \<Rightarrow> string" where
  "user_status_value USER_ACTIVE = ''active''"
| "user_status_value USER_INACTIVE = ''inactive''"
| "user_status_value USER_SUSPENDED = ''suspended''"

definition context_of :: "user \<Rightarrow> user_context" where
  "context_of user = \<lparr>uc_id = u_id user, uc_supabase_user_id = u_supabase_user_id user, uc_email = u_email user,
     uc_status = user_status_value (u_status user)\<rparr>"

definition request_user :: "env \<Rightarrow> token_claims \<Rightarrow> user prog" where
  "request_user env claims =
     bindM (select (get_by_supabase_id (tc_sub claims))) (\<lambda>user.
       case user of
         Some u \<Rightarrow> returnM u
       | None \<Rightarrow> repo_create_user env (tc_sub claims) (tc_email claims) [])"

definition get_current_user_context :: "env \<Rightarrow> token_claims \<Rightarrow> user_context prog" where
  "get_current_user_context env claims =
     bindM (request_user env claims) (\<lambda>user.
       if user_status_value (u_status user) = ''suspended''
       then raiseM (ApiError FORBIDDEN ''Account suspended'' 403)
       else returnM (context_of user))"

definition get_optional_user_context :: "env \<Rightarrow> token_claims res option \<Rightarrow> user_context option prog" where
  "get_optional_user_context env creds =
     (case creds of
        None \<Rightarrow> returnM None
      | Some verified \<Rightarrow>
          catchM (bindM (liftM verified) (\<lambda>claims. bindM (request_user env claims) (\<lambda>user. returnM (Some (context_of user)))))
            (\<lambda>e. case e of ApiError _ _ _ \<Rightarrow> returnM None | _ \<Rightarrow> raiseM e))"

text \<open>
  A route under the dependency: the request's session stays open while the route runs, and commits the rows it has
  added after the route has returned; when the route raises, they are rolled back.
\<close>

definition with_user_context :: "env \<Rightarrow> token_claims res \<Rightarrow> (user_context \<Rightarrow> 'a prog) \<Rightarrow> 'a prog" where
  "with_user_context env verified route s =
     (case bindM (liftM verified) (get_current_user_context env) (open_session s) of
        (Inl e, s1) \<Rightarrow> (Err e, open_session s1)
      | (Inr ctx, s1) \<Rightarrow>
          (let pending = drop (length (users (committed s))) (users (working s1)) in
           case route ctx s1 of
             (Inl e, t) \<Rightarrow> (Err e, open_session t)
           | (Inr a, t) \<Rightarrow>
               (Ok a, open_session (t\<lparr>committed := (committed t)\<lparr>users := users (committed t) @ pending\<rparr>\<rparr>))))"

definition route_get_current_user_info :: "user_context \<Rightarrow> dict prog" where
  "route_get_current_user_info current_user =
     returnM [(''id'', JStr (uuid_str (uc_id current_user))),
       (''supabase_user_id'', JStr (uc_supabase_user_id current_user)), (''email'', JStr (uc_email current_user)),
       (''status'', JStr (uc_status current_user)), (''created_at'', JNull)]"

definition route_verify_session :: "user_context \<Rightarrow> dict prog" where
  "route_verify_session current_user =
     returnM [(''valid'', JBool True), (''user_id'', JStr (uc_supabase_user_id current_user)),
       (''email'', JStr (uc_email current_user))]"

definition route_get_profile :: "user_context \<Rightarrow> dict prog" where
  "route_get_profile current_user =
     returnM [(''id'', JStr (uuid_str (uc_id current_user))), (''email'', JStr (uc_email current_user)),
       (''status'', JStr (uc_status current_user)),
       (''supabase_user_id'', JStr (uc_supabase_user_id current_user))]"


section \<open>Tokens are checked against a key of the set\<close>

lemma find_in_keys_Some:
  "find_in_keys lib keys kid = Inr (Some k) \<Longrightarrow>
     \<exists>key. JObj key \<in> set keys \<and> dict_get key ''kid'' JNull = kid \<and> rsa_from_jwk lib key = Inr k"
  by (induction lib keys kid rule: find_in_keys.induct) (auto split: if_splits sum.splits simp: map_sum_def)

lemma find_key_Some: "find_key lib jwks kid = Inr (Some k) \<Longrightarrow> \<exists>key. rsa_from_jwk lib key = Inr k"
  by (auto simp: find_key_def split: json.splits if_splits dest: find_in_keys_Some)

text \<open>
  Claims are returned only if the library decoded the token, so checked its signature, audience, issuer and expiry,
  under a key that it read from the key set.
\<close>

lemma verify_token_sound:
  assumes "fst (verify_token env lib now token a) = Ok claims"
  shows "\<exists>key k payload. rsa_from_jwk lib key = Inr k \<and> jwt_decode lib token k = Inr payload
    \<and> parse_claims env payload = Ok claims"
  using assms
  by (auto simp: verify_token_def decode_token_def split: prod.splits sum.splits option.splits dest!: find_key_Some)

section \<open>The first request of a user\<close>

lemma new_user_context:
  assumes "get_by_supabase_id (tc_sub c) (committed s) = None" "gen_uuid env (entropy s) \<notin> u_id ` set (users (committed s))"
  defines "u \<equiv> new_user (gen_uuid env (entropy s)) (tc_sub c) (tc_email c) []"
  obtains s1 where "get_current_user_context env c (open_session s) = (Ok (context_of u), s1)"
    "committed s1 = committed s" "entropy s1 = Suc (entropy s)" "users (working s1) = users (committed s) @ [u]"
proof -
  have "insert_user u (committed s) = Ok ((committed s)\<lparr>users := users (committed s) @ [u]\<rparr>)"
    using assms(1,2) by (simp add: insert_user_def u_def new_user_def get_by_supabase_id_def)
  moreover have "u_status u = USER_ACTIVE" by (simp add: u_def new_user_def)
  ultimately show thesis
    using assms(1)
    by (intro that [of "(open_session s)\<lparr>working := (committed s)\<lparr>users := users (committed s) @ [u]\<rparr>,
        entropy := Suc (entropy s)\<rparr>"])
      (simp_all add: get_current_user_context_def request_user_def repo_create_user_def bindM_def seqM_def select_def
        uuid4_def flush_def returnM_def Let_def u_def [symmetric])
qed

lemma activate_unknown_owner:
  assumes "owner \<notin> u_id ` set (users (committed s))" "stop_row owner (committed s) = None"
    "gen_uuid env (entropy s) \<notin> es_id ` set (estops (committed s))"
  obtains t where "activate env owner reason actor s = (Err (IntegrityError ''emergency_stops_owner_id_fkey''), t)"
    "committed t = committed s"
proof -
  have ins: "insert_estop r (committed s) = Err (IntegrityError ''emergency_stops_owner_id_fkey'')"
    if "es_id r = gen_uuid env (entropy s)" "es_owner_id r = owner" for r
    using that assms by (simp add: insert_estop_def)
  show thesis
    using assms(2)
    by (intro that [of "(open_session s)\<lparr>entropy := Suc (entropy s)\<rparr>"])
      (simp_all add: activate_def with_session_def activate_tx_def bindM_def seqM_def select_def getM_def uuid4_def flush_def
        ins Let_def)
qed

text \<open>
  A new user cannot stop their devices with their first request. The row of a user that is seen for the first time
  is committed only after the route has returned, but the stop is written in a session of its own, which does not see it:
  the foreign key refuses the stop, the request fails with status 500, and the new user's row is rolled back as well, so that
  repeating the request fails again.
\<close>

lemma first_request_stop_refused:
  assumes new: "get_by_supabase_id (tc_sub c) (committed s) = None"
    and fresh: "fresh_ids env 2 (open_session s)"
    and fk: "es_owner_id ` set (estops (committed s)) \<subseteq> u_id ` set (users (committed s))"
    and req: "activate_request_valid r" "ar_confirmation r = ''ACTIVATE_EMERGENCY_STOP''"
  shows "\<exists>t. with_user_context env (Ok c) (\<lambda>ctx. route_activate env r (uc_id ctx)) s =
      (Err (IntegrityError ''emergency_stops_owner_id_fkey''), t)
    \<and> committed t = committed s \<and> error_response (IntegrityError ''emergency_stops_owner_id_fkey'') = (500, INTERNAL_ERROR)"
proof -
  let ?i = "gen_uuid env (entropy s)"
  have i: "?i \<notin> ids_of (committed s)" using fresh_ids_now [of env 1 "open_session s"] fresh by (simp add: numeral_2_eq_2)
  have j: "gen_uuid env (Suc (entropy s)) \<notin> ids_of (committed s)"
    using fresh unfolding fresh_ids_def by (auto dest!: spec [of _ 1])
  have u: "?i \<notin> u_id ` set (users (committed s))" using i by (auto simp: ids_of_def)
  obtain s1 where s1: "get_current_user_context env c (open_session s) =
      (Ok (context_of (new_user ?i (tc_sub c) (tc_email c) [])), s1)"
    "committed s1 = committed s" "entropy s1 = Suc (entropy s)"
    by (rule new_user_context [OF new u])
  have id: "uc_id (context_of (new_user ?i (tc_sub c) (tc_email c) [])) = ?i" by (simp add: context_of_def new_user_def)
  have "?i \<notin> es_owner_id ` set (estops (committed s))" using u fk by blast
  then have row: "stop_row ?i (committed s1) = None" by (simp add: stop_row_def s1(2))
  have es: "gen_uuid env (entropy s1) \<notin> es_id ` set (estops (committed s1))"
    using j by (auto simp: ids_of_def s1(2,3))
  obtain t where t: "route_activate env r ?i s1 = (Err (IntegrityError ''emergency_stops_owner_id_fkey''), t)"
    "committed t = committed s1"
    using activate_unknown_owner [of ?i s1 env _ ?i] u row es req by (auto simp: route_activate_def s1(2))
  show ?thesis
    by (intro exI [of _ "open_session t"])
      (simp add: with_user_context_def bindM_def liftM_def s1(1) id t s1(2) error_response_def Let_def)
qed

definition demo_claims :: token_claims where
  "demo_claims = \<lparr>tc_sub = ''new'', tc_email = ''a@b'', tc_role = ''authenticated'', tc_user_metadata = [],
     tc_app_metadata = [], tc_aud = ''authenticated'', tc_exp = 9, tc_iat = 1, tc_iss = ''i''\<rparr>"

definition demo_stop_request :: activate_request where
  "demo_stop_request = \<lparr>ar_reason = None, ar_confirmation = ''ACTIVATE_EMERGENCY_STOP''\<rparr>"

lemma first_request_stop_refused_witness:
  "\<exists>t. with_user_context demo_env (Ok demo_claims) (\<lambda>ctx. route_activate demo_env demo_stop_request (uc_id ctx)) (demo_st (demo_db [])) =
      (Err (IntegrityError ''emergency_stops_owner_id_fkey''), t) \<and> committed t = demo_db []"
proof -
  let ?s = "demo_st (demo_db [])"
  have new: "get_by_supabase_id (tc_sub demo_claims) (committed ?s) = None"
    by (simp add: get_by_supabase_id_def demo_claims_def) (simp add: demo_user_def)
  have fresh: "fresh_ids demo_env 2 (open_session ?s)" by (rule demo_fresh) (auto simp: ids_of_def)
  have req: "activate_request_valid demo_stop_request" "ar_confirmation demo_stop_request = ''ACTIVATE_EMERGENCY_STOP''"
    by (simp_all add: activate_request_valid_def demo_stop_request_def)
  have fk: "es_owner_id ` set (estops (committed ?s)) \<subseteq> u_id ` set (users (committed ?s))" by simp
  from first_request_stop_refused [OF new fresh fk req] show ?thesis by auto
qed

lemma suspended_value [simp]: "user_status_value x = ''suspended'' \<longleftrightarrow> x = USER_SUSPENDED"
  by (cases x) simp_all

text \<open>
  C38. A route runs only for the user of a verified token, and never for a suspended one. If a request under the dependency
  returns, the token was verified, and the route ran for the row of the token's subject, which is not suspended and is in
  the database afterwards.
\<close>

theorem request_user_sound:
  assumes "with_user_context env verified route s = (Ok a, t)" "\<And>ctx u. users (committed (snd (route ctx u))) = users (committed u)"
  shows "\<exists>c u s1 t1. verified = Ok c \<and> u_supabase_user_id u = tc_sub c \<and> u_status u \<noteq> USER_SUSPENDED
    \<and> route (context_of u) s1 = (Ok a, t1) \<and> committed s1 = committed s \<and> u \<in> set (users (committed t))"
proof -
  obtain c where c: "verified = Ok c"
    using assms(1) by (cases verified) (auto simp: with_user_context_def bindM_def liftM_def raiseM_def)
  obtain ctx s1 where ctx: "get_current_user_context env c (open_session s) = (Ok ctx, s1)"
    using assms(1) c
    by (auto simp: with_user_context_def bindM_def liftM_def split: prod.splits sum.splits)
  obtain t1 where t1: "route ctx s1 = (Ok a, t1)"
    "t = open_session (t1\<lparr>committed := (committed t1)\<lparr>users := users (committed t1)
       @ drop (length (users (committed s))) (users (working s1))\<rparr>\<rparr>)"
    using assms(1) c ctx by (auto simp: with_user_context_def bindM_def liftM_def Let_def split: prod.splits sum.splits)
  obtain u where u: "ctx = context_of u" "u_status u \<noteq> USER_SUSPENDED" "u_supabase_user_id u = tc_sub c"
    "committed s1 = committed s" "u \<in> set (users (working s1))" "\<exists>xs. users (working s1) = users (committed s) @ xs"
    using ctx
    by (auto simp: get_current_user_context_def request_user_def repo_create_user_def prog_defs Let_def insert_user_def
        get_by_supabase_id_def new_user_def split: option.splits if_splits dest!: row_by_SomeD)
  have "users (committed t1) = users (committed s)" using assms(2) [of ctx s1] t1(1) u(4) by simp
  then have "users (committed t) = users (working s1)" using t1(2) u(6) by auto
  with c t1(1) u show ?thesis by auto
qed

theorem request_user_sound_witness:
  "\<exists>d t u. with_user_context demo_env (Ok (demo_claims\<lparr>tc_sub := ''sub''\<rparr>)) route_get_current_user_info (demo_st (demo_db [])) = (Ok d, t)
     \<and> u_supabase_user_id u = ''sub'' \<and> u \<in> set (users (committed t))"
proof -
  let ?c = "demo_claims\<lparr>tc_sub := ''sub''\<rparr>" and ?s = "demo_st (demo_db [])"
  have "row_by u_supabase_user_id ''sub'' [demo_user] = Some demo_user" by (simp add: row_by_def demo_user_def)
  moreover have "u_status demo_user = USER_ACTIVE" by (simp add: demo_user_def)
  ultimately obtain d t where run: "with_user_context demo_env (Ok ?c) route_get_current_user_info ?s = (Ok d, t)"
    by (simp add: with_user_context_def bindM_def liftM_def get_current_user_context_def request_user_def select_def
        get_by_supabase_id_def returnM_def route_get_current_user_info_def Let_def)
  have keep: "users (committed (snd (route_get_current_user_info ctx u))) = users (committed u)" for ctx u
    by (simp add: route_get_current_user_info_def returnM_def)
  from request_user_sound [OF run keep] run show ?thesis by auto
qed

text \<open>
  C39. With python-jose no token is accepted. The module has no attribute \<^verbatim>\<open>algorithms\<close>, so reading a key raises
  \<open>AttributeError\<close>, which \<^verbatim>\<open>verify_token\<close> does not catch: no token is ever verified, and a token whose key is in the
  set makes the request fail with that error.
\<close>

theorem no_token_accepted:
  assumes "\<And>key. rsa_from_jwk lib key = Inl (OtherError (AttributeError ''algorithms''))"
  shows "fst (verify_token env lib now token a) \<noteq> Ok claims
    \<and> (get_jwks lib now a = (Ok (JObj [(''keys'', JList (map JObj keys))]), a') \<and> get_unverified_header lib token = Inr header
        \<and> (\<exists>key \<in> set keys. dict_get key ''kid'' JNull = dict_get header ''kid'' JNull) \<longrightarrow>
       fst (verify_token env lib now token a) = Err (AttributeError ''algorithms''))"
proof
  show "fst (verify_token env lib now token a) \<noteq> Ok claims"
    using assms
    by (auto simp: verify_token_def decode_token_def split: prod.splits sum.splits option.splits dest!: find_key_Some)
  have "\<exists>key \<in> set keys. dict_get key ''kid'' JNull = kid \<Longrightarrow>
      find_in_keys lib (map JObj keys) kid = Inl (OtherError (AttributeError ''algorithms''))" for kid
    by (induction keys) (auto simp: assms map_sum_def)
  then show "get_jwks lib now a = (Ok (JObj [(''keys'', JList (map JObj keys))]), a') \<and> get_unverified_header lib token = Inr header
        \<and> (\<exists>key \<in> set keys. dict_get key ''kid'' JNull = dict_get header ''kid'' JNull) \<longrightarrow>
       fst (verify_token env lib now token a) = Err (AttributeError ''algorithms'')"
    by (auto simp: verify_token_def decode_token_def find_key_def)
qed

theorem no_token_accepted_witness:
  "fst (verify_token demo_env \<lparr>fetch_jwks = (\<lambda>_. Ok (JObj [(''keys'', JList (map JObj [[(''kid'', JStr ''1'')]]))])),
       get_unverified_header = (\<lambda>_. Inr [(''kid'', JStr ''1'')]),
       rsa_from_jwk = (\<lambda>_. Inl (OtherError (AttributeError ''algorithms''))),
       jwt_decode = (\<lambda>_ _. Inl (JWTError ''bad''))\<rparr> 7 ''token'' \<lparr>jwks_cache = None, jwks_fetched_at = 0\<rparr>) =
     Err (AttributeError ''algorithms'')"
proof -
  let ?lib = "\<lparr>fetch_jwks = (\<lambda>_. Ok (JObj [(''keys'', JList (map JObj [[(''kid'', JStr ''1'')]]))])),
       get_unverified_header = (\<lambda>_. Inr [(''kid'', JStr ''1'')]),
       rsa_from_jwk = (\<lambda>_. Inl (OtherError (AttributeError ''algorithms''))),
       jwt_decode = (\<lambda>_ _. Inl (JWTError ''bad''))\<rparr>"
  have "rsa_from_jwk ?lib key = Inl (OtherError (AttributeError ''algorithms''))" for key by simp
  from no_token_accepted [of ?lib demo_env 7 "''token''" "\<lparr>jwks_cache = None, jwks_fetched_at = 0\<rparr>" _ "[[(''kid'', JStr ''1'')]]"
      "\<lparr>jwks_cache = Some (JObj [(''keys'', JList (map JObj [[(''kid'', JStr ''1'')]]))]), jwks_fetched_at = 7\<rparr>"
      "[(''kid'', JStr ''1'')]", OF this]
  show ?thesis by (simp add: get_jwks_def)
qed

end
