(* ===== verification/RateLimiter.thy ===== *)
theory RateLimiter
  imports Cache Scenario
begin

text \<open>
  \<^verbatim>\<open>app/security/rate_limiter.py\<close>: the middleware that counts requests per client in Valkey. A request is known by its
  path and method, the user identifier if an earlier layer has set one, the address of the peer and the
  \<^verbatim>\<open>X-Forwarded-For\<close> header; the rest of the application is an argument.
\<close>

section \<open>The middleware\<close>

record http_request =
  rq_path :: string
  rq_method :: string
  rq_user_id :: "string option"
  rq_client :: "string option"
  rq_forwarded_for :: "string option"

definition default_limit :: int where
  "default_limit = 100"

definition default_window :: int where
  "default_window = 60"

definition get_client_id :: "env \<Rightarrow> http_request \<Rightarrow> string" where
  "get_client_id env request =
     (case rq_user_id request of
        Some user_id \<Rightarrow> ''user:'' @ user_id
      | None \<Rightarrow>
          (let client_ip = (case rq_client request of Some host \<Rightarrow> host | None \<Rightarrow> ''unknown'');
               trusted = TRUSTED_PROXY_IPS (settings env)
           in if trusted \<noteq> [] \<and> client_ip \<in> set trusted then
                (case rq_forwarded_for request of
                   Some forwarded_for \<Rightarrow>
                     if forwarded_for \<noteq> []
                     then ''ip:'' @ strip_by py_isspace (hd (py_split (CHR '','') forwarded_for))
                     else ''ip:'' @ client_ip
                 | None \<Rightarrow> ''ip:'' @ client_ip)
              else ''ip:'' @ client_ip))"

definition get_rate_limit :: "env \<Rightarrow> http_request \<Rightarrow> int \<times> int" where
  "get_rate_limit env request =
     (let path = rq_path request; method = rq_method request in
      if prefix ''/v1/auth'' path then (RATE_LIMIT_AUTH_FAILURES (settings env), 300)
      else if prefix ''/v1/devices/pair'' path then (RATE_LIMIT_PAIRING (settings env), 300)
      else if prefix ''/v1/commands'' path \<and> method = ''POST'' then (RATE_LIMIT_COMMANDS (settings env), 60)
      else if prefix ''/v1/approvals'' path \<and> method \<in> {''POST'', ''PUT'', ''PATCH''}
        then (RATE_LIMIT_APPROVALS (settings env), 60)
      else if py_in ''/ws'' path then (RATE_LIMIT_WS_CONNECTIONS (settings env), 60)
      else if path = ''/health/detail'' then (RATE_LIMIT_HEALTH_DETAIL (settings env), 60)
      else (default_limit, default_window))"

text \<open>The response of the route without or with the rate-limit headers, or the response 429.\<close>

datatype 'a limited = Exempt 'a | Passed 'a int int int | TooMany int int

definition dispatch :: "env \<Rightarrow> http_request \<Rightarrow> 'a prog \<Rightarrow> 'a limited prog" where
  "dispatch env request call_next =
     (if rq_path request \<in> {''/health/live'', ''/health/ready'', ''/metrics''}
      then bindM call_next (\<lambda>response. returnM (Exempt response))
      else
        (case get_rate_limit env request of
           (limit, window) \<Rightarrow>
             bindM (rate_limit_check env (get_client_id env request) limit window) (\<lambda>(allowed, current, remaining).
               if \<not> allowed then returnM (TooMany limit window)
               else bindM call_next (\<lambda>response. returnM (Passed response limit remaining window)))))"

definition check_rate_limit :: "env \<Rightarrow> string \<Rightarrow> int \<Rightarrow> int \<Rightarrow> (bool \<times> int \<times> int) prog" where
  "check_rate_limit env key limit window = rate_limit_check env key limit window"

section \<open>A client that keeps asking\<close>

text \<open>The responses to a request that is repeated after the given pauses, by a route that changes nothing.\<close>

fun repeated :: "env \<Rightarrow> http_request \<Rightarrow> int list \<Rightarrow> st \<Rightarrow> unit limited res list" where
  "repeated env request [] s = []"
| "repeated env request (pause # pauses) s =
     (case dispatch env request (returnM ()) (s\<lparr>clock := clock s + pause\<rparr>) of
        (r, t) \<Rightarrow> r # repeated env request pauses t)"

definition limit_key :: "env \<Rightarrow> http_request \<Rightarrow> string" where
  "limit_key env request = ''ratelimit:'' @ prefix_key env (get_client_id env request)"

definition exempt :: "http_request \<Rightarrow> bool" where
  "exempt request = (rq_path request \<in> {''/health/live'', ''/health/ready'', ''/metrics''})"

definition answer_at :: "env \<Rightarrow> http_request \<Rightarrow> int \<Rightarrow> unit limited res" where
  "answer_at env request n =
     (case get_rate_limit env request of
        (limit, window) \<Rightarrow>
          if n < limit then Ok (Passed () limit (limit - n - 1) window) else Ok (TooMany limit window))"

lemma window_positive: "0 < snd (get_rate_limit env request)"
  by (simp add: get_rate_limit_def Let_def default_window_def)

lemma dispatch_counts:
  assumes "\<not> exempt request" "cache_up s" "kv_count (clock s) (limit_key env request) (cache s) = Ok n" "0 \<le> n"
  shows "dispatch env request (returnM ()) s =
    (answer_at env request n,
     s\<lparr>cache := kv_set (clock s) (limit_key env request) (VCount (n + 1)) (snd (get_rate_limit env request)) (cache s)\<rparr>)"
  using assms
  by (cases "get_rate_limit env request")
    (auto simp: dispatch_def exempt_def answer_at_def rate_limit_check_def limit_key_def bindM_def returnM_def)

lemma repeated_counts:
  assumes "\<not> exempt request" "cache_up s" "0 \<le> n"
    "\<forall>now. clock s \<le> now \<and> now < clock s + timedelta_seconds (snd (get_rate_limit env request)) \<longrightarrow>
       kv_count now (limit_key env request) (cache s) = Ok n"
    "\<forall>p \<in> set pauses. 0 \<le> p \<and> p < timedelta_seconds (snd (get_rate_limit env request))"
  shows "repeated env request pauses s = map (\<lambda>i. answer_at env request (n + int i)) [0..<length pauses]"
  using assms
proof (induction pauses arbitrary: n s)
  case Nil
  then show ?case by simp
next
  case (Cons p ps)
  let ?s = "s\<lparr>clock := clock s + p\<rparr>" and ?w = "snd (get_rate_limit env request)" and ?k = "limit_key env request"
  let ?t = "?s\<lparr>cache := kv_set (clock ?s) ?k (VCount (n + 1)) ?w (cache s)\<rparr>"
  have "kv_count (clock ?s) ?k (cache ?s) = Ok n" using Cons.prems(4,5) by simp
  then have run: "dispatch env request (returnM ()) ?s = (answer_at env request n, ?t)"
    using dispatch_counts [of request ?s env n] Cons.prems(1-3) by simp
  have "\<forall>now. clock ?t \<le> now \<and> now < clock ?t + timedelta_seconds ?w \<longrightarrow> kv_count now ?k (cache ?t) = Ok (n + 1)"
    by (simp add: kv_count_def kv.get_put)
  then have "repeated env request ps ?t = map (\<lambda>i. answer_at env request (n + 1 + int i)) [0..<length ps]"
    using Cons.prems by (intro Cons.IH) simp_all
  moreover have "map (\<lambda>i. answer_at env request (n + int i)) [0..<length (p # ps)] =
      answer_at env request n # map (\<lambda>i. answer_at env request (n + 1 + int i)) [0..<length ps]"
    by (simp add: upt_conv_Cons map_Suc_upt [symmetric] add.commute add.left_commute del: upt_Suc map_Suc_upt)
  ultimately show ?case using run by simp
qed

text \<open>
  C40. The exact behaviour of the limiter for a client that was not counted before and whose pauses are all shorter than the
  window: the first \<open>limit\<close> requests pass, with the number of requests left, and every later one is answered with
  429. As each request, refused ones included, starts the window anew, the client stays locked out for as long as it
  keeps asking, however long that is.
\<close>

theorem rate_limit_exact:
  assumes "\<not> exempt request" "cache_up s" "kv_get (clock s) (limit_key env request) (cache s) = None"
    "\<forall>p \<in> set pauses. 0 \<le> p \<and> p < timedelta_seconds (snd (get_rate_limit env request))"
  shows "repeated env request pauses s = map (\<lambda>i. answer_at env request (int i)) [0..<length pauses]"
proof -
  have "kv_count now (limit_key env request) (cache s) = Ok 0" if "clock s \<le> now" for now
    using kv.get_expires [OF that assms(3)] by (simp add: kv_count_def)
  with repeated_counts [OF assms(1,2) _ _ assms(4), of 0] show ?thesis by simp
qed

theorem rate_limit_exact_witness:
  "repeated demo_env \<lparr>rq_path = ''/v1/devices/pair'', rq_method = ''POST'', rq_user_id = None, rq_client = Some ''10.0.0.1'',
      rq_forwarded_for = None\<rparr> [0, 1000000, 2000000, 299000000] (demo_st (demo_db [])) =
     [Ok (Passed () 3 2 300), Ok (Passed () 3 1 300), Ok (Passed () 3 0 300), Ok (TooMany 3 300)]"
proof -
  let ?r = "\<lparr>rq_path = ''/v1/devices/pair'', rq_method = ''POST'', rq_user_id = None, rq_client = Some ''10.0.0.1'',
      rq_forwarded_for = None\<rparr>" and ?s = "demo_st (demo_db [])"
  have lim: "get_rate_limit demo_env ?r = (3, 300)"
    by (simp add: get_rate_limit_def demo_env_def default_settings_def)
  have "repeated demo_env ?r [0, 1000000, 2000000, 299000000] ?s =
      map (\<lambda>i. answer_at demo_env ?r (int i)) [0..<length [0::int, 1000000, 2000000, 299000000]]"
    by (rule rate_limit_exact) (simp_all add: exempt_def kv_get_def lim timedelta_seconds_def)
  then show ?thesis by (simp add: answer_at_def lim upt_rec)
qed

end
