(* ===== verification/Notifications.thy ===== *)
theory Notifications
  imports AuditLog
begin

text \<open>
  \<^verbatim>\<open>app/notifications\<close>: notification records, their delivery status, and the list of a user's notifications.
\<close>

section \<open>Service\<close>

definition create_notification ::
  "env \<Rightarrow> uuid \<Rightarrow> string \<Rightarrow> string \<Rightarrow> dict option \<Rightarrow> notification_record prog" where
  "create_notification env user_id notification_type channel payload =
     bindM (uuid4 env) (\<lambda>i.
     bindM (getM clock) (\<lambda>now.
       let record = \<lparr>n_id = i, n_user_id = user_id, n_notification_type = notification_type, n_channel = channel,
             n_status = ''pending'', n_payload = (case payload of None \<Rightarrow> [] | Some p \<Rightarrow> p), n_error_message = None,
             n_created_at = now, n_delivered_at = None\<rparr>
       in seqM (flush (insert_notification record)) (returnM record)))"

definition update_notification ::
  "uuid \<Rightarrow> (notification_record \<Rightarrow> notification_record) \<Rightarrow> bool prog" where
  "update_notification notification_id f =
     bindM (select (\<lambda>d. notification_id \<in> n_id ` set (notifications d))) (\<lambda>found.
     seqM (flush (\<lambda>d. Ok (d\<lparr>notifications := update_by n_id notification_id f (notifications d)\<rparr>)))
     (returnM found))"

definition mark_notification_delivered :: "uuid \<Rightarrow> bool prog" where
  "mark_notification_delivered notification_id =
     bindM (getM clock) (\<lambda>now.
     update_notification notification_id (\<lambda>n. n\<lparr>n_status := ''delivered'', n_delivered_at := Some now\<rparr>))"

definition mark_notification_failed :: "uuid \<Rightarrow> string \<Rightarrow> bool prog" where
  "mark_notification_failed notification_id error =
     update_notification notification_id (\<lambda>n. n\<lparr>n_status := ''failed'', n_error_message := Some (take 500 error)\<rparr>)"

text \<open>The page is taken from the rows of the wanted type, the total counts the rows of every type.\<close>

definition list_for_user ::
  "uuid \<Rightarrow> string option \<Rightarrow> nat \<Rightarrow> nat \<Rightarrow> (notification_record list \<times> nat) prog" where
  "list_for_user user_id notification_type page page_size =
     select (\<lambda>d.
       let mine = filter (\<lambda>n. n_user_id n = user_id) (notifications d);
           rows = (case notification_type of
                     None \<Rightarrow> mine
                   | Some ty \<Rightarrow> if ty = [] then mine else filter (\<lambda>n. n_notification_type n = ty) mine)
       in (paginate page page_size (newest_first n_created_at rows), length mine))"

definition route_list_notifications ::
  "string option \<Rightarrow> nat \<Rightarrow> nat \<Rightarrow> uuid \<Rightarrow> (notification_record list \<times> nat \<times> bool \<times> bool) prog" where
  "route_list_notifications notification_type page page_size user_id =
     (if page < 1 \<or> page_size < 1 \<or> 100 < page_size then raiseM PydanticValidationError
      else
        with_session
          (bindM (list_for_user user_id notification_type page page_size) (\<lambda>(rows, n_total).
             returnM (rows, n_total, has_next page page_size n_total, has_prev page))))"

section \<open>Facts\<close>

lemma notification_marked:
  assumes "\<not> failed s" "row_by n_id i (notifications (working s)) = Some n"
  shows "mark_notification_delivered i s =
    (Ok True, s\<lparr>working := (working s)\<lparr>notifications := update_by n_id i
        (\<lambda>n. n\<lparr>n_status := ''delivered'', n_delivered_at := Some (clock s)\<rparr>) (notifications (working s))\<rparr>\<rparr>)"
  using assms row_by_SomeK [OF assms(2)]
  by (simp add: mark_notification_delivered_def update_notification_def prog_simps)

text \<open>
  With a type filter the pages and the total disagree: one notification of another type is enough for
  \<^verbatim>\<open>has_next\<close> to promise a page that is empty.
\<close>

lemma notifications_total_unfiltered:
  assumes "notifications (committed s) = [n1, n2]" "n_user_id n1 = u" "n_user_id n2 = u"
    "n_notification_type n1 = ''a''" "n_notification_type n2 = ''b''"
  shows "fst (route_list_notifications (Some ''a'') 1 1 u s) = Ok ([n1], 2, True, False)"
    and "fst (route_list_notifications (Some ''a'') 2 1 u s) = Ok ([], 2, False, True)"
  using assms
  by (simp_all add: route_list_notifications_def with_session_def list_for_user_def bindM_def select_def returnM_def
      paginate_def newest_first_def has_next_def has_prev_def)

end
