(* ===== verification/Handlers.thy ===== *)
theory Handlers
  imports Lifecycle Delivery Scheduler Connections Users RateLimiter Notifications
begin

text \<open>
  What every handler of the system guarantees, for a relation on states that is left open. The locale
  \<open>call_relation\<close> says what a relation has to allow for the calls outside the database (the bus, the sockets, the
  cache); \<open>transactions\<close> adds the changes inside a session; \<open>handlers\<close> adds the relation around whole sessions, and
  shows for each route, worker and gateway handler that the state it leaves is so related to the one it found.
  The theories \<open>History\<close> and \<open>StopSafety\<close> interpret them: for relations between databases, and for the
  relation that an active emergency stop holds.
\<close>

section \<open>Calls outside the session\<close>

text \<open>
  The names of the cache that hold emergency stops. A relation may care about these entries, and then every write to
  another name is harmless, as are deletions and the entries that the stop service writes itself.
\<close>

definition stop_name :: "string \<Rightarrow> bool" where
  "stop_name k = (take 15 k = ''emergency_stop:'')"

lemma not_stop_name [simp]:
  "\<not> stop_name (connection_key i)" "\<not> stop_name (presence_key i)" "\<not> stop_name (challenge_key n)"
  by (simp_all add: stop_name_def connection_key_def presence_key_def challenge_key_def)

lemma stop_key_name: "k = stop_key owner \<Longrightarrow> stop_name k"
  by (simp add: stop_name_def stop_key_def)

locale call_relation = session_relation R for R +
  fixes env :: env
  assumes R_quiet: "committed t = committed s \<Longrightarrow> working t = working s \<Longrightarrow> failed t = failed s \<Longrightarrow> cache t = cache s \<Longrightarrow> R s t"
    and R_del: "R s (s\<lparr>cache := kv_del k (cache s)\<rparr>)"
    and R_put: "\<not> stop_name k \<Longrightarrow> R s (s\<lparr>cache := kv_set n (prefix_key env k) v ttl (cache s)\<rparr>)"
    and R_limit: "R s (s\<lparr>cache := kv_set n (''ratelimit:'' @ prefix_key env k) v ttl (cache s)\<rparr>)"
    and R_stop: "R s (s\<lparr>cache := kv_set n (prefix_key env (stop_key owner)) (VJson (stop_entry r)) ttl (cache s)\<rparr>)"
begin

lemma guar_cache:
  "guar R (valkey_get env k)" "\<not> stop_name k \<Longrightarrow> guar R (valkey_set env k v ttl)" "guar R (valkey_delete env k)"
  "guar R (valkey_getdel env k)" "\<not> stop_name k \<Longrightarrow> guar R (valkey_set_hash env k h ttl)" "guar R (valkey_get_hash env k)"
  "guar R (valkey_delete_hash env k)" "guar R (rate_limit_check env k limit window)"
  "guar R (valkey_set env (stop_key owner) (stop_entry r) ttl)"
  unfolding guar_def
  by (auto simp: rate_limit_check_def Let_def valkey_get_def valkey_set_def valkey_delete_def valkey_getdel_def valkey_set_hash_def
      valkey_get_hash_def valkey_delete_hash_def split: option.splits vval.splits sum.splits
      intro!: R_refl R_del R_put R_limit [simplified] R_stop)

lemma guar_bus: "guar R (publish_js env subj p i h)" "guar R (nats_publish env subj p)"
  by (auto simp: guar_def publish_js_def nats_publish_def Let_def intro!: R_quiet)

lemma guar_socket:
  "guar R (ws_send env k d)" "guar R (ws_close k code)" "guar R (put_connection i c)" "guar R (sleepM n)"
  by (auto simp: guar_def ws_send_def ws_close_def put_connection_def sleepM_def intro!: R_quiet)

lemma guar_stop_check: "guar R (is_active env owner)"
  unfolding is_active_def is_active_db_def
  by (auto intro!: guar_rules guar_cache split: option.split json.split)

lemma guar_log: "guar R (std_log env l)"
  by (simp add: std_log_def guar_prims)

lemma guar_conn: "guar R (conn_send_json env k d)" "guar R (conn_close k code)" "guar R (manager_get i)"
  unfolding conn_send_json_def conn_close_def manager_get_def
  by (intro guar_rules guar_socket)+

lemma guar_unregister: "guar R (unregister_connection env i k)"
  unfolding unregister_connection_def
  by (auto intro!: guar_rules guar_cache guar_conn guar_socket split: option.split)

end

section \<open>Inside a session\<close>

text \<open>
  What the code does to rows: inserts and updates that the schema accepts, where an update keeps the key columns of its
  rows, and transitions. The stop rows that are written here are active ones, the new approvals pending ones; a command
  enters the queue, and an approval is decided, only in the services that \<open>handlers\<close> names.
\<close>

locale transactions = tx: call_relation T env for T env +
  assumes T_commit: "guar T commit"
    and T_transition: "new \<noteq> QUEUED \<Longrightarrow> guar T (transition_command env cid new src md)"
    and T_outbox: "guar T (flush (insert_outbox o1))"
    and T_audit: "guar T (flush (insert_audit a1))"
    and T_estop: "es_active r1 \<Longrightarrow> guar T (flush (insert_estop r1))"
    and T_approval: "a_status p1 = APPROVAL_PENDING \<Longrightarrow> guar T (flush (insert_approval p1))"
    and T_pairing: "p_owner_id q1 = None \<Longrightarrow> guar T (flush (insert_pairing q1))"
    and T_device: "guar T (flush (insert_device v1))"
    and T_credential: "guar T (flush (insert_credential w1))"
    and T_set_estop: "(\<And>r. es_id (f r) = es_id r \<and> es_owner_id (f r) = es_owner_id r \<and> es_active (f r)) \<Longrightarrow>
      guar T (flush (update_estop u f))"
    and T_set_pairing: "(\<And>p. p_id (g p) = p_id p) \<Longrightarrow> guar T (flush (update_pairing i g))"
    and T_set_task: "(\<And>t. t_id (h t) = t_id t \<and> t_command_id (h t) = t_command_id t) \<Longrightarrow> guar T (flush (update_task i h))"
    and T_set_outbox: "(\<And>e. o_id (n e) = o_id e) \<Longrightarrow> guar T (flush (\<lambda>d. Ok (update_outbox i n d)))"
    and T_expire_approvals: "guar T (flush (\<lambda>d. Ok (d\<lparr>approvals := expire_rows now (approvals d)\<rparr>)))"
    and T_pairings: "(\<And>p. p_id (g p) = p_id p \<and> p_owner_id (g p) = p_owner_id p) \<Longrightarrow>
      guar T (flush (\<lambda>d. Ok (d\<lparr>pairings := map g (pairings d)\<rparr>)))"
    and T_set_device: "(\<And>v. d_id (l v) = d_id v \<and> d_owner_id (l v) = d_owner_id v \<and> d_device_type (l v) = d_device_type v) \<Longrightarrow>
      guar T (flush (\<lambda>d. Ok (d\<lparr>devices := update_by d_id i l (devices d)\<rparr>)))"
    and T_revoke: "(\<And>v. d_id (l v) = d_id v \<and> d_owner_id (l v) = d_owner_id v \<and> d_device_type (l v) = d_device_type v) \<Longrightarrow>
      guar T (flush (\<lambda>d. Ok (d\<lparr>devices := update_by d_id i l (devices d),
        credentials := revoke_credentials now i (credentials d)\<rparr>)))"
begin

lemma T_refused: "guar T (flush (\<lambda>d. Err e1))"
  by (rule tx.guar_flush) simp

lemmas tx_calls = tx.guar_rules tx.guar_forM tx.guar_cache tx.guar_bus tx.guar_conn tx.guar_socket tx.guar_stop_check
  tx.guar_log T_commit T_transition

lemmas tx_rows = T_outbox T_audit T_estop T_approval T_pairing T_device T_credential T_set_estop T_set_pairing T_set_task
  T_set_outbox T_expire_approvals T_pairings T_set_device T_revoke T_refused

lemma tx_outbox:
  "guar T (add_event env a b c d e)" "guar T (get_unpublished n)"
  "guar T (mark_published i)" "guar T (mark_failed i err)" "guar T (increment_attempt i err)"
  unfolding add_event_def get_unpublished_def mark_published_def mark_failed_def increment_attempt_def
  by (auto intro!: tx_calls tx_rows simp: Let_def)

lemma tx_audit: "guar T (create_audit_log env a b c d e f g h)"
  unfolding create_audit_log_def repo_create_audit_log_def by (auto intro!: tx_calls tx_rows simp: Let_def)


lemma tx_commands:
  "guar T (add_queued_event env c i)" "guar T (repo_create_approval env cid owner r t de mins)"
  "guar T (submit_for_approval env c owner)"
  unfolding add_queued_event_def submit_for_approval_def repo_create_approval_def Let_def
  by (intro tx_calls tx_outbox tx_rows; simp add: new_approval_def)+

lemma tx_refusal: "guar T (false_on_refusal e)" "guar T (invalid_state e)"
  unfolding false_on_refusal_def invalid_state_def by (auto intro!: tx_calls split: exn.split)

lemma tx_block: "guar T (block_commands env owner)"
  unfolding block_commands_def block_command_def by (auto intro!: tx_calls)

lemma tx_stop_event: "guar T (add_activated_event env owner r)"
  unfolding add_activated_event_def by (intro tx_calls tx_outbox)

lemma tx_publish_event: "guar T (publish_event env e)"
  unfolding publish_event_def stop_gate_def command_by_text_def refuse_event_def deliver_event_def publish_failed_def
  by (auto intro!: tx_calls tx_outbox split: option.split)

lemma tx_expire_command: "guar T (expire_command env cid)"
  unfolding expire_command_def expire_task_def
  by (auto intro!: tx_calls tx_rows split: option.split exn.split)

lemma tx_expiry: "guar T (expiry_tx env)"
proof -
  have "guar T (expire_each env ids)" for ids
    by (induction ids) (auto intro!: tx_calls tx_expire_command)
  then show ?thesis
    unfolding expiry_tx_def expire_stale_pairings_def expire_approvals_def repo_expire_pending_approvals_def
      expire_commands_def log_count_def
    by (auto intro!: tx_calls tx_rows)
qed

lemma tx_update_task: "guar T (update_task_of cid ts a b c)"
  unfolding update_task_of_def by (auto intro!: tx_calls tx_rows split: option.split)

lemma tx_or_refused: "guar T m \<Longrightarrow> guar T (or_refused m)"
  unfolding or_refused_def by (auto intro!: tx_calls split: exn.split)

end

section \<open>Whole handlers\<close>

text \<open>
  \<open>S\<close> relates the states around a session. The three services whose effect depends on the emergency stop or ends it
  are named: submitting a command, deciding an approval, and releasing a stop, where \<open>may_release\<close> says for whom.
\<close>

locale handlers = transactions T env + step: call_relation S env for T S env +
  fixes may_release :: "uuid \<Rightarrow> bool"
  assumes S_rollback: "T (open_session s) t \<Longrightarrow> S s (open_session t)"
    and S_commit: "T (open_session s) t \<Longrightarrow> \<not> failed t \<Longrightarrow> S s (t\<lparr>committed := working t\<rparr>)"
    and S_create: "guar S (create_command env request owner)"
    and S_decide: "guar S (decide_approval env i owner decision nonce note)"
    and S_approve: "guar S (approve_command env cid)"
    and S_release: "may_release owner \<Longrightarrow> guar S (release env owner actor)"
begin

lemma S_session: "guar T m \<Longrightarrow> guar S (with_session m)"
  unfolding guar_def [of S]
proof
  fix s assume "guar T m"
  then have "T (open_session s) (snd (m (open_session s)))" by (rule guarD)
  then show "S s (snd (with_session m s))"
    by (cases "m (open_session s)") (auto simp: with_session_def split: sum.split intro: S_rollback S_commit)
qed

lemmas step_calls = step.guar_rules step.guar_forM step.guar_cache step.guar_bus step.guar_conn step.guar_socket
  step.guar_stop_check step.guar_log step.guar_unregister S_session

lemma step_command_service:
  "guar S (get_command cid)" "guar S (cancel_command env cid owner)" "guar S (reject_command env cid)"
  "guar S (update_task_state tid ts rs ec em)"
  unfolding get_command_def cancel_command_def reject_command_def update_task_state_def
  by (auto intro!: S_session tx_calls tx_refusal tx_rows split: option.split)

lemma step_approvals:
  "guar S (create_approval env cid owner ti de mins)" "guar S (get_approval i)"
  "guar S expire_pending_approvals"
  unfolding create_approval_def get_approval_def expire_pending_approvals_def repo_expire_pending_approvals_def
  by (auto intro!: S_session tx_calls tx_commands tx_rows simp: Let_def split: option.split)

lemma step_stop: "guar S (activate env owner reason actor)"
  unfolding activate_def activate_tx_def close_activation_def Let_def
  by (auto intro!: step_calls tx_calls tx_rows tx_audit tx_outbox tx_block tx_stop_event split: option.split)

lemma step_devices:
  "guar S (start_pairing env request)" "guar S (confirm_pairing env i owner code)"
  "guar S (revoke_device env i owner)"
  unfolding start_pairing_def confirm_pairing_def confirm_tx_def confirm_success_def revoke_device_def revoke_tx_def
    repo_revoke_device_def Let_def
  by (auto intro!: S_session tx_calls tx_rows tx_audit tx_outbox simp: new_pairing_def confirmed_def split: option.split)


lemma step_batch: "guar S (process_batch env)"
proof -
  have "guar T (publish_events env es)" for es
    by (induction es) (auto intro!: tx_calls tx_publish_event)
  then show ?thesis
    unfolding process_batch_def by (auto intro!: S_session tx_calls tx_outbox)
qed

lemma step_scheduler: "guar S (run_tasks env)"
proof -
  have "guar S (stale_ids env ids)" for ids
    by (induction ids) (auto intro!: step_calls simp: is_stale_def)
  then show ?thesis
    unfolding run_tasks_def detect_stale_device_presence_def log_count_def set_last_seen_def
    by (auto intro!: step_calls tx_expiry tx_calls tx_rows)
qed

lemma step_rounds: "guar S body \<Longrightarrow> guar S (worker_rounds env n body k)"
  by (induction k) (auto intro!: step_calls simp: worker_round_def)

lemma step_lifecycle:
  assumes "\<And>cid key. guar T (body cid key)"
  shows "guar S (lifecycle_handler tag payload body)"
  unfolding lifecycle_handler_def lifecycle_session_def is_duplicate_def Let_def
  by (auto intro!: step_calls tx_calls tx_or_refused assms split: option.split list.split)

lemma step_handlers:
  "guar S (handle_delivered env p)" "guar S (handle_acknowledged env p)"
  "guar S (handle_progress env p)" "guar S (handle_result env p)"
  unfolding handle_delivered_def handle_acknowledged_def handle_progress_def handle_result_def
  by (auto intro!: step_calls step_lifecycle tx_calls tx_update_task tx_or_refused split: option.split)

lemma step_message: "guar S (process_message env subject data)"
proof -
  have "guar S (h env p)" if "route_handler subject = Some h" for h p
    using that by (auto simp: route_handler_def HANDLERS_def step_handlers split: if_splits)
  then show ?thesis
    unfolding process_message_def by (auto intro!: step_calls split: option.split)
qed

section \<open>Gateway\<close>

lemma step_register: "guar S (register_connection env c)"
  unfolding register_connection_def Let_def by (auto intro!: step_calls split: option.split)

lemma step_refuse: "guar S (refuse_auth env k code msg)" "guar T (refuse_auth env k code msg)"
  unfolding refuse_auth_def send_error_def by (intro step_calls tx_calls)+

lemma step_challenge:
  "guar S (generate_challenge env)" "guar S (verify_device_challenge_response env i k nonce st sg pk pv av)"
proof -
  show "guar S (generate_challenge env)"
    unfolding guar_def generate_challenge_def Let_def
    by (rule allI, rule step.R_trans [OF step.R_entropy], rule guarD) (auto intro!: step_calls)
  show "guar S (verify_device_challenge_response env i k nonce st sg pk pv av)"
    unfolding verify_device_challenge_response_def consume_challenge_def Let_def by (auto intro!: step_calls)
qed

lemma step_authenticate: "guar S (authenticate env k t pv av ev)"
  unfolding authenticate_def await_answer_def answer_challenge_def load_trusted_def welcome_device_def Let_def
  by (auto intro!: step_calls step_challenge step_refuse step_register tx_calls
      split: auth_event.split sum.split json.split option.split prod.split)

lemma step_listener: "guar S (nats_listener_msg env dev owner k data)"
  unfolding nats_listener_msg_def offer_command_def send_ready_def pre_delivery_check_def
  by (auto intro!: step_calls tx_calls split: option.split json.split)

lemma step_frame: "guar S (handle_device_message env dev data)"
proof -
  have owned: "guar S (if_owned cid dev m)" if "guar S m" for cid m
    using that unfolding if_owned_def command_belongs_to_device_def
    by (auto intro!: step_calls tx_calls split: option.split)
  have "guar S (dispatch_message env dev m)" for m
    by (cases m) (auto intro!: owned step_calls simp: record_heartbeat_def split: option.split)
  moreover have "guar S (record_violation dev)"
    unfolding record_violation_def Let_def by (auto intro!: step_calls split: option.split)
  ultimately show ?thesis
    unfolding handle_device_message_def by (auto intro!: step_calls split: exn.split)
qed

lemma step_serve: "guar S (serve_events env dev owner k evs)"
  by (induction evs rule: serve_events.induct [of "\<lambda>_ dev owner k. P env dev owner k" for P])
    (auto intro!: step_calls step_frame step_listener split: sum.split)

lemma step_endpoint: "guar S (websocket_endpoint env pv av auth evs)"
  unfolding websocket_endpoint_def
  by (auto intro!: step_calls step_authenticate step_serve split: sum.split option.split)

lemma step_callbacks:
  "guar S (security_callback env subject data)" "guar S (device_lifecycle_callback env data)"
  unfolding security_callback_def broadcast_emergency_stop_def broadcast_to_def device_lifecycle_callback_def
    close_device_connection_def Let_def
  by (auto intro!: step_calls tx_calls split: option.split)


section \<open>Routes\<close>

lemma step_command_routes:
  "guar S (route_create_command env request user)" "guar S (route_get_command cid user)"
  "guar S (route_list_commands cf cs page len user)" "guar S (route_cancel_command env cid user)"
  "guar S (route_get_command_events cid user)" "guar S (route_get_task cid user)"
  unfolding route_create_command_def route_get_command_def route_list_commands_def route_cancel_command_def
    route_get_command_events_def route_get_task_def list_commands_def repo_list_commands_def get_state_events_def
    get_task_by_command_def
  by (auto intro!: step_calls S_create step_command_service tx_calls split: option.split prod.split)

lemma step_approval_routes:
  "guar S (route_approve env i body user)" "guar S (route_reject env i body user)"
  "guar S (route_get_approval i user)" "guar S (route_list_approvals status risk page len user)"
  unfolding route_approve_def route_reject_def route_decide_def route_get_approval_def route_list_approvals_def
    list_approvals_def repo_list_approvals_def
  by (auto intro!: step_calls S_decide step_approvals tx_calls split: option.split prod.split)

lemma step_stop_routes:
  "guar S (route_activate env request user)" "may_release user \<Longrightarrow> guar S (route_release env user)"
  "guar S (route_get_status user)"
  unfolding route_activate_def route_release_def route_get_status_def get_status_def
  by (auto intro!: step_calls step_stop S_release tx_calls split: option.split)

lemma step_device_routes:
  "guar S (route_start_pairing env request)" "guar S (route_confirm_pairing env i code user)"
  "guar S (route_list_devices user)" "guar S (route_get_device i user)"
  "guar S (route_revoke_device env i user)"
  unfolding route_start_pairing_def route_confirm_pairing_def route_list_devices_def route_get_device_def
    route_revoke_device_def list_devices_def
  by (auto intro!: step_calls step_devices tx_calls split: option.split)

lemma step_log_routes:
  "guar S (route_list_audit_logs f page len user)" "guar S (route_list_notifications ty page len user)"
  unfolding route_list_audit_logs_def query_audit_logs_def route_list_notifications_def list_for_user_def
  by (auto intro!: step_calls tx_calls split: prod.split)

lemma step_limited: "guar S m \<Longrightarrow> guar S (dispatch env request m)"
  unfolding dispatch_def by (auto intro!: step_calls split: prod.split)

end

end
