(* ===== verification/History.thy ===== *)
theory History
  imports Handlers
begin

text \<open>
  How the database may change in a step of the system. The locale \<open>row_history\<close> takes a preorder between databases that
  allows what the code does to rows: the inserts and updates that the schema accepts, a transition of the machine, a new
  command with its task and first event. It is a sublocale of \<open>handlers\<close>: every handler leaves a database that is so
  related to the one it found. \<open>user_history\<close> adds the user of a request; \<open>command_history\<close>, from
  which both follow, is the case of a relation on commands and events only. They are interpreted in the theories
  \<open>Schema\<close> and \<open>System\<close>.
\<close>

section \<open>How the database may evolve\<close>

text \<open>
  \<open>db_step D\<close> relates the states around a whole handler: the committed databases are \<open>D\<close>-related.
  The locale collects what \<open>D\<close> has to allow for every handler of the system to be a \<open>D\<close>-step: the inserts and
  updates that the schema accepts, where an update keeps the key columns of its rows, a successful transition of a command,
  and a new command with its task and first event.
\<close>

definition db_step :: "(db \<Rightarrow> db \<Rightarrow> bool) \<Rightarrow> st \<Rightarrow> st \<Rightarrow> bool" where
  "db_step D s t = D (committed s) (committed t)"

text \<open>
  What the service makes sure of beyond the schema: a command is of a registered type, its parameters satisfy the
  type's parameter schema, its risk is the registered one, and it needs approval when the registry says so; a command
  that needs approval is not put in the queue straight from validation.
\<close>

definition well_typed :: "env \<Rightarrow> command \<Rightarrow> bool" where
  "well_typed env c =
     (case registry_get command_registry (c_command_type c) of
        None \<Rightarrow> False
      | Some defn \<Rightarrow> params_ok env (cd_parameter_schema defn) (c_parameters c) \<and> c_risk_level c = cd_risk_level defn
          \<and> (cd_requires_approval defn \<longrightarrow> c_requires_approval c))"

definition skips_approval :: "command \<Rightarrow> command_state \<Rightarrow> bool" where
  "skips_approval c new = (c_requires_approval c \<and> c_state c = VALIDATED \<and> new = QUEUED)"

locale row_history = db_preorder D for D +
  fixes env :: env
  assumes D_outbox: "insert_outbox o1 d = Inr d' \<Longrightarrow> D d d'"
    and D_audit: "insert_audit a1 d = Inr d' \<Longrightarrow> D d d'"
    and D_estop: "insert_estop r1 d = Inr d' \<Longrightarrow> D d d'"
    and D_approval: "insert_approval p1 d = Inr d' \<Longrightarrow> D d d'"
    and D_pairing: "insert_pairing q1 d = Inr d' \<Longrightarrow> p_owner_id q1 = None \<Longrightarrow> D d d'"
    and D_device: "insert_device v1 d = Inr d' \<Longrightarrow> D d d'"
    and D_credential: "insert_credential w1 d = Inr d' \<Longrightarrow> D d d'"
    and D_set_estop: "(\<And>r. es_id (f r) = es_id r \<and> es_owner_id (f r) = es_owner_id r) \<Longrightarrow>
      update_estop u f d = Inr d' \<Longrightarrow> D d d'"
    and D_set_pairing: "(\<And>p. p_id (g p) = p_id p) \<Longrightarrow> update_pairing i g d = Inr d' \<Longrightarrow> D d d'"
    and D_set_task: "(\<And>t. t_id (h t) = t_id t \<and> t_command_id (h t) = t_command_id t) \<Longrightarrow>
      update_task i h d = Inr d' \<Longrightarrow> D d d'"
    and D_approvals: "(\<And>a. a_id (k a) = a_id a \<and> a_command_id (k a) = a_command_id a \<and> a_owner_id (k a) = a_owner_id a) \<Longrightarrow>
      D d (d\<lparr>approvals := map k (approvals d)\<rparr>)"
    and D_pairings: "(\<And>p. p_id (g p) = p_id p \<and> p_owner_id (g p) = p_owner_id p) \<Longrightarrow>
      D d (d\<lparr>pairings := map g (pairings d)\<rparr>)"
    and D_devices: "(\<And>v. d_id (l v) = d_id v \<and> d_owner_id (l v) = d_owner_id v \<and> d_device_type (l v) = d_device_type v) \<Longrightarrow>
      D d (d\<lparr>devices := map l (devices d)\<rparr>)"
    and D_credentials: "(\<And>c. dc_id (m c) = dc_id c \<and> dc_device_id (m c) = dc_device_id c) \<Longrightarrow>
      D d (d\<lparr>credentials := map m (credentials d)\<rparr>)"
    and D_outboxes: "(\<And>e. o_id (n e) = o_id e) \<Longrightarrow> D d (d\<lparr>outbox := map n (outbox d)\<rparr>)"
    and D_move: "row_by c_id cid (commands d) = Some c \<Longrightarrow> effective (c_state c) new \<Longrightarrow> eid \<notin> e_id ` set (events d) \<Longrightarrow>
      stamp_fits now new md c \<Longrightarrow> \<not> skips_approval c new \<Longrightarrow> D d (after_transition eid now cid (c_state c) new src md d)"
    and D_new: "insert_command c d = Inr d1 \<Longrightarrow> insert_task t d1 = Inr d2 \<Longrightarrow>
      insert_event (received_event ei now (c_id c)) d2 = Inr d3 \<Longrightarrow> c_state c = RECEIVED \<Longrightarrow> texts_fit c \<Longrightarrow>
      well_typed env c \<Longrightarrow> t_command_id t = c_id c \<Longrightarrow> task_fits t \<Longrightarrow> D d d3"
begin

sublocale tx: call_relation "evolves D" env
  by unfold_locales (auto simp: evolves_def D_refl intro: D_trans)

sublocale step: call_relation "db_step D" env
  by unfold_locales (auto simp: db_step_def D_refl intro: D_trans)

lemma tx_transition: "new \<noteq> QUEUED \<Longrightarrow> guar (evolves D) (transition_command env cid new src md)"
  by (rule evolves_transition [OF db_preorder_axioms]) (rule D_move; simp add: skips_approval_def)

text \<open>A transition into the queue is allowed after an approval, and for a command that needs none.\<close>

lemma tx_approve_queue:
  "guar (evolves D) (seqM (transition_command env cid APPROVED src md) (transition_command env cid QUEUED src' md'))"
  unfolding guar_def
proof (intro allI evolution.seqM_at)
  fix s show "evolves D s (snd (transition_command env cid APPROVED src md s))"
    by (rule guarD [OF tx_transition]) simp
next
  fix s x t assume "transition_command env cid APPROVED src md s = (Inr x, t)"
  from transition_arrives [OF this] show "evolves D t (snd (transition_command env cid QUEUED src' md' t))"
    by (intro evolves_transition_at [OF db_preorder_axioms] D_move) (auto simp: skips_approval_def)
qed

lemma tx_approve_queue_then:
  "guar (evolves D) k \<Longrightarrow>
     guar (evolves D) (seqM (transition_command env cid APPROVED src md) (seqM (transition_command env cid QUEUED src' md') k))"
  using tx_approve_queue by (simp add: evolution.guar_seqM flip: seqM_assoc)

lemma row_inserts:
  "guar (evolves D) (flush (insert_outbox o1))" "guar (evolves D) (flush (insert_audit a1))"
  "guar (evolves D) (flush (insert_estop r1))" "guar (evolves D) (flush (insert_approval p1))"
  "p_owner_id q1 = None \<Longrightarrow> guar (evolves D) (flush (insert_pairing q1))"
  "guar (evolves D) (flush (insert_device v1))" "guar (evolves D) (flush (insert_credential w1))"
  by (rule evolves_flush; blast intro: D_outbox D_audit D_estop D_approval D_pairing D_device D_credential)+

lemma row_updates:
  "(\<And>r. es_id (f r) = es_id r \<and> es_owner_id (f r) = es_owner_id r) \<Longrightarrow> guar (evolves D) (flush (update_estop u f))"
  "(\<And>p. p_id (g p) = p_id p) \<Longrightarrow> guar (evolves D) (flush (update_pairing i g))"
  "(\<And>t. t_id (h t) = t_id t \<and> t_command_id (h t) = t_command_id t) \<Longrightarrow> guar (evolves D) (flush (update_task i h))"
  by (rule evolves_flush; rule D_set_estop D_set_pairing D_set_task; assumption)+

lemma row_maps:
  "(\<And>a. a_id (k a) = a_id a \<and> a_command_id (k a) = a_command_id a \<and> a_owner_id (k a) = a_owner_id a) \<Longrightarrow>
     guar (evolves D) (flush (\<lambda>d. Ok (update_approval i k d)))"
  "(\<And>e. o_id (n e) = o_id e) \<Longrightarrow> guar (evolves D) (flush (\<lambda>d. Ok (update_outbox i n d)))"
  "guar (evolves D) (flush (\<lambda>d. Ok (d\<lparr>approvals := expire_rows now (approvals d)\<rparr>)))"
  "(\<And>p. p_id (g p) = p_id p \<and> p_owner_id (g p) = p_owner_id p) \<Longrightarrow>
     guar (evolves D) (flush (\<lambda>d. Ok (d\<lparr>pairings := map g (pairings d)\<rparr>)))"
  "(\<And>v. d_id (l v) = d_id v \<and> d_owner_id (l v) = d_owner_id v \<and> d_device_type (l v) = d_device_type v) \<Longrightarrow>
     guar (evolves D) (flush (\<lambda>d. Ok (d\<lparr>devices := update_by d_id i l (devices d)\<rparr>)))"
  unfolding update_approval_def update_outbox_def expire_rows_def update_by_def
  by (rule evolves_flush; clarsimp; rule D_approvals D_outboxes D_pairings D_devices; simp)+

lemma row_revoke:
  assumes "\<And>v. d_id (l v) = d_id v \<and> d_owner_id (l v) = d_owner_id v \<and> d_device_type (l v) = d_device_type v"
  shows "guar (evolves D) (flush (\<lambda>d. Ok (d\<lparr>devices := update_by d_id i l (devices d),
    credentials := revoke_credentials now i (credentials d)\<rparr>)))"
proof (rule evolves_flush, clarsimp)
  fix d :: db
  let ?d1 = "d\<lparr>devices := update_by d_id i l (devices d)\<rparr>"
  have "D d ?d1" unfolding update_by_def by (rule D_devices) (simp add: assms)
  moreover have "D ?d1 (?d1\<lparr>credentials := revoke_credentials now i (credentials ?d1)\<rparr>)"
    unfolding revoke_credentials_def by (rule D_credentials) simp
  ultimately show "D d (d\<lparr>devices := update_by d_id i l (devices d), credentials := revoke_credentials now i (credentials d)\<rparr>)"
    using D_trans by fastforce
qed

sublocale transactions "evolves D" env
  by unfold_locales
    (rule evolves_commit tx_transition row_inserts row_updates row_maps row_revoke; (assumption | blast | simp))+

lemma step_session: "guar (evolves D) m \<Longrightarrow> guar (db_step D) (with_session m)"
  by (simp add: guar_def [of "db_step D"] db_step_def with_session_evolves)

text \<open>The insertion of a new command is one step: it fails, or the row and its first event are both there.\<close>

lemma tx_insert_command:
  assumes "registry_get command_registry (cr_command_type request) = Some defn"
    "params_ok env (cd_parameter_schema defn) (cr_parameters request)"
  shows "guar (evolves D) (insert_new_command env request defn)"
  unfolding guar_def
proof
  fix s
  let ?t = "snd (insert_new_command env request defn s)"
  have c: "well_typed env (new_command i n request defn)" "texts_fit (new_command i n request defn)" for i n
    using assms by (simp_all add: well_typed_def new_command_def texts_fit_def fits_text_def)
  have t: "task_fits (new_task i j)" for i j by (simp add: new_task_def task_fits_def fits_text_def)
  have "failed ?t \<or> working ?t = working s \<and> failed ?t = failed s \<or> \<not> failed s \<and> D (working s) (working ?t)"
    using c t
    by (auto simp: insert_new_command_def prog_defs Let_def new_command_def new_task_def split: sum.splits
        intro!: D_new [of "new_command i n request defn" for i n, unfolded new_command_def, simplified])
  moreover have "committed ?t = committed s"
    by (auto simp: insert_new_command_def prog_defs Let_def split: sum.splits if_splits)
  ultimately show "evolves D s ?t" by (auto simp: evolves_def D_refl intro: D_trans)
qed

lemma insert_new_command_row:
  assumes "insert_new_command env request defn s = (Inr (c, t), s1)"
  shows "row_by c_id (c_id c) (commands (working s1)) = Some c"
  using assms
  by (auto simp: insert_new_command_def prog_defs Let_def insert_defs new_command_def table_simps split: sum.splits if_splits)

lemma tx_submit_for_delivery:
  assumes "row_by c_id (c_id c) (commands (working s)) = Some c" "\<not> c_requires_approval c"
  shows "evolves D s (snd (submit_for_delivery env c i s))"
  unfolding submit_for_delivery_def
proof (intro evolution.seqM_at)
  show "evolves D s (snd (transition_command env (c_id c) VALIDATED ''api'' None s))"
    by (rule guarD [OF tx_transition]) simp
next
  fix x t assume "transition_command env (c_id c) VALIDATED ''api'' None s = (Inr x, t)"
  from transition_arrives [OF this] assms show "evolves D t (snd (transition_command env (c_id c) QUEUED ''api'' None t))"
    by (intro evolves_transition_at [OF db_preorder_axioms] D_move) (auto simp: skips_approval_def)
next
  fix t show "evolves D t (snd (add_queued_event env c i t))" by (rule guarD [OF tx_commands(1)])
qed

lemma tx_write_command:
  assumes "registry_get command_registry (cr_command_type request) = Some defn"
    "params_ok env (cd_parameter_schema defn) (cr_parameters request)"
  shows "guar (evolves D) (write_command env request defn owner i)"
  unfolding guar_def write_command_def
proof (intro allI evolution.bindM_at)
  fix s show "evolves D s (snd (insert_new_command env request defn s))"
    by (rule guarD [OF tx_insert_command [OF assms]])
next
  fix s x t assume run: "insert_new_command env request defn s = (Inr x, t)"
  obtain c tk where x: "x = (c, tk)" by (cases x)
  note row = insert_new_command_row [OF run [unfolded x]]
  show "evolves D t (snd ((case x of (command, task) \<Rightarrow>
      if c_requires_approval command then bindM (submit_for_approval env command owner) (\<lambda>(approval, decision_nonce).
         seqM commit (returnM \<lparr>rs_command_id = c_id command, rs_task_id = t_id task, rs_state = AWAITING_APPROVAL,
            rs_requires_approval = True, rs_approval_id = Some (a_id approval), rs_decision_nonce = Some decision_nonce\<rparr>))
      else seqM (submit_for_delivery env command i) (seqM commit
         (returnM \<lparr>rs_command_id = c_id command, rs_task_id = t_id task, rs_state = QUEUED,
            rs_requires_approval = False, rs_approval_id = None, rs_decision_nonce = None\<rparr>))) t))"
  proof (cases "c_requires_approval c")
    case True
    then show ?thesis
      unfolding x by simp (rule guarD, auto intro!: tx_calls tx_commands split: prod.split)
  next
    case False
    with row show ?thesis
      unfolding x by simp (intro evolution.seqM_at tx_submit_for_delivery guarD [OF evolves_commit] guarD [OF evolution.guar_prims(1)])
  qed
qed

lemma step_create_command: "guar (db_step D) (create_command env request owner)"
  unfolding create_command_def create_tx_def create_checked_def stop_error_def
  by (intro step_session tx_calls) (auto intro!: tx_calls tx_write_command split: option.split)

lemma step_decide: "guar (db_step D) (decide_approval env i owner decision nonce note)"
  unfolding decide_approval_def decide_tx_def queue_approved_def reject_command_of_def Let_def
  by (auto intro!: step_session tx_approve_queue tx_calls tx_commands row_maps tx_refusal tx_audit simp: decided_def split: option.split)

lemma step_approve: "guar (db_step D) (approve_command env cid)"
  unfolding approve_command_def
  by (auto intro!: step_session tx_approve_queue_then tx_calls tx_refusal)

lemma step_release: "guar (db_step D) (release env owner actor)"
  unfolding release_def release_tx_def Let_def
  by (auto intro!: step_session step.guar_rules step.guar_cache tx_calls tx_rows row_updates tx_audit tx_outbox split: option.split)

sublocale handlers "evolves D" "db_step D" env "\<lambda>_. True"
  by unfold_locales
    (auto simp: db_step_def evolves_def D_refl intro: D_trans step_create_command step_decide step_approve step_release)

end

section \<open>Users\<close>

text \<open>
  No route adds a user: only the dependency does, in the request's session. So the rows it has added are still
  acceptable when the route has returned.
\<close>

interpretation users_frame: row_history "\<lambda>d d'. users d' = users d" env
  by unfold_locales
    (auto simp: insert_defs update_estop_def update_pairing_def update_task_def after_transition_def Let_def
      split: if_splits option.splits)

locale user_history = row_history D env for D env +
  assumes D_user: "insert_user u d = Inr d' \<Longrightarrow> D d d'"
begin

lemma tx_user: "guar (evolves D) (repo_create_user env sub email name)" "guar (evolves D) (request_user env claims)"
  unfolding request_user_def repo_create_user_def Let_def
  by (auto intro!: tx_calls evolves_flush D_user split: option.split)

lemma step_users: "guar (db_step D) (get_or_create_user env claims)" "guar (db_step D) (get_user i)"
  unfolding get_or_create_user_def get_user_def Let_def
  by (auto intro!: step_calls tx_calls tx_rows tx_user split: option.split json.split)

end

text \<open>The request's session holds what is committed, or one user more.\<close>

lemma request_pending:
  assumes "bindM (liftM verified) (get_current_user_context env) (open_session s) = (Inr ctx, s1)"
  shows "committed s1 = committed s
    \<and> (working s1 = committed s \<or> (\<exists>u. insert_user u (committed s) = Inr (working s1)))"
  using assms
  by (cases verified)
    (auto simp: get_current_user_context_def request_user_def repo_create_user_def prog_defs Let_def
      split: option.splits sum.splits if_splits)

lemma request_refused:
  assumes "bindM (liftM verified) (get_current_user_context env) (open_session s) = (r, s1)"
  shows "committed s1 = committed s"
  using assms
  by (cases verified)
    (auto simp: get_current_user_context_def request_user_def repo_create_user_def prog_defs Let_def
      split: option.splits sum.splits if_splits)

context user_history
begin

lemma step_pending:
  assumes "committed s1 = committed s"
    "working s1 = committed s \<or> (\<exists>u. insert_user u (committed s) = Inr (working s1))"
    "D (committed s1) (committed t)" "users (committed t) = users (committed s1)"
  shows "D (committed s) ((committed t)\<lparr>users := users (committed t) @ drop (length (users (committed s))) (users (working s1))\<rparr>)"
proof (cases "working s1 = committed s")
  case True
  with assms(1,3) show ?thesis by simp
next
  case False
  with assms(2) obtain u where u: "insert_user u (committed s) = Inr (working s1)" by blast
  then have "insert_user u (committed t) = Inr ((committed t)\<lparr>users := users (committed t) @ [u]\<rparr>)"
    using assms(1,4) by (auto simp: insert_user_def split: if_splits)
  moreover have "working s1 = (committed s)\<lparr>users := users (committed s) @ [u]\<rparr>"
    using u by (simp add: insert_user_def split: if_splits)
  ultimately show ?thesis using assms(1,3) by (auto intro: D_trans D_user)
qed

lemma step_request:
  assumes "\<And>ctx. guar (db_step D) (route ctx)" "\<And>ctx. guar (db_step (\<lambda>d d'. users d' = users d)) (route ctx)"
  shows "guar (db_step D) (with_user_context env verified route)"
  unfolding guar_def
proof
  fix s
  have route: "D (committed s1) (committed t) \<and> users (committed t) = users (committed s1)" if "route ctx s1 = (r, t)" for ctx s1 r t
    using guarD [OF assms(1) [of ctx], of s1] guarD [OF assms(2) [of ctx], of s1] that by (simp add: db_step_def)
  show "db_step D s (snd (with_user_context env verified route s))"
    unfolding with_user_context_def db_step_def Let_def
    by (auto split: prod.split sum.split dest!: route simp: D_refl
        dest: request_refused request_pending intro!: step_pending)
qed

end

section \<open>The history of commands\<close>

text \<open>
  A relation that looks at commands and their events only needs to allow the three changes that the code makes to them:
  none, a transition of the machine, and a new command with its first event.
\<close>

locale command_history = db_preorder D for D +
  assumes D_frame: "commands d' = commands d \<Longrightarrow> events d' = events d \<Longrightarrow> D d d'"
    and D_transition: "row_by c_id cid (commands d) = Some c \<Longrightarrow> effective (c_state c) new \<Longrightarrow> \<not> skips_approval c new \<Longrightarrow>
      D d (after_transition eid now cid (c_state c) new src md d)"
    and D_received: "c_id c \<notin> c_id ` set (commands d) \<Longrightarrow> c_state c = RECEIVED \<Longrightarrow> commands d' = commands d @ [c] \<Longrightarrow>
      events d' = events d @ [received_event ei now (c_id c)] \<Longrightarrow> D d d'"

sublocale command_history < user_history D env for env
proof
  show "D d d3" if "insert_command c d = Inr d1" "insert_task t d1 = Inr d2"
    "insert_event (received_event ei now (c_id c)) d2 = Inr d3" "c_state c = RECEIVED" for c d d1 t d2 ei now d3
    using that by (auto simp: insert_defs split: if_splits intro!: D_received)
  show "D d (after_transition eid now cid (c_state c) new src md d)"
    if "row_by c_id cid (commands d) = Some c" "effective (c_state c) new" "\<not> skips_approval c new" for cid d c new eid now src md
    using that by (rule D_transition)
qed (auto simp: insert_defs update_estop_def update_pairing_def update_task_def Let_def
      split: if_splits option.splits intro!: D_frame)

end
