(* ===== verification/Schema.thy ===== *)
theory Schema
  imports History
begin

text \<open>
  What every database of a run satisfies. \<open>keys_ok\<close>, \<open>refs_ok\<close> and \<open>checks_ok\<close> are the primary and unique keys, the
  foreign keys, and the CHECK constraints and column widths of \<^verbatim>\<open>migrations/versions\<close>; \<open>typed_ok\<close> is what the
  service adds: every command is well typed and has its task. The interpretation of \<open>user_history\<close> at the end of the
  theory shows that every handler keeps them.
\<close>

section \<open>The schema as a predicate\<close>

definition keys_ok :: "db \<Rightarrow> bool" where
  "keys_ok d =
     (distinct (map u_id (users d)) \<and> distinct (map u_supabase_user_id (users d)) \<and> distinct (map d_id (devices d))
      \<and> distinct (map dc_id (credentials d)) \<and> distinct (map p_id (pairings d)) \<and> distinct (map c_id (commands d))
      \<and> distinct (map (\<lambda>c. (c_device_id c, c_idempotency_key c)) (commands d))
      \<and> distinct (map t_id (tasks d)) \<and> distinct (map t_command_id (tasks d)) \<and> distinct (map e_id (events d))
      \<and> distinct (map a_id (approvals d)) \<and> distinct (map a_command_id (approvals d))
      \<and> distinct (map es_id (estops d)) \<and> distinct (map es_owner_id (estops d))
      \<and> distinct (map o_id (outbox d)) \<and> distinct (map al_id (audits d)))"

definition refs_ok :: "db \<Rightarrow> bool" where
  "refs_ok d =
     (d_owner_id ` set (devices d) \<subseteq> u_id ` set (users d) \<and> dc_device_id ` set (credentials d) \<subseteq> d_id ` set (devices d)
      \<and> list_all (\<lambda>p. fk_ok (p_owner_id p) (u_id ` set (users d))) (pairings d)
      \<and> c_device_id ` set (commands d) \<subseteq> d_id ` set (devices d) \<and> t_command_id ` set (tasks d) \<subseteq> c_id ` set (commands d)
      \<and> e_command_id ` set (events d) \<subseteq> c_id ` set (commands d) \<and> a_command_id ` set (approvals d) \<subseteq> c_id ` set (commands d)
      \<and> a_owner_id ` set (approvals d) \<subseteq> u_id ` set (users d) \<and> es_owner_id ` set (estops d) \<subseteq> u_id ` set (users d)
      \<and> list_all (\<lambda>r. fk_ok (es_activated_by r) (u_id ` set (users d)) \<and> fk_ok (es_released_by r) (u_id ` set (users d))) (estops d)
      \<and> list_all (\<lambda>a. fk_ok (al_user_id a) (u_id ` set (users d)) \<and> fk_ok (al_device_id a) (d_id ` set (devices d))
           \<and> fk_ok (al_command_id a) (c_id ` set (commands d)) \<and> fk_ok (al_approval_id a) (a_id ` set (approvals d))) (audits d))"

definition checks_ok :: "db \<Rightarrow> bool" where
  "checks_ok d =
     (d_device_type ` set (devices d) \<subseteq> set device_types \<and> al_result ` set (audits d) \<subseteq> set audit_results
      \<and> list_all texts_fit (commands d) \<and> list_all task_fits (tasks d))"

definition schema_ok :: "db \<Rightarrow> bool" where
  "schema_ok d = (keys_ok d \<and> refs_ok d \<and> checks_ok d)"

definition typed_ok :: "env \<Rightarrow> db \<Rightarrow> bool" where
  "typed_ok env d = (list_all (well_typed env) (commands d) \<and> c_id ` set (commands d) \<subseteq> t_command_id ` set (tasks d))"

lemmas ok_defs = schema_ok_def keys_ok_def refs_ok_def checks_ok_def typed_ok_def

section \<open>Every change keeps it\<close>

lemma fk_ok_mono: "fk_ok k A \<Longrightarrow> A \<subseteq> B \<Longrightarrow> fk_ok k B"
  by (auto simp: fk_ok_def split: option.splits)

lemma fk_ok_None [simp]: "fk_ok None A"
  by (simp add: fk_ok_def)

lemma fk_ok_insert: "fk_ok k A \<Longrightarrow> fk_ok k (insert a A)"
  by (rule fk_ok_mono) auto

lemma well_typed_stamp [simp]: "well_typed env (stamp now new md c) = well_typed env c"
  by (simp add: well_typed_def stamp_def Let_def split: option.split)

text \<open>A predicate that every row satisfies, after an update of the row that the update found.\<close>

lemma list_all_update_by:
  assumes "list_all P rows" "distinct (map key rows)" "row_by key k rows = Some r" "P (f r)"
  shows "list_all P (update_by key k f rows)"
proof -
  have "x = r" if "x \<in> set rows" "key x = k" for x using row_by_mem [OF assms(2) that(1)] that(2) assms(3) by simp
  with assms(1,4) show ?thesis by (auto simp: list_all_iff update_by_def)
qed

lemma keys_inserts:
  assumes "keys_ok d"
  shows "insert_outbox o1 d = Inr d' \<Longrightarrow> keys_ok d'"
    "insert_audit a1 d = Inr d' \<Longrightarrow> keys_ok d'"
    "insert_estop r1 d = Inr d' \<Longrightarrow> keys_ok d'"
    "insert_approval p1 d = Inr d' \<Longrightarrow> keys_ok d'"
    "insert_device v1 d = Inr d' \<Longrightarrow> keys_ok d'"
    "insert_credential w1 d = Inr d' \<Longrightarrow> keys_ok d'"
    "insert_user u1 d = Inr d' \<Longrightarrow> keys_ok d'"
    "insert_pairing q1 d = Inr d' \<Longrightarrow> keys_ok d'"
  using assms unfolding keys_ok_def insert_defs by (auto split: if_split_asm)

lemma refs_inserts:
  assumes "refs_ok d"
  shows "insert_outbox o1 d = Inr d' \<Longrightarrow> refs_ok d'"
    "insert_audit a1 d = Inr d' \<Longrightarrow> refs_ok d'"
    "insert_estop r1 d = Inr d' \<Longrightarrow> refs_ok d'"
    "insert_approval p1 d = Inr d' \<Longrightarrow> refs_ok d'"
    "insert_device v1 d = Inr d' \<Longrightarrow> refs_ok d'"
    "insert_credential w1 d = Inr d' \<Longrightarrow> refs_ok d'"
    "insert_user u1 d = Inr d' \<Longrightarrow> refs_ok d'"
    "insert_pairing q1 d = Inr d' \<Longrightarrow> p_owner_id q1 = None \<Longrightarrow> refs_ok d'"
  using assms unfolding refs_ok_def insert_defs list_all_iff by (clarsimp simp: fk_ok_insert subset_insertI2 split: if_split_asm)+

lemma checks_inserts:
  assumes "checks_ok d"
  shows "insert_outbox o1 d = Inr d' \<Longrightarrow> checks_ok d'"
    "insert_audit a1 d = Inr d' \<Longrightarrow> checks_ok d'"
    "insert_estop r1 d = Inr d' \<Longrightarrow> checks_ok d'"
    "insert_approval p1 d = Inr d' \<Longrightarrow> checks_ok d'"
    "insert_device v1 d = Inr d' \<Longrightarrow> checks_ok d'"
    "insert_credential w1 d = Inr d' \<Longrightarrow> checks_ok d'"
    "insert_user u1 d = Inr d' \<Longrightarrow> checks_ok d'"
    "insert_pairing q1 d = Inr d' \<Longrightarrow> checks_ok d'"
  using assms unfolding checks_ok_def insert_defs by (clarsimp split: if_split_asm)+

lemma typed_inserts:
  assumes "typed_ok env d"
  shows "insert_outbox o1 d = Inr d' \<Longrightarrow> typed_ok env d'"
    "insert_audit a1 d = Inr d' \<Longrightarrow> typed_ok env d'"
    "insert_estop r1 d = Inr d' \<Longrightarrow> typed_ok env d'"
    "insert_approval p1 d = Inr d' \<Longrightarrow> typed_ok env d'"
    "insert_device v1 d = Inr d' \<Longrightarrow> typed_ok env d'"
    "insert_credential w1 d = Inr d' \<Longrightarrow> typed_ok env d'"
    "insert_user u1 d = Inr d' \<Longrightarrow> typed_ok env d'"
    "insert_pairing q1 d = Inr d' \<Longrightarrow> typed_ok env d'"
  using assms unfolding typed_ok_def insert_defs by (clarsimp split: if_split_asm)+

lemma schema_new:
  assumes "schema_ok d" "typed_ok env d" "insert_command c d = Inr d1" "insert_task t d1 = Inr d2"
    "insert_event (received_event ei now (c_id c)) d2 = Inr d3" "texts_fit c" "well_typed env c"
    "t_command_id t = c_id c" "task_fits t"
  shows "schema_ok d3 \<and> typed_ok env d3"
proof -
  have "d3 = d\<lparr>commands := commands d @ [c], tasks := tasks d @ [t], events := events d @ [received_event ei now (c_id c)]\<rparr>"
    "c_id c \<notin> c_id ` set (commands d)" "c_device_id c \<in> d_id ` set (devices d)"
    "(c_device_id c, c_idempotency_key c) \<notin> (\<lambda>c. (c_device_id c, c_idempotency_key c)) ` set (commands d)"
    "t_id t \<notin> t_id ` set (tasks d)" "t_command_id t \<notin> t_command_id ` set (tasks d)" "ei \<notin> e_id ` set (events d)"
    using assms(3-5) by (auto simp: insert_defs received_event_def split: if_splits)
  then show ?thesis
    using assms(1,2,6-) unfolding ok_defs
    by (clarsimp simp: list_all_iff fk_ok_insert subset_insertI2 received_event_def)
qed

lemma schema_set_estop:
  assumes ok: "schema_ok d" "typed_ok env d" and f: "\<And>r. es_id (f r) = es_id r" "\<And>r. es_owner_id (f r) = es_owner_id r"
    and u: "update_estop u f d = Inr d'"
  shows "schema_ok d' \<and> typed_ok env d'"
proof (cases "row_by es_owner_id u (estops d)")
  case None
  with u ok show ?thesis by (simp add: update_estop_def)
next
  case (Some r)
  let ?P = "\<lambda>r. fk_ok (es_activated_by r) (u_id ` set (users d)) \<and> fk_ok (es_released_by r) (u_id ` set (users d))"
  have r: "?P r" using ok(1) row_by_SomeD [OF Some] by (simp add: ok_defs list_all_iff)
  then have "?P (f r)" "d' = d\<lparr>estops := update_by es_owner_id u f (estops d)\<rparr>"
    using u Some by (auto simp: update_estop_def split: if_split_asm)
  moreover then have "list_all ?P (update_by es_owner_id u f (estops d))"
    using ok(1) Some by (intro list_all_update_by) (simp_all add: ok_defs)
  ultimately show ?thesis using ok f by (simp add: ok_defs map_update_by image_update_by)
qed

lemma schema_set_pairing:
  assumes ok: "schema_ok d" "typed_ok env d" and f: "\<And>p. p_id (f p) = p_id p" and u: "update_pairing i f d = Inr d'"
  shows "schema_ok d' \<and> typed_ok env d'"
proof (cases "row_by p_id i (pairings d)")
  case None
  with u ok show ?thesis by (simp add: update_pairing_def)
next
  case (Some p)
  let ?P = "\<lambda>p. fk_ok (p_owner_id p) (u_id ` set (users d))"
  have p: "?P p" using ok(1) row_by_SomeD [OF Some] by (simp add: ok_defs list_all_iff)
  then have "?P (f p)" "d' = d\<lparr>pairings := update_by p_id i f (pairings d)\<rparr>"
    using u Some by (auto simp: update_pairing_def split: if_split_asm)
  moreover then have "list_all ?P (update_by p_id i f (pairings d))"
    using ok(1) Some by (intro list_all_update_by) (simp_all add: ok_defs)
  ultimately show ?thesis using ok f by (simp add: ok_defs map_update_by image_update_by)
qed

lemma schema_set_task:
  assumes ok: "schema_ok d" "typed_ok env d" and f: "\<And>t. t_id (f t) = t_id t" "\<And>t. t_command_id (f t) = t_command_id t"
    and u: "update_task i f d = Inr d'"
  shows "schema_ok d' \<and> typed_ok env d'"
proof (cases "row_by t_id i (tasks d)")
  case None
  with u ok show ?thesis by (simp add: update_task_def)
next
  case (Some t)
  then have "task_fits (f t)" "d' = d\<lparr>tasks := update_by t_id i f (tasks d)\<rparr>"
    using u by (auto simp: update_task_def task_fits_def Let_def split: if_split_asm)
  moreover then have "list_all task_fits (update_by t_id i f (tasks d))"
    using ok(1) Some by (intro list_all_update_by) (simp_all add: ok_defs)
  ultimately show ?thesis using ok f by (simp add: ok_defs map_update_by image_update_by)
qed

lemma schema_after:
  assumes ok: "schema_ok d" "typed_ok env d" and c: "row_by c_id cid (commands d) = Some c"
    and e: "eid \<notin> e_id ` set (events d)" and f: "stamp_fits now new md c"
  shows "schema_ok (after_transition eid now cid old new src md d) \<and> typed_ok env (after_transition eid now cid old new src md d)"
proof -
  have "list_all texts_fit (update_by c_id cid (stamp now new md) (commands d))"
    using ok(1) c f by (intro list_all_update_by) (simp_all add: ok_defs stamp_fits_def texts_fit_def Let_def)
  moreover have "list_all (well_typed env) (update_by c_id cid (stamp now new md) (commands d))"
    using ok(2) by (auto simp: typed_ok_def list_all_iff update_by_def)
  moreover have "cid \<in> c_id ` set (commands d)" using c by (rule row_by_SomeK)
  ultimately show ?thesis
    using ok e by (simp add: ok_defs after_transition_def transition_event_def map_update_by image_update_by)
qed

lemma schema_maps:
  assumes "schema_ok d" "typed_ok env d"
  shows "(\<And>a. a_id (f a) = a_id a \<and> a_command_id (f a) = a_command_id a \<and> a_owner_id (f a) = a_owner_id a) \<Longrightarrow>
      schema_ok (d\<lparr>approvals := map f (approvals d)\<rparr>) \<and> typed_ok env (d\<lparr>approvals := map f (approvals d)\<rparr>)"
    "(\<And>p. p_id (g p) = p_id p \<and> p_owner_id (g p) = p_owner_id p) \<Longrightarrow>
      schema_ok (d\<lparr>pairings := map g (pairings d)\<rparr>) \<and> typed_ok env (d\<lparr>pairings := map g (pairings d)\<rparr>)"
    "(\<And>v. d_id (h v) = d_id v \<and> d_owner_id (h v) = d_owner_id v \<and> d_device_type (h v) = d_device_type v) \<Longrightarrow>
      schema_ok (d\<lparr>devices := map h (devices d)\<rparr>) \<and> typed_ok env (d\<lparr>devices := map h (devices d)\<rparr>)"
    "(\<And>c. dc_id (k c) = dc_id c \<and> dc_device_id (k c) = dc_device_id c) \<Longrightarrow>
      schema_ok (d\<lparr>credentials := map k (credentials d)\<rparr>) \<and> typed_ok env (d\<lparr>credentials := map k (credentials d)\<rparr>)"
    "(\<And>e. o_id (n e) = o_id e) \<Longrightarrow>
      schema_ok (d\<lparr>outbox := map n (outbox d)\<rparr>) \<and> typed_ok env (d\<lparr>outbox := map n (outbox d)\<rparr>)"
  using assms by (simp_all add: ok_defs comp_def image_image list_all_iff)

lemmas schema_inserts = keys_inserts refs_inserts checks_inserts typed_inserts

lemmas schema_changes = schema_new schema_after schema_set_estop schema_set_pairing schema_set_task schema_maps

interpretation schema_hist: user_history "\<lambda>d d'. schema_ok d \<and> typed_ok env d \<longrightarrow> schema_ok d' \<and> typed_ok env d'" env
  by (unfold_locales; (intro impI; elim conjE)?;
      (rule schema_changes; (assumption | blast)
      | unfold schema_ok_def, elim conjE, intro conjI; rule schema_inserts; assumption
      | blast))

end
