(* ===== verification/StopSafety.thy ===== *)
theory StopSafety
  imports Handlers
begin

text \<open>
  An active emergency stop holds. Two relations on states are interpreted as \<open>handlers\<close>: \<open>cache_kept\<close>, that the cache
  entries of stops can be trusted, and \<open>stop_step\<close>, that under this assumption an active stop of an owner stays active, no
  command appears for the devices of the owner, and no approval of the owner is granted, until the owner releases it.
\<close>

section \<open>The cache can be trusted\<close>

text \<open>
  The rate limiter builds its keys with the prefix in front of the prefixed key, so that its counters and the stops live in
  different parts of the key space unless the configured prefix itself starts like the limiter's.
\<close>

definition prefix_clear :: "env \<Rightarrow> bool" where
  "prefix_clear env = (case VALKEY_KEY_PREFIX (settings env) of [] \<Rightarrow> True | c # _ \<Rightarrow> c \<noteq> CHR ''r'')"

definition cache_kept :: "env \<Rightarrow> st \<Rightarrow> st \<Rightarrow> bool" where
  "cache_kept env s t = (prefix_clear env \<and> stop_cache_ok env s \<longrightarrow> stop_cache_ok env t)"

lemma limit_key_clear: "prefix_clear env \<Longrightarrow> prefix_key env (stop_key owner) \<noteq> ''ratelimit:'' @ prefix_key env k"
  by (cases "VALKEY_KEY_PREFIX (settings env)") (auto simp: prefix_clear_def prefix_key_def stop_key_def)

lemma cache_kept_put: "(\<And>owner. prefix_clear env \<Longrightarrow> k = prefix_key env (stop_key owner) \<Longrightarrow> says_active v) \<Longrightarrow>
    cache_kept env s (s\<lparr>cache := kv_set n k v ttl (cache s)\<rparr>)"
  by (auto simp: cache_kept_def stop_cache_ok_def kv_set_def)

lemma cache_kept_same: "cache t = cache s \<Longrightarrow> cache_kept env s t"
  by (simp add: cache_kept_def stop_cache_ok_def)

interpretation kept: call_relation "cache_kept env" env for env
proof unfold_locales
  show "cache_kept env s u" if "cache_kept env s t" "cache_kept env t u" for env s t u
    using that by (simp add: cache_kept_def)
  show "cache_kept env s (s\<lparr>cache := kv_del k (cache s)\<rparr>)" for env s k
    by (simp add: cache_kept_def stop_cache_ok_del)
  show "cache_kept env s (s\<lparr>cache := kv_set n (''ratelimit:'' @ prefix_key env k) v ttl (cache s)\<rparr>)" for env s n k v ttl
    by (rule cache_kept_put) (metis limit_key_clear)
  show "cache_kept env s (s\<lparr>cache := kv_set n (prefix_key env k) v ttl (cache s)\<rparr>)" if "\<not> stop_name k" for env s n k v ttl
    using that stop_key_name by (intro cache_kept_put) simp
  show "cache_kept env s (s\<lparr>cache := kv_set n (prefix_key env (stop_key owner)) (VJson (stop_entry r)) ttl (cache s)\<rparr>)"
    for env s n owner r ttl by (rule cache_kept_put) simp
qed (simp_all add: cache_kept_same)

lemma kept_flush: "guar (cache_kept env) (flush f)" "guar (cache_kept env) commit"
  by (auto simp: guar_def flush_def commit_def split: sum.split intro!: cache_kept_same)

lemma kept_transition: "guar (cache_kept env) (transition_command env' cid new src md)"
  unfolding transition_command_def Let_def
  by (auto intro!: kept.guar_rules kept_flush split: option.split)

interpretation kept: transactions "cache_kept env" env for env
  by unfold_locales (rule kept_flush kept_transition)+

section \<open>What an active stop prevents\<close>

definition linked :: "db \<Rightarrow> bool" where
  "linked d = (c_device_id ` set (commands d) \<subseteq> d_id ` set (devices d) \<and> distinct (map a_id (approvals d)))"

definition owned_ids :: "uuid \<Rightarrow> db \<Rightarrow> uuid set" where
  "owned_ids owner d = c_id ` {c \<in> set (commands d). command_owner d c = Some owner}"

definition granted_ids :: "uuid \<Rightarrow> db \<Rightarrow> uuid set" where
  "granted_ids owner d = a_id ` {a \<in> set (approvals d). a_owner_id a = owner \<and> a_status a = APPROVAL_APPROVED}"

definition stop_kept :: "uuid \<Rightarrow> db \<Rightarrow> db \<Rightarrow> bool" where
  "stop_kept owner d d' = (stop_active owner d \<and> linked d \<longrightarrow>
     stop_active owner d' \<and> linked d' \<and> owned_ids owner d' \<subseteq> owned_ids owner d \<and> granted_ids owner d' \<subseteq> granted_ids owner d)"

interpretation stop_pre: db_preorder "stop_kept owner" for owner
  by unfold_locales (auto simp: stop_kept_def)

text \<open>A change that leaves the four tables alone.\<close>

lemma stop_kept_frame:
  "commands d' = commands d \<Longrightarrow> devices d' = devices d \<Longrightarrow> approvals d' = approvals d \<Longrightarrow> estops d' = estops d \<Longrightarrow> stop_kept owner d d'"
  by (simp add: stop_kept_def linked_def owned_ids_def granted_ids_def stop_active_def stop_row_def command_owner_def)

lemma stop_kept_device:
  assumes "insert_device v d = Inr d'"
  shows "stop_kept owner d d'"
  unfolding stop_kept_def
proof (intro impI conjI; elim conjE)
  have d': "d' = d\<lparr>devices := devices d @ [v]\<rparr>" "d_id v \<notin> d_id ` set (devices d)"
    using assms by (auto simp: insert_device_def split: if_splits)
  assume l: "linked d" and a: "stop_active owner d"
  show "stop_active owner d'" using a by (simp add: d' stop_active_def stop_row_def)
  show "linked d'" using l by (auto simp: d' linked_def)
  show "granted_ids owner d' \<subseteq> granted_ids owner d" by (simp add: d' granted_ids_def)
  have "command_owner d' c = command_owner d c" if "c \<in> set (commands d)" for c
  proof -
    have "c_device_id c \<in> d_id ` set (devices d)" using l that by (auto simp: linked_def)
    with d'(2) show ?thesis by (auto simp: d'(1) command_owner_def row_by_snoc)
  qed
  then show "owned_ids owner d' \<subseteq> owned_ids owner d" by (auto simp: owned_ids_def d')
qed

lemma stop_kept_rows:
  "insert_outbox o1 d = Inr d' \<Longrightarrow> stop_kept owner d d'" "insert_audit a1 d = Inr d' \<Longrightarrow> stop_kept owner d d'"
  "insert_pairing q1 d = Inr d' \<Longrightarrow> stop_kept owner d d'" "insert_credential w1 d = Inr d' \<Longrightarrow> stop_kept owner d d'"
  "update_pairing i g d = Inr d' \<Longrightarrow> stop_kept owner d d'" "update_task i h d = Inr d' \<Longrightarrow> stop_kept owner d d'"
  "insert_user u1 d = Inr d' \<Longrightarrow> stop_kept owner d d'"
  by (auto simp: insert_defs update_pairing_def update_task_def Let_def split: if_splits option.splits intro!: stop_kept_frame)

lemma stop_kept_estops:
  assumes "d' = d\<lparr>estops := rs\<rparr>" "stop_active owner d \<Longrightarrow> stop_active owner d'"
  shows "stop_kept owner d d'"
  using assms by (simp add: stop_kept_def linked_def owned_ids_def granted_ids_def command_owner_def)

lemma stop_kept_estop:
  assumes "insert_estop r d = Inr d'"
  shows "stop_kept owner d d'"
proof (rule stop_kept_estops)
  show "d' = d\<lparr>estops := estops d @ [r]\<rparr>" using assms by (auto simp: insert_estop_def split: if_splits)
  then show "stop_active owner d'" if "stop_active owner d"
    using that by (auto simp: stop_active_def stop_row_def row_by_append dest: row_by_SomeK split: option.splits)
qed

lemma stop_kept_set_estop:
  assumes "\<And>r. es_owner_id (f r) = es_owner_id r" "u \<noteq> owner \<or> (\<forall>r. es_active (f r))" "update_estop u f d = Inr d'"
  shows "stop_kept owner d d'"
proof (rule stop_kept_estops)
  have row: "row_by es_owner_id owner (update_by es_owner_id u f rs) =
      (if owner = u then map_option f (row_by es_owner_id owner rs) else row_by es_owner_id owner rs)" for rs
    by (rule keyed_update.row_by_update [of es_owner_id "\<lambda>_. f"]) (simp add: keyed_update_def assms(1))
  show d': "d' = d\<lparr>estops := update_by es_owner_id u f (estops d)\<rparr>"
    using assms(3) by (auto simp: update_estop_def update_by_absent split: option.splits if_splits)
  show "stop_active owner d'" if "stop_active owner d"
    using that assms(2) by (auto simp: d' stop_active_def stop_row_def row dest: row_by_SomeK split: option.splits)
qed

lemma stop_kept_approval:
  assumes "insert_approval p1 d = Inr d'" "a_status p1 \<noteq> APPROVAL_APPROVED"
  shows "stop_kept owner d d'"
proof -
  have "d' = d\<lparr>approvals := approvals d @ [p1]\<rparr>" "a_id p1 \<notin> a_id ` set (approvals d)"
    using assms(1) by (auto simp: insert_approval_def split: if_splits)
  moreover then have "granted_ids owner d' = granted_ids owner d" using assms(2) by (auto simp: granted_ids_def)
  ultimately show ?thesis
    by (simp add: stop_kept_def linked_def owned_ids_def command_owner_def stop_active_def stop_row_def)
qed

text \<open>An update of approvals may grant no approval of the owner.\<close>

lemma stop_kept_approvals:
  assumes "\<And>a. a_id (f a) = a_id a" "\<And>a. a_owner_id (f a) = a_owner_id a"
    "linked d \<Longrightarrow> (\<And>a. a \<in> set (approvals d) \<Longrightarrow> a_owner_id a = owner \<Longrightarrow> a_status (f a) = APPROVAL_APPROVED \<Longrightarrow> a_status a = APPROVAL_APPROVED)"
  shows "stop_kept owner d (d\<lparr>approvals := map f (approvals d)\<rparr>)"
  using assms(3)
  by (auto simp: stop_kept_def linked_def owned_ids_def granted_ids_def command_owner_def stop_active_def stop_row_def
      comp_def assms(1,2) cong: image_cong)

lemma stop_kept_devices:
  assumes "\<And>v. d_id (f v) = d_id v" "\<And>v. d_owner_id (f v) = d_owner_id v"
  shows "stop_kept owner d (d\<lparr>devices := map f (devices d), credentials := cs\<rparr>)"
proof -
  have "map_option d_owner_id (row_by d_id i (map f vs)) = map_option d_owner_id (row_by d_id i vs)" for i vs
    by (induction vs) (simp_all add: assms)
  then show ?thesis
    by (simp add: stop_kept_def linked_def owned_ids_def granted_ids_def command_owner_def stop_active_def stop_row_def
        image_image assms)
qed

lemma stop_kept_after: "stop_kept owner d (after_transition eid now cid old new src md d)"
  by (auto simp: stop_kept_def linked_def owned_ids_def granted_ids_def command_owner_def stop_active_def stop_row_def
      after_transition_def update_by_def)

section \<open>Inside a session\<close>

lemma stop_transition: "guar (evolves (stop_kept owner)) (transition_command env cid new src md)"
  by (rule evolves_transition [OF stop_pre.db_preorder_axioms]) (rule stop_kept_after)

interpretation stop_db: call_relation "evolves (stop_kept owner)" env for owner env
  by unfold_locales (auto simp: evolves_def stop_pre.D_refl intro: stop_pre.D_trans)

lemma stop_flush_frame:
  "guar (evolves (stop_kept owner)) (flush (\<lambda>d. Ok (update_outbox i n d)))"
  "guar (evolves (stop_kept owner)) (flush (\<lambda>d. Ok (d\<lparr>pairings := map g (pairings d)\<rparr>)))"
  by (auto simp: update_outbox_def intro!: stop_pre.evolves_flush stop_kept_frame)

lemma stop_flush_expire:
  "guar (evolves (stop_kept owner)) (flush (\<lambda>d. Ok (d\<lparr>approvals := expire_rows now (approvals d)\<rparr>)))"
  "guar (evolves (stop_kept owner)) (flush (\<lambda>d. Ok (update_approval i (\<lambda>a. a\<lparr>a_status := APPROVAL_EXPIRED\<rparr>) d)))"
  unfolding expire_rows_def update_approval_def update_by_def
  by (auto intro!: stop_pre.evolves_flush stop_kept_approvals split: if_splits)

lemma stop_flush_insert:
  "guar (evolves (stop_kept owner)) (flush (insert_outbox o1))" "guar (evolves (stop_kept owner)) (flush (insert_audit a1))"
  "guar (evolves (stop_kept owner)) (flush (insert_pairing q1))" "guar (evolves (stop_kept owner)) (flush (insert_credential w1))"
  "guar (evolves (stop_kept owner)) (flush (insert_user u1))" "guar (evolves (stop_kept owner)) (flush (insert_device v1))"
  "guar (evolves (stop_kept owner)) (flush (insert_estop r1))"
  "a_status p1 \<noteq> APPROVAL_APPROVED \<Longrightarrow> guar (evolves (stop_kept owner)) (flush (insert_approval p1))"
  "guar (evolves (stop_kept owner)) (flush (update_pairing i g))" "guar (evolves (stop_kept owner)) (flush (update_task i h))"
  "(\<And>r. es_owner_id (f r) = es_owner_id r) \<Longrightarrow> u \<noteq> owner \<or> (\<forall>r. es_active (f r)) \<Longrightarrow>
     guar (evolves (stop_kept owner)) (flush (update_estop u f))"
  by (rule stop_pre.evolves_flush; (rule stop_kept_rows stop_kept_device stop_kept_estop stop_kept_approval stop_kept_set_estop; assumption))+

lemma stop_flush_devices:
  assumes "\<And>v. d_id (l v) = d_id v \<and> d_owner_id (l v) = d_owner_id v \<and> d_device_type (l v) = d_device_type v"
  shows "guar (evolves (stop_kept owner)) (flush (\<lambda>d. Ok (d\<lparr>devices := update_by d_id i l (devices d)\<rparr>)))"
    "guar (evolves (stop_kept owner)) (flush (\<lambda>d. Ok (d\<lparr>devices := update_by d_id i l (devices d),
      credentials := revoke_credentials now i (credentials d)\<rparr>)))"
proof -
  have "stop_kept owner d (d\<lparr>devices := update_by d_id i l (devices d), credentials := cs\<rparr>)" for d :: db and cs
    unfolding update_by_def by (rule stop_kept_devices) (simp_all add: assms)
  from this this [of d "credentials d" for d]
  show "guar (evolves (stop_kept owner)) (flush (\<lambda>d. Ok (d\<lparr>devices := update_by d_id i l (devices d)\<rparr>)))"
    "guar (evolves (stop_kept owner)) (flush (\<lambda>d. Ok (d\<lparr>devices := update_by d_id i l (devices d),
      credentials := revoke_credentials now i (credentials d)\<rparr>)))"
    by (auto intro!: stop_pre.evolves_flush)
qed

lemmas stop_flush = stop_flush_frame stop_flush_expire stop_flush_insert stop_flush_devices

interpretation stop_db: transactions "evolves (stop_kept owner)" env for owner env
  by unfold_locales (rule stop_pre.evolves_commit stop_transition stop_flush; simp)+

section \<open>Submitting a command\<close>

lemma stop_insert_command:
  assumes "row_by d_id (cr_device_id r) (devices (working s)) = Some v" "d_owner_id v \<noteq> owner"
  shows "evolves (stop_kept owner) s (snd (insert_new_command env r defn s))"
proof -
  let ?t = "snd (insert_new_command env r defn s)"
  have new: "stop_kept owner (working s) d'"
    if "commands d' = commands (working s) @ [new_command i n r defn]" "devices d' = devices (working s)"
      "approvals d' = approvals (working s)" "estops d' = estops (working s)" for d' i n
    using that assms row_by_SomeK [OF assms(1)]
    by (auto simp: stop_kept_def linked_def owned_ids_def granted_ids_def command_owner_def stop_active_def stop_row_def
        new_command_def)
  have "failed ?t \<or> working ?t = working s \<and> failed ?t = failed s \<or> \<not> failed s \<and> stop_kept owner (working s) (working ?t)"
    by (auto simp: insert_new_command_def prog_defs Let_def insert_defs split: sum.splits if_splits intro!: new)
  moreover have "committed ?t = committed s"
    by (auto simp: insert_new_command_def prog_defs Let_def split: sum.splits if_splits)
  ultimately show ?thesis by (auto simp: evolves_def stop_pre.D_refl intro: stop_pre.D_trans)
qed

lemma stop_submit:
  "guar (evolves (stop_kept owner)) (submit_for_approval env c u)" "guar (evolves (stop_kept owner)) (submit_for_delivery env c i)"
  by (rule stop_db.tx_commands) (auto simp: submit_for_delivery_def intro!: stop_db.tx_calls stop_db.tx_commands stop_transition)

lemma stop_write_command:
  assumes "row_by d_id (cr_device_id r) (devices (working s)) = Some v" "d_owner_id v \<noteq> owner"
  shows "evolves (stop_kept owner) s (snd (write_command env r defn u i s))"
  unfolding write_command_def
  by (rule stop_pre.evolution.bindM_at, rule stop_insert_command [OF assms], rule guarD)
    (auto intro!: stop_db.tx_calls stop_submit split: prod.split)

lemma stop_create_checked:
  assumes "row_by d_id (cr_device_id r) (devices (working s)) = Some v" "d_owner_id v \<noteq> owner"
  shows "evolves (stop_kept owner) s (snd (create_checked env r u v' s))"
  unfolding create_checked_def
  by (rule stop_pre.evolution.bindM_select_at)
    (auto simp: raiseM_def stop_pre.evolution.R_refl intro!: stop_write_command [OF assms] split: option.split)

lemma stop_create_tx:
  assumes "u \<noteq> owner"
  shows "guar (evolves (stop_kept owner)) (create_tx env r u)"
  unfolding guar_def create_tx_def
proof (intro allI stop_pre.evolution.bindM_select_at)
  fix s
  have checked: "evolves (stop_kept owner) s (snd (bindM (is_active env u) (\<lambda>active. if active then raiseM stop_error
      else create_checked env r u v) s))"
    if "row_by d_id (cr_device_id r) (devices (working s)) = Some v" "d_owner_id v \<noteq> owner" for v
  proof (rule stop_pre.evolution.bindM_at)
    show "evolves (stop_kept owner) s (snd (is_active env u s))" by (rule guarD [OF stop_db.guar_stop_check])
  next
    fix b t assume "is_active env u s = (Inr b, t)"
    then have "working t = working s" using is_active_frame [of env u s] by auto
    with that show "evolves (stop_kept owner) t (snd ((if b then raiseM stop_error else create_checked env r u v) t))"
      by (auto simp: raiseM_def stop_pre.evolution.R_refl intro!: stop_create_checked)
  qed
  show "evolves (stop_kept owner) s (snd ((case row_by d_id (cr_device_id r) (devices (working s)) of
         None \<Rightarrow> raiseM (ApiError DEVICE_NOT_FOUND ''Device not found'' 404)
       | Some v \<Rightarrow> if d_owner_id v \<noteq> u then raiseM (ApiError DEVICE_NOT_FOUND ''Device not found'' 404)
           else bindM (liftM (dot_value (orm_enum env) device_status_value (d_trust_status v))) (\<lambda>trust.
               if trust \<noteq> ''trusted'' then raiseM (ApiError DEVICE_REVOKED ''Device is not trusted'' 403)
               else bindM (is_active env u) (\<lambda>active.
                   if active then raiseM stop_error else create_checked env r u v))) s))"
    using checked assms
    by (auto simp: raiseM_def stop_pre.evolution.R_refl intro!: stop_pre.evolution.bindM_lift_at split: option.split)
qed

section \<open>Deciding an approval\<close>

lemma stop_decided:
  assumes "approval_row i d = Some a" "a_owner_id a \<noteq> owner \<or> \<not> approve"
  shows "stop_kept owner d (update_approval i (decided now approve note) d)"
  unfolding update_approval_def update_by_def
proof (rule stop_kept_approvals)
  fix x assume x: "x \<in> set (approvals d)" "a_owner_id x = owner" "linked d"
    and st: "a_status (if a_id x = i then decided now approve note x else x) = APPROVAL_APPROVED"
  have "x = a" if "a_id x = i"
    using row_by_mem [of a_id "approvals d" x] assms(1) x that by (simp add: linked_def approval_row_def)
  with assms(2) x st show "a_status x = APPROVAL_APPROVED" by (auto simp: decided_def split: if_splits)
qed (simp_all add: decided_def)

lemma stop_queue_approved:
  "guar (evolves (stop_kept owner)) (queue_approved env a)" "guar (evolves (stop_kept owner)) (reject_command_of env a)"
  unfolding queue_approved_def reject_command_of_def
  by (auto intro!: stop_db.tx_calls stop_db.tx_refusal stop_db.tx_commands stop_transition split: option.split)

lemma stop_decide_tx:
  assumes "u \<noteq> owner \<or> decision \<noteq> ''approve''"
  shows "guar (evolves (stop_kept owner)) (decide_tx env i u decision nonce note)"
  unfolding guar_def decide_tx_def
proof (intro allI stop_pre.evolution.bindM_select_at, goal_cases)
  case (1 s)
  let ?P = "evolves (stop_kept owner) s"
  have decided: "?P (snd (seqM (flush (\<lambda>d. Ok (update_approval i (decided now b x) d))) k s))"
    if "approval_row i (working s) = Some a" "a_owner_id a \<noteq> owner \<or> \<not> b" "guar (evolves (stop_kept owner)) k" for a now b x k
  proof (rule stop_pre.evolution.seqM_at)
    show "?P (snd (flush (\<lambda>d. Ok (update_approval i (decided now b x) d)) s))"
      using stop_decided [OF that(1,2)] by (auto simp: flush_def evolves_def stop_pre.D_refl intro: stop_pre.D_trans)
    show "evolves (stop_kept owner) t (snd (k t))" for t using that(3) by (rule guarD)
  qed
  have expired: "?P (snd (seqM (flush (\<lambda>d. Ok (update_approval i (\<lambda>a. a\<lparr>a_status := APPROVAL_EXPIRED\<rparr>) d))) (seqM commit (raiseM e)) s))" for e
    by (rule guarD) (auto intro!: stop_db.tx_calls stop_flush)
  show ?case
    using assms
    by (auto simp: bindM_def [of "getM clock"] getM_def returnM_def raiseM_def stop_pre.evolution.R_refl Let_def
        intro!: decided expired stop_pre.evolution.bindM_lift_at stop_db.tx_calls stop_queue_approved stop_db.tx_audit split: option.split)
qed

section \<open>The stop holds around every handler\<close>

definition stop_tx :: "env \<Rightarrow> uuid \<Rightarrow> st \<Rightarrow> st \<Rightarrow> bool" where
  "stop_tx env owner s t = (cache_kept env s t \<and> evolves (stop_kept owner) s t)"

definition stop_step :: "env \<Rightarrow> uuid \<Rightarrow> st \<Rightarrow> st \<Rightarrow> bool" where
  "stop_step env owner s t = (cache_kept env s t
     \<and> (prefix_clear env \<and> stop_cache_ok env s \<longrightarrow> stop_kept owner (committed s) (committed t)))"

lemma guar_stop_tx: "guar (stop_tx env owner) m = (guar (cache_kept env) m \<and> guar (evolves (stop_kept owner)) m)"
  by (auto simp: guar_def stop_tx_def)

interpretation stop_tx: call_relation "stop_tx env owner" env for env owner
proof unfold_locales
  show "stop_tx env owner s u" if "stop_tx env owner s t" "stop_tx env owner t u" for s t u env owner
    using that kept.R_trans stop_pre.evolution.R_trans unfolding stop_tx_def by blast
qed (simp_all add: stop_tx_def kept.R_refl kept.R_entropy kept.R_fail kept.R_quiet kept.R_del kept.R_put kept.R_limit [simplified] kept.R_stop
    stop_pre.evolution.R_refl stop_pre.evolution.R_entropy stop_pre.evolution.R_fail stop_db.R_quiet stop_db.R_del stop_db.R_put stop_db.R_limit [simplified] stop_db.R_stop)

interpretation stop_tx: transactions "stop_tx env owner" env for env owner
  by unfold_locales
    (simp add: guar_stop_tx kept_flush kept_transition; rule stop_pre.evolves_commit stop_transition stop_flush; simp)+

lemma kept_session: "guar (cache_kept env) m \<Longrightarrow> guar (cache_kept env) (with_session m)"
  unfolding guar_def [of _ "with_session m"]
proof
  fix s assume "guar (cache_kept env) m"
  then have "cache_kept env (open_session s) (snd (m (open_session s)))" by (rule guarD)
  then show "cache_kept env s (snd (with_session m s))"
    by (cases "m (open_session s)") (auto simp: with_session_def cache_kept_def stop_cache_ok_def split: sum.split)
qed

lemma kept_services:
  "guar (cache_kept env) (create_command env r u)" "guar (cache_kept env) (decide_approval env i u decision nonce note)"
  "guar (cache_kept env) (approve_command env cid)" "guar (cache_kept env) (release env u actor)"
proof -
  note calls = kept_session kept.tx_calls kept_flush kept_transition kept.tx_refusal kept.tx_audit kept.tx_outbox kept.tx_commands
  show "guar (cache_kept env) (create_command env r u)"
    unfolding create_command_def create_tx_def create_checked_def write_command_def insert_new_command_def submit_for_delivery_def Let_def
    by (auto intro!: calls split: option.split prod.split)
  show "guar (cache_kept env) (decide_approval env i u decision nonce note)"
    unfolding decide_approval_def decide_tx_def queue_approved_def reject_command_of_def Let_def
    by (auto intro!: calls split: option.split)
  show "guar (cache_kept env) (approve_command env cid)"
    unfolding approve_command_def by (auto intro!: calls)
  show "guar (cache_kept env) (release env u actor)"
    unfolding release_def release_tx_def Let_def by (auto intro!: calls split: option.split)
qed

interpretation kept: handlers "cache_kept env" "cache_kept env" env "\<lambda>_. True" for env
  by unfold_locales (auto simp: cache_kept_def stop_cache_ok_def intro: kept_services)

lemma db_session: "guar (evolves (stop_kept owner)) m \<Longrightarrow> stop_kept owner (committed s) (committed (snd (with_session m s)))"
  by (rule stop_pre.with_session_evolves)

lemma stop_create: "guar (stop_step env owner) (create_command env r u)"
  unfolding guar_def stop_step_def
proof (intro allI conjI impI; (elim conjE)?)
  fix s show "cache_kept env s (snd (create_command env r u s))" by (rule guarD [OF kept_services(1)])
  assume ok: "prefix_clear env" "stop_cache_ok env s"
  show "stop_kept owner (committed s) (committed (snd (create_command env r u s)))"
  proof (cases "u = owner \<and> stop_active owner (committed s)")
    case True
    with create_command_stopped [OF ok(2), of owner r] show ?thesis
      by (cases "create_command env r owner s") (auto simp: stop_pre.D_refl)
  next
    case False
    then consider "u \<noteq> owner" | "\<not> stop_active owner (committed s)" by blast
    then show ?thesis
    proof cases
      case 1
      show ?thesis unfolding create_command_def by (rule db_session [OF stop_create_tx [OF 1]])
    next
      case 2
      then show ?thesis by (simp add: stop_kept_def)
    qed
  qed
qed

lemma stop_decide: "guar (stop_step env owner) (decide_approval env i u decision nonce note)"
  unfolding guar_def stop_step_def
proof (intro allI conjI impI; (elim conjE)?)
  fix s show "cache_kept env s (snd (decide_approval env i u decision nonce note s))" by (rule guarD [OF kept_services(2)])
  assume ok: "prefix_clear env" "stop_cache_ok env s"
  have exp: "stop_kept owner d (update_approval i (\<lambda>a. a\<lparr>a_status := APPROVAL_EXPIRED\<rparr>) d)" for d
    unfolding update_approval_def update_by_def by (auto intro!: stop_kept_approvals split: if_splits)
  consider (other) "u \<noteq> owner \<or> decision \<noteq> ''approve''" | (clear) "\<not> stop_active owner (committed s)"
    | (stopped) "u = owner" "decision = ''approve''" "stop_active owner (committed s)" by blast
  then show "stop_kept owner (committed s) (committed (snd (decide_approval env i u decision nonce note s)))"
  proof cases
    case other
    then show ?thesis unfolding decide_approval_def by (rule db_session [OF stop_decide_tx])
  next
    case clear
    then show ?thesis by (simp add: stop_kept_def)
  next
    case stopped
    obtain r t where t: "decide_approval env i owner ''approve'' nonce note s = (r, t)" by fastforce
    from approve_stopped [OF ok(2) stopped(3) t] t stopped show ?thesis by (auto simp: stop_pre.D_refl exp)
  qed
qed

lemma stop_approve: "guar (stop_step env owner) (approve_command env cid)"
proof -
  have "guar (evolves (stop_kept owner)) (catchM (seqM (transition_command env cid APPROVED ''approval'' None)
      (seqM (transition_command env cid QUEUED ''approval'' None) (seqM commit (returnM True)))) false_on_refusal)"
    by (auto intro!: stop_db.tx_calls stop_db.tx_refusal stop_transition)
  with guarD [OF kept_services(3)] show ?thesis
    by (simp add: guar_def [of "stop_step env owner"] stop_step_def approve_command_def db_session)
qed

interpretation stop_st: call_relation "stop_step env owner" env for env owner
proof unfold_locales
  show "stop_step env owner s u" if "stop_step env owner s t" "stop_step env owner t u" for s t u env owner
    using that stop_pre.D_trans unfolding stop_step_def cache_kept_def by blast
qed (simp_all add: stop_step_def kept.R_refl kept.R_entropy kept.R_fail kept.R_quiet kept.R_del kept.R_put kept.R_limit [simplified] kept.R_stop
    stop_pre.D_refl)

lemma stop_session: "guar (stop_tx env owner) m \<Longrightarrow> guar (stop_step env owner) (with_session m)"
  by (auto simp: guar_stop_tx guar_def [of "stop_step env owner"] stop_step_def intro: guarD [OF kept_session] db_session)

lemma stop_release:
  assumes "u \<noteq> owner"
  shows "guar (stop_step env owner) (release env u actor)"
  unfolding release_def
proof (intro stop_st.guar_rules stop_session)
  have "guar (stop_tx env owner) (flush (update_estop u f))" if "\<And>r. es_owner_id (f r) = es_owner_id r" for f
    using assms that by (simp add: guar_stop_tx kept_flush stop_flush)
  then show "guar (stop_tx env owner) (release_tx env u actor)"
    unfolding release_tx_def Let_def
    by (auto intro!: stop_tx.tx_calls stop_tx.tx_audit stop_tx.tx_outbox split: option.split)
qed (auto intro!: stop_st.guar_rules stop_st.guar_cache split: option.split)

interpretation stop_hold: handlers "stop_tx env owner" "stop_step env owner" env "\<lambda>u. u \<noteq> owner" for env owner
proof unfold_locales
  fix env owner s t
  assume t: "stop_tx env owner (open_session s) t"
  show "stop_step env owner s (open_session t)"
    using t by (auto simp: stop_tx_def stop_step_def evolves_def cache_kept_def stop_cache_ok_def stop_pre.D_refl)
  show "stop_step env owner s (t\<lparr>committed := working t\<rparr>)" if "\<not> failed t"
    using t that stop_pre.D_trans
    by (auto simp: stop_tx_def stop_step_def evolves_def cache_kept_def stop_cache_ok_def stop_pre.D_refl)
qed (rule stop_create stop_decide stop_approve stop_release; assumption)+

section \<open>Users\<close>

lemma stop_user: "guar (stop_tx env owner) (repo_create_user env sub email name)" "guar (stop_tx env owner) (request_user env claims)"
proof -
  have "guar (stop_tx env owner) (flush (insert_user u))" for u by (simp add: guar_stop_tx kept_flush stop_flush)
  then show "guar (stop_tx env owner) (repo_create_user env sub email name)" "guar (stop_tx env owner) (request_user env claims)"
    unfolding request_user_def repo_create_user_def Let_def by (auto intro!: stop_tx.tx_calls split: option.split)
qed

lemma stop_users: "guar (stop_step env owner) (get_or_create_user env claims)"
  unfolding get_or_create_user_def Let_def
  by (auto intro!: stop_session stop_tx.tx_calls stop_tx.tx_rows stop_user split: option.split json.split)

lemma stop_request:
  assumes "\<And>ctx. guar (stop_step env owner) (route ctx)"
  shows "guar (stop_step env owner) (with_user_context env verified route)"
  unfolding guar_def
proof
  fix s
  obtain r s1 where s1: "bindM (liftM verified) (get_current_user_context env) (open_session s) = (r, s1)" by fastforce
  have "guar (stop_tx env owner) (bindM (liftM verified) (get_current_user_context env))"
    unfolding get_current_user_context_def by (auto intro!: stop_tx.tx_calls stop_user)
  from guarD [OF this, of "open_session s"] s1 have ctx: "stop_step env owner s s1"
    by (auto simp: stop_tx_def stop_step_def evolves_def cache_kept_def stop_cache_ok_def stop_pre.D_refl)
  have add: "stop_step env owner t (t\<lparr>committed := (committed t)\<lparr>users := us\<rparr>, working := w, failed := False\<rparr>)"
    "stop_step env owner t (open_session t)" for t us w
    by (auto simp: stop_step_def stop_pre.D_refl intro!: cache_kept_same stop_kept_frame)
  have run: "stop_step env owner s1 t" if "route c s1 = (x, t)" for c x t
    using guarD [OF assms [of c], of s1] that by simp
  show "stop_step env owner s (snd (with_user_context env verified route s))"
    unfolding with_user_context_def s1 Let_def
    by (auto split: prod.split sum.split dest!: run intro!: stop_st.R_trans [OF ctx] add intro: stop_st.R_trans)
qed

lemma kept_request:
  assumes "\<And>ctx. guar (cache_kept env) (route ctx)"
  shows "guar (cache_kept env) (with_user_context env verified route)"
  unfolding guar_def
proof
  fix s
  obtain r s1 where s1: "bindM (liftM verified) (get_current_user_context env) (open_session s) = (r, s1)" by fastforce
  have "guar (stop_tx env 0) (bindM (liftM verified) (get_current_user_context env))"
    unfolding get_current_user_context_def by (auto intro!: stop_tx.tx_calls stop_user)
  from guarD [OF this, of "open_session s"] s1 have ctx: "cache_kept env s s1"
    by (simp add: stop_tx_def cache_kept_def stop_cache_ok_def)
  have run: "cache_kept env s1 t" if "route c s1 = (x, t)" for c x t
    using guarD [OF assms [of c], of s1] that by simp
  have later: "cache_kept env s1 t'" if "cache_kept env s1 t" "cache t' = cache t" for t t' :: st
    using that by (simp add: cache_kept_def stop_cache_ok_def)
  show "cache_kept env s (snd (with_user_context env verified route s))"
    unfolding with_user_context_def s1 Let_def
    by (auto split: prod.split sum.split dest!: run intro!: kept.R_trans [OF ctx] intro: cache_kept_same later)
qed

lemma kept_users: "guar (cache_kept env) (get_or_create_user env claims)"
  using stop_users [of env 0] by (simp add: guar_def stop_step_def)

end
