(* ===== verification/System.thy ===== *)
theory System
  imports Schema StopSafety
begin

text \<open>
  The system as a whole: its entry points, the steps it can take, the states it can reach, and what holds of every
  run. A step runs one entry point to its end, so runs are sequences of whole handlers; inside a handler the
  sessions commit where the code commits.
\<close>

section \<open>The system\<close>

text \<open>
  The routes that need a user, run for the user of the request; then the entry points of the system: an HTTP request that
  passes the rate limiter and the user dependency, the one route without a user, the service calls that no route
  makes, rounds of the workers, and the gateway's endpoint and callbacks.
\<close>

datatype api_call =
    CreateCommand create_request | GetCommand uuid | ListCommands command_filter "string option" nat nat
  | CancelCommand uuid | GetCommandEvents uuid | GetTask uuid
  | Approve uuid decision_body | Reject uuid decision_body | GetApproval uuid
  | ListApprovals "approval_status option" "string option" nat nat
  | ActivateStop activate_request | ReleaseStop | StopStatus
  | ConfirmPairing uuid string | ListDevices | GetDevice uuid | RevokeDevice uuid
  | ListAuditLogs audit_filter nat nat | ListNotifications "string option" nat nat
  | Me | VerifySession | Profile

definition voidM :: "'a prog \<Rightarrow> unit prog" where
  "voidM m = seqM m (returnM ())"

fun api_route :: "env \<Rightarrow> api_call \<Rightarrow> user_context \<Rightarrow> unit prog" where
  "api_route env (CreateCommand r) ctx = voidM (route_create_command env r (uc_id ctx))"
| "api_route env (GetCommand i) ctx = voidM (route_get_command i (uc_id ctx))"
| "api_route env (ListCommands f x p n) ctx = voidM (route_list_commands f x p n (uc_id ctx))"
| "api_route env (CancelCommand i) ctx = voidM (route_cancel_command env i (uc_id ctx))"
| "api_route env (GetCommandEvents i) ctx = voidM (route_get_command_events i (uc_id ctx))"
| "api_route env (GetTask i) ctx = voidM (route_get_task i (uc_id ctx))"
| "api_route env (Approve i b) ctx = voidM (route_approve env i b (uc_id ctx))"
| "api_route env (Reject i b) ctx = voidM (route_reject env i b (uc_id ctx))"
| "api_route env (GetApproval i) ctx = voidM (route_get_approval i (uc_id ctx))"
| "api_route env (ListApprovals x r p n) ctx = voidM (route_list_approvals x r p n (uc_id ctx))"
| "api_route env (ActivateStop r) ctx = voidM (route_activate env r (uc_id ctx))"
| "api_route env ReleaseStop ctx = voidM (route_release env (uc_id ctx))"
| "api_route env StopStatus ctx = voidM (route_get_status (uc_id ctx))"
| "api_route env (ConfirmPairing i c) ctx = voidM (route_confirm_pairing env i c (uc_id ctx))"
| "api_route env ListDevices ctx = voidM (route_list_devices (uc_id ctx))"
| "api_route env (GetDevice i) ctx = voidM (route_get_device i (uc_id ctx))"
| "api_route env (RevokeDevice i) ctx = voidM (route_revoke_device env i (uc_id ctx))"
| "api_route env (ListAuditLogs f p n) ctx = voidM (route_list_audit_logs f p n (uc_id ctx))"
| "api_route env (ListNotifications x p n) ctx = voidM (route_list_notifications x p n (uc_id ctx))"
| "api_route env Me ctx = voidM (route_get_current_user_info ctx)"
| "api_route env VerifySession ctx = voidM (route_verify_session ctx)"
| "api_route env Profile ctx = voidM (route_get_profile ctx)"

datatype entry =
    Api http_request "token_claims res" api_call | StartPairing http_request pairing_input
  | GetOrCreateUser token_claims | UpdateTask uuid task_state json json json | ServiceApprove uuid | ServiceReject uuid
  | CreateApproval uuid uuid string string int | ExpireApprovals
  | ConsumerMessage string "json res" | PublisherRounds nat | SchedulerRounds nat
  | Websocket string string auth_event "ws_event list" | SecurityMessage string "json res"
  | LifecycleMessage "json res"

fun run_entry :: "env \<Rightarrow> entry \<Rightarrow> st \<Rightarrow> st" where
  "run_entry env (Api request verified c) s =
     snd (dispatch env request (with_user_context env verified (api_route env c)) s)"
| "run_entry env (StartPairing request r) s = snd (dispatch env request (route_start_pairing env r) s)"
| "run_entry env (GetOrCreateUser claims) s = snd (get_or_create_user env claims s)"
| "run_entry env (UpdateTask i x a b c) s = snd (update_task_state i x a b c s)"
| "run_entry env (ServiceApprove i) s = snd (approve_command env i s)"
| "run_entry env (ServiceReject i) s = snd (reject_command env i s)"
| "run_entry env (CreateApproval i u t d n) s = snd (create_approval env i u t d n s)"
| "run_entry env ExpireApprovals s = snd (expire_pending_approvals s)"
| "run_entry env (ConsumerMessage x d) s = snd (process_message env x d s)"
| "run_entry env (PublisherRounds n) s = snd (publisher_start env n s)"
| "run_entry env (SchedulerRounds n) s = snd (scheduler_start env n s)"
| "run_entry env (Websocket p a e evs) s = snd (websocket_endpoint env p a e evs s)"
| "run_entry env (SecurityMessage x d) s = snd (security_callback env x d s)"
| "run_entry env (LifecycleMessage d) s = snd (device_lifecycle_callback env d s)"

text \<open>
  A step of the system is a run of an entry point, the passing of time, or a change of the surroundings: Valkey goes up
  or down or loses entries, or a gateway process restarts with an empty connection table. \<open>step_by env P\<close> allows the
  entry points that satisfy \<open>P\<close> only.
\<close>

inductive step_by :: "env \<Rightarrow> (entry \<Rightarrow> bool) \<Rightarrow> st \<Rightarrow> st \<Rightarrow> bool" for env P where
  run: "P e \<Longrightarrow> step_by env P s (run_entry env e s)"
| time: "0 \<le> dt \<Longrightarrow> step_by env P s (s\<lparr>clock := clock s + dt\<rparr>)"
| valkey: "c \<subseteq>\<^sub>m cache s \<Longrightarrow> step_by env P s (s\<lparr>cache := c, cache_up := up\<rparr>)"
| restart: "step_by env P s (s\<lparr>active_connections := Map.empty\<rparr>)"

abbreviation system_step :: "env \<Rightarrow> st \<Rightarrow> st \<Rightarrow> bool" where
  "system_step env \<equiv> step_by env (\<lambda>_. True)"

lemma call: "system_step env s (run_entry env e s)"
  by (rule run) simp

text \<open>The states that can occur: from any state without commands and events, by steps.\<close>

inductive reachable :: "env \<Rightarrow> st \<Rightarrow> bool" for env where
  start: "commands (committed s) = [] \<Longrightarrow> events (committed s) = [] \<Longrightarrow> reachable env s"
| step: "reachable env s \<Longrightarrow> system_step env s t \<Longrightarrow> reachable env t"

inductive_cases step_byE: "step_by env P s t"

section \<open>What all entry points guarantee\<close>

text \<open>
  The interface between the handlers and the system: a relation that every handler respects, and the user dependency
  too, is respected by every entry point. A release of a stop is excepted where the relation does not allow it.
\<close>

definition is_release :: "entry \<Rightarrow> bool" where
  "is_release e = (case e of Api _ _ ReleaseStop \<Rightarrow> True | _ \<Rightarrow> False)"

context handlers
begin

lemma step_void: "guar S m \<Longrightarrow> guar S (voidM m)"
  unfolding voidM_def by (intro step_calls)

lemma step_api: "(c = ReleaseStop \<Longrightarrow> may_release (uc_id ctx)) \<Longrightarrow> guar S (api_route env c ctx)"
  by (cases c) (auto intro!: step_void step_command_routes step_approval_routes step_stop_routes step_device_routes
      step_log_routes step_calls simp: route_get_current_user_info_def route_verify_session_def route_get_profile_def)

end

locale entries = handlers T S env may_release for T S env may_release +
  assumes S_users: "guar S (get_or_create_user env claims)"
    and S_request: "(\<And>ctx. guar S (api_route env c ctx)) \<Longrightarrow> guar S (with_user_context env verified (api_route env c))"
begin

lemma step_entry: "(is_release e \<Longrightarrow> \<forall>u. may_release u) \<Longrightarrow> S s (run_entry env e s)"
proof -
  assume rel: "is_release e \<Longrightarrow> \<forall>u. may_release u"
  have api: "guar S (dispatch env rq (with_user_context env verified (api_route env c)))" if "e = Api rq verified c" for rq verified c
    using rel that by (intro step_limited S_request step_api) (simp add: is_release_def)
  have "guar S (seqM (process_batch env) (returnM ()))" by (intro step_calls step_batch)
  note rounds = step_rounds [OF this] step_rounds [OF step_scheduler]
  note all = step_limited [OF step_device_routes(1)] S_users S_approve
    step_command_service step_approvals step_message step_endpoint step_callbacks rounds
  show ?thesis
    using all api unfolding guar_def
    by (cases e) (simp_all add: publisher_start_def scheduler_start_def)
qed

lemma step_run:
  assumes "step_by env P s t" "\<And>e. P e \<Longrightarrow> is_release e \<Longrightarrow> \<forall>u. may_release u"
    "\<And>s c up. c \<subseteq>\<^sub>m cache s \<Longrightarrow> S s (s\<lparr>cache := c, cache_up := up\<rparr>)"
  shows "S s t"
  using assms(1)
proof (rule step_byE)
  fix e assume "t = run_entry env e s" "P e"
  with assms(2) show ?thesis by (simp add: step_entry)
qed (auto intro: assms(3) step.R_quiet)

end

sublocale user_history < entries "evolves D" "db_step D" env "\<lambda>_. True"
  by unfold_locales (intro step_users step_request users_frame.step_api; simp)+

context user_history
begin

lemma system_step_history: "system_step env s t \<Longrightarrow> D (committed s) (committed t)"
  using step_run [of "\<lambda>_. True" s t] by (simp add: db_step_def D_refl)

lemma system_steps_history: "(system_step env)\<^sup>*\<^sup>* s t \<Longrightarrow> D (committed s) (committed t)"
  by (induction rule: rtranclp_induct) (auto intro: D_refl D_trans system_step_history)

end

interpretation kept_sys: entries "cache_kept env" "cache_kept env" env "\<lambda>_. True" for env
  by unfold_locales (rule kept_users kept_request; simp)+

interpretation stop_sys: entries "stop_tx env owner" "stop_step env owner" env "\<lambda>u. u \<noteq> owner" for env owner
  by unfold_locales (rule stop_users stop_request; simp)+


lemma cache_kept_loses: "c \<subseteq>\<^sub>m cache s \<Longrightarrow> cache_kept env s (s\<lparr>cache := c, cache_up := up\<rparr>)"
  unfolding cache_kept_def stop_cache_ok_def map_le_def by (auto simp: dom_def) metis

lemma cache_kept_steps:
  assumes "(system_step env)\<^sup>*\<^sup>* s t"
  shows "cache_kept env s t"
  using assms
proof (induction rule: rtranclp_induct)
  case (step t u)
  have "cache_kept env t u" by (rule kept_sys.step_run [OF step.hyps(2)]) (simp_all add: cache_kept_loses)
  with step.IH show ?case by (rule kept.R_trans)
qed (rule kept.R_refl)

lemma stop_step_steps:
  assumes "(step_by env (\<lambda>e. \<not> is_release e))\<^sup>*\<^sup>* s t"
  shows "stop_step env owner s t"
  using assms
proof (induction rule: rtranclp_induct)
  case (step t u)
  have "stop_step env owner t u"
    by (rule stop_sys.step_run [OF step.hyps(2)]) (simp_all add: stop_step_def cache_kept_loses stop_pre.D_refl)
  with step.IH show ?case by (rule stop_st.R_trans)
qed (rule stop_st.R_refl)

section \<open>The relations the history obeys\<close>

interpretation moves_hist: command_history commands_evolve
proof
  show "commands_evolve d d'" if "commands d' = commands d" for d d' using that by (rule commands_evolve_same)
  show "commands_evolve d (after_transition eid now cid (c_state c) new src md d)"
    if "row_by c_id cid (commands d) = Some c" "effective (c_state c) new" for cid d c new eid now src md
    using that by (rule commands_evolve_after)
  show "commands_evolve d d'" if "commands d' = commands d @ [c]" for d d' c
    using that by (auto simp: commands_evolve_def row_by_append)
qed

interpretation log_hist: command_history log_grows
  by unfold_locales (auto simp: log_grows_def after_transition_def)

text \<open>
  The abstract machine: a map from commands to states in which a new command may appear in \<open>RECEIVED\<close> and a
  command may take a transition that the table and the trigger both let through.
\<close>

definition command_view :: "db \<Rightarrow> uuid \<Rightarrow> command_state option" where
  "command_view d cid = map_option c_state (row_by c_id cid (commands d))"

inductive machine_step :: "(uuid \<Rightarrow> command_state option) \<Rightarrow> (uuid \<Rightarrow> command_state option) \<Rightarrow> bool" where
  submit: "m cid = None \<Longrightarrow> machine_step m (m(cid \<mapsto> RECEIVED))"
| move: "m cid = Some old \<Longrightarrow> new \<in> set (ALLOWED_TRANSITIONS old) \<Longrightarrow> validate_command_state_transition old new \<Longrightarrow>
    machine_step m (m(cid \<mapsto> new))"

definition simulated :: "db \<Rightarrow> db \<Rightarrow> bool" where
  "simulated d d' = machine_step\<^sup>*\<^sup>* (command_view d) (command_view d')"

lemma command_view_after:
  "row_by c_id cid (commands d) = Some c \<Longrightarrow>
     command_view (after_transition eid now cid old new src md d) = (command_view d)(cid \<mapsto> new)"
  by (rule ext) (simp add: command_view_def after_transition_def table_simps)

interpretation sim_hist: command_history simulated
proof
  show "simulated d d" for d by (simp add: simulated_def)
  show "simulated d f" if "simulated d e" "simulated e f" for d e f
    using that unfolding simulated_def by (rule rtranclp_trans)
  show "simulated d d'" if "commands d' = commands d" for d d'
    using that by (simp add: simulated_def command_view_def [abs_def])
  show "simulated d (after_transition eid now cid (c_state c) new src md d)"
    if c: "row_by c_id cid (commands d) = Some c" and e: "effective (c_state c) new" for cid d c new eid now src md
  proof (cases "new = c_state c")
    case True
    have "command_view d cid = Some (c_state c)" using c by (simp add: command_view_def)
    with True c show ?thesis by (simp add: simulated_def command_view_after fun_upd_idem)
  next
    case False
    with c e have "machine_step (command_view d) ((command_view d)(cid \<mapsto> new))"
      by (intro move) (auto simp: command_view_def effective_def permitted_def)
    with c show ?thesis by (simp add: simulated_def command_view_after)
  qed
  show "simulated d d'" if n: "c_id c \<notin> c_id ` set (commands d)" "c_state c = RECEIVED" "commands d' = commands d @ [c]"
    for c d d'
  proof -
    have "command_view d' = (command_view d)(c_id c \<mapsto> RECEIVED)"
      using n by (intro ext) (auto simp: command_view_def row_by_append dest: row_by_SomeK split: option.split)
    moreover have "command_view d (c_id c) = None" using n(1) by (simp add: command_view_def)
    ultimately show ?thesis unfolding simulated_def by (simp add: machine_step.submit r_into_rtranclp)
  qed
qed

text \<open>The invariant: every event belongs to a command, and the log of every command is a path to its state.\<close>

definition history_ok :: "db \<Rightarrow> bool" where
  "history_ok d = (log_ok d \<and> e_command_id ` set (events d) \<subseteq> c_id ` set (commands d) \<and> distinct (map c_id (commands d)))"

lemma history_ok_new:
  assumes "history_ok d" "c_id c \<notin> c_id ` set (commands d)" "c_state c = RECEIVED" "commands d' = commands d @ [c]"
    "events d' = events d @ [received_event ei now (c_id c)]"
  shows "history_ok d'"
proof -
  have none: "events_of (c_id c) d = []"
    using assms(1,2) unfolding history_ok_def events_of_def filter_empty_conv by (metis image_eqI subsetD)
  have same: "events_of (c_id x) d' = events_of (c_id x) d" if "x \<in> set (commands d)" for x
    using that assms(2,5) by (auto simp: events_of_def received_event_def)
  have new: "events_of (c_id c) d' = [received_event ei now (c_id c)]"
    using none assms(5) by (simp add: events_of_def received_event_def)
  have "log_ok d'"
    using assms(1,3,4) same new
    by (auto simp: log_ok_def history_ok_def received_event_def step_ok_def end_state_def)
  with assms show ?thesis by (auto simp: history_ok_def received_event_def)
qed

interpretation inv_hist: command_history "\<lambda>d d'. history_ok d \<longrightarrow> history_ok d'"
proof
  show "history_ok d \<longrightarrow> history_ok d'" if "commands d' = commands d" "events d' = events d" for d d'
    using that by (simp add: history_ok_def log_ok_def events_of_def)
  show "history_ok d \<longrightarrow> history_ok (after_transition eid now cid (c_state c) new src md d)"
    if c: "row_by c_id cid (commands d) = Some c" and e: "effective (c_state c) new" for cid d c new eid now src md
  proof
    assume h: "history_ok d"
    then have "log_ok (after_transition eid now cid (c_state c) new src md d)"
      using log_ok_after [OF _ c e] by (simp add: history_ok_def)
    with h row_by_SomeK [OF c] show "history_ok (after_transition eid now cid (c_state c) new src md d)"
      by (auto simp: history_ok_def after_transition_def transition_event_def table_simps)
  qed
qed (auto dest: history_ok_new)

lemma reachable_history: "reachable env s \<Longrightarrow> history_ok (committed s)"
proof (induction rule: reachable.induct)
  case (start s)
  then show ?case by (simp add: history_ok_def log_ok_def)
next
  case (step s t)
  with inv_hist.system_step_history show ?case by blast
qed

text \<open>
  Approval is not skipped: no event of a command that needs approval leads from validation to the queue. So the log of
  such a command has a decision of the owner before anything that happens to it in or after the queue.
\<close>

definition approval_logged :: "db \<Rightarrow> bool" where
  "approval_logged d = (\<forall>c \<in> set (commands d). c_requires_approval c \<longrightarrow>
     (\<forall>e \<in> set (events_of (c_id c) d). e_previous_state e = Some VALIDATED \<longrightarrow> e_new_state e \<noteq> QUEUED))"

definition dispatched_states :: "command_state list" where
  "dispatched_states = [QUEUED, DELIVERED, ACKNOWLEDGED, RUNNING, SUCCEEDED, FAILED, TIMED_OUT, BLOCKED_BY_EMERGENCY_STOP]"

lemma effective_dispatched:
  "effective y x \<Longrightarrow> x \<in> set dispatched_states \<Longrightarrow>
     y \<in> insert APPROVED (set dispatched_states) \<or> y = VALIDATED \<and> x = QUEUED"
  by (cases y; cases x) (simp_all add: effective_def permitted_def validate_command_state_transition_def dispatched_states_def)

lemma effective_APPROVED: "effective y APPROVED \<Longrightarrow> y = APPROVED \<or> y = AWAITING_APPROVAL"
  by (cases y) (simp_all add: effective_def permitted_def validate_command_state_transition_def)

lemma path_approved:
  assumes "event_path None es" "\<And>e. e \<in> set es \<Longrightarrow> e_previous_state e = Some VALIDATED \<Longrightarrow> e_new_state e \<noteq> QUEUED"
    "end_state None es = Some x" "x = APPROVED \<or> x \<in> set dispatched_states"
  shows "\<exists>a \<in> set es. e_previous_state a = Some AWAITING_APPROVAL \<and> e_new_state a = APPROVED"
  using assms
proof (induction es arbitrary: x rule: rev_induct)
  case Nil
  then show ?case by (simp add: end_state_def)
next
  case (snoc e es)
  then have x: "x = e_new_state e" and es: "event_path None es" "e_previous_state e = end_state None es"
    and st: "step_ok (end_state None es) x" by (auto simp: event_path_snoc)
  from st snoc.prems(4) obtain y where y: "end_state None es = Some y" "effective y x"
    by (cases "end_state None es") (auto simp: step_ok_def dispatched_states_def)
  have "y = AWAITING_APPROVAL \<and> x = APPROVED \<or> y = APPROVED \<or> y \<in> set dispatched_states"
    using effective_dispatched [OF y(2)] effective_APPROVED [of y] y es(2) snoc.prems(2) [of e] snoc.prems(4) x by auto
  then show ?case
    using snoc.IH [OF es(1) _ y(1)] snoc.prems(2) es(2) x y(1) by auto
qed

lemma approval_logged_after:
  assumes "history_ok d" "approval_logged d" "row_by c_id cid (commands d) = Some c" "\<not> skips_approval c new"
  shows "approval_logged (after_transition eid now cid (c_state c) new src md d)"
  unfolding approval_logged_def
proof (intro ballI impI)
  let ?d' = "after_transition eid now cid (c_state c) new src md d"
  fix x e assume x: "x \<in> set (commands ?d')" "c_requires_approval x"
    and e: "e \<in> set (events_of (c_id x) ?d')" "e_previous_state e = Some VALIDATED"
  obtain y where y: "y \<in> set (commands d)" "c_id x = c_id y" "c_requires_approval y"
    using x by (auto simp: after_transition_def update_by_def split: if_splits)
  show "e_new_state e \<noteq> QUEUED"
  proof (cases "e \<in> set (events_of (c_id y) d)")
    case True
    with assms(2) y e(2) show ?thesis by (auto simp: approval_logged_def)
  next
    case False
    then have "c_id y = cid" "e_new_state e = new" "e_previous_state e = Some (c_state c)"
      using e(1) y(2) by (auto simp: events_of_def after_transition_def transition_event_def split: if_splits)
    moreover then have "y = c" using assms(1,3) y(1) row_by_mem [of c_id "commands d" y] by (simp add: history_ok_def)
    ultimately show ?thesis using assms(4) y(3) e(2) by (simp add: skips_approval_def)
  qed
qed

lemma approval_logged_new:
  assumes "history_ok d" "approval_logged d" "c_id c \<notin> c_id ` set (commands d)" "commands d' = commands d @ [c]"
    "events d' = events d @ [received_event ei now (c_id c)]"
  shows "approval_logged d'"
proof -
  have "e_command_id e \<noteq> c_id c" if "e \<in> set (events d)" for e using assms(1,3) that unfolding history_ok_def by (metis image_eqI subsetD)
  with assms show ?thesis by (auto simp: approval_logged_def events_of_def received_event_def)
qed

interpretation appr_hist: command_history "\<lambda>d d'. history_ok d \<and> approval_logged d \<longrightarrow> history_ok d' \<and> approval_logged d'"
proof
  show "history_ok d \<and> approval_logged d \<longrightarrow> history_ok d' \<and> approval_logged d'"
    if "commands d' = commands d" "events d' = events d" for d d'
    using that by (simp add: history_ok_def log_ok_def approval_logged_def events_of_def)
  show "history_ok d \<and> approval_logged d \<longrightarrow> history_ok (after_transition eid now cid (c_state c) new src md d)
      \<and> approval_logged (after_transition eid now cid (c_state c) new src md d)"
    if "row_by c_id cid (commands d) = Some c" "effective (c_state c) new" "\<not> skips_approval c new" for cid d c new eid now src md
    using that inv_hist.D_transition approval_logged_after by blast
qed (auto intro: history_ok_new approval_logged_new)

lemma reachable_approval: "reachable env s \<Longrightarrow> history_ok (committed s) \<and> approval_logged (committed s)"
proof (induction rule: reachable.induct)
  case (start s)
  then show ?case by (simp add: history_ok_def log_ok_def approval_logged_def)
next
  case (step s t)
  with appr_hist.system_step_history show ?case by blast
qed

lemma event_path_append: "event_path prev (es @ es') \<longleftrightarrow> event_path prev es \<and> event_path (end_state prev es) es'"
  by (induction es arbitrary: prev) (auto simp: end_state_def)

lemma approval_before:
  assumes "history_ok d \<and> approval_logged d" "c \<in> set (commands d)" "c_requires_approval c"
    "events_of (c_id c) d = before @ e # after" "e_new_state e \<in> set dispatched_states"
  shows "\<exists>a \<in> set before. e_previous_state a = Some AWAITING_APPROVAL \<and> e_new_state a = APPROVED"
proof -
  have path: "event_path None (before @ [e])"
    using assms(1,2,4) by (auto simp: history_ok_def log_ok_def event_path_append)
  have "e' \<in> set (before @ [e]) \<Longrightarrow> e_previous_state e' = Some VALIDATED \<Longrightarrow> e_new_state e' \<noteq> QUEUED" for e'
    using assms(1-4) by (auto simp: approval_logged_def)
  from path_approved [OF path this end_state_snoc] assms(5)
  obtain a where "a \<in> set (before @ [e])" "e_previous_state a = Some AWAITING_APPROVAL" "e_new_state a = APPROVED" by blast
  with assms(5) show ?thesis by (auto simp: dispatched_states_def)
qed

section \<open>Runs settle\<close>

lemma decreasing_changes:
  fixes g :: "nat \<Rightarrow> nat"
  assumes "\<And>i. g (Suc i) \<le> g i"
  shows "finite {i. g (Suc i) < g i} \<and> card {i. g (Suc i) < g i} \<le> g 0"
proof -
  let ?S = "{i. g (Suc i) < g i}"
  have mono: "g j \<le> g i" if "i \<le> j" for i j using that assms by (rule lift_Suc_antimono_le [rotated])
  have "inj_on g ?S"
  proof (rule linorder_inj_onI)
    fix i j :: nat assume "i < j" "i \<in> ?S" "j \<in> ?S"
    with mono [of "Suc i" j] show "g i \<noteq> g j" by simp
  qed auto
  moreover have "g ` ?S \<subseteq> {0<..g 0}" using mono [of 0] by auto
  ultimately show ?thesis using card_inj_on_le [of g ?S "{0<..g 0}"] inj_on_finite [of g ?S "{0<..g 0}"] by simp
qed

lemma view_evolves:
  assumes "system_step env s t" "command_view (committed s) cid = Some x"
  obtains y where "command_view (committed t) cid = Some y" "effective\<^sup>*\<^sup>* x y"
proof -
  obtain c where c: "row_by c_id cid (commands (committed s)) = Some c" "c_state c = x"
    using assms(2) by (auto simp: command_view_def)
  with moves_hist.system_step_history [OF assms(1)] obtain c' where
    "row_by c_id cid (commands (committed t)) = Some c'" "effective\<^sup>*\<^sup>* x (c_state c')"
    unfolding commands_evolve_def by blast
  with that show thesis by (simp add: command_view_def)
qed

section \<open>Properties\<close>

text \<open>A request of the demo user.\<close>

definition demo_call :: "api_call \<Rightarrow> entry" where
  "demo_call c = Api \<lparr>rq_path = ''/v1/commands'', rq_method = ''POST'', rq_user_id = None, rq_client = Some ''10.0.0.1'',
     rq_forwarded_for = None\<rparr> (Ok (demo_claims\<lparr>tc_sub := ''sub''\<rparr>)) c"

text \<open>
  C2. The whole system refines the command machine. Whatever entry point runs (a route, a worker round, a
  WebSocket session, a callback), with whatever arguments and in whatever state of the surroundings, the states of all
  commands in the committed database move along the abstract machine only: commands appear in
  \<open>RECEIVED\<close>, are never deleted, and each move is in the application's table and passes the trigger. The
  event log keeps all it had and only grows.
\<close>

theorem system_refines_machine:
  assumes "system_step env s t"
  shows "machine_step\<^sup>*\<^sup>* (command_view (committed s)) (command_view (committed t))
    \<and> (\<exists>new. events (committed t) = events (committed s) @ new)"
  using sim_hist.system_step_history [OF assms] log_hist.system_step_history [OF assms]
  by (simp add: simulated_def log_grows_def prefix_def)

theorem system_refines_machine_witness:
  "machine_step\<^sup>*\<^sup>* (command_view (demo_db [demo_command 5 QUEUED]))
     (command_view (committed (run_entry demo_env (demo_call (CancelCommand 5)) (demo_st (demo_db [demo_command 5 QUEUED])))))"
proof -
  let ?s = "demo_st (demo_db [demo_command 5 QUEUED])"
  have "system_step demo_env ?s (run_entry demo_env (demo_call (CancelCommand 5)) ?s)" by (rule call)
  from system_refines_machine [OF this] show ?thesis by simp
qed

text \<open>
  C13. In every reachable state the audit trail of every command is complete. Its events, in the order they were
  written, lead from nothing to \<open>RECEIVED\<close> and from there, each from where the previous one ended and along a
  permitted transition, to the state the command is in; at most nine of them change the state; and no two commands share
  an identifier.
\<close>

theorem reachable_history_complete:
  assumes "reachable env s"
  shows "distinct (map c_id (commands (committed s)))
    \<and> (\<forall>c \<in> set (commands (committed s)). event_path None (events_of (c_id c) (committed s))
        \<and> end_state None (events_of (c_id c) (committed s)) = Some (c_state c)
        \<and> moves (events_of (c_id c) (committed s)) \<le> 9)"
  using reachable_history [OF assms] event_path_total by (auto simp: history_ok_def log_ok_def)

theorem reachable_history_complete_witness:
  "log_ok (committed (run_entry demo_env (demo_call (CancelCommand 1000))
     (run_entry demo_env (demo_call (CreateCommand demo_request)) (demo_st (demo_db [])))))"
proof -
  have "reachable demo_env (demo_st (demo_db []))" by (rule start) simp_all
  then have "reachable demo_env (run_entry demo_env (demo_call (CancelCommand 1000))
      (run_entry demo_env (demo_call (CreateCommand demo_request)) (demo_st (demo_db []))))"
    by (intro step [OF _ call])
  from reachable_history_complete [OF this] show ?thesis by (simp add: log_ok_def)
qed

text \<open>
  C4. No command that needs approval is dispatched without one. In every reachable state, whatever routes, workers and
  gateways ran: if a command needs approval (as every command of a type for which the registry asks for it does), then
  every event of its log that puts it in the queue or in any state after the queue is preceded in the log by the event of
  its approval.
\<close>

theorem approval_precedes_dispatch:
  assumes "reachable env s" "c \<in> set (commands (committed s))" "c_requires_approval c"
    "events_of (c_id c) (committed s) = before @ e # after" "e_new_state e \<in> set dispatched_states"
  shows "\<exists>a \<in> set before. e_previous_state a = Some AWAITING_APPROVAL \<and> e_new_state a = APPROVED"
  using reachable_approval [OF assms(1)] assms(2-) by (rule approval_before)

text \<open>A command that asks for approval is submitted and approved: what the database then holds.\<close>

definition demo_approved :: st where
  "demo_approved = run_entry demo_env (ServiceApprove 1000)
     (run_entry demo_env (demo_call (CreateCommand (demo_request\<lparr>cr_requires_approval := True\<rparr>))) (demo_st (demo_db [])))"

definition summary :: "st \<Rightarrow> (uuid \<times> bool) list \<times> (uuid \<times> command_state option \<times> command_state) list" where
  "summary s = (map (\<lambda>c. (c_id c, c_requires_approval c)) (commands (committed s)),
     map (\<lambda>e. (e_command_id e, e_previous_state e, e_new_state e)) (events (committed s)))"

lemma demo_approved_summary:
  "summary demo_approved = ([(1000, True)], [(1000, None, RECEIVED), (1000, Some RECEIVED, VALIDATED),
     (1000, Some VALIDATED, AWAITING_APPROVAL), (1000, Some AWAITING_APPROVAL, APPROVED), (1000, Some APPROVED, QUEUED)])"
  unfolding demo_approved_def run_entry.simps demo_call_def api_route.simps by code_simp

lemma demo_approved_reachable: "reachable demo_env demo_approved"
proof -
  have "reachable demo_env (demo_st (demo_db []))" by (rule start) simp_all
  then show ?thesis unfolding demo_approved_def by (intro step [OF _ call])
qed

theorem approval_precedes_dispatch_witness:
  "\<exists>before e. events_of 1000 (committed demo_approved) = before @ [e] \<and> e_new_state e = QUEUED
     \<and> (\<exists>a \<in> set before. e_previous_state a = Some AWAITING_APPROVAL \<and> e_new_state a = APPROVED)"
proof -
  let ?d = "committed demo_approved"
  obtain c where c: "c \<in> set (commands ?d)" "c_id c = 1000" "c_requires_approval c"
    using demo_approved_summary by (auto simp: summary_def)
  obtain before e where e: "events ?d = before @ [e]" "e_new_state e = QUEUED" "\<forall>x \<in> set (events ?d). e_command_id x = 1000"
    using demo_approved_summary by (auto simp: summary_def map_eq_Cons_conv)
  then have ev: "events_of (c_id c) ?d = before @ e # []" by (auto simp: events_of_def c(2) filter_id_conv)
  have "e_new_state e \<in> set dispatched_states" using e(2) by (simp add: dispatched_states_def)
  from approval_precedes_dispatch [OF demo_approved_reachable c(1,3) ev this] ev e(2) show ?thesis unfolding c(2) by blast
qed

text \<open>
  C5. The database of every run is well typed. Starting from a database that satisfies the constraints of the migrations
  (the empty one, for instance), after any steps of the system the primary and unique keys are unique, every foreign key
  points to a row, the checked columns hold admissible values and the text columns fit; and every command has its
  task and is of a registered type, with parameters that the type's schema accepts, the registered risk, and the approval
  flag when the type asks for it.
\<close>

theorem database_well_typed:
  assumes "(system_step env)\<^sup>*\<^sup>* s t" "schema_ok (committed s)" "typed_ok env (committed s)"
  shows "schema_ok (committed t) \<and> typed_ok env (committed t)"
  using schema_hist.system_steps_history [OF assms(1)] assms(2,3) by blast

theorem database_well_typed_witness:
  "schema_ok (committed (run_entry demo_env (demo_call (CreateCommand demo_request)) (demo_st (demo_db []))))
     \<and> typed_ok demo_env (committed (run_entry demo_env (demo_call (CreateCommand demo_request)) (demo_st (demo_db []))))"
proof -
  have "(system_step demo_env)\<^sup>*\<^sup>* (demo_st (demo_db [])) (run_entry demo_env (demo_call (CreateCommand demo_request)) (demo_st (demo_db [])))"
    by (intro r_into_rtranclp call)
  moreover have "schema_ok (committed (demo_st (demo_db [])))" "typed_ok demo_env (committed (demo_st (demo_db [])))"
    by (simp_all add: ok_defs device_types_def demo_device_def)
  ultimately show ?thesis by (rule database_well_typed)
qed

text \<open>
  C21. Every command settles. In any infinite run of the system, whatever the owners, the devices and the workers
  do, the state of an existing command changes in at most eight steps, and in none once it is terminal.
\<close>

theorem commands_settle:
  assumes "\<And>i. system_step env (f i) (f (Suc i))" "command_view (committed (f 0)) cid = Some x"
  defines "changes \<equiv> {i. command_view (committed (f (Suc i))) cid \<noteq> command_view (committed (f i)) cid}"
  shows "finite changes \<and> card changes \<le> 8 \<and> (x \<in> set TERMINAL_STATES \<longrightarrow> changes = {})"
proof -
  define v where "v i = command_view (committed (f i)) cid" for i
  define g where "g i = rank (the (v i))" for i
  have "\<exists>y. v i = Some y" for i
  proof (induction i)
    case 0
    then show ?case using assms(2) by (simp add: v_def)
  next
    case (Suc i)
    with view_evolves [OF assms(1)] show ?case unfolding v_def by metis
  qed
  then have ev: "\<exists>y z. v i = Some y \<and> v (Suc i) = Some z \<and> effective\<^sup>*\<^sup>* y z" for i
    using view_evolves [OF assms(1)] unfolding v_def by metis
  have "g (Suc i) \<le> g i \<and> (v (Suc i) \<noteq> v i \<longleftrightarrow> g (Suc i) < g i)" for i
    using ev [of i] by (auto simp: g_def dest!: effective_star_rank)
  then have dec: "g (Suc i) \<le> g i" and eq: "changes = {i. g (Suc i) < g i}" for i
    unfolding changes_def v_def [symmetric] by auto
  have x: "g 0 = rank x" using assms(2) by (simp add: g_def v_def)
  have "rank x \<le> 8" by (cases x) simp_all
  moreover have "x \<in> set TERMINAL_STATES \<Longrightarrow> rank x = 0" by (cases x) (simp_all add: TERMINAL_STATES_def)
  ultimately show ?thesis
    using decreasing_changes [of g, OF dec] x unfolding eq by (auto simp: card_eq_0_iff)
qed

fun demo_run :: "nat \<Rightarrow> st" where
  "demo_run 0 = demo_st (demo_db [demo_command 5 QUEUED])"
| "demo_run (Suc n) = run_entry demo_env (if even n then demo_call (CancelCommand 5) else SchedulerRounds 1) (demo_run n)"

theorem commands_settle_witness:
  "finite {i. command_view (committed (demo_run (Suc i))) 5 \<noteq> command_view (committed (demo_run i)) 5}"
proof -
  have st: "system_step demo_env (demo_run i) (demo_run (Suc i))" for i by (simp add: call)
  have v: "command_view (committed (demo_run 0)) 5 = Some QUEUED" by (simp add: command_view_def)
  from commands_settle [of demo_env demo_run, OF st v] show ?thesis by blast
qed

section \<open>An active stop\<close>



text \<open>
  C3. An active stop holds until it is released. While an owner's stop is active and nobody releases a stop, whatever
  requests, workers, gateway sessions and failures of Valkey the run consists of: the stop stays active, no command appears
  for a device of the owner, and no approval of the owner is granted.
\<close>

theorem active_stop_holds:
  assumes "(step_by env (\<lambda>e. \<not> is_release e))\<^sup>*\<^sup>* s t" "prefix_clear env" "stop_cache_ok env s"
    "stop_active owner (committed s)" "schema_ok (committed s)"
  shows "stop_active owner (committed t)
    \<and> owned_ids owner (committed t) \<subseteq> owned_ids owner (committed s)
    \<and> granted_ids owner (committed t) \<subseteq> granted_ids owner (committed s)"
proof -
  have "linked (committed s)" using assms(5) by (simp add: linked_def ok_defs)
  with stop_step_steps [OF assms(1), of owner] assms(2-4) show ?thesis by (simp add: stop_step_def stop_kept_def)
qed

theorem active_stop_holds_witness:
  "owned_ids 1 (committed (run_entry demo_env (demo_call (CreateCommand demo_request)) (demo_st (demo_stopped [])))) = {}"
proof -
  let ?s = "demo_st (demo_stopped [])" and ?t = "run_entry demo_env (demo_call (CreateCommand demo_request)) (demo_st (demo_stopped []))"
  have st: "(step_by demo_env (\<lambda>e. \<not> is_release e))\<^sup>*\<^sup>* ?s ?t"
    by (intro r_into_rtranclp run) (simp add: is_release_def demo_call_def)
  have ok: "prefix_clear demo_env" "stop_cache_ok demo_env ?s" "stop_active 1 (committed ?s)" "schema_ok (committed ?s)"
    by (simp_all add: prefix_clear_def demo_env_def default_settings_def stop_cache_ok_def stop_active_def stop_row_def
        demo_stopped_def demo_stop_def ok_defs device_types_def demo_device_def)
  from active_stop_holds [OF st ok] show ?thesis by (simp add: owned_ids_def demo_stopped_def)
qed

section \<open>From the row to the device and back\<close>

lemma fresh_ids_draw: "fresh_ids env (Suc n) s \<Longrightarrow> fresh_ids env n (s\<lparr>entropy := Suc (entropy s)\<rparr>)"
  by (rule fresh_ids_step) auto

lemma gateway_delivers:
  assumes "stop_clear env owner s" "get_by_id (c_id c) (committed s) = Some c" "c_state c = QUEUED"
    "c_expires_at c = Some x" "clock s \<le> x" "pyd_datetime env (JStr (isoformat x)) = Some x"
    "\<And>u. pyd_uuid env (JStr (uuid_str u)) = Some u" "\<And>m. nats_ack env m" "ws_ok env k" "k \<notin> fst ` set (closed s)"
  shows "nats_listener_msg env (c_device_id c) owner k (Ok (JObj (queued_payload c (c_device_id c)))) s =
    (Ok ACK, (open_session s)\<lparr>entropy := Suc (entropy s),
       sent := sent s @ [(k, model_dump env (CommandRequestMessage (c_id c) (c_command_type c) (c_parameters c) x
           [(''level'', JStr (risk_level_value (c_risk_level c)))] (gen_uuid env (entropy s))))],
       bus := bus s @ [\<lparr>m_subject = command_delivered (uuid_str (c_id c)),
           m_payload = [(''command_id'', JStr (uuid_str (c_id c))), (''device_id'', JStr (uuid_str (c_device_id c)))],
           m_headers = [(''Nats-Msg-Id'', JStr (''delivered-'' @ uuid_str (c_id c)))]\<rparr>]\<rparr>)"
  using is_active_clear [OF assms(1)] assms(2-)
  by (simp add: nats_listener_msg_def offer_command_def catchM_def bindM_def liftM_def py_getitem_def queued_payload_def
      py_uuid_def pre_delivery_run send_ready_def uuid4_def command_request_def conn_send_json_run seqM_def publish_js_def
      Let_def returnM_def py_str_key_def)

text \<open>
  C17. A queued command makes the round trip to its device. The document that the outbox carries for it is read back by
  the gateway into a request with the same identifier, type, parameters, expiry and risk level, which is sent on the
  device's socket; the delivery report that the gateway publishes then, read by the command consumer, finds the same
  command and moves it to \<open>DELIVERED\<close>. Here Pydantic reads back the time stamps and identifiers that Python
  prints, NATS accepts the report, and the socket is open.
\<close>

theorem queued_command_round_trip:
  assumes pyd: "pyd_datetime env (JStr (isoformat x)) = Some x" "\<And>u. pyd_uuid env (JStr (uuid_str u)) = Some u"
    and net: "\<And>m. nats_ack env m" "ws_ok env k" "k \<notin> fst ` set (closed s)"
    and row: "get_by_id (c_id c) (committed s) = Some c" "c_expires_at c = Some x" "clock s \<le> x"
    and ready: "stop_clear env owner s" "flight env (Suc (Suc n)) (c_id c) (c_device_id c) QUEUED (open_session s)"
      "dedup_count (''delivered:'' @ uuid_str (c_id c)) (c_id c) (committed s) = 0"
  shows "\<exists>t report u c'. nats_listener_msg env (c_device_id c) owner k (Ok (JObj (queued_payload c (c_device_id c)))) s = (Ok ACK, t)
    \<and> sent t = sent s @ [(k, model_dump env (CommandRequestMessage (c_id c) (c_command_type c) (c_parameters c) x
        [(''level'', JStr (risk_level_value (c_risk_level c)))] (gen_uuid env (entropy s))))]
    \<and> bus t = bus s @ [report]
    \<and> process_message env (m_subject report) (Ok (JObj (m_payload report))) t = (Ok ACK, u)
    \<and> get_by_id (c_id c) (committed u) = Some c' \<and> c_state c' = DELIVERED"
proof -
  have q: "c_state c = QUEUED" using ready(2) row(1) by (auto simp: flight_def get_by_id_def)
  note gw = gateway_delivers [OF ready(1) row(1) q row(2,3) pyd net]
  let ?report = "\<lparr>m_subject = command_delivered (uuid_str (c_id c)),
      m_payload = [(''command_id'', JStr (uuid_str (c_id c))), (''device_id'', JStr (uuid_str (c_device_id c)))],
      m_headers = [(''Nats-Msg-Id'', JStr (''delivered-'' @ uuid_str (c_id c)))]\<rparr>"
  obtain t where t: "nats_listener_msg env (c_device_id c) owner k (Ok (JObj (queued_payload c (c_device_id c)))) s = (Ok ACK, t)"
    "sent t = sent s @ [(k, model_dump env (CommandRequestMessage (c_id c) (c_command_type c) (c_parameters c) x
        [(''level'', JStr (risk_level_value (c_risk_level c)))] (gen_uuid env (entropy s))))]"
    "bus t = bus s @ [?report]" "committed t = committed s" "entropy t = Suc (entropy s)"
    using gw by (auto simp del: model_dump.simps)
  have "fresh_ids env (Suc n) ((open_session s)\<lparr>entropy := Suc (entropy s)\<rparr>)"
    using ready(2) fresh_ids_draw [of env "Suc n" "open_session s"] by (simp add: flight_def)
  then have "fresh_ids env (Suc n) (open_session t)" by (rule fresh_ids_same) (simp_all add: t(4,5))
  with ready(2) have fl: "flight env (Suc n) (c_id c) (c_device_id c) QUEUED (open_session t)"
    by (simp add: flight_def t(4))
  obtain u where u: "handle_delivered env (JObj (m_payload ?report)) t = (Ok (), u)"
    "arrives env n (c_id c) (c_device_id c) DELIVERED (''delivered:'' @ uuid_str (c_id c)) t u"
    using handle_delivered_step [OF fl, of "m_payload ?report"] ready(3) t(4) by auto
  have "process_message env (m_subject ?report) (Ok (JObj (m_payload ?report))) t = (Ok ACK, u)"
    using process_message_Ok [OF routes(1) u(1)] by simp
  moreover obtain c' where "get_by_id (c_id c) (committed u) = Some c'" "c_state c' = DELIVERED"
    using u(2) by (auto simp: arrives_def flight_def get_by_id_def)
  ultimately show ?thesis using t(1,2,3) by blast
qed

theorem queued_command_round_trip_witness:
  "\<exists>t report u c'. nats_listener_msg (demo_env\<lparr>pyd_datetime := \<lambda>_. Some 5000000\<rparr>) 2 1 77
       (Ok (JObj (queued_payload (demo_command 5 QUEUED) 2))) (demo_st demo_queued) = (Ok ACK, t)
     \<and> bus t = [report]
     \<and> process_message (demo_env\<lparr>pyd_datetime := \<lambda>_. Some 5000000\<rparr>) (m_subject report) (Ok (JObj (m_payload report))) t = (Ok ACK, u)
     \<and> get_by_id 5 (committed u) = Some c' \<and> c_state c' = DELIVERED"
proof -
  let ?e = "demo_env\<lparr>pyd_datetime := \<lambda>_. Some 5000000\<rparr>" and ?c = "demo_command 5 QUEUED" and ?s = "demo_st demo_queued"
  have pyd: "pyd_datetime ?e (JStr (isoformat 5000000)) = Some 5000000" "\<And>u. pyd_uuid ?e (JStr (uuid_str u)) = Some u"
    by (simp_all add: demo_env_def)
  have net: "\<And>m. nats_ack ?e m" "ws_ok ?e 77" "77 \<notin> fst ` set (closed ?s)" by (simp_all add: demo_env_def demo_st_def)
  have row: "get_by_id (c_id ?c) (committed ?s) = Some ?c" "c_expires_at ?c = Some 5000000" "clock ?s \<le> 5000000"
    by (simp_all add: get_by_id_def demo_queued_def)
  have clear: "stop_clear ?e 1 ?s" by (simp add: stop_clear_def stop_active_def stop_row_def kv_get_def demo_queued_def)
  have fl: "flight ?e (Suc (Suc 2)) (c_id ?c) (c_device_id ?c) QUEUED (open_session ?s)"
    using demo_flight by (simp add: flight_def fresh_ids_def numeral_eq_Suc)
  have new: "dedup_count (''delivered:'' @ uuid_str (c_id ?c)) (c_id ?c) (committed ?s) = 0"
    using demo_unseen by simp
  have ids: "c_device_id ?c = 2" "c_id ?c = 5" "bus ?s = []" by simp_all
  from queued_command_round_trip [OF pyd net row clear fl new] show ?thesis unfolding ids by auto
qed

end
