(* ===== verification/Platform.thy ===== *)
theory Platform
  imports Worker
begin

text \<open>
  The parts of the process around the services: the clock abstraction of \<^verbatim>\<open>app/utils/clock.py\<close>, the log processor of
  \<^verbatim>\<open>app/observability/logging.py\<close> that redacts sensitive fields, the table of database engines of
  \<^verbatim>\<open>app/database/connection.py\<close>, the worker entry point and the \<^verbatim>\<open>main\<close> functions of the workers with their order of
  start-up and clean-up, and the remaining health reports.
\<close>

section \<open>Lower case\<close>

text \<open>\<^verbatim>\<open>str.lower\<close> on characters below 256: the ASCII letters and the Latin-1 letters, without the multiplication sign.\<close>

definition lower_char :: "char \<Rightarrow> char" where
  "lower_char c =
     (let n = of_char c :: nat in
      if 65 \<le> n \<and> n \<le> 90 \<or> 192 \<le> n \<and> n \<le> 222 \<and> n \<noteq> 215 then char_of (n + 32) else c)"

definition py_lower :: "string \<Rightarrow> string" where
  "py_lower s = map lower_char s"

lemma lower_char_idem [simp]: "lower_char (lower_char c) = lower_char c"
  by (simp add: lower_char_def Let_def of_char_of)

lemma py_lower_idem [simp]: "py_lower (py_lower s) = py_lower s"
  by (simp add: py_lower_def)

section \<open>Clocks\<close>

text \<open>A Python \<^verbatim>\<open>datetime\<close>: the wall time in microseconds, and the offset of its zone unless it is naive.\<close>

record py_datetime =
  wall :: int
  utcoffset :: "int option"

definition instant :: "py_datetime \<Rightarrow> int" where
  "instant t = wall t - (case utcoffset t of None \<Rightarrow> 0 | Some z \<Rightarrow> z)"

record fake_clock =
  fc_time :: py_datetime

definition FakeClock :: "py_datetime option \<Rightarrow> fake_clock" where
  "FakeClock fixed_time =
     \<lparr>fc_time = (case fixed_time of Some t \<Rightarrow> t | None \<Rightarrow> \<lparr>wall = 1767225600000000, utcoffset = Some 0\<rparr>)\<rparr>"

definition fake_now :: "fake_clock \<Rightarrow> py_datetime" where
  "fake_now c = fc_time c"

definition fake_utcnow :: "fake_clock \<Rightarrow> py_datetime" where
  "fake_utcnow c = fc_time c"

definition fake_set :: "py_datetime \<Rightarrow> fake_clock \<Rightarrow> fake_clock" where
  "fake_set dt c =
     (let dt' = (if utcoffset dt = None then dt\<lparr>utcoffset := Some 0\<rparr> else dt) in c\<lparr>fc_time := dt'\<rparr>)"

text \<open>The years 1 to 9999; an addition that leaves them raises \<^verbatim>\<open>OverflowError\<close>.\<close>

definition in_datetime_range :: "int \<Rightarrow> bool" where
  "in_datetime_range w = (-62135596800000000 \<le> w \<and> w \<le> 253402300799999999)"

definition duration :: "int \<Rightarrow> int \<Rightarrow> int \<Rightarrow> int \<Rightarrow> int" where
  "duration seconds minutes hours days = (((days * 24 + hours) * 60 + minutes) * 60 + seconds) * 1000000"

definition fake_advance :: "int \<Rightarrow> int \<Rightarrow> int \<Rightarrow> int \<Rightarrow> fake_clock \<Rightarrow> fake_clock res" where
  "fake_advance seconds minutes hours days c =
     (let w = wall (fc_time c) + duration seconds minutes hours days in
      if in_datetime_range w then Ok (c\<lparr>fc_time := (fc_time c)\<lparr>wall := w\<rparr>\<rparr>)
      else Err (OverflowError ''date value out of range''))"

definition system_now :: "datetime prog" where
  "system_now = getM clock"

definition system_utcnow :: "datetime prog" where
  "system_utcnow = getM clock"

text \<open>
  What both clocks promise to code that takes one: reading does not change the clock, and time only moves by what it is
  told to. The fake clock moves exactly by the given duration, in any number of steps.
\<close>

lemma fake_clock_reads:
  "instant (fake_now (fake_set dt c)) = instant dt" "utcoffset (fake_now (fake_set dt c)) \<noteq> None"
  "fake_utcnow c = fake_now c"
  by (simp_all add: fake_now_def fake_utcnow_def fake_set_def instant_def Let_def split: option.split)

lemma fake_advance_moves:
  "fake_advance s m h d c = Ok c' \<Longrightarrow> instant (fake_now c') = instant (fake_now c) + duration s m h d"
  by (auto simp: fake_advance_def fake_now_def instant_def Let_def split: if_splits)

lemma fake_advance_twice:
  assumes "fake_advance s m h d c = Ok c'" "fake_advance s' m' h' d' c' = Ok c''"
  shows "fake_advance (s + s') (m + m') (h + h') (d + d') c = Ok c''"
  using assms by (auto simp: fake_advance_def duration_def Let_def algebra_simps split: if_splits)

section \<open>Redaction of log events\<close>

definition SENSITIVE_FIELDS :: "string list" where
  "SENSITIVE_FIELDS = [''authorization'', ''token'', ''password'', ''secret'', ''credential'', ''access_token'',
     ''refresh_token'', ''api_key'', ''private_key'', ''supabase_service_role_key'', ''database_url'', ''valkey_url'',
     ''nats_url'', ''r2_secret_access_key'']"

definition is_sensitive :: "string \<Rightarrow> bool" where
  "is_sensitive key = list_ex (\<lambda>sensitive. py_in sensitive (py_lower key)) SENSITIVE_FIELDS"

definition redact :: "dict \<Rightarrow> dict" where
  "redact event_dict = map (\<lambda>(key, v). if is_sensitive key then (key, JStr ''[REDACTED]'') else (key, v)) event_dict"

text \<open>
  Two events with the same fields that differ only in sensitive values are the same after redaction: what is written
  does not depend on any of them. Only the top level is looked at, so a document below a harmless key is written as it is.
\<close>

lemma redact_hides:
  assumes "map fst d = map fst d'" "\<And>i. i < length d \<Longrightarrow> \<not> is_sensitive (fst (d ! i)) \<Longrightarrow> snd (d ! i) = snd (d' ! i)"
  shows "redact d = redact d'"
proof (rule nth_equalityI)
  have len: "length d = length d'" using assms(1) by (metis length_map)
  then show "length (redact d) = length (redact d')" by (simp add: redact_def)
  fix i assume "i < length (redact d)"
  then have i: "i < length d" by (simp add: redact_def)
  then have "fst (d ! i) = fst (d' ! i)" using assms(1) len by (metis nth_map)
  with assms(2) [OF i] i len show "redact d ! i = redact d' ! i"
    by (cases "d ! i"; cases "d' ! i") (auto simp: redact_def)
qed

lemma redact_keeps: "\<not> is_sensitive k \<Longrightarrow> map_of (redact d) k = map_of d k"
  by (induction d) (auto simp: redact_def)

lemma redact_idem: "redact (redact d) = redact d"
  by (auto simp: redact_def)

lemma redact_nested: "redact [(''details'', JObj [(''token'', JStr t)])] = [(''details'', JObj [(''token'', JStr t)])]"
  by code_simp

section \<open>Database engines\<close>

text \<open>
  \<^verbatim>\<open>_engines\<close> is a dict from event loops (\<open>None\<close> without a running one) to engines, in the order of insertion; an engine
  is known by a number, and the numbers of the disposed ones are kept. The database URL, a setting without default, whether the process runs under pytest, and whether
  \<^verbatim>\<open>dispose\<close> of an engine raises, are arguments.
\<close>

datatype pool_class = NullPool | QueuePool int int bool

record engine =
  eng_id :: nat
  eng_url :: string
  eng_pool :: pool_class
  eng_echo :: bool

record engine_table =
  engines :: "(nat option \<times> engine) list"
  next_engine :: nat
  disposed :: "nat list"

definition get_engine :: "string \<Rightarrow> settings \<Rightarrow> bool \<Rightarrow> nat option \<Rightarrow> engine_table \<Rightarrow> engine \<times> engine_table" where
  "get_engine database_url cfg pytest loop tab =
     (case map_of (engines tab) loop of
        Some eng \<Rightarrow> (eng, tab)
      | None \<Rightarrow>
          (let eng = \<lparr>eng_id = next_engine tab, eng_url = database_url,
                 eng_pool = (if pytest then NullPool else QueuePool (DATABASE_POOL_SIZE cfg) (DATABASE_MAX_OVERFLOW cfg) True),
                 eng_echo = (ENVIRONMENT cfg = ''development'')\<rparr>
           in (eng, tab\<lparr>engines := engines tab @ [(loop, eng)], next_engine := Suc (next_engine tab)\<rparr>)))"

definition close_db :: "(engine \<Rightarrow> unit res) \<Rightarrow> nat option \<Rightarrow> engine_table \<Rightarrow> unit res \<times> engine_table" where
  "close_db dispose loop tab =
     (case map_of (engines tab) loop of
        None \<Rightarrow> (Ok (), tab)
      | Some eng \<Rightarrow>
          (case dispose eng of
             Inl e \<Rightarrow> (Err e, tab)
           | Inr _ \<Rightarrow> (Ok (), tab\<lparr>engines := filter (\<lambda>(l, _). l \<noteq> loop) (engines tab), disposed := eng_id eng # disposed tab\<rparr>)))"

definition cleanup_all_engines :: "(engine \<Rightarrow> unit res) \<Rightarrow> engine_table \<Rightarrow> engine_table" where
  "cleanup_all_engines dispose tab =
     (fold (\<lambda>(loop, eng) t. case dispose eng of Inl e \<Rightarrow> t | Inr _ \<Rightarrow> t\<lparr>disposed := eng_id eng # disposed t\<rparr>) (engines tab) tab)
       \<lparr>engines := []\<rparr>"

text \<open>
  The table is a dict, engines are never shared between loops nor used after they were disposed of; the three operations
  keep this.
\<close>

definition engines_ok :: "engine_table \<Rightarrow> bool" where
  "engines_ok tab = (distinct (map fst (engines tab)) \<and> distinct (map (eng_id \<circ> snd) (engines tab))
     \<and> list_all (\<lambda>(_, eng). eng_id eng < next_engine tab \<and> eng_id eng \<notin> set (disposed tab)) (engines tab)
     \<and> list_all (\<lambda>i. i < next_engine tab) (disposed tab))"

lemma get_engine_ok: "engines_ok tab \<Longrightarrow> get_engine url cfg pytest loop tab = (eng, tab') \<Longrightarrow>
    engines_ok tab' \<and> map_of (engines tab') loop = Some eng \<and> get_engine url cfg pytest loop tab' = (eng, tab')"
  by (auto simp: get_engine_def engines_ok_def list_all_iff Let_def map_of_eq_None_iff map_add_Some_iff
      split: option.splits) force+

lemma distinct_filter_snd: "distinct (map f xs) \<Longrightarrow> x \<in> set xs \<Longrightarrow> y \<in> set xs \<Longrightarrow> f x = f y \<Longrightarrow> x = y"
  by (metis distinct_map inj_onD)

lemma map_of_filter_key: "map_of (filter (\<lambda>(l, _). l \<noteq> k) es) l = (if l = k then None else map_of es l)"
  by (induction es) auto

lemma close_db_cases:
  assumes "close_db dispose loop tab = (r, tab')"
  obtains "tab' = tab"
  | eng where "map_of (engines tab) loop = Some eng"
      "tab' = tab\<lparr>engines := filter (\<lambda>(l, _). l \<noteq> loop) (engines tab), disposed := eng_id eng # disposed tab\<rparr>"
  using assms by (auto simp: close_db_def split: option.splits sum.splits)

lemma close_db_ok:
  assumes ok: "engines_ok tab" and run: "close_db dispose loop tab = (r, tab')"
  shows "engines_ok tab'"
  using run
proof (cases rule: close_db_cases)
  case (2 eng)
  then show ?thesis
    using ok map_of_SomeD [of "engines tab" loop eng] distinct_filter_snd [of "eng_id \<circ> snd" "engines tab"]
    by (force simp: engines_ok_def list_all_iff distinct_map_filter)
qed (simp add: ok)

lemma close_db_removes:
  assumes "close_db dispose loop tab = (r, tab')"
  shows "r = Ok () \<Longrightarrow> map_of (engines tab') loop = None" "l \<noteq> loop \<Longrightarrow> map_of (engines tab') l = map_of (engines tab) l"
  using assms by (auto simp: close_db_def map_of_filter_key split: option.splits sum.splits)

lemma cleanup_disposes:
  "next_engine (fold (\<lambda>(loop, eng) t. case dispose eng of Inl e \<Rightarrow> t | Inr u \<Rightarrow> t\<lparr>disposed := eng_id eng # disposed t\<rparr>) es tab)
     = next_engine tab"
  "set (disposed (fold (\<lambda>(loop, eng) t. case dispose eng of Inl e \<Rightarrow> t | Inr u \<Rightarrow> t\<lparr>disposed := eng_id eng # disposed t\<rparr>) es tab))
     = set (disposed tab) \<union> {eng_id eng | loop eng. (loop, eng) \<in> set es \<and> (\<exists>u. dispose eng = Ok u)}"
  by (induction es arbitrary: tab) (auto split: sum.splits prod.splits)

lemma cleanup_all_engines_ok: "engines_ok tab \<Longrightarrow> engines_ok (cleanup_all_engines dispose tab)"
  by (auto simp: engines_ok_def cleanup_all_engines_def list_all_iff cleanup_disposes)

section \<open>Workers\<close>

definition WORKERS :: "(string \<times> string) list" where
  "WORKERS = [(''outbox'', ''app.workers.outbox_publisher''), (''lifecycle'', ''app.workers.command_consumer''),
     (''scheduler'', ''app.workers.scheduler'')]"

datatype launch = Exit int | RunModule string

definition entrypoint_main :: "string option \<Rightarrow> launch" where
  "entrypoint_main env_value =
     (let worker_type = py_lower (strip_by py_isspace (case env_value of Some v \<Rightarrow> v | None \<Rightarrow> [])) in
      if worker_type = [] then Exit 1
      else (case map_of WORKERS worker_type of None \<Rightarrow> Exit 1 | Some module_path \<Rightarrow> RunModule module_path))"

lemma entrypoint_runs: "entrypoint_main v = RunModule m \<Longrightarrow> \<exists>k. (k, m) \<in> set WORKERS"
  by (auto simp: entrypoint_main_def Let_def dest: map_of_SomeD split: if_splits option.splits)

section \<open>Health reports\<close>

text \<open>
  The outcome of a probe with what it reports. The text of the exception of the database's \<^verbatim>\<open>SELECT 1\<close> and of the cache's
  \<^verbatim>\<open>ping\<close>, if they raise, and whether there is a NATS client and it is connected, are arguments.
\<close>

datatype probe = Ready | NotReady string

definition probe_doc :: "probe \<Rightarrow> json" where
  "probe_doc p = (case p of Ready \<Rightarrow> JObj [(''status'', JStr ''ready'')]
     | NotReady err \<Rightarrow> JObj [(''status'', JStr ''not_ready''), (''error'', JStr err)])"

definition check_liveness :: dict where
  "check_liveness = [(''status'', JStr ''alive''), (''service'', JStr ''veyaan-api'')]"

definition readiness_checks :: "string option \<Rightarrow> bool option \<Rightarrow> string option \<Rightarrow> st \<Rightarrow> (string \<times> probe) list" where
  "readiness_checks database nc ping s =
     [(''database'', case database of None \<Rightarrow> Ready | Some err \<Rightarrow> NotReady err),
      (''nats'', if nc = Some True then Ready else NotReady ''Not connected''),
      (''valkey'', if cache_up s then (case ping of None \<Rightarrow> Ready | Some err \<Rightarrow> NotReady err) else NotReady ''Not connected'')]"

definition check_readiness :: "string option \<Rightarrow> bool option \<Rightarrow> string option \<Rightarrow> dict prog" where
  "check_readiness database nc ping =
     getM (\<lambda>s. let checks = readiness_checks database nc ping s in
       [(''ready'', JBool (list_all (\<lambda>(_, p). p = Ready) checks)),
        (''checks'', JObj (map (\<lambda>(k, p). (k, probe_doc p)) checks))])"

text \<open>
  The detailed report: what \<^verbatim>\<open>streams_info\<close> and \<^verbatim>\<open>info\<close> answer are arguments, \<open>None\<close> when there is no client, an error when
  the call raises.
\<close>

definition check_detailed ::
  "string option \<Rightarrow> bool option \<Rightarrow> string option \<Rightarrow> string list res option \<Rightarrow> string option res option \<Rightarrow> dict prog" where
  "check_detailed database nc ping streams_info memory_info =
     bindM (check_readiness database nc ping) (\<lambda>readiness.
       returnM (readiness @ [(''service'', JStr ''veyaan-api''), (''version'', JStr ''0.1.0'')]
         @ (case streams_info of
              None \<Rightarrow> []
            | Some (Inl e) \<Rightarrow> [(''nats_streams'', JList [])]
            | Some (Inr names) \<Rightarrow> [(''nats_streams'', JList (map JStr names))])
         @ (case memory_info of
              None \<Rightarrow> []
            | Some (Inl e) \<Rightarrow> [(''valkey_memory'', JStr ''unknown'')]
            | Some (Inr used) \<Rightarrow> [(''valkey_memory'', JStr (case used of None \<Rightarrow> ''unknown'' | Some x \<Rightarrow> x))])))"

definition route_liveness :: "dict \<times> int" where
  "route_liveness = (check_liveness, 200)"

definition route_readiness :: "string option \<Rightarrow> bool option \<Rightarrow> string option \<Rightarrow> (dict \<times> int) prog" where
  "route_readiness database nc ping =
     bindM (check_readiness database nc ping) (\<lambda>result.
       returnM (result, if map_of result ''ready'' = Some (JBool True) then 200 else 503))"

definition route_detailed_health ::
  "string option \<Rightarrow> bool option \<Rightarrow> string option \<Rightarrow> string list res option \<Rightarrow> string option res option \<Rightarrow> (dict \<times> int) prog" where
  "route_detailed_health database nc ping streams_info memory_info =
     bindM (check_detailed database nc ping streams_info memory_info) (\<lambda>result. returnM (result, 200))"

text \<open>The probes never raise and change nothing; the status is 200 exactly when all three answered.\<close>

lemma route_readiness_status:
  "\<exists>doc. route_readiness database nc ping s =
     (Ok (doc, if database = None \<and> nc = Some True \<and> cache_up s \<and> ping = None then 200 else 503), s)"
  by (simp add: route_readiness_def check_readiness_def readiness_checks_def prog_simps split: option.split)

end
