(* ===== verification/Streams.thy ===== *)
theory Streams
  imports System Platform
begin

text \<open>
  The NATS side of the processes: the streams and consumers that \<^verbatim>\<open>app/events/nats_client.py\<close> creates, the subscriptions of
  \<^verbatim>\<open>app/workers/command_consumer.py\<close> and of the gateway, the loops that fetch and answer messages, and the order in which
  the processes start and stop (\<^verbatim>\<open>app/main.py\<close>, \<^verbatim>\<open>main\<close> of the workers, \<^verbatim>\<open>startup\<close> and \<^verbatim>\<open>shutdown\<close> of the gateway).

  The client library and the server behind it are the parameter \<open>lib\<close>, a record of calls on a state of any type; what the
  documentation of JetStream says of them are the named predicates \<open>subject_matching\<close> and \<open>jetstream\<close>.
\<close>

section \<open>Streams and consumers\<close>

definition STREAM_COMMANDS_PATTERN :: string where
  "STREAM_COMMANDS_PATTERN = ''veyaan.command.>''"

definition STREAM_DEVICE_EVENTS_PATTERN :: string where
  "STREAM_DEVICE_EVENTS_PATTERN = ''veyaan.device.>''"

definition STREAM_APPROVALS_PATTERN :: string where
  "STREAM_APPROVALS_PATTERN = ''veyaan.approval.>''"

definition STREAM_SECURITY_PATTERN :: string where
  "STREAM_SECURITY_PATTERN = ''veyaan.security.>''"

lemmas pattern_defs = STREAM_COMMANDS_PATTERN_def STREAM_DEVICE_EVENTS_PATTERN_def STREAM_APPROVALS_PATTERN_def
  STREAM_SECURITY_PATTERN_def

datatype retention_policy = WORK_QUEUE | LIMITS

record stream_config =
  sc_name :: string
  sc_subjects :: "string list"
  sc_retention :: retention_policy
  sc_max_age :: int
  sc_max_msgs :: int
  sc_storage :: string
  sc_num_replicas :: "int option"
  sc_discard :: "string option"
  sc_duplicate_window :: "int option"

record consumer_config =
  cc_durable_name :: string
  cc_filter_subject :: string
  cc_ack_policy :: string
  cc_max_deliver :: int
  cc_ack_wait :: int

definition stream_configs :: "settings \<Rightarrow> stream_config list" where
  "stream_configs cfg =
     [\<lparr>sc_name = NATS_STREAM_COMMANDS cfg, sc_subjects = [STREAM_COMMANDS_PATTERN], sc_retention = WORK_QUEUE,
       sc_max_age = 86400 * 7, sc_max_msgs = 1000000, sc_storage = ''file'', sc_num_replicas = Some 1,
       sc_discard = Some ''old'', sc_duplicate_window = Some 120\<rparr>,
      \<lparr>sc_name = NATS_STREAM_DEVICE_EVENTS cfg, sc_subjects = [STREAM_DEVICE_EVENTS_PATTERN], sc_retention = LIMITS,
       sc_max_age = 86400 * 30, sc_max_msgs = 500000, sc_storage = ''file'', sc_num_replicas = None,
       sc_discard = None, sc_duplicate_window = None\<rparr>,
      \<lparr>sc_name = NATS_STREAM_APPROVALS cfg, sc_subjects = [STREAM_APPROVALS_PATTERN], sc_retention = LIMITS,
       sc_max_age = 86400 * 7, sc_max_msgs = 100000, sc_storage = ''file'', sc_num_replicas = None,
       sc_discard = None, sc_duplicate_window = None\<rparr>,
      \<lparr>sc_name = NATS_STREAM_SECURITY cfg, sc_subjects = [STREAM_SECURITY_PATTERN], sc_retention = LIMITS,
       sc_max_age = 86400 * 90, sc_max_msgs = 100000, sc_storage = ''file'', sc_num_replicas = None,
       sc_discard = None, sc_duplicate_window = None\<rparr>]"

record consumer_entry =
  ce_subject :: string
  ce_durable :: string
  ce_stream :: string

definition CONSUMERS :: "settings \<Rightarrow> consumer_entry list" where
  "CONSUMERS cfg =
     [\<lparr>ce_subject = ''veyaan.command.delivered.>'', ce_durable = ''api_command_delivered_v1'', ce_stream = NATS_STREAM_COMMANDS cfg\<rparr>,
      \<lparr>ce_subject = ''veyaan.command.acknowledged.>'', ce_durable = ''api_command_acknowledged_v1'', ce_stream = NATS_STREAM_COMMANDS cfg\<rparr>,
      \<lparr>ce_subject = ''veyaan.command.progress.>'', ce_durable = ''api_command_progress_v1'', ce_stream = NATS_STREAM_COMMANDS cfg\<rparr>,
      \<lparr>ce_subject = ''veyaan.command.result.>'', ce_durable = ''api_command_result_v1'', ce_stream = NATS_STREAM_COMMANDS cfg\<rparr>]"

text \<open>The consumer of a gateway connection: its filter and its durable name.\<close>

definition gateway_consumer :: "settings \<Rightarrow> uuid \<Rightarrow> consumer_entry" where
  "gateway_consumer cfg device_id =
     \<lparr>ce_subject = command_ready (uuid_str device_id), ce_durable = ''gw_'' @ uuid_str device_id,
      ce_stream = NATS_STREAM_COMMANDS cfg\<rparr>"

definition GATEWAY_SUBSCRIPTIONS :: "string list" where
  "GATEWAY_SUBSCRIPTIONS = [''veyaan.security.>'', ''veyaan.device.lifecycle.>'']"

section \<open>Where a message goes\<close>

text \<open>
  Subjects are tokens separated by dots; \<^verbatim>\<open>>\<close> at the end of a pattern stands for one or more tokens, and a pattern without
  wildcards for itself. \<open>matches\<close> is the server's test.
\<close>

definition plain_subject :: "string \<Rightarrow> bool" where
  "plain_subject subject =
     list_all (\<lambda>token. token \<noteq> [] \<and> list_all (\<lambda>c. c \<noteq> CHR ''*'' \<and> c \<noteq> CHR ''>'' \<and> \<not> py_isspace c) token)
       (py_split (CHR ''.'') subject)"

definition subject_matching :: "(string \<Rightarrow> string \<Rightarrow> bool) \<Rightarrow> bool" where
  "subject_matching matches =
     (\<forall>p subject. plain_subject p \<longrightarrow> plain_subject subject \<longrightarrow>
        (matches p subject \<longleftrightarrow> p = subject) \<and> (matches (p @ ''.>'') subject \<longleftrightarrow> (\<exists>rest. subject = p @ CHR ''.'' # rest)))"

definition captured_by :: "(string \<Rightarrow> string \<Rightarrow> bool) \<Rightarrow> settings \<Rightarrow> string \<Rightarrow> string list" where
  "captured_by matches cfg subject =
     map sc_name (filter (\<lambda>c. list_ex (\<lambda>p. matches p subject) (sc_subjects c)) (stream_configs cfg))"

definition read_by :: "(string \<Rightarrow> string \<Rightarrow> bool) \<Rightarrow> consumer_entry list \<Rightarrow> string \<Rightarrow> string list" where
  "read_by matches cs subject = map ce_durable (filter (\<lambda>c. matches (ce_subject c) subject) cs)"

lemma plain_token: "CHR ''.'' \<notin> set (uuid_str u) \<and> list_all (\<lambda>c. c \<noteq> CHR ''*'' \<and> c \<noteq> CHR ''>'' \<and> \<not> py_isspace c) (uuid_str u)"
proof -
  have "c \<noteq> CHR ''.'' \<and> c \<noteq> CHR ''*'' \<and> c \<noteq> CHR ''>'' \<and> \<not> py_isspace c" if "c \<in> set (uuid_str u)" for c
    using that set_uuid_str [of u] by (auto simp: hex_chars_def py_isspace_def)
  then show ?thesis by (auto simp: list_all_iff)
qed

lemma split_uuid [simp]: "py_split (CHR ''.'') (uuid_str u) = [uuid_str u]"
  using plain_token by (intro py_split_absent) blast

lemma plain_catalogue:
  "plain_subject (command_ready (uuid_str u))" "plain_subject (command_delivered (uuid_str u))"
  "plain_subject (command_acknowledged (uuid_str u))" "plain_subject (command_progress (uuid_str u))"
  "plain_subject (command_result (uuid_str u))" "plain_subject (command_cancel (uuid_str u))"
  "plain_subject (device_lifecycle (uuid_str u))" "plain_subject (approval_decided (uuid_str u))"
  "plain_subject (subject_emergency_stop (uuid_str u))" "plain_subject (subject_emergency_resume (uuid_str u))"
  using plain_token [of u] by (simp_all add: plain_subject_def subject_defs py_isspace_def)

text \<open>The patterns of the program, as tests on plain subjects.\<close>

lemma plain_patterns:
  "plain_subject ''veyaan.command''" "plain_subject ''veyaan.device''" "plain_subject ''veyaan.approval''"
  "plain_subject ''veyaan.security''" "plain_subject ''veyaan.command.delivered''" "plain_subject ''veyaan.command.acknowledged''"
  "plain_subject ''veyaan.command.progress''" "plain_subject ''veyaan.command.result''" "plain_subject ''veyaan.device.lifecycle''"
  by (simp_all add: plain_subject_def py_isspace_def)

lemma matches_full:
  "subject_matching matches \<Longrightarrow> plain_subject p \<Longrightarrow> plain_subject subject \<Longrightarrow>
     matches (p @ ''.>'') subject \<longleftrightarrow> prefix (p @ ''.'') subject"
  by (auto simp: subject_matching_def prefix_def)

lemma matches_plain:
  "subject_matching matches \<Longrightarrow> plain_subject p \<Longrightarrow> plain_subject subject \<Longrightarrow> matches p subject \<longleftrightarrow> p = subject"
  by (simp add: subject_matching_def)

lemma matches_patterns:
  assumes "subject_matching matches" "plain_subject subject"
  shows "matches ''veyaan.command.>'' subject \<longleftrightarrow> prefix ''veyaan.command.'' subject"
    "matches ''veyaan.device.>'' subject \<longleftrightarrow> prefix ''veyaan.device.'' subject"
    "matches ''veyaan.approval.>'' subject \<longleftrightarrow> prefix ''veyaan.approval.'' subject"
    "matches ''veyaan.security.>'' subject \<longleftrightarrow> prefix ''veyaan.security.'' subject"
    "matches ''veyaan.command.delivered.>'' subject \<longleftrightarrow> prefix ''veyaan.command.delivered.'' subject"
    "matches ''veyaan.command.acknowledged.>'' subject \<longleftrightarrow> prefix ''veyaan.command.acknowledged.'' subject"
    "matches ''veyaan.command.progress.>'' subject \<longleftrightarrow> prefix ''veyaan.command.progress.'' subject"
    "matches ''veyaan.command.result.>'' subject \<longleftrightarrow> prefix ''veyaan.command.result.'' subject"
    "matches ''veyaan.device.lifecycle.>'' subject \<longleftrightarrow> prefix ''veyaan.device.lifecycle.'' subject"
  using plain_patterns [THEN matches_full [OF assms(1) _ assms(2)]] by simp_all

lemma captured_by_prefix:
  assumes "subject_matching matches" "plain_subject subject"
  shows "captured_by matches cfg subject =
    (if prefix ''veyaan.command.'' subject then [NATS_STREAM_COMMANDS cfg] else [])
    @ (if prefix ''veyaan.device.'' subject then [NATS_STREAM_DEVICE_EVENTS cfg] else [])
    @ (if prefix ''veyaan.approval.'' subject then [NATS_STREAM_APPROVALS cfg] else [])
    @ (if prefix ''veyaan.security.'' subject then [NATS_STREAM_SECURITY cfg] else [])"
  by (simp add: captured_by_def stream_configs_def pattern_defs matches_patterns [OF assms])

lemma read_by_prefix:
  assumes "subject_matching matches" "plain_subject subject"
  shows "read_by matches (CONSUMERS cfg) subject =
    (if prefix ''veyaan.command.delivered.'' subject then [''api_command_delivered_v1''] else [])
    @ (if prefix ''veyaan.command.acknowledged.'' subject then [''api_command_acknowledged_v1''] else [])
    @ (if prefix ''veyaan.command.progress.'' subject then [''api_command_progress_v1''] else [])
    @ (if prefix ''veyaan.command.result.'' subject then [''api_command_result_v1''] else [])"
  by (simp add: read_by_def CONSUMERS_def matches_patterns [OF assms])

lemma gateway_subscriptions_prefix:
  assumes "subject_matching matches" "plain_subject subject"
  shows "filter (\<lambda>p. matches p subject) GATEWAY_SUBSCRIPTIONS =
    (if prefix ''veyaan.security.'' subject then [''veyaan.security.>''] else [])
    @ (if prefix ''veyaan.device.lifecycle.'' subject then [''veyaan.device.lifecycle.>''] else [])"
  by (simp add: GATEWAY_SUBSCRIPTIONS_def matches_patterns [OF assms])

text \<open>
  C9. Every subject is stored once and every lifecycle message has one reader. Whatever the server's matching does beyond
  its documentation, each subject of the catalogue is captured by exactly one of the four streams; a message about a
  delivery, an acknowledgement, a progress report or a result is read by exactly one consumer of the lifecycle worker,
  which passes it to the handler of that kind; a command that is ready is read by the consumer of its device's connection
  and by no other device's, and by none of the worker's; and the messages about stops reach the gateway's subscription.
\<close>

theorem subjects_routed:
  assumes "subject_matching matches"
  shows
    "list_all (\<lambda>subject. captured_by matches cfg (subject (uuid_str u)) = [NATS_STREAM_COMMANDS cfg])
       [command_ready, command_delivered, command_acknowledged, command_progress, command_result, command_cancel]
     \<and> captured_by matches cfg (device_lifecycle (uuid_str u)) = [NATS_STREAM_DEVICE_EVENTS cfg]
     \<and> captured_by matches cfg (approval_decided (uuid_str u)) = [NATS_STREAM_APPROVALS cfg]
     \<and> captured_by matches cfg (subject_emergency_stop (uuid_str u)) = [NATS_STREAM_SECURITY cfg]
     \<and> captured_by matches cfg (subject_emergency_resume (uuid_str u)) = [NATS_STREAM_SECURITY cfg]
     \<and> list_all (\<lambda>(subject, durable, handler).
          read_by matches (CONSUMERS cfg) (subject (uuid_str u)) = [durable] \<and> route_handler (subject (uuid_str u)) = Some handler)
         [(command_delivered, ''api_command_delivered_v1'', handle_delivered),
          (command_acknowledged, ''api_command_acknowledged_v1'', handle_acknowledged),
          (command_progress, ''api_command_progress_v1'', handle_progress),
          (command_result, ''api_command_result_v1'', handle_result)]
     \<and> read_by matches (CONSUMERS cfg) (command_ready (uuid_str u)) = []
     \<and> (matches (ce_subject (gateway_consumer cfg device)) (command_ready (uuid_str u)) \<longleftrightarrow> device = u)
     \<and> filter (\<lambda>p. matches p (subject_emergency_stop (uuid_str u))) GATEWAY_SUBSCRIPTIONS = [''veyaan.security.>'']
     \<and> filter (\<lambda>p. matches p (device_lifecycle (uuid_str u))) GATEWAY_SUBSCRIPTIONS = [''veyaan.device.lifecycle.>'']"
proof -
  have ready: "matches (ce_subject (gateway_consumer cfg device)) (command_ready (uuid_str u)) \<longleftrightarrow> device = u"
    using matches_plain [OF assms plain_catalogue(1) [of device] plain_catalogue(1) [of u]]
    by (auto simp: gateway_consumer_def subject_defs)
  note prefixes = captured_by_prefix [OF assms] read_by_prefix [OF assms] gateway_subscriptions_prefix [OF assms] plain_catalogue
  show ?thesis
    unfolding list.pred_inject(2) split
    by (intro conjI ready routes list.pred_inject(1)) (simp only: prefixes, simp add: subject_defs)+
qed

text \<open>A server that matches as documented, for the concrete runs.\<close>

definition demo_matches :: "string \<Rightarrow> string \<Rightarrow> bool" where
  "demo_matches p subject =
     (if suffix ''.>'' p then prefix (butlast p) subject \<and> length p \<le> length subject else p = subject)"

lemma set_py_split: "x \<in> set s \<Longrightarrow> x = c \<or> (\<exists>w \<in> set (py_split c s). x \<in> set w)"
  by (induction s) (auto split: list.splits)

lemma plain_no_wildcard: "plain_subject p \<Longrightarrow> CHR ''>'' \<notin> set p"
  using set_py_split [of "CHR ''>''" p "CHR ''.''"] by (auto simp: plain_subject_def list_all_iff)

lemma split_trailing: "\<exists>w ws. py_split c (xs @ [c]) = w # ws @ [[]]"
  by (induction xs) (auto simp: Cons_eq_append_conv split: list.splits)

lemma demo_matching: "subject_matching demo_matches"
  unfolding subject_matching_def
proof (intro allI impI)
  fix p subject assume p: "plain_subject p" and subj: "plain_subject subject"
  obtain w ws where "py_split (CHR ''.'') (p @ ''.'') = w # ws @ [[]]" using split_trailing by blast
  then have "\<not> plain_subject (p @ ''.'')" by (simp add: plain_subject_def)
  with subj have "rest \<noteq> []" if "subject = p @ CHR ''.'' # rest" for rest using that by auto
  then have "prefix (p @ ''.'') subject \<and> Suc (Suc (length p)) \<le> length subject \<longleftrightarrow> (\<exists>rest. subject = p @ CHR ''.'' # rest)"
    by (auto simp: prefix_def Suc_le_eq)
  moreover have "\<not> suffix ''.>'' p" using plain_no_wildcard [OF p] by (auto simp: suffix_def)
  ultimately show "(demo_matches p subject \<longleftrightarrow> p = subject) \<and> (demo_matches (p @ ''.>'') subject \<longleftrightarrow> (\<exists>rest. subject = p @ CHR ''.'' # rest))"
    using suffixI [of "p @ ''.>''" p "''.>''"] by (simp add: demo_matches_def butlast_append)
qed

theorem subjects_routed_witness:
  "subject_matching demo_matches
   \<and> read_by demo_matches (CONSUMERS default_settings) (command_result (uuid_str 5)) = [''api_command_result_v1'']
   \<and> captured_by demo_matches default_settings (command_result (uuid_str 5)) = [''VEYAAN_COMMANDS'']"
  using subjects_routed [OF demo_matching, of default_settings 5 5] demo_matching by (simp add: default_settings_def)

text \<open>
  C30. No message has two readers. On a work-queue stream the filters of the consumers must not overlap: for the four
  consumers of the worker together with the consumers of any number of connected devices, no subject matches two filters.
\<close>

theorem one_reader:
  assumes m: "subject_matching matches" and subj: "plain_subject subject" and devs: "distinct ds"
  shows "length (read_by matches (CONSUMERS cfg @ map (gateway_consumer cfg) ds) subject) \<le> 1"
proof (cases "\<exists>d. subject = command_ready (uuid_str d)")
  case True
  then obtain d where d: "subject = command_ready (uuid_str d)" ..
  have "read_by matches (CONSUMERS cfg) subject = []"
    unfolding read_by_prefix [OF m subj] by (simp add: d subject_defs)
  moreover have "matches (ce_subject (gateway_consumer cfg x)) subject \<longleftrightarrow> x = d" for x
    using matches_plain [OF m plain_catalogue(1) [of x] subj] by (auto simp: d gateway_consumer_def subject_defs)
  ultimately show ?thesis
    using devs card_mono [of "{d}" "{d} \<inter> set ds"] by (simp add: read_by_def filter_map o_def distinct_length_filter)
next
  case False
  have "\<not> matches (ce_subject (gateway_consumer cfg x)) subject" for x
    using matches_plain [OF m plain_catalogue(1) [of x] subj] False by (auto simp: gateway_consumer_def)
  then have "read_by matches (map (gateway_consumer cfg) ds) subject = []"
    by (simp add: read_by_def filter_empty_conv)
  moreover have "length (read_by matches (CONSUMERS cfg) subject) \<le> 1"
    unfolding read_by_prefix [OF m subj] by (auto simp: prefix_def)
  ultimately show ?thesis by (simp add: read_by_def)
qed

theorem one_reader_witness:
  "length (read_by demo_matches (CONSUMERS default_settings @ map (gateway_consumer default_settings) [2, 3])
     (command_ready (uuid_str 3))) \<le> 1"
  by (rule one_reader [OF demo_matching plain_catalogue(1)]) simp

section \<open>The client\<close>

text \<open>
  \<open>nc_set\<close> and \<open>js_set\<close> say whether the attributes \<^verbatim>\<open>nc\<close> and \<^verbatim>\<open>js\<close> are set; \<open>server\<close> is the state of the library and of what is
  behind it.
\<close>

record ('n, 'sub) nats_lib =
  lib_connect :: "string \<Rightarrow> 'n \<Rightarrow> unit res \<times> 'n"
  lib_add_stream :: "stream_config \<Rightarrow> 'n \<Rightarrow> unit res \<times> 'n"
  lib_add_consumer :: "string \<Rightarrow> consumer_config \<Rightarrow> 'n \<Rightarrow> unit res \<times> 'n"
  lib_pull_subscribe :: "string \<Rightarrow> string \<Rightarrow> string \<Rightarrow> 'n \<Rightarrow> 'sub res \<times> 'n"
  lib_subscribe :: "string \<Rightarrow> 'n \<Rightarrow> unit res \<times> 'n"
  lib_drain :: "'n \<Rightarrow> unit res \<times> 'n"
  lib_close :: "'n \<Rightarrow> unit res \<times> 'n"
  lib_is_connected :: "'n \<Rightarrow> bool"

record 'n nats_client =
  nc_set :: bool
  js_set :: bool
  server :: 'n

definition init_client :: "'n \<Rightarrow> 'n nats_client" where
  "init_client n = \<lparr>nc_set = False, js_set = False, server = n\<rparr>"

fun add_streams :: "('n, 'sub) nats_lib \<Rightarrow> env \<Rightarrow> stream_config list \<Rightarrow> 'n \<Rightarrow> unit res \<times> 'n" where
  "add_streams lib env [] n = (Ok (), n)"
| "add_streams lib env (c # cs) n =
     (case lib_add_stream lib c n of
        (Inr _, n') \<Rightarrow> add_streams lib env cs n'
      | (Inl e, n') \<Rightarrow>
          if py_in ''stream name already in use'' (exn_str env e) then add_streams lib env cs n' else (Err e, n'))"

definition ensure_streams :: "('n, 'sub) nats_lib \<Rightarrow> env \<Rightarrow> 'n \<Rightarrow> unit res \<times> 'n" where
  "ensure_streams lib env n = add_streams lib env (stream_configs (settings env)) n"

definition nats_client_connect :: "('n, 'sub) nats_lib \<Rightarrow> env \<Rightarrow> 'n nats_client \<Rightarrow> unit res \<times> 'n nats_client" where
  "nats_client_connect lib env c =
     (case lib_connect lib (NATS_URL (settings env)) (server c) of
        (Inl e, n) \<Rightarrow> (Err e, c\<lparr>server := n\<rparr>)
      | (Inr _, n) \<Rightarrow>
          (case ensure_streams lib env n of (r, n') \<Rightarrow> (r, c\<lparr>nc_set := True, js_set := True, server := n'\<rparr>)))"

definition nats_client_disconnect :: "('n, 'sub) nats_lib \<Rightarrow> 'n nats_client \<Rightarrow> unit res \<times> 'n nats_client" where
  "nats_client_disconnect lib c =
     (if nc_set c then
        (case lib_drain lib (server c) of
           (Inl e, n) \<Rightarrow> (Err e, c\<lparr>server := n\<rparr>)
         | (Inr _, n) \<Rightarrow> (case lib_close lib n of (r, n') \<Rightarrow> (r, c\<lparr>server := n'\<rparr>)))
      else (Ok (), c))"

definition subscribe_durable ::
  "('n, 'sub) nats_lib \<Rightarrow> env \<Rightarrow> string \<Rightarrow> string \<Rightarrow> string \<Rightarrow> 'n nats_client \<Rightarrow> 'sub res \<times> 'n nats_client" where
  "subscribe_durable lib env subject durable_name stream c =
     (if \<not> js_set c then (Err (RuntimeError ''JetStream not connected''), c)
      else
        (let consumer = \<lparr>cc_durable_name = durable_name, cc_filter_subject = subject, cc_ack_policy = ''explicit'',
               cc_max_deliver = 5, cc_ack_wait = 30\<rparr>
         in case lib_add_consumer lib stream consumer (server c) of
              (Inl e, n) \<Rightarrow>
                if py_in ''consumer already exists'' (py_lower (exn_str env e)) then
                  (case lib_pull_subscribe lib subject durable_name stream n of (r, n') \<Rightarrow> (r, c\<lparr>server := n'\<rparr>))
                else (Err e, c\<lparr>server := n\<rparr>)
            | (Inr _, n) \<Rightarrow>
                (case lib_pull_subscribe lib subject durable_name stream n of (r, n') \<Rightarrow> (r, c\<lparr>server := n'\<rparr>))))"

definition client_publish_js ::
  "'n nats_client \<Rightarrow> env \<Rightarrow> string \<Rightarrow> dict \<Rightarrow> string option \<Rightarrow> dict \<Rightarrow> unit prog" where
  "client_publish_js c env subject payload message_id headers =
     (if \<not> js_set c then raiseM (RuntimeError ''JetStream not connected'')
      else publish_js env subject payload message_id headers)"

definition client_publish :: "'n nats_client \<Rightarrow> env \<Rightarrow> string \<Rightarrow> dict \<Rightarrow> unit prog" where
  "client_publish c env subject payload =
     (if \<not> nc_set c then raiseM (RuntimeError ''NATS not connected'') else nats_publish env subject payload)"

definition client_is_connected :: "('n, 'sub) nats_lib \<Rightarrow> 'n nats_client \<Rightarrow> bool" where
  "client_is_connected lib c = (nc_set c \<and> lib_is_connected lib (server c))"

fun subscribe_all :: "('n, 'sub) nats_lib \<Rightarrow> env \<Rightarrow> consumer_entry list \<Rightarrow> 'n nats_client \<Rightarrow> 'sub list res \<times> 'n nats_client" where
  "subscribe_all lib env [] c = (Ok [], c)"
| "subscribe_all lib env (ce # ces) c =
     (case subscribe_durable lib env (ce_subject ce) (ce_durable ce) (ce_stream ce) c of
        (Inl e, c') \<Rightarrow> (Err e, c')
      | (Inr sub, c') \<Rightarrow>
          (case subscribe_all lib env ces c' of
             (Inl e, c'') \<Rightarrow> (Err e, c'')
           | (Inr subs, c'') \<Rightarrow> (Ok (sub # subs), c'')))"

section \<open>What start-up leaves on the server\<close>

text \<open>
  What the documentation of JetStream says of \<^verbatim>\<open>add_stream\<close>, with \<open>streams\<close> the streams of a server by name: a stream whose
  name is free is created when its subjects overlap with no other stream's; adding a stream again with the same
  configuration succeeds and changes nothing; a name that is taken by another configuration is refused with the error
  "stream name already in use", and a refusal changes nothing.
\<close>

definition overlap :: "(string \<Rightarrow> string \<Rightarrow> bool) \<Rightarrow> stream_config \<Rightarrow> stream_config \<Rightarrow> bool" where
  "overlap matches c d =
     (\<exists>p \<in> set (sc_subjects c). \<exists>q \<in> set (sc_subjects d). \<exists>subject. plain_subject subject \<and> matches p subject \<and> matches q subject)"

definition jetstream ::
  "('n, 'sub) nats_lib \<Rightarrow> env \<Rightarrow> (string \<Rightarrow> string \<Rightarrow> bool) \<Rightarrow> ('n \<Rightarrow> string \<Rightarrow> stream_config option) \<Rightarrow> bool" where
  "jetstream lib env matches streams =
     (\<forall>c n r n'. lib_add_stream lib c n = (r, n') \<longrightarrow>
        (case r of
           Inr _ \<Rightarrow> streams n (sc_name c) \<in> {None, Some c} \<and> streams n' = (streams n)(sc_name c \<mapsto> c)
         | Inl e \<Rightarrow> streams n' = streams n
             \<and> (py_in ''stream name already in use'' (exn_str env e) \<longleftrightarrow> streams n (sc_name c) \<notin> {None, Some c})
             \<and> (streams n (sc_name c) = None \<longrightarrow> (\<exists>d \<in> ran (streams n). overlap matches c d))
             \<and> streams n (sc_name c) \<noteq> Some c))"

text \<open>
  A run of \<^verbatim>\<open>_ensure_streams\<close> adds the streams that are missing and never touches one that exists: a stream whose
  configuration in the code has changed keeps the old one, without an error.
\<close>

lemma add_streams_adds:
  assumes law: "jetstream lib env matches streams" and run: "add_streams lib env cs n = (Ok (), n')"
  shows "streams n' = map_of (map (\<lambda>c. (sc_name c, c)) cs) ++ streams n"
  using run
proof (induction cs arbitrary: n)
  case (Cons c cs)
  obtain r n1 where add: "lib_add_stream lib c n = (r, n1)" by fastforce
  have l: "case r of
           Inr _ \<Rightarrow> streams n (sc_name c) \<in> {None, Some c} \<and> streams n1 = (streams n)(sc_name c \<mapsto> c)
         | Inl e \<Rightarrow> streams n1 = streams n
             \<and> (py_in ''stream name already in use'' (exn_str env e) \<longleftrightarrow> streams n (sc_name c) \<notin> {None, Some c})
             \<and> (streams n (sc_name c) = None \<longrightarrow> (\<exists>d \<in> ran (streams n). overlap matches c d))
             \<and> streams n (sc_name c) \<noteq> Some c"
    using law add unfolding jetstream_def by blast
  have rest: "add_streams lib env cs n1 = (Ok (), n')"
    using Cons.prems add by (auto split: sum.splits if_splits)
  have "streams n1 = [sc_name c \<mapsto> c] ++ streams n"
    using l Cons.prems add by (auto simp: fun_eq_iff map_add_def split: sum.splits if_splits option.splits)
  then show ?case using Cons.IH [OF rest] by (simp add: fun_eq_iff map_add_def split: option.split)
qed simp

lemma stream_captures:
  assumes "subject_matching matches" "plain_subject subject" "c \<in> set (stream_configs cfg)"
  shows "(\<exists>p \<in> set (sc_subjects c). matches p subject) \<longleftrightarrow> prefix (butlast (hd (sc_subjects c))) subject"
  using assms(3) by (auto simp: stream_configs_def pattern_defs matches_patterns [OF assms(1,2)])

lemma stream_prefixes_disjoint:
  assumes "c \<in> set (stream_configs cfg)" "d \<in> set (stream_configs cfg)"
    "prefix (butlast (hd (sc_subjects c))) subject" "prefix (butlast (hd (sc_subjects d))) subject"
  shows "c = d"
  using assms by (simp add: stream_configs_def pattern_defs) (elim disjE; simp; auto simp: prefix_def)

lemma configs_disjoint:
  assumes m: "subject_matching matches" and o: "overlap matches c d"
    and cd: "c \<in> set (stream_configs cfg)" "d \<in> set (stream_configs cfg)"
  shows "c = d"
proof -
  obtain subject where "plain_subject subject" "\<exists>p \<in> set (sc_subjects c). matches p subject" "\<exists>q \<in> set (sc_subjects d). matches q subject"
    using o by (auto simp: overlap_def)
  then show ?thesis using stream_captures [OF m] stream_prefixes_disjoint cd by blast
qed

lemma add_streams_ok:
  assumes law: "jetstream lib env matches streams" and m: "subject_matching matches"
    and names: "distinct (map sc_name (stream_configs cfg))"
    and own: "\<And>x d. streams n x = Some d \<Longrightarrow> d \<in> set (stream_configs cfg) \<and> sc_name d = x"
    and cs: "set cs \<subseteq> set (stream_configs cfg)"
  shows "\<exists>n'. add_streams lib env cs n = (Ok (), n')"
  using own cs
proof (induction cs arbitrary: n)
  case (Cons c cs)
  obtain r n1 where add: "lib_add_stream lib c n = (r, n1)" by fastforce
  have c: "c \<in> set (stream_configs cfg)" using Cons.prems(2) by simp
  have free: "streams n (sc_name c) \<in> {None, Some c}"
    using Cons.prems(1) [of "sc_name c"] names c by (cases "streams n (sc_name c)") (auto simp: distinct_map inj_on_def)
  have no_err: "r \<noteq> Inl e" for e
  proof
    assume "r = Inl e"
    then have no: "streams n (sc_name c) = None \<longrightarrow> (\<exists>d \<in> ran (streams n). overlap matches c d)" "streams n (sc_name c) \<noteq> Some c"
      using law add unfolding jetstream_def by fastforce+
    with free obtain x d where d: "streams n x = Some d" "overlap matches c d" by (auto simp: ran_def)
    with Cons.prems(1) c have "c = d" "sc_name d = x" using configs_disjoint [OF m] by blast+
    with d no show False by simp
  qed
  then obtain u where r: "r = Inr u" by (cases r) auto
  have "streams n1 = (streams n)(sc_name c \<mapsto> c)"
    using law add r unfolding jetstream_def by fastforce
  then have "\<exists>n'. add_streams lib env cs n1 = (Ok (), n')"
    using Cons.prems c by (intro Cons.IH) (auto split: if_splits)
  then show ?case using add r by simp
qed simp


text \<open>A server in memory: the list of its streams.\<close>

definition memory_streams :: "stream_config list \<Rightarrow> string \<Rightarrow> stream_config option" where
  "memory_streams n x = find (\<lambda>d. sc_name d = x) n"

definition memory_nats :: "(string \<Rightarrow> string \<Rightarrow> bool) \<Rightarrow> (stream_config list, string) nats_lib" where
  "memory_nats matches =
     \<lparr>lib_connect = (\<lambda>url n. (Ok (), n)),
      lib_add_stream = (\<lambda>c n.
        case memory_streams n (sc_name c) of
          Some d \<Rightarrow> (if d = c then (Ok (), n) else (Err (NatsError ''stream name already in use''), n))
        | None \<Rightarrow> if (\<exists>d \<in> ran (memory_streams n). overlap matches c d) then (Err (NatsError ''subjects overlap''), n) else (Ok (), c # n)),
      lib_add_consumer = (\<lambda>stream c n. (Ok (), n)), lib_pull_subscribe = (\<lambda>subject durable stream n. (Ok durable, n)),
      lib_subscribe = (\<lambda>subject n. (Ok (), n)), lib_drain = (\<lambda>n. (Ok (), n)), lib_close = (\<lambda>n. (Ok (), n)),
      lib_is_connected = (\<lambda>n. True)\<rparr>"

definition nats_env :: env where
  "nats_env = demo_env\<lparr>exn_str := (\<lambda>e. case e of NatsError x \<Rightarrow> x | _ \<Rightarrow> ''error'')\<rparr>"

lemma memory_jetstream: "jetstream (memory_nats matches) nats_env matches memory_streams"
proof -
  have new: "memory_streams (c # n) = (memory_streams n)(sc_name c \<mapsto> c)" for c n
    by (auto simp: memory_streams_def fun_eq_iff)
  have texts: "py_in ''stream name already in use'' ''stream name already in use''" "\<not> py_in ''stream name already in use'' ''subjects overlap''"
    by simp_all
  show ?thesis
    unfolding jetstream_def memory_nats_def nats_env_def
    by (auto simp: new texts fun_upd_idem split: option.splits if_splits)
qed


section \<open>Fetching and answering\<close>

text \<open>
  A message of a pull subscription, with what its \<^verbatim>\<open>ack()\<close> and \<^verbatim>\<open>nak()\<close> do when called, and the outcome of a \<^verbatim>\<open>fetch\<close>. A loop is
  given the outcomes of its rounds, one after the other; it ends early when an exception speaks of a closed connection.
  The first component of a run are the answers that were sent.
\<close>

record jmsg =
  jm_subject :: string
  jm_data :: "json res"
  jm_ack :: "unit res"
  jm_nak :: "unit res"

datatype fetch = Fetched "jmsg list" | FetchError exn

fun answer_batch :: "(jmsg \<Rightarrow> ack prog) \<Rightarrow> jmsg list \<Rightarrow> st \<Rightarrow> ack list \<times> exn option \<times> st" where
  "answer_batch answer [] s = ([], None, s)"
| "answer_batch answer (m # ms) s =
     (case answer m s of
        (Inl e, t) \<Rightarrow> ([], Some e, t)
      | (Inr a, t) \<Rightarrow> (case answer_batch answer ms t of (as, e, u) \<Rightarrow> (a # as, e, u)))"

definition poll_error :: "env \<Rightarrow> exn \<Rightarrow> st \<Rightarrow> bool \<times> st" where
  "poll_error env e s =
     (if e = TimeoutError then (True, s)
      else if py_in ''connection closed'' (py_lower (exn_str env e)) then (False, s)
      else (True, snd (sleepM 1 s)))"

definition poll_round :: "env \<Rightarrow> (jmsg \<Rightarrow> ack prog) \<Rightarrow> fetch \<Rightarrow> st \<Rightarrow> ack list \<times> bool \<times> st" where
  "poll_round env answer f s =
     (case f of
        FetchError e \<Rightarrow> ([], poll_error env e s)
      | Fetched msgs \<Rightarrow>
          (case answer_batch answer msgs s of
             (as, None, t) \<Rightarrow> (as, True, t)
           | (as, Some e, t) \<Rightarrow> (as, poll_error env e t)))"

fun poll_loop :: "env \<Rightarrow> (jmsg \<Rightarrow> ack prog) \<Rightarrow> fetch list \<Rightarrow> st \<Rightarrow> ack list \<times> bool \<times> st" where
  "poll_loop env answer [] s = ([], True, s)"
| "poll_loop env answer (f # fs) s =
     (case poll_round env answer f s of
        (as, False, t) \<Rightarrow> (as, False, t)
      | (as, True, t) \<Rightarrow> (case poll_loop env answer fs t of (bs, go, u) \<Rightarrow> (as @ bs, go, u)))"

text \<open>
  The lifecycle worker: a message without a handler is acknowledged outside the inner \<^verbatim>\<open>try\<close>; an acknowledgement that raises
  inside it is followed by a negative one.
\<close>

definition answer_message :: "env \<Rightarrow> jmsg \<Rightarrow> ack prog" where
  "answer_message env m =
     bindM (process_message env (jm_subject m) (jm_data m)) (\<lambda>a.
       case (route_handler (jm_subject m), a) of
         (None, _) \<Rightarrow> seqM (liftM (jm_ack m)) (returnM ACK)
       | (Some _, ACK) \<Rightarrow> catchM (seqM (liftM (jm_ack m)) (returnM ACK)) (\<lambda>e. seqM (liftM (jm_nak m)) (returnM NAK))
       | (Some _, NAK) \<Rightarrow> seqM (liftM (jm_nak m)) (returnM NAK))"

text \<open>The listener of a gateway connection.\<close>

definition answer_ready :: "env \<Rightarrow> uuid \<Rightarrow> uuid \<Rightarrow> uuid \<Rightarrow> jmsg \<Rightarrow> ack prog" where
  "answer_ready env device_id owner_id connection_id m =
     bindM (nats_listener_msg env device_id owner_id connection_id (jm_data m)) (\<lambda>a.
       case a of
         ACK \<Rightarrow> catchM (seqM (liftM (jm_ack m)) (returnM ACK)) (\<lambda>e. seqM (liftM (jm_nak m)) (returnM NAK))
       | NAK \<Rightarrow> seqM (liftM (jm_nak m)) (returnM NAK))"

definition nats_listener :: "env \<Rightarrow> uuid \<Rightarrow> uuid \<Rightarrow> uuid \<Rightarrow> fetch list \<Rightarrow> st \<Rightarrow> ack list \<times> bool \<times> st" where
  "nats_listener env device_id owner_id connection_id = poll_loop env (answer_ready env device_id owner_id connection_id)"

text \<open>
  The four loops of the worker run concurrently; a schedule says which of them takes its next round. A loop that has ended
  takes no more rounds.
\<close>

fun poll_all :: "env \<Rightarrow> (nat \<Rightarrow> bool) \<Rightarrow> (nat \<times> fetch) list \<Rightarrow> st \<Rightarrow> ack list \<times> st" where
  "poll_all env live [] s = ([], s)"
| "poll_all env live ((i, f) # fs) s =
     (if live i then
        (case poll_round env (answer_message env) f s of
           (as, go, t) \<Rightarrow> (case poll_all env (live(i := go)) fs t of (bs, u) \<Rightarrow> (as @ bs, u)))
      else poll_all env live fs s)"

definition consumer_start ::
  "('n, 'sub) nats_lib \<Rightarrow> env \<Rightarrow> (nat \<times> fetch) list \<Rightarrow> 'n nats_client \<Rightarrow> st \<Rightarrow> ack list res \<times> 'n nats_client \<times> st" where
  "consumer_start lib env schedule c s =
     (case subscribe_all lib env (CONSUMERS (settings env)) c of
        (Inl e, c') \<Rightarrow> (Err e, c', s)
      | (Inr subs, c') \<Rightarrow> (case poll_all env (\<lambda>i. i < length subs) schedule s of (as, t) \<Rightarrow> (Ok as, c', t)))"

section \<open>What the loops do\<close>

lemma process_message_returns: "\<exists>a t. process_message env subject data s = (Ok a, t)"
  by (auto simp: process_message_def catchM_def returnM_def split: option.split sum.split prod.split)

text \<open>A message is answered, or its own \<^verbatim>\<open>ack\<close> or \<^verbatim>\<open>nak\<close> raised; the state is that after its handler in any case.\<close>

lemma answer_message_run:
  assumes "process_message env (jm_subject m) (jm_data m) s = (Ok a, t)"
  shows "answer_message env m s = (case (route_handler (jm_subject m), a, jm_ack m, jm_nak m) of
      (None, _, Inr _, _) \<Rightarrow> Ok ACK | (None, _, Inl e, _) \<Rightarrow> Err e
    | (Some _, ACK, Inr _, _) \<Rightarrow> Ok ACK
    | (Some _, _, _, Inr _) \<Rightarrow> Ok NAK | (Some _, _, _, Inl e) \<Rightarrow> Err e, t)"
  using assms
  by (simp add: answer_message_def bindM_def seqM_def catchM_def liftM_def returnM_def split: option.split ack.split sum.split)

lemma answer_message_cases:
  obtains a t where "process_message env (jm_subject m) (jm_data m) s = (Ok a, t)"
    "snd (answer_message env m s) = t"
    "(\<exists>b. fst (answer_message env m s) = Ok b) \<or> (\<exists>e. fst (answer_message env m s) = Err e \<and> (jm_ack m = Err e \<or> jm_nak m = Err e))"
    "jm_ack m = Ok () \<Longrightarrow> jm_nak m = Ok () \<Longrightarrow> fst (answer_message env m s) = Ok a"
proof -
  obtain a t where run: "process_message env (jm_subject m) (jm_data m) s = (Ok a, t)"
    using process_message_returns by blast
  have none: "route_handler (jm_subject m) = None \<Longrightarrow> a = ACK"
    using run by (simp add: process_message_def returnM_def)
  show ?thesis
    by (rule that [OF run]; cases a; cases "route_handler (jm_subject m)"; cases "jm_ack m"; cases "jm_nak m")
      (use none in \<open>auto simp: answer_message_run [OF run]\<close>)
qed

definition fetched :: "fetch \<Rightarrow> (string \<times> json res) list" where
  "fetched f = (case f of Fetched msgs \<Rightarrow> map (\<lambda>m. (jm_subject m, jm_data m)) msgs | FetchError e \<Rightarrow> [])"

definition orderly :: "fetch \<Rightarrow> bool" where
  "orderly f = (case f of Fetched msgs \<Rightarrow> list_all (\<lambda>m. jm_ack m = Ok () \<and> jm_nak m = Ok ()) msgs | FetchError e \<Rightarrow> e = TimeoutError)"

lemma process_messages_append:
  assumes "process_messages env xs s = (Ok as, t)" "process_messages env ys t = (Ok bs, u)"
  shows "process_messages env (xs @ ys) s = (Ok (as @ bs), u)"
  using assms
proof (induction xs arbitrary: s as)
  case (Cons x xs)
  obtain subject data where x: "x = (subject, data)" by fastforce
  obtain a s1 where "process_message env subject data s = (Ok a, s1)" using process_message_returns by blast
  with Cons x show ?case
    by (auto simp: bindM_def returnM_def split: sum.splits prod.splits)
qed (simp add: returnM_def)

lemma answer_batch_orderly:
  assumes "list_all (\<lambda>m. jm_ack m = Ok () \<and> jm_nak m = Ok ()) msgs"
  shows "\<exists>as t. answer_batch (answer_message env) msgs s = (as, None, t)
    \<and> process_messages env (map (\<lambda>m. (jm_subject m, jm_data m)) msgs) s = (Ok as, t) \<and> length as = length msgs"
  using assms
proof (induction msgs arbitrary: s)
  case (Cons m msgs)
  obtain a t where run: "process_message env (jm_subject m) (jm_data m) s = (Ok a, t)" "answer_message env m s = (Ok a, t)"
    using Cons.prems by (cases "answer_message env m s", cases rule: answer_message_cases [of env m s]) auto
  with Cons.IH [of t] Cons.prems show ?case by (auto simp: bindM_def returnM_def)
qed (simp add: returnM_def)

text \<open>
  C28. The worker answers every message it fetches, once and in order. As long as answering works and fetching does no more
  than time out, the loop goes on, and what it did is exactly the handling of the fetched messages one after the other,
  with one answer each.
\<close>

theorem worker_answers_all:
  assumes "list_all orderly fs"
  shows "\<exists>as t. poll_loop env (answer_message env) fs s = (as, True, t)
    \<and> process_messages env (concat (map fetched fs)) s = (Ok as, t) \<and> length as = length (concat (map fetched fs))"
  using assms
proof (induction fs arbitrary: s)
  case (Cons f fs)
  have "\<exists>as t. poll_round env (answer_message env) f s = (as, True, t)
      \<and> process_messages env (fetched f) s = (Ok as, t) \<and> length as = length (fetched f)"
    using Cons.prems answer_batch_orderly [of _ env s]
    by (cases f) (fastforce simp: poll_round_def poll_error_def orderly_def fetched_def returnM_def)+
  then obtain as t where f: "poll_round env (answer_message env) f s = (as, True, t)"
      "process_messages env (fetched f) s = (Ok as, t)" "length as = length (fetched f)" by blast
  obtain bs u where fs: "poll_loop env (answer_message env) fs t = (bs, True, u)"
      "process_messages env (concat (map fetched fs)) t = (Ok bs, u)" "length bs = length (concat (map fetched fs))"
    using Cons.IH [of t] Cons.prems by force
  show ?case using f fs process_messages_append [OF f(2) fs(2)] by simp
qed (simp add: returnM_def)

lemma poll_error_ends: "poll_error env e s = (False, t) \<Longrightarrow> py_in ''connection closed'' (py_lower (exn_str env e)) \<and> e \<noteq> TimeoutError"
  by (auto simp: poll_error_def split: if_splits)

text \<open>
  What the two loops share: a message that is not answered is one whose own \<^verbatim>\<open>ack\<close> or \<^verbatim>\<open>nak\<close> raised. Then a loop ends only when
  an exception about a closed connection came from fetching a batch or from answering a message of it.
\<close>

locale message_loop =
  fixes env :: env and answer :: "jmsg \<Rightarrow> ack prog"
  assumes answer_err: "answer m s = (Err e, t) \<Longrightarrow> jm_ack m = Err e \<or> jm_nak m = Err e"
begin

lemma batch_err: "answer_batch answer msgs s = (as, Some e, t) \<Longrightarrow> \<exists>m \<in> set msgs. jm_ack m = Err e \<or> jm_nak m = Err e"
proof (induction msgs arbitrary: s as)
  case (Cons m msgs)
  then show ?case using answer_err [of m s] by (cases "answer m s") (fastforce split: sum.splits prod.splits)
qed simp

lemma loop_ends:
  assumes "poll_loop env answer fs s = (as, False, t)"
  shows "\<exists>e. py_in ''connection closed'' (py_lower (exn_str env e)) \<and> e \<noteq> TimeoutError
    \<and> (FetchError e \<in> set fs \<or> (\<exists>msgs m. Fetched msgs \<in> set fs \<and> m \<in> set msgs \<and> (jm_ack m = Err e \<or> jm_nak m = Err e)))"
  using assms
proof (induction fs arbitrary: s as)
  case (Cons f fs)
  obtain bs go u where f: "poll_round env answer f s = (bs, go, u)" by (metis prod_cases3)
  show ?case
  proof (cases go)
    case True
    with f Cons.prems obtain cs where "poll_loop env answer fs u = (cs, False, t)" by (auto split: prod.splits)
    from Cons.IH [OF this] show ?thesis by auto
  next
    case False
    with f show ?thesis
      by (cases f) (auto simp: poll_round_def dest!: poll_error_ends batch_err split: prod.splits option.splits)
  qed
qed simp

end

interpretation worker_loop: message_loop env "answer_message env" for env
proof
  fix m s e t assume "answer_message env m s = (Err e, t)"
  then show "jm_ack m = Err e \<or> jm_nak m = Err e" by (cases rule: answer_message_cases [of env m s]) auto
qed

interpretation listener_loop: message_loop env "answer_ready env device_id owner_id connection_id"
  for env device_id owner_id connection_id
proof
  fix m s e t assume "answer_ready env device_id owner_id connection_id m s = (Err e, t)"
  moreover obtain a u where "nats_listener_msg env device_id owner_id connection_id (jm_data m) s = (Ok a, u)"
    by (cases "bindM (liftM (jm_data m)) (offer_command env device_id owner_id connection_id) s", cases "fst (bindM (liftM (jm_data m))
          (offer_command env device_id owner_id connection_id) s)") (auto simp: nats_listener_msg_def catchM_def returnM_def)
  ultimately show "jm_ack m = Err e \<or> jm_nak m = Err e"
    by (auto simp: answer_ready_def bindM_def seqM_def catchM_def liftM_def returnM_def split: ack.splits sum.splits)
qed

text \<open>
  C29. Nothing that a message contains ends the worker: a loop ends only when fetching a batch, or answering a message of
  it, raised an exception about a closed connection.
\<close>

theorem worker_ends_on_closed_connection:
  assumes "poll_loop env (answer_message env) fs s = (as, False, t)"
  shows "\<exists>e. py_in ''connection closed'' (py_lower (exn_str env e)) \<and> e \<noteq> TimeoutError
    \<and> (FetchError e \<in> set fs \<or> (\<exists>msgs m. Fetched msgs \<in> set fs \<and> m \<in> set msgs \<and> (jm_ack m = Err e \<or> jm_nak m = Err e)))"
  using assms by (rule worker_loop.loop_ends)

text \<open>The same of the listener of a gateway connection: a command that cannot be delivered never ends it.\<close>

lemma listener_ends_on_closed_connection:
  assumes "nats_listener env device_id owner_id connection_id fs s = (as, False, t)"
  shows "\<exists>e. py_in ''connection closed'' (py_lower (exn_str env e)) \<and> e \<noteq> TimeoutError
    \<and> (FetchError e \<in> set fs \<or> (\<exists>msgs m. Fetched msgs \<in> set fs \<and> m \<in> set msgs \<and> (jm_ack m = Err e \<or> jm_nak m = Err e)))"
  using assms unfolding nats_listener_def by (rule listener_loop.loop_ends)

lemma run_message: "system_step env s (snd (answer_message env m s))"
proof -
  obtain a t where "process_message env (jm_subject m) (jm_data m) s = (Ok a, t)" "snd (answer_message env m s) = t"
    using answer_message_cases [of env m s] by metis
  then show ?thesis using call [of env s "ConsumerMessage (jm_subject m) (jm_data m)"] by simp
qed

lemma run_batch: "(system_step env)\<^sup>*\<^sup>* s (snd (snd (answer_batch (answer_message env) msgs s)))"
proof (induction msgs arbitrary: s)
  case (Cons m msgs)
  note step = run_message [of env s m]
  show ?case
    using step converse_rtranclp_into_rtranclp [OF step Cons.IH]
    by (cases "answer_message env m s") (auto split: sum.split prod.split)
qed simp

lemma run_poll_error: "(system_step env)\<^sup>*\<^sup>* s (snd (poll_error env e s))"
  using time [of "timedelta_seconds 1"] by (auto simp: poll_error_def sleepM_def timedelta_seconds_def)

lemma run_round: "(system_step env)\<^sup>*\<^sup>* s (snd (snd (poll_round env (answer_message env) f s)))"
proof (cases f)
  case (Fetched msgs)
  obtain as e t where run: "answer_batch (answer_message env) msgs s = (as, e, t)" by (metis prod_cases3)
  have "(system_step env)\<^sup>*\<^sup>* s t" using run_batch [of env s msgs] run by simp
  then show ?thesis
    using run Fetched rtranclp_trans [OF _ run_poll_error, of env s t]
    by (cases e) (simp_all add: poll_round_def)
qed (simp add: poll_round_def run_poll_error)

lemma run_poll_all: "(system_step env)\<^sup>*\<^sup>* s (snd (poll_all env live schedule s))"
proof (induction schedule arbitrary: live s)
  case (Cons x schedule)
  obtain i f where x: "x = (i, f)" by fastforce
  obtain as go t where f: "poll_round env (answer_message env) f s = (as, go, t)" by (metis prod_cases3)
  have "(system_step env)\<^sup>*\<^sup>* s t" using run_round [of env s f] f by simp
  then have "(system_step env)\<^sup>*\<^sup>* s (snd (poll_all env (live(i := go)) schedule t))" using Cons.IH by (rule rtranclp_trans)
  with f Cons.IH show ?case by (simp add: x case_prod_unfold)
qed simp

lemma run_consumer: "consumer_start lib env schedule c s = (r, c', t) \<Longrightarrow> (system_step env)\<^sup>*\<^sup>* s t"
  using run_poll_all [of env s] by (auto simp: consumer_start_def split: prod.splits sum.splits) (metis snd_conv)

lemma reachable_run: "(system_step env)\<^sup>*\<^sup>* s t \<Longrightarrow> reachable env s \<Longrightarrow> reachable env t"
  by (induction rule: rtranclp_induct) (auto intro: step)

section \<open>Start and stop of a process\<close>

text \<open>
  What a process holds: its NATS client, the Valkey client (\<open>None\<close> before \<^verbatim>\<open>connect\<close>, then whether its connections are open)
  and its database engines. The answers of the services are the parameters \<open>sv\<close>: of \<^verbatim>\<open>SELECT 1\<close>, of the cache's \<^verbatim>\<open>ping\<close> and
  \<^verbatim>\<open>close\<close>, and of \<^verbatim>\<open>dispose\<close>.
\<close>

record 'n process =
  p_nats :: "'n nats_client"
  p_valkey :: "bool option"
  p_engines :: engine_table

record services =
  sv_url :: string
  sv_pytest :: bool
  sv_loop :: "nat option"
  sv_select :: "unit res"
  sv_ping :: "unit res"
  sv_close :: "unit res"
  sv_dispose :: "engine \<Rightarrow> unit res"

definition init_db :: "services \<Rightarrow> env \<Rightarrow> 'n process \<Rightarrow> unit res \<times> 'n process" where
  "init_db sv env p =
     (sv_select sv, p\<lparr>p_engines := snd (get_engine (sv_url sv) (settings env) (sv_pytest sv) (sv_loop sv) (p_engines p))\<rparr>)"

definition valkey_connect :: "services \<Rightarrow> 'n process \<Rightarrow> unit res \<times> 'n process" where
  "valkey_connect sv p = (sv_ping sv, p\<lparr>p_valkey := Some True\<rparr>)"

definition valkey_disconnect :: "services \<Rightarrow> 'n process \<Rightarrow> unit res \<times> 'n process" where
  "valkey_disconnect sv p =
     (if p_valkey p = None then (Ok (), p)
      else (sv_close sv, case sv_close sv of Inl e \<Rightarrow> p | Inr _ \<Rightarrow> p\<lparr>p_valkey := Some False\<rparr>))"

definition valkey_ping :: "services \<Rightarrow> 'n process \<Rightarrow> bool" where
  "valkey_ping sv p = (if p_valkey p = None then False else (case sv_ping sv of Inl e \<Rightarrow> False | Inr _ \<Rightarrow> True))"

definition then_do :: "('p \<Rightarrow> unit res \<times> 'p) \<Rightarrow> ('p \<Rightarrow> unit res \<times> 'p) \<Rightarrow> 'p \<Rightarrow> unit res \<times> 'p" where
  "then_do f g p = (case f p of (Inl e, q) \<Rightarrow> (Err e, q) | (Inr _, q) \<Rightarrow> g q)"

definition with_nats :: "('n nats_client \<Rightarrow> unit res \<times> 'n nats_client) \<Rightarrow> 'n process \<Rightarrow> unit res \<times> 'n process" where
  "with_nats f p = (case f (p_nats p) of (r, c) \<Rightarrow> (r, p\<lparr>p_nats := c\<rparr>))"

definition with_engines :: "(engine_table \<Rightarrow> unit res \<times> engine_table) \<Rightarrow> 'n process \<Rightarrow> unit res \<times> 'n process" where
  "with_engines f p = (case f (p_engines p) of (r, t) \<Rightarrow> (r, p\<lparr>p_engines := t\<rparr>))"

text \<open>The first part of \<^verbatim>\<open>lifespan\<close>, which the workers and the gateway repeat, and its second part.\<close>

definition process_startup :: "('n, 'sub) nats_lib \<Rightarrow> services \<Rightarrow> env \<Rightarrow> 'n process \<Rightarrow> unit res \<times> 'n process" where
  "process_startup lib sv env =
     then_do (init_db sv env) (then_do (valkey_connect sv) (with_nats (nats_client_connect lib env)))"

definition process_shutdown :: "('n, 'sub) nats_lib \<Rightarrow> services \<Rightarrow> 'n process \<Rightarrow> unit res \<times> 'n process" where
  "process_shutdown lib sv =
     then_do (with_nats (nats_client_disconnect lib))
       (then_do (valkey_disconnect sv) (with_engines (close_db (sv_dispose sv) (sv_loop sv))))"

definition lifespan ::
  "('n, 'sub) nats_lib \<Rightarrow> services \<Rightarrow> env \<Rightarrow> ('n process \<Rightarrow> 'n process) \<Rightarrow> 'n process \<Rightarrow> unit res \<times> 'n process" where
  "lifespan lib sv env serve =
     then_do (process_startup lib sv env) (\<lambda>p. process_shutdown lib sv (serve p))"

text \<open>
  \<^verbatim>\<open>main\<close> of a worker: start-up is outside the \<^verbatim>\<open>try\<close>, the clean-up of its \<^verbatim>\<open>finally\<close> runs however the work ended, and an
  exception of the clean-up replaces that of the work.
\<close>

definition worker_main ::
  "('n, 'sub) nats_lib \<Rightarrow> services \<Rightarrow> env \<Rightarrow> ('n process \<Rightarrow> st \<Rightarrow> unit res \<times> 'n process \<times> st) \<Rightarrow> 'n process \<Rightarrow> st
     \<Rightarrow> unit res \<times> 'n process \<times> st" where
  "worker_main lib sv env work p s =
     (case process_startup lib sv env p of
        (Inl e, q) \<Rightarrow> (Err e, q, s)
      | (Inr _, q) \<Rightarrow>
          (case work q s of (r, q1, t) \<Rightarrow>
             (case process_shutdown lib sv q1 of (Inl e, q2) \<Rightarrow> (Err e, q2, t) | (Inr _, q2) \<Rightarrow> (r, q2, t))))"

text \<open>The three workers; \<open>n\<close> rounds or the schedule of the fetches are what happens until the process is told to stop.\<close>

definition lifecycle_main ::
  "('n, 'sub) nats_lib \<Rightarrow> services \<Rightarrow> env \<Rightarrow> (nat \<times> fetch) list \<Rightarrow> 'n process \<Rightarrow> st \<Rightarrow> unit res \<times> 'n process \<times> st" where
  "lifecycle_main lib sv env schedule =
     worker_main lib sv env (\<lambda>q s.
       case consumer_start lib env schedule (p_nats q) s of
         (r, c, t) \<Rightarrow> (map_sum id (\<lambda>_. ()) r, q\<lparr>p_nats := c\<rparr>, t))"

definition publisher_main ::
  "('n, 'sub) nats_lib \<Rightarrow> services \<Rightarrow> env \<Rightarrow> nat \<Rightarrow> 'n process \<Rightarrow> st \<Rightarrow> unit res \<times> 'n process \<times> st" where
  "publisher_main lib sv env n = worker_main lib sv env (\<lambda>q s. case publisher_start env n s of (r, t) \<Rightarrow> (r, q, t))"

definition scheduler_main ::
  "('n, 'sub) nats_lib \<Rightarrow> services \<Rightarrow> env \<Rightarrow> nat \<Rightarrow> 'n process \<Rightarrow> st \<Rightarrow> unit res \<times> 'n process \<times> st" where
  "scheduler_main lib sv env n = worker_main lib sv env (\<lambda>q s. case scheduler_start env n s of (r, t) \<Rightarrow> (r, q, t))"

definition gateway_startup :: "('n, 'sub) nats_lib \<Rightarrow> services \<Rightarrow> env \<Rightarrow> 'n process \<Rightarrow> unit res \<times> 'n process" where
  "gateway_startup lib sv env =
     then_do (process_startup lib sv env) (\<lambda>p.
       if nc_set (p_nats p) then
         then_do (with_nats (\<lambda>c. case lib_subscribe lib ''veyaan.security.>'' (server c) of (r, n) \<Rightarrow> (r, c\<lparr>server := n\<rparr>)))
           (with_nats (\<lambda>c. case lib_subscribe lib ''veyaan.device.lifecycle.>'' (server c) of (r, n) \<Rightarrow> (r, c\<lparr>server := n\<rparr>))) p
       else (Ok (), p))"

lemmas process_defs = then_do_def with_nats_def with_engines_def init_db_def valkey_connect_def valkey_disconnect_def

text \<open>
  A process that starts and stops without an exception leaves no engine of its loop behind, its cache connections are
  closed, and every engine it used is disposed of.
\<close>

lemma lifespan_cleans_up:
  assumes "lifespan lib sv env serve p = (Ok (), q)" "\<And>p. p_engines (serve p) = p_engines p" "\<And>p. p_valkey (serve p) = p_valkey p"
  shows "map_of (engines (p_engines q)) (sv_loop sv) = None \<and> p_valkey q = Some False"
  using assms(1)
  by (auto simp: lifespan_def process_startup_def process_shutdown_def process_defs assms(2,3) close_db_removes
      split: prod.splits sum.splits if_splits)

text \<open>
  The steps of the clean-up are not independent: when draining the NATS connection raises, the cache connections stay open
  and the engine stays undisposed; and a start-up that fails at NATS cleans up nothing.
\<close>

lemma shutdown_stops_at_nats:
  assumes "nc_set (p_nats p)" "lib_drain lib (server (p_nats p)) = (Err e, n)"
  shows "\<exists>q. process_shutdown lib sv p = (Err e, q) \<and> p_engines q = p_engines p \<and> p_valkey q = p_valkey p"
  using assms by (simp add: process_shutdown_def process_defs nats_client_disconnect_def)

lemma failed_startup_leaks:
  assumes "sv_select sv = Ok ()" "sv_ping sv = Ok ()" "lib_connect lib (NATS_URL (settings env)) (server (p_nats p)) = (Err e, n)"
  shows "\<exists>q. worker_main lib sv env work p s = (Err e, q, s) \<and> p_valkey q = Some True \<and> map_of (engines (p_engines q)) (sv_loop sv) \<noteq> None"
  using assms by (simp add: worker_main_def process_startup_def process_defs nats_client_connect_def get_engine_def Let_def map_add_def split: option.split)

lemma run_main:
  assumes "\<And>q. (system_step env)\<^sup>*\<^sup>* s (snd (snd (work q s)))"
  shows "(system_step env)\<^sup>*\<^sup>* s (snd (snd (worker_main lib sv env work p s)))"
proof (cases "process_startup lib sv env p")
  case (Pair x q)
  obtain r q1 t where w: "work q s = (r, q1, t)" by (metis prod_cases3)
  then have "(system_step env)\<^sup>*\<^sup>* s t" using assms [of q] by simp
  then show ?thesis using Pair w by (simp add: worker_main_def split: sum.split prod.split)
qed


section \<open>Examples\<close>

text \<open>The runs of the worker at concrete messages: a result that is no JSON, then nothing.\<close>

definition demo_jmsg :: jmsg where
  "demo_jmsg = \<lparr>jm_subject = command_result (uuid_str 5), jm_data = Err JSONDecodeError, jm_ack = Ok (), jm_nak = Ok ()\<rparr>"

theorem worker_answers_all_witness:
  "\<exists>as t. poll_loop demo_env (answer_message demo_env) [Fetched [demo_jmsg], FetchError TimeoutError] (demo_st (demo_db [])) = (as, True, t)
     \<and> length as = 1"
  using worker_answers_all [of "[Fetched [demo_jmsg], FetchError TimeoutError]" demo_env "demo_st (demo_db [])"]
  by (auto simp: orderly_def fetched_def demo_jmsg_def)

theorem worker_ends_on_closed_connection_witness:
  "FetchError (NatsError ''nats: Connection Closed'') \<in> set [FetchError TimeoutError, FetchError (NatsError ''nats: Connection Closed'')]
   \<and> (\<exists>e. py_in ''connection closed'' (py_lower (exn_str nats_env e)) \<and> e \<noteq> TimeoutError
        \<and> FetchError e \<in> set [FetchError TimeoutError, FetchError (NatsError ''nats: Connection Closed'')])"
proof -
  have "py_lower ''nats: Connection Closed'' = ''nats: connection closed''" by code_simp
  then have "poll_loop nats_env (answer_message nats_env) [FetchError TimeoutError, FetchError (NatsError ''nats: Connection Closed'')]
      (demo_st (demo_db [])) = ([], False, demo_st (demo_db []))"
    by (simp add: poll_round_def poll_error_def nats_env_def)
  from worker_ends_on_closed_connection [OF this] show ?thesis by auto
qed

definition demo_services :: services where
  "demo_services = \<lparr>sv_url = ''postgresql'', sv_pytest = False, sv_loop = Some 0, sv_select = Ok (), sv_ping = Ok (), sv_close = Ok (),
     sv_dispose = (\<lambda>_. Ok ())\<rparr>"

definition demo_process :: "stream_config list process" where
  "demo_process = \<lparr>p_nats = init_client [], p_valkey = None, p_engines = \<lparr>engines = [], next_engine = 0, disposed = []\<rparr>\<rparr>"


end
