(* ===== verification/Http.thy ===== *)
theory Http
  imports Platform RateLimiter Protocol "HOL-Library.AList"
begin

text \<open>
  The HTTP surface: the documents of \<^verbatim>\<open>app/api/responses.py\<close>, the hierarchy of \<^verbatim>\<open>app/api/domain_errors.py\<close>, the middlewares of
  \<^verbatim>\<open>app/api/middleware\<close> and the stack that \<^verbatim>\<open>app/main.py\<close> builds of them. \<^verbatim>\<open>add_middleware\<close> puts a layer around the ones added
  before, so a request passes the rate limiter, the request identifier, the trace identifier and the error handling, in
  this order; the routes (with the CORS layer of the framework) are the argument \<open>app\<close>. Header names are compared as
  written, the names used here differ in more than case. Text outside Latin-1 is written as UTF-8.
\<close>

section \<open>Error codes and documents\<close>

fun error_code_value :: "error_code \<Rightarrow> string" where
  "error_code_value INVALID_TOKEN = ''INVALID_TOKEN''"
| "error_code_value EXPIRED_TOKEN = ''EXPIRED_TOKEN''"
| "error_code_value USER_NOT_FOUND = ''USER_NOT_FOUND''"
| "error_code_value VALIDATION_ERROR = ''VALIDATION_ERROR''"
| "error_code_value INVALID_IDEMPOTENCY_KEY = ''INVALID_IDEMPOTENCY_KEY''"
| "error_code_value IDEMPOTENCY_CONFLICT = ''IDEMPOTENCY_CONFLICT''"
| "error_code_value DEVICE_NOT_FOUND = ''DEVICE_NOT_FOUND''"
| "error_code_value DEVICE_REVOKED = ''DEVICE_REVOKED''"
| "error_code_value DEVICE_OFFLINE = ''DEVICE_OFFLINE''"
| "error_code_value PAIRING_EXPIRED = ''PAIRING_EXPIRED''"
| "error_code_value PAIRING_INVALID = ''PAIRING_INVALID''"
| "error_code_value INVALID_CREDENTIAL = ''INVALID_CREDENTIAL''"
| "error_code_value INVALID_PROTOCOL_VERSION = ''INVALID_PROTOCOL_VERSION''"
| "error_code_value COMMAND_NOT_FOUND = ''COMMAND_NOT_FOUND''"
| "error_code_value COMMAND_EXPIRED = ''COMMAND_EXPIRED''"
| "error_code_value COMMAND_BLOCKED = ''COMMAND_BLOCKED''"
| "error_code_value INVALID_COMMAND_TYPE = ''INVALID_COMMAND_TYPE''"
| "error_code_value INVALID_PARAMETERS = ''INVALID_PARAMETERS''"
| "error_code_value APPROVAL_NOT_FOUND = ''APPROVAL_NOT_FOUND''"
| "error_code_value APPROVAL_EXPIRED_CODE = ''APPROVAL_EXPIRED''"
| "error_code_value APPROVAL_ALREADY_DECIDED = ''APPROVAL_ALREADY_DECIDED''"
| "error_code_value INVALID_DECISION_NONCE = ''INVALID_DECISION_NONCE''"
| "error_code_value INVALID_STATE = ''INVALID_STATE''"
| "error_code_value EMERGENCY_STOP_ACTIVE = ''EMERGENCY_STOP_ACTIVE''"
| "error_code_value EMERGENCY_STOP_NOT_ACTIVE = ''EMERGENCY_STOP_NOT_ACTIVE''"
| "error_code_value INVALID_CONFIRMATION = ''INVALID_CONFIRMATION''"
| "error_code_value INTERNAL_ERROR = ''INTERNAL_ERROR''"
| "error_code_value SERVICE_UNAVAILABLE = ''SERVICE_UNAVAILABLE''"
| "error_code_value RATE_LIMITED = ''RATE_LIMITED''"
| "error_code_value FORBIDDEN = ''FORBIDDEN''"
| "error_code_value NOT_FOUND = ''NOT_FOUND''"

definition ErrorDetail :: "error_code \<Rightarrow> string \<Rightarrow> dict option \<Rightarrow> json" where
  "ErrorDetail code message details =
     JObj [(''code'', JStr (error_code_value code)), (''message'', JStr message),
       (''details'', case details of None \<Rightarrow> JNull | Some d \<Rightarrow> JObj d)]"

definition ErrorResponse :: "env \<Rightarrow> string \<Rightarrow> json \<Rightarrow> datetime \<Rightarrow> dict" where
  "ErrorResponse env request_id err now =
     [(''request_id'', JStr request_id), (''success'', JBool False), (''error'', err),
      (''timestamp'', JStr (pyd_dump_datetime env now))]"

definition ApiResponse :: "env \<Rightarrow> json \<Rightarrow> dict prog" where
  "ApiResponse env data =
     bindM (uuid4 env) (\<lambda>request_id. bindM (getM clock) (\<lambda>now. returnM
       [(''request_id'', JStr (uuid_str request_id)), (''success'', JBool True), (''data'', data),
        (''timestamp'', JStr (pyd_dump_datetime env now))]))"

definition PaginatedResponse :: "json list \<Rightarrow> int \<Rightarrow> int \<Rightarrow> int \<Rightarrow> bool \<Rightarrow> bool \<Rightarrow> json" where
  "PaginatedResponse items total_items page page_size next_page prev_page =
     JObj [(''items'', JList items), (''total'', JInt total_items), (''page'', JInt page), (''page_size'', JInt page_size),
       (''has_next'', JBool next_page), (''has_prev'', JBool prev_page)]"

section \<open>Domain errors\<close>

text \<open>
  The attributes of an \<^verbatim>\<open>ApiError\<close>, and the identifiers that the constructors of the hierarchy are given: an identifier that
  is false in a condition (no value, an empty text, zero) is left out of the message.
\<close>

record api_error =
  ae_code :: error_code
  ae_message :: string
  ae_details :: "dict option"
  ae_status :: int

datatype ident = NoId | UuidId uuid | StrId string | IntId int

fun ident_truthy :: "ident \<Rightarrow> bool" where
  "ident_truthy NoId = False"
| "ident_truthy (UuidId u) = True"
| "ident_truthy (StrId x) = (x \<noteq> [])"
| "ident_truthy (IntId n) = (n \<noteq> 0)"

fun ident_str :: "ident \<Rightarrow> string" where
  "ident_str NoId = ''None''"
| "ident_str (UuidId u) = uuid_str u"
| "ident_str (StrId x) = x"
| "ident_str (IntId n) = py_str_int n"

definition id_json :: "ident \<Rightarrow> json" where
  "id_json i = (if ident_truthy i then JStr (ident_str i) else JNull)"

definition DomainError ::
  "error_code \<Rightarrow> int \<Rightarrow> string \<Rightarrow> error_code option \<Rightarrow> int option \<Rightarrow> dict option \<Rightarrow> api_error" where
  "DomainError default_code default_status message code status_code details =
     \<lparr>ae_code = (case code of Some c \<Rightarrow> c | None \<Rightarrow> default_code), ae_message = message, ae_details = details,
      ae_status = (case status_code of Some n \<Rightarrow> if n \<noteq> 0 then n else default_status | None \<Rightarrow> default_status)\<rparr>"

definition NotFoundError :: "string \<Rightarrow> ident \<Rightarrow> api_error" where
  "NotFoundError resource resource_id =
     (let msg = (if ident_truthy resource_id
                 then resource @ '' '' @ [CHR 0x27] @ ident_str resource_id @ [CHR 0x27] @ '' not found''
                 else resource @ '' not found'') in
      DomainError NOT_FOUND 404 msg None None (Some [(''resource'', JStr resource), (''id'', id_json resource_id)]))"

definition ForbiddenError :: "string \<Rightarrow> dict option \<Rightarrow> api_error" where
  "ForbiddenError message details = DomainError FORBIDDEN 403 message None None details"

definition UnauthorizedError :: "string \<Rightarrow> api_error" where
  "UnauthorizedError message = DomainError INVALID_TOKEN 401 message None None None"

definition ConflictError :: "string \<Rightarrow> dict option \<Rightarrow> api_error" where
  "ConflictError message details = DomainError IDEMPOTENCY_CONFLICT 409 message None None details"

definition ValidationError :: "string \<Rightarrow> string option \<Rightarrow> api_error" where
  "ValidationError message field =
     DomainError VALIDATION_ERROR 422 message None None
       (case field of Some f \<Rightarrow> if f \<noteq> [] then Some [(''field'', JStr f)] else None | None \<Rightarrow> None)"

definition RateLimitError :: "string \<Rightarrow> int option \<Rightarrow> api_error" where
  "RateLimitError message retry_after =
     DomainError RATE_LIMITED 429 message None None
       (case retry_after of Some n \<Rightarrow> if n \<noteq> 0 then Some [(''retry_after_seconds'', JInt n)] else None | None \<Rightarrow> None)"

definition LockedError :: "string \<Rightarrow> api_error" where
  "LockedError message = DomainError EMERGENCY_STOP_ACTIVE 423 message None None None"

definition InvalidStateError :: "string \<Rightarrow> string option \<Rightarrow> string option \<Rightarrow> api_error" where
  "InvalidStateError message current_state target_state =
     (let field = (\<lambda>k v. case v of Some x \<Rightarrow> if x \<noteq> [] then [(k, JStr x)] else [] | None \<Rightarrow> []);
          details = field ''current_state'' current_state @ field ''target_state'' target_state in
      DomainError INVALID_STATE 409 message None None (if details \<noteq> [] then Some details else None))"

definition DeviceNotFoundError :: "ident \<Rightarrow> api_error" where
  "DeviceNotFoundError device_id = (NotFoundError ''device'' device_id)\<lparr>ae_code := DEVICE_NOT_FOUND\<rparr>"

definition DeviceRevokedError :: "ident \<Rightarrow> api_error" where
  "DeviceRevokedError device_id =
     (ForbiddenError (''Device '' @ ident_str device_id @ '' is not trusted'') (Some [(''device_id'', id_json device_id)]))
       \<lparr>ae_code := DEVICE_REVOKED, ae_status := 403\<rparr>"

definition CommandNotFoundError :: "ident \<Rightarrow> api_error" where
  "CommandNotFoundError command_id = (NotFoundError ''command'' command_id)\<lparr>ae_code := COMMAND_NOT_FOUND\<rparr>"

definition CommandExpiredError :: api_error where
  "CommandExpiredError = DomainError COMMAND_EXPIRED 410 ''Command has expired'' None None None"

definition ApprovalNotFoundError :: "ident \<Rightarrow> api_error" where
  "ApprovalNotFoundError approval_id = (NotFoundError ''approval'' approval_id)\<lparr>ae_code := APPROVAL_NOT_FOUND\<rparr>"

definition ApprovalExpiredError :: api_error where
  "ApprovalExpiredError =
     DomainError APPROVAL_EXPIRED_CODE 410 ''Approval has expired and can no longer be decided'' None None None"

definition ApprovalAlreadyDecidedError :: "string \<Rightarrow> api_error" where
  "ApprovalAlreadyDecidedError current_status =
     (ConflictError (''Approval was already '' @ current_status) (Some [(''status'', JStr current_status)]))
       \<lparr>ae_code := APPROVAL_ALREADY_DECIDED\<rparr>"

definition EmergencyStopActiveError :: api_error where
  "EmergencyStopActiveError =
     LockedError (''Emergency stop is active '' @ [CHR 0xE2, CHR 0x80, CHR 0x94] @ '' commands are blocked'')"

definition EmergencyStopNotActiveError :: api_error where
  "EmergencyStopNotActiveError =
     DomainError EMERGENCY_STOP_NOT_ACTIVE 400 ''Emergency stop is not currently active'' None None None"

definition PairingExpiredError :: api_error where
  "PairingExpiredError = DomainError PAIRING_EXPIRED 410 ''Pairing code has expired'' None None None"

definition InvalidCredentialError :: api_error where
  "InvalidCredentialError =
     (UnauthorizedError ''Invalid device credential'')\<lparr>ae_code := INVALID_CREDENTIAL, ae_status := 401\<rparr>"

lemmas domain_error_defs = DomainError_def NotFoundError_def ForbiddenError_def UnauthorizedError_def ConflictError_def
  ValidationError_def RateLimitError_def LockedError_def InvalidStateError_def DeviceNotFoundError_def DeviceRevokedError_def
  CommandNotFoundError_def CommandExpiredError_def ApprovalNotFoundError_def ApprovalExpiredError_def
  ApprovalAlreadyDecidedError_def EmergencyStopActiveError_def EmergencyStopNotActiveError_def PairingExpiredError_def
  InvalidCredentialError_def

text \<open>The codes and the statuses of the hierarchy.\<close>

definition domain_status :: "error_code \<Rightarrow> int option" where
  "domain_status = map_of
     [(NOT_FOUND, 404), (FORBIDDEN, 403), (INVALID_TOKEN, 401), (IDEMPOTENCY_CONFLICT, 409), (VALIDATION_ERROR, 422),
      (RATE_LIMITED, 429), (EMERGENCY_STOP_ACTIVE, 423), (INVALID_STATE, 409), (DEVICE_NOT_FOUND, 404), (DEVICE_REVOKED, 403),
      (COMMAND_NOT_FOUND, 404), (COMMAND_EXPIRED, 410), (APPROVAL_NOT_FOUND, 404), (APPROVAL_EXPIRED_CODE, 410),
      (APPROVAL_ALREADY_DECIDED, 409), (EMERGENCY_STOP_NOT_ACTIVE, 400), (PAIRING_EXPIRED, 410), (INVALID_CREDENTIAL, 401)]"

lemma domain_errors_status:
  "e \<in> {NotFoundError r i, ForbiddenError m d, UnauthorizedError m, ConflictError m d, ValidationError m f, RateLimitError m n,
     LockedError m, InvalidStateError m f g, DeviceNotFoundError i, DeviceRevokedError i, CommandNotFoundError i,
     CommandExpiredError, ApprovalNotFoundError i, ApprovalExpiredError, ApprovalAlreadyDecidedError m, EmergencyStopActiveError,
     EmergencyStopNotActiveError, PairingExpiredError, InvalidCredentialError}
   \<Longrightarrow> domain_status (ae_code e) = Some (ae_status e)"
  by (elim insertE emptyE) (simp_all add: domain_error_defs domain_status_def Let_def)

section \<open>Middlewares\<close>

text \<open>A request with the headers that the middlewares read, and a response.\<close>

record web_request = http_request +
  rq_request_id :: "string option"
  rq_trace_id :: "string option"

datatype body = JsonBody dict | RawBody string

record response =
  rs_status :: int
  rs_body :: body
  rs_headers :: "(string \<times> string) list"

definition set_header :: "string \<Rightarrow> string \<Rightarrow> response \<Rightarrow> response" where
  "set_header k v r = r\<lparr>rs_headers := AList.update k v (rs_headers r)\<rparr>"

definition error_handling :: "env \<Rightarrow> string option \<Rightarrow> response prog \<Rightarrow> response prog" where
  "error_handling env state_request_id call_next =
     (let request_id = (case state_request_id of Some x \<Rightarrow> x | None \<Rightarrow> ''unknown'') in
      catchM call_next (\<lambda>exc. bindM (getM clock) (\<lambda>now. returnM
        (case exc of
           ApiError code message status \<Rightarrow>
             \<lparr>rs_status = status, rs_body = JsonBody (ErrorResponse env request_id (ErrorDetail code message None) now),
              rs_headers = []\<rparr>
         | _ \<Rightarrow>
             \<lparr>rs_status = 500,
              rs_body = JsonBody (ErrorResponse env request_id (ErrorDetail INTERNAL_ERROR ''An internal error occurred'' None) now),
              rs_headers = []\<rparr>))))"

definition request_id_dispatch :: "env \<Rightarrow> web_request \<Rightarrow> (string \<Rightarrow> response prog) \<Rightarrow> response prog" where
  "request_id_dispatch env request call_next =
     bindM (uuid4 env) (\<lambda>fresh.
       let request_id = (case rq_request_id request of Some x \<Rightarrow> x | None \<Rightarrow> uuid_str fresh) in
       bindM (call_next request_id) (\<lambda>response. returnM (set_header ''X-Request-ID'' request_id response)))"

definition tracing_dispatch :: "env \<Rightarrow> web_request \<Rightarrow> (string \<Rightarrow> response prog) \<Rightarrow> response prog" where
  "tracing_dispatch env request call_next =
     bindM (case rq_trace_id request of
              Some x \<Rightarrow> if x \<noteq> [] then returnM x else bindM (uuid4 env) (\<lambda>u. returnM (uuid_str u))
            | None \<Rightarrow> bindM (uuid4 env) (\<lambda>u. returnM (uuid_str u))) (\<lambda>trace_id.
       bindM (call_next trace_id) (\<lambda>response. returnM (set_header ''X-Trace-ID'' trace_id response)))"

definition limited_response :: "response limited \<Rightarrow> response" where
  "limited_response l =
     (case l of
        Exempt response \<Rightarrow> response
      | Passed response limit remaining window \<Rightarrow>
          set_header ''X-RateLimit-Reset'' (py_str_int window)
            (set_header ''X-RateLimit-Remaining'' (py_str_int remaining)
              (set_header ''X-RateLimit-Limit'' (py_str_int limit) response))
      | TooMany limit window \<Rightarrow>
          \<lparr>rs_status = 429, rs_body = RawBody ''{\"error\": \"Rate limit exceeded\", \"retry_after\": window}'',
           rs_headers = [(''X-RateLimit-Limit'', py_str_int limit), (''X-RateLimit-Remaining'', ''0''),
             (''X-RateLimit-Reset'', py_str_int window), (''Retry-After'', py_str_int window)]\<rparr>)"

definition middleware_stack :: "env \<Rightarrow> web_request \<Rightarrow> response prog \<Rightarrow> response prog" where
  "middleware_stack env request app =
     bindM
       (dispatch env (http_request.truncate request)
         (request_id_dispatch env request (\<lambda>request_id.
            tracing_dispatch env request (\<lambda>trace_id. error_handling env (Some request_id) app))))
       (\<lambda>l. returnM (limited_response l))"

definition route_root :: "env \<Rightarrow> dict" where
  "route_root env = [(''service'', JStr ''VEYAAN API''), (''version'', JStr (SERVICE_VERSION (settings env))),
     (''environment'', JStr (ENVIRONMENT (settings env)))]"

section \<open>What a client sees\<close>

lemma map_of_set_header [simp]: "map_of (rs_headers (set_header k v r)) = (map_of (rs_headers r))(k \<mapsto> v)"
  by (simp add: set_header_def update_conv')

lemma set_header_fields [simp]: "rs_status (set_header k v r) = rs_status r" "rs_body (set_header k v r) = rs_body r"
  by (simp_all add: set_header_def)

definition public_message :: "exn \<Rightarrow> string" where
  "public_message e = (case e of ApiError code message status \<Rightarrow> message | _ \<Rightarrow> ''An internal error occurred'')"

text \<open>
  \<open>app_answer env rid run r\<close>: the response \<open>r\<close> tells what the run of the routes did, a document with the status, the code
  and the public message of an exception instead of the exception.
\<close>

definition app_answer :: "env \<Rightarrow> string \<Rightarrow> response res \<times> st \<Rightarrow> response \<Rightarrow> bool" where
  "app_answer env request_id run r =
     (case run of
        (Inr r0, t) \<Rightarrow> rs_status r = rs_status r0 \<and> rs_body r = rs_body r0
      | (Inl e, t) \<Rightarrow> rs_status r = fst (error_response e)
          \<and> rs_body r = JsonBody (ErrorResponse env request_id (ErrorDetail (snd (error_response e)) (public_message e) None) (clock t)))"

lemma app_answer_headers [simp]: "app_answer env rid run (set_header k v r) = app_answer env rid run r"
  by (simp add: app_answer_def split: prod.split sum.split)

lemma error_handling_answers:
  "\<exists>r. error_handling env (Some rid) app s = (Ok r, snd (app s)) \<and> app_answer env rid (app s) r"
proof (cases "app s")
  case (Pair x t)
  then show ?thesis
  proof (cases x)
    case (Inl e)
    with Pair show ?thesis
      by (cases e) (simp_all add: error_handling_def app_answer_def public_message_def error_response_def catchM_def bindM_def
          getM_def returnM_def)
  qed (simp add: error_handling_def app_answer_def catchM_def)
qed

definition identified :: "env \<Rightarrow> web_request \<Rightarrow> response prog \<Rightarrow> st \<Rightarrow> response \<Rightarrow> bool" where
  "identified env request app s r = (\<exists>rid tid u.
     committed u = committed s \<and> clock u = clock s \<and> map_of (rs_headers r) ''X-Request-ID'' = Some rid \<and> rq_request_id request \<in> {None, Some rid}
     \<and> map_of (rs_headers r) ''X-Trace-ID'' = Some tid \<and> tid \<noteq> [] \<and> rq_trace_id request \<in> {None, Some [], Some tid}
     \<and> app_answer env rid (app u) r)"

lemma identified_header:
  "k \<noteq> ''X-Request-ID'' \<Longrightarrow> k \<noteq> ''X-Trace-ID'' \<Longrightarrow> identified env request app s (set_header k v r) = identified env request app s r"
  by (simp add: identified_def)

lemma tracing_answers:
  "\<exists>r t tid u. tracing_dispatch env request (\<lambda>x. error_handling env (Some rid) app) s = (Ok r, t)
     \<and> map_of (rs_headers r) ''X-Trace-ID'' = Some tid \<and> tid \<noteq> [] \<and> rq_trace_id request \<in> {None, Some [], Some tid}
     \<and> committed u = committed s \<and> clock u = clock s \<and> app_answer env rid (app u) r"
proof -
  have nonempty: "uuid_str u \<noteq> []" for u by (simp add: uuid_str_def Let_def)
  obtain tid u where tid: "tracing_dispatch env request (\<lambda>x. error_handling env (Some rid) app) s =
      bindM (error_handling env (Some rid) app) (\<lambda>response. returnM (set_header ''X-Trace-ID'' tid response)) u"
      "tid \<noteq> []" "rq_trace_id request \<in> {None, Some [], Some tid}" "committed u = committed s" "clock u = clock s"
  proof (cases "rq_trace_id request \<in> {None, Some []}")
    case True
    then show ?thesis
      by (intro that [of "uuid_str (gen_uuid env (entropy s))" "s\<lparr>entropy := Suc (entropy s)\<rparr>"] nonempty)
        (auto simp: tracing_dispatch_def bindM_def uuid4_def returnM_def)
  next
    case False
    then obtain a where "rq_trace_id request = Some a" "a \<noteq> []" by auto
    then show ?thesis by (intro that [of a s]) (auto simp: tracing_dispatch_def bindM_def returnM_def)
  qed
  obtain r where "error_handling env (Some rid) app u = (Ok r, snd (app u))" "app_answer env rid (app u) r"
    using error_handling_answers by blast
  with tid show ?thesis by (auto simp: bindM_def returnM_def)
qed

lemma request_id_answers:
  "\<exists>r t. request_id_dispatch env request (\<lambda>request_id. tracing_dispatch env request (\<lambda>trace_id. error_handling env (Some request_id) app)) s
      = (Ok r, t) \<and> identified env request app s r"
proof -
  define rid where "rid = (case rq_request_id request of Some x \<Rightarrow> x | None \<Rightarrow> uuid_str (gen_uuid env (entropy s)))"
  obtain r t tid u where "tracing_dispatch env request (\<lambda>x. error_handling env (Some rid) app) (s\<lparr>entropy := Suc (entropy s)\<rparr>) = (Ok r, t)"
      "map_of (rs_headers r) ''X-Trace-ID'' = Some tid" "tid \<noteq> []" "rq_trace_id request \<in> {None, Some [], Some tid}"
      "committed u = committed s" "clock u = clock s" "app_answer env rid (app u) r"
    using tracing_answers [of env request rid app "s\<lparr>entropy := Suc (entropy s)\<rparr>"] by auto
  then show ?thesis
    by (auto simp: request_id_dispatch_def bindM_def uuid4_def returnM_def identified_def rid_def Let_def split: option.splits)
qed

text \<open>
  C15. Every request is answered. A request ends in one of three ways. The limiter's own access to the cache raised, and the
  exception leaves the stack. Or the request was refused with status 429, and the response has neither identifier. Or it
  reached the routes, and the response carries the request and trace identifiers, the client's if it sent them (an empty
  trace identifier counts as none, an empty request identifier does not), together with what the routes returned, or an
  error document with the same request identifier. That document has status 500 and a fixed text for every exception that
  is not an API error.
\<close>

theorem every_request_answered:
  "case middleware_stack env request app s of
     (Inl e, t) \<Rightarrow> (\<exists>key limit window. fst (rate_limit_check env key limit window s) = Err e)
   | (Inr r, t) \<Rightarrow>
       (\<exists>limit window. r = limited_response (TooMany limit window) \<and> rs_status r = 429
          \<and> map_of (rs_headers r) ''X-Request-ID'' = None \<and> map_of (rs_headers r) ''X-Trace-ID'' = None)
       \<or> identified env request app s r"
proof -
  let ?inner = "request_id_dispatch env request (\<lambda>request_id. tracing_dispatch env request (\<lambda>trace_id. error_handling env (Some request_id) app))"
  have inner: "\<exists>r t. ?inner u = (Ok r, t) \<and> identified env request app u r" for u by (rule request_id_answers)
  have passed: "identified env request app s r \<Longrightarrow> identified env request app s (limited_response (Passed r limit remaining window))"
    for r limit remaining window by (simp add: limited_response_def identified_header)
  obtain limit window where lw: "get_rate_limit env (http_request.truncate request) = (limit, window)" by fastforce
  show ?thesis
  proof (cases "rq_path request \<in> {''/health/live'', ''/health/ready'', ''/metrics''}")
    case True
    then show ?thesis using inner [of s]
      by (auto simp: middleware_stack_def dispatch_def bindM_def returnM_def limited_response_def http_request.truncate_def)
  next
    case False
    obtain x u where check: "rate_limit_check env (get_client_id env (http_request.truncate request)) limit window s = (x, u)" by fastforce
    have "committed u = committed s" "clock u = clock s"
      using check by (auto simp: rate_limit_check_def Let_def split: if_splits sum.splits)
    then have same: "identified env request app u r \<Longrightarrow> identified env request app s r" for r by (simp add: identified_def)
    show ?thesis
    proof (cases x)
      case (Inl e)
      with False lw check show ?thesis
        by (auto simp: middleware_stack_def dispatch_def bindM_def http_request.truncate_def) (metis fst_conv)
    next
      case (Inr y)
      obtain allowed current remaining where y: "y = (allowed, current, remaining)" by (metis prod_cases3)
      show ?thesis
        using False lw check Inr y inner [of u] passed same
        by (cases allowed) (auto simp: middleware_stack_def dispatch_def bindM_def returnM_def limited_response_def http_request.truncate_def)
    qed
  qed
qed

text \<open>
  The body of a success is made by \<^verbatim>\<open>ApiResponse\<close>, whose identifier is drawn anew: it is never the identifier of the request,
  which only the header has.
\<close>

lemma success_body_has_own_id:
  assumes "rq_path request = ''/health/live''" "rq_request_id request = Some x" "rq_trace_id request = Some y" "y \<noteq> []"
  shows "\<exists>r t. middleware_stack env request (bindM (ApiResponse env data) (\<lambda>d. returnM \<lparr>rs_status = 200, rs_body = JsonBody d, rs_headers = []\<rparr>)) s
      = (Ok r, t) \<and> map_of (rs_headers r) ''X-Request-ID'' = Some x
    \<and> rs_body r = JsonBody [(''request_id'', JStr (uuid_str (gen_uuid env (Suc (entropy s))))), (''success'', JBool True), (''data'', data),
        (''timestamp'', JStr (pyd_dump_datetime env (clock s)))]"
  using assms
  by (simp add: middleware_stack_def dispatch_def request_id_dispatch_def tracing_dispatch_def error_handling_def ApiResponse_def
      limited_response_def http_request.truncate_def bindM_def catchM_def returnM_def uuid4_def getM_def Let_def)

end
