(* ===== verification/Responses.thy ===== *)
theory Responses
  imports System Http
begin

text \<open>
  The documents that the API returns for rows: the response models of \<^verbatim>\<open>app/*/schemas.py\<close>, filled from the attributes of a row and
  written in Pydantic's JSON mode. A field of type \<^verbatim>\<open>Optional[str]\<close> that holds anything but a text or null is a validation
  error, which the client sees as status 500. \<open>created_at\<close> and \<open>updated_at\<close> of a stop, which the model of the table leaves out,
  are arguments.
\<close>

section \<open>Fields\<close>

definition opt_text :: "json \<Rightarrow> json res" where
  "opt_text v = (case v of JNull \<Rightarrow> Ok JNull | JStr x \<Rightarrow> Ok (JStr x) | _ \<Rightarrow> Err PydanticValidationError)"

definition time_json :: "env \<Rightarrow> datetime \<Rightarrow> json" where
  "time_json env t = JStr (pyd_dump_datetime env t)"

definition uuid_json :: "uuid \<Rightarrow> json" where
  "uuid_json u = JStr (uuid_str u)"

section \<open>Documents\<close>

definition CommandResponse :: "env \<Rightarrow> command \<Rightarrow> dict res" where
  "CommandResponse env c =
     (case (opt_text (c_result_summary c), opt_text (c_error_code c), opt_text (c_error_message c)) of
        (Inr rsum, Inr ecode, Inr emsg) \<Rightarrow> Ok
          [(''id'', uuid_json (c_id c)), (''device_id'', uuid_json (c_device_id c)), (''command_type'', JStr (c_command_type c)),
           (''parameters'', JObj (c_parameters c)), (''risk_level'', JStr (risk_level_value (c_risk_level c))),
           (''idempotency_key'', JStr (c_idempotency_key c)), (''state'', JStr (command_state_value (c_state c))),
           (''requires_approval'', JBool (c_requires_approval c)),
           (''delayed_execution_allowed'', JBool (c_delayed_execution_allowed c)),
           (''expires_at'', json_opt (time_json env) (c_expires_at c)), (''created_at'', time_json env (c_created_at c)),
           (''updated_at'', time_json env (c_updated_at c)), (''delivered_at'', json_opt (time_json env) (c_delivered_at c)),
           (''acknowledged_at'', json_opt (time_json env) (c_acknowledged_at c)),
           (''started_at'', json_opt (time_json env) (c_started_at c)), (''finished_at'', json_opt (time_json env) (c_finished_at c)),
           (''result_summary'', rsum), (''error_code'', ecode), (''error_message'', emsg)]
      | _ \<Rightarrow> Err PydanticValidationError)"

definition TaskResponse :: "env \<Rightarrow> task \<Rightarrow> dict res" where
  "TaskResponse env t =
     (case (opt_text (t_result_summary t), opt_text (t_error_code t), opt_text (t_error_message t)) of
        (Inr rsum, Inr ecode, Inr emsg) \<Rightarrow> Ok
          [(''id'', uuid_json (t_id t)), (''command_id'', uuid_json (t_command_id t)), (''state'', JStr (task_state_value (t_state t))),
           (''attempt_count'', JInt (t_attempt_count t)), (''started_at'', json_opt (time_json env) (t_started_at t)),
           (''finished_at'', json_opt (time_json env) (t_finished_at t)), (''result_summary'', rsum), (''error_code'', ecode),
           (''error_message'', emsg)]
      | _ \<Rightarrow> Err PydanticValidationError)"

definition CreateCommandResponse :: "create_response \<Rightarrow> dict" where
  "CreateCommandResponse r =
     [(''command_id'', uuid_json (rs_command_id r)), (''task_id'', uuid_json (rs_task_id r)), (''state'', JStr (command_state_value (rs_state r))),
      (''requires_approval'', JBool (rs_requires_approval r)), (''approval_id'', json_opt uuid_json (rs_approval_id r)),
      (''decision_nonce'', json_opt JStr (rs_decision_nonce r))]"

definition ApprovalResponse :: "env \<Rightarrow> approval \<Rightarrow> dict" where
  "ApprovalResponse env a =
     [(''id'', uuid_json (a_id a)), (''command_id'', uuid_json (a_command_id a)), (''owner_id'', uuid_json (a_owner_id a)),
      (''risk_level'', JStr (risk_level_value (a_risk_level a))), (''action_title'', JStr (a_action_title a)),
      (''action_description'', JStr (a_action_description a)), (''status'', JStr (approval_status_value (a_status a))),
      (''expires_at'', time_json env (a_expires_at a)), (''decided_at'', json_opt (time_json env) (a_decided_at a)),
      (''decision_note'', json_opt JStr (a_decision_note a)), (''created_at'', time_json env (a_created_at a))]"

definition ApprovalDecisionResponse :: "env \<Rightarrow> approval \<Rightarrow> dict" where
  "ApprovalDecisionResponse env a =
     [(''approval_id'', uuid_json (a_id a)), (''status'', JStr (approval_status_value (a_status a))),
      (''decided_at'', json_opt (time_json env) (a_decided_at a))]"

definition DeviceResponse :: "env \<Rightarrow> device \<Rightarrow> dict" where
  "DeviceResponse env d =
     [(''id'', uuid_json (d_id d)), (''display_name'', JStr (d_display_name d)), (''device_type'', JStr (d_device_type d)),
      (''operating_system'', JStr (d_operating_system d)), (''app_version'', JStr (d_app_version d)),
      (''protocol_version'', JStr (d_protocol_version d)), (''trust_status'', JStr (device_status_value (d_trust_status d))),
      (''last_seen_at'', json_opt (time_json env) (d_last_seen_at d)), (''created_at'', time_json env (d_created_at d))]"

definition EmergencyStopResponse :: "env \<Rightarrow> datetime \<Rightarrow> datetime \<Rightarrow> emergency_stop \<Rightarrow> dict" where
  "EmergencyStopResponse env created_at updated_at r =
     [(''id'', uuid_json (es_id r)), (''owner_id'', uuid_json (es_owner_id r)), (''active'', JBool (es_active r)),
      (''reason'', json_opt JStr (es_reason r)), (''activated_at'', json_opt (time_json env) (es_activated_at r)),
      (''released_at'', json_opt (time_json env) (es_released_at r)), (''activated_by'', json_opt uuid_json (es_activated_by r)),
      (''released_by'', json_opt uuid_json (es_released_by r)), (''created_at'', time_json env created_at),
      (''updated_at'', time_json env updated_at)]"

definition EmergencyStopStatusResponse :: "env \<Rightarrow> bool \<Rightarrow> string option \<Rightarrow> datetime option \<Rightarrow> dict" where
  "EmergencyStopStatusResponse env active reason activated_at =
     [(''active'', JBool active), (''reason'', json_opt JStr reason), (''activated_at'', json_opt (time_json env) activated_at)]"

definition NotificationResponse :: "env \<Rightarrow> notification_record \<Rightarrow> dict" where
  "NotificationResponse env n =
     [(''id'', uuid_json (n_id n)), (''user_id'', uuid_json (n_user_id n)), (''notification_type'', JStr (n_notification_type n)),
      (''channel'', JStr (n_channel n)), (''status'', JStr (n_status n)), (''payload'', JObj (n_payload n)),
      (''error_message'', json_opt JStr (n_error_message n)), (''created_at'', time_json env (n_created_at n)),
      (''delivered_at'', json_opt (time_json env) (n_delivered_at n))]"

text \<open>A page of a list: the documents of its rows, or the first validation error.\<close>

fun all_ok :: "'a res list \<Rightarrow> 'a list res" where
  "all_ok [] = Ok []"
| "all_ok (Inl e # rs) = Err e"
| "all_ok (Inr x # rs) = (case all_ok rs of Inl e \<Rightarrow> Err e | Inr xs \<Rightarrow> Ok (x # xs))"

definition command_page :: "env \<Rightarrow> nat \<Rightarrow> nat \<Rightarrow> command list \<Rightarrow> nat \<Rightarrow> json res" where
  "command_page env page page_size rows n_total =
     map_sum id (\<lambda>items. PaginatedResponse (map JObj items) (int n_total) (int page) (int page_size)
         (has_next page page_size n_total) (has_prev page))
       (all_ok (map (CommandResponse env) rows))"

definition approval_page :: "env \<Rightarrow> nat \<Rightarrow> nat \<Rightarrow> approval list \<Rightarrow> nat \<Rightarrow> json" where
  "approval_page env page page_size rows n_total =
     PaginatedResponse (map (JObj \<circ> ApprovalResponse env) rows) (int n_total) (int page) (int page_size)
       (has_next page page_size n_total) (has_prev page)"

definition NotificationListResponse :: "env \<Rightarrow> nat \<Rightarrow> nat \<Rightarrow> notification_record list \<Rightarrow> nat \<Rightarrow> json" where
  "NotificationListResponse env page page_size rows n_total =
     PaginatedResponse (map (JObj \<circ> NotificationResponse env) rows) (int n_total) (int page) (int page_size)
       (has_next page page_size n_total) (has_prev page)"

section \<open>What the documents show\<close>

text \<open>
  No document depends on a secret: the hash of the decision nonce and the public identity of the device
  are not read. Rows that differ only there have the same document.
\<close>

lemma no_secrets:
  "ApprovalResponse env (a\<lparr>a_decision_nonce_hash := h\<rparr>) = ApprovalResponse env a"
  "ApprovalDecisionResponse env (a\<lparr>a_decision_nonce_hash := h\<rparr>) = ApprovalDecisionResponse env a"
  "DeviceResponse env (d\<lparr>d_public_identity := k\<rparr>) = DeviceResponse env d"
  by (simp_all add: ApprovalResponse_def ApprovalDecisionResponse_def DeviceResponse_def)

text \<open>The states, and with them the documents, tell commands apart.\<close>

lemma command_state_value_inj: "command_state_value x = command_state_value y \<longleftrightarrow> x = y"
  by (cases x; cases y) simp_all

lemma CommandResponse_inj:
  assumes "CommandResponse env c = Ok d" "CommandResponse env c' = Ok d"
  shows "c_id c = c_id c' \<and> c_state c = c_state c' \<and> c_parameters c = c_parameters c'"
  using assms
  by (auto simp: CommandResponse_def uuid_json_def command_state_value_inj split: sum.splits)

lemma opt_text_fits: "fits_text n v \<Longrightarrow> opt_text v = Ok v"
  by (simp add: fits_text_def opt_text_def split: json.splits)

lemma CommandResponse_fits: "texts_fit c \<Longrightarrow> \<exists>d. CommandResponse env c = Ok d"
  by (simp add: texts_fit_def CommandResponse_def opt_text_fits [of None] opt_text_fits [of "Some 50"])

lemma TaskResponse_fits: "task_fits t \<Longrightarrow> \<exists>d. TaskResponse env t = Ok d"
  by (simp add: task_fits_def TaskResponse_def opt_text_fits [of None] opt_text_fits [of "Some 50"])

lemma all_ok_all: "list_all (\<lambda>x. \<exists>d. f x = Ok d) xs \<Longrightarrow> \<exists>ds. all_ok (map f xs) = Ok ds \<and> length ds = length xs"
  by (induction xs) auto

text \<open>
  C6. Every row can be shown. In every run of the system from a database that satisfies the constraints of the migrations,
  whatever the devices reported, the document of every command and of every task is valid, and so is every page of
  commands: no response of these routes fails on the data.
\<close>

theorem responses_always_valid:
  assumes "(system_step env)\<^sup>*\<^sup>* s t" "schema_ok (committed s)" "typed_ok env (committed s)"
  shows "(\<forall>c \<in> set (commands (committed t)). \<exists>d. CommandResponse env c = Ok d)
    \<and> (\<forall>k \<in> set (tasks (committed t)). \<exists>d. TaskResponse env k = Ok d)
    \<and> (\<forall>rows. set rows \<subseteq> set (commands (committed t)) \<longrightarrow> (\<exists>doc. command_page env page page_size rows n = Ok doc))"
proof -
  have "checks_ok (committed t)"
    using schema_hist.system_steps_history [OF assms(1)] assms(2,3) by (auto simp: schema_ok_def)
  then have c: "\<forall>c \<in> set (commands (committed t)). \<exists>d. CommandResponse env c = Ok d"
    and k: "\<forall>k \<in> set (tasks (committed t)). \<exists>d. TaskResponse env k = Ok d"
    using CommandResponse_fits TaskResponse_fits by (auto simp: checks_ok_def list_all_iff)
  have "\<exists>doc. command_page env page page_size rows n = Ok doc" if "set rows \<subseteq> set (commands (committed t))" for rows
  proof -
    have "list_all (\<lambda>x. \<exists>d. CommandResponse env x = Ok d) rows" using c that by (auto simp: list_all_iff)
    from all_ok_all [OF this] show ?thesis by (auto simp: command_page_def)
  qed
  with c k show ?thesis by blast
qed

theorem responses_always_valid_witness:
  "list_all (\<lambda>k. \<exists>d. TaskResponse demo_env k = Ok d)
     (tasks (committed (run_entry demo_env (demo_call (CreateCommand demo_request)) (demo_st (demo_db [])))))"
proof -
  have "(system_step demo_env)\<^sup>*\<^sup>* (demo_st (demo_db [])) (run_entry demo_env (demo_call (CreateCommand demo_request)) (demo_st (demo_db [])))"
    by (intro r_into_rtranclp call)
  moreover have "schema_ok (committed (demo_st (demo_db [])))" "typed_ok demo_env (committed (demo_st (demo_db [])))"
    by (simp_all add: ok_defs device_types_def demo_device_def)
  ultimately show ?thesis using responses_always_valid unfolding list_all_iff by blast
qed

end
