(* ===== verification/Storage.thy ===== *)
theory Storage
  imports Worker
begin

text \<open>
  \<^verbatim>\<open>app/storage/r2_client.py\<close>: the adapter for the object store. The S3 library is the parameter \<open>s3\<close>, a record of calls on a store
  of any type. The module logs with the standard \<^verbatim>\<open>logging\<close> module and mostly passes fields as keyword arguments, which raises
  \<^verbatim>\<open>TypeError\<close> when the level is enabled (see theory Worker); the one call without fields cannot raise.
\<close>

section \<open>The adapter\<close>

record 'o s3_lib =
  s3_client :: "string \<Rightarrow> string \<Rightarrow> string \<Rightarrow> 'o \<Rightarrow> unit res \<times> 'o"
  s3_put_object :: "string \<Rightarrow> string \<Rightarrow> string \<Rightarrow> string \<Rightarrow> 'o \<Rightarrow> unit res \<times> 'o"
  s3_presign :: "string \<Rightarrow> string \<Rightarrow> int \<Rightarrow> 'o \<Rightarrow> string res \<times> 'o"
  s3_delete_object :: "string \<Rightarrow> string \<Rightarrow> 'o \<Rightarrow> unit res \<times> 'o"

record 'o r2_client =
  r2_client_set :: bool
  r2_bucket :: "string option"
  r2_enabled :: bool
  r2_store :: 'o

definition R2Client :: "'o \<Rightarrow> 'o r2_client" where
  "R2Client store = \<lparr>r2_client_set = False, r2_bucket = None, r2_enabled = False, r2_store = store\<rparr>"

definition log_fields :: "env \<Rightarrow> int \<Rightarrow> unit res" where
  "log_fields env level = (if log_level env \<le> level then Err (TypeError ''unexpected keyword argument'') else Ok ())"

definition configured :: "settings \<Rightarrow> bool" where
  "configured cfg = (R2_ACCESS_KEY_ID cfg \<noteq> [] \<and> R2_SECRET_ACCESS_KEY cfg \<noteq> [] \<and> R2_ENDPOINT_URL cfg \<noteq> [] \<and> R2_BUCKET_NAME cfg \<noteq> [])"

definition ensure_client :: "'o s3_lib \<Rightarrow> env \<Rightarrow> 'o r2_client \<Rightarrow> bool res \<times> 'o r2_client" where
  "ensure_client s3 env c =
     (if r2_client_set c then (Ok (r2_enabled c), c)
      else if \<not> configured (settings env) then (Ok False, c\<lparr>r2_enabled := False\<rparr>)
      else
        (let on_error = (\<lambda>c. case log_fields env 30 of
               Inl e \<Rightarrow> (Err e, c)
             | Inr _ \<Rightarrow> (Ok False, c\<lparr>r2_enabled := False\<rparr>)) in
         case s3_client s3 (R2_ENDPOINT_URL (settings env)) (R2_ACCESS_KEY_ID (settings env)) (R2_SECRET_ACCESS_KEY (settings env))
                (r2_store c) of
           (Inl e, o1) \<Rightarrow> on_error (c\<lparr>r2_store := o1\<rparr>)
         | (Inr _, o1) \<Rightarrow>
             (let c1 = \<lparr>r2_client_set = True, r2_bucket = Some (R2_BUCKET_NAME (settings env)), r2_enabled = True, r2_store = o1\<rparr> in
              case log_fields env 20 of Inl e \<Rightarrow> on_error c1 | Inr _ \<Rightarrow> (Ok True, c1))))"

definition bucket_of :: "'o r2_client \<Rightarrow> string" where
  "bucket_of c = (case r2_bucket c of Some b \<Rightarrow> b | None \<Rightarrow> [])"

definition upload_file :: "'o s3_lib \<Rightarrow> env \<Rightarrow> string \<Rightarrow> string \<Rightarrow> string \<Rightarrow> 'o r2_client \<Rightarrow> bool res \<times> 'o r2_client" where
  "upload_file s3 env key data content_type c =
     (case ensure_client s3 env c of
        (Inl e, c1) \<Rightarrow> (Err e, c1)
      | (Inr False, c1) \<Rightarrow> (Ok False, c1)
      | (Inr True, c1) \<Rightarrow>
          (case s3_put_object s3 (bucket_of c1) key data content_type (r2_store c1) of
             (r, o1) \<Rightarrow>
               (let c2 = c1\<lparr>r2_store := o1\<rparr>;
                    failed_call = (case log_fields env 40 of Inl e \<Rightarrow> (Err e, c2) | Inr _ \<Rightarrow> (Ok False, c2)) in
                case r of
                  Inl e \<Rightarrow> failed_call
                | Inr _ \<Rightarrow> (case log_fields env 20 of Inl e \<Rightarrow> failed_call | Inr _ \<Rightarrow> (Ok True, c2)))))"

definition get_presigned_url :: "'o s3_lib \<Rightarrow> env \<Rightarrow> string \<Rightarrow> int \<Rightarrow> 'o r2_client \<Rightarrow> string option res \<times> 'o r2_client" where
  "get_presigned_url s3 env key expires_in c =
     (case ensure_client s3 env c of
        (Inl e, c1) \<Rightarrow> (Err e, c1)
      | (Inr False, c1) \<Rightarrow> (Ok None, c1)
      | (Inr True, c1) \<Rightarrow>
          (case s3_presign s3 (bucket_of c1) key expires_in (r2_store c1) of
             (Inr url, o1) \<Rightarrow> (Ok (Some url), c1\<lparr>r2_store := o1\<rparr>)
           | (Inl _, o1) \<Rightarrow>
               (case log_fields env 40 of Inl e \<Rightarrow> (Err e, c1\<lparr>r2_store := o1\<rparr>) | Inr _ \<Rightarrow> (Ok None, c1\<lparr>r2_store := o1\<rparr>))))"

definition delete_file :: "'o s3_lib \<Rightarrow> env \<Rightarrow> string \<Rightarrow> 'o r2_client \<Rightarrow> bool res \<times> 'o r2_client" where
  "delete_file s3 env key c =
     (case ensure_client s3 env c of
        (Inl e, c1) \<Rightarrow> (Err e, c1)
      | (Inr False, c1) \<Rightarrow> (Ok False, c1)
      | (Inr True, c1) \<Rightarrow>
          (case s3_delete_object s3 (bucket_of c1) key (r2_store c1) of
             (r, o1) \<Rightarrow>
               (let c2 = c1\<lparr>r2_store := o1\<rparr>;
                    failed_call = (case log_fields env 40 of Inl e \<Rightarrow> (Err e, c2) | Inr _ \<Rightarrow> (Ok False, c2)) in
                case r of
                  Inl e \<Rightarrow> failed_call
                | Inr _ \<Rightarrow> (case log_fields env 20 of Inl e \<Rightarrow> failed_call | Inr _ \<Rightarrow> (Ok True, c2)))))"

definition is_enabled :: "'o s3_lib \<Rightarrow> env \<Rightarrow> 'o r2_client \<Rightarrow> bool res \<times> 'o r2_client" where
  "is_enabled s3 env c = ensure_client s3 env c"

section \<open>Facts\<close>

text \<open>
  A client that is set is enabled and has the bucket of the settings; every operation keeps this.
\<close>

definition r2_ok :: "env \<Rightarrow> 'o r2_client \<Rightarrow> bool" where
  "r2_ok env c = (r2_client_set c \<longrightarrow> configured (settings env) \<and> r2_bucket c = Some (R2_BUCKET_NAME (settings env)))"

lemma r2_ok_operations:
  assumes "r2_ok env c"
  shows "r2_ok env (snd (ensure_client s3 env c))" "r2_ok env (snd (upload_file s3 env key data ct c))"
    "r2_ok env (snd (get_presigned_url s3 env key n c))" "r2_ok env (snd (delete_file s3 env key c))"
proof -
  show *: "r2_ok env (snd (ensure_client s3 env c))" for s3 :: "'a s3_lib"
    using assms by (auto simp: r2_ok_def ensure_client_def Let_def split: prod.split sum.split)
  have stored: "r2_ok env c1 \<Longrightarrow> r2_ok env (c1\<lparr>r2_store := x\<rparr>)" for c1 :: "'a r2_client" and x by (simp add: r2_ok_def)
  note prem = * [of s3] stored
  show "r2_ok env (snd (upload_file s3 env key data ct c))"
    using prem by (auto simp: upload_file_def Let_def split: prod.split sum.split bool.split)
  show "r2_ok env (snd (get_presigned_url s3 env key n c))"
    using prem by (auto simp: get_presigned_url_def split: prod.split sum.split bool.split)
  show "r2_ok env (snd (delete_file s3 env key c))"
    using prem by (auto simp: delete_file_def Let_def split: prod.split sum.split bool.split)
qed

text \<open>Without credentials every operation reports that it did nothing, at every log level, and the store is not touched.\<close>

lemma unconfigured_noop:
  assumes "\<not> configured (settings env)" "\<not> r2_client_set c"
  shows "upload_file s3 env key data ct c = (Ok False, c\<lparr>r2_enabled := False\<rparr>)"
    "get_presigned_url s3 env key n c = (Ok None, c\<lparr>r2_enabled := False\<rparr>)"
    "delete_file s3 env key c = (Ok False, c\<lparr>r2_enabled := False\<rparr>)"
  using assms by (simp_all add: upload_file_def get_presigned_url_def delete_file_def ensure_client_def)

text \<open>When no log call is enabled, the answer of an upload says whether the object was stored.\<close>

lemma upload_reports:
  assumes "40 < log_level env" "r2_client_set c" "r2_enabled c"
    "s3_put_object s3 (bucket_of c) key data ct (r2_store c) = (r, o1)"
  shows "upload_file s3 env key data ct c = (Ok (\<not> isl r), c\<lparr>r2_store := o1\<rparr>)"
  using assms by (cases r) (simp_all add: upload_file_def ensure_client_def log_fields_def Let_def)

text \<open>
  At the default log level the adapter raises where it promises an answer. With log level \<open>INFO\<close> or below, the first use
  of a configured adapter raises although the client was created, and every later upload and deletion raises too, the
  successful ones after the object was stored or removed; only the presigned URLs work.
\<close>

lemma storage_raises_after_work:
  assumes level: "log_level env \<le> 20" and cfg: "configured (settings env)" and new: "\<not> r2_client_set c"
    and client: "s3_client s3 (R2_ENDPOINT_URL (settings env)) (R2_ACCESS_KEY_ID (settings env)) (R2_SECRET_ACCESS_KEY (settings env))
      (r2_store c) = (Ok (), o1)"
    and put: "s3_put_object s3 (R2_BUCKET_NAME (settings env)) key data ct o1 = (Ok (), o2)"
    and url: "s3_presign s3 (R2_BUCKET_NAME (settings env)) key n o1 = (Ok u, o1)"
  shows "\<exists>c1. upload_file s3 env key data ct c = (Err (TypeError ''unexpected keyword argument''), c1) \<and> r2_store c1 = o1
    \<and> upload_file s3 env key data ct c1 = (Err (TypeError ''unexpected keyword argument''), c1\<lparr>r2_store := o2\<rparr>)
    \<and> get_presigned_url s3 env key n c1 = (Ok (Some u), c1)"
proof -
  let ?c1 = "\<lparr>r2_client_set = True, r2_bucket = Some (R2_BUCKET_NAME (settings env)), r2_enabled = True, r2_store = o1\<rparr>"
  have "upload_file s3 env key data ct c = (Err (TypeError ''unexpected keyword argument''), ?c1)"
    using level cfg new client by (simp add: upload_file_def ensure_client_def log_fields_def Let_def)
  moreover have "upload_file s3 env key data ct ?c1 = (Err (TypeError ''unexpected keyword argument''), ?c1\<lparr>r2_store := o2\<rparr>)"
    using level put by (simp add: upload_file_def ensure_client_def log_fields_def bucket_of_def Let_def)
  moreover have "get_presigned_url s3 env key n ?c1 = (Ok (Some u), ?c1)"
    using url by (simp add: get_presigned_url_def ensure_client_def bucket_of_def)
  ultimately show ?thesis by (intro exI [of _ ?c1]) simp
qed

text \<open>A store in memory, for a concrete run.\<close>

definition memory_s3 :: "(string \<times> string) list s3_lib" where
  "memory_s3 =
     \<lparr>s3_client = (\<lambda>url key secret st. (Ok (), st)), s3_put_object = (\<lambda>b k d ct st. (Ok (), (k, d) # st)),
      s3_presign = (\<lambda>b k n st. (Ok (''https://'' @ b @ ''/'' @ k), st)),
      s3_delete_object = (\<lambda>b k st. (Ok (), filter (\<lambda>(x, _). x \<noteq> k) st))\<rparr>"

definition r2_env :: env where
  "r2_env = demo_env\<lparr>log_level := 10, settings := default_settings\<lparr>R2_ACCESS_KEY_ID := ''id'', R2_SECRET_ACCESS_KEY := ''s'',
     R2_ENDPOINT_URL := ''https://r2''\<rparr>\<rparr>"

lemma storage_raises_after_work_witness:
  "\<exists>c1. upload_file memory_s3 r2_env ''shot'' ''png'' ''image/png'' (R2Client []) = (Err (TypeError ''unexpected keyword argument''), c1)
    \<and> r2_store c1 = []
    \<and> upload_file memory_s3 r2_env ''shot'' ''png'' ''image/png'' c1
        = (Err (TypeError ''unexpected keyword argument''), c1\<lparr>r2_store := [(''shot'', ''png'')]\<rparr>)
    \<and> get_presigned_url memory_s3 r2_env ''shot'' 3600 c1 = (Ok (Some ''https://veyaan-dev/shot''), c1)"
  by (rule storage_raises_after_work)
    (simp_all add: r2_env_def memory_s3_def R2Client_def configured_def default_settings_def)

end
