(* ===== verification/Migrations.thy ===== *)
theory Migrations
  imports Database
begin

text \<open>
  \<^verbatim>\<open>migrations\<close>: the nine revisions with their upgrades and downgrades as lists of statements on a schema, and the filter
  of \<^verbatim>\<open>migrations/env.py\<close> for generated revisions. A schema has tables with columns and check constraints, indexes, functions,
  triggers and enumeration types; a statement fails as PostgreSQL documents: on names that are missing or taken, and on
  dropping what other objects depend on. Alembic runs a revision in one transaction, so a revision that fails changes
  nothing. The effect of the constraints on rows is in theory Database.
\<close>

section \<open>Schemas and statements\<close>

datatype coltype = T_UUID | T_STRING "nat option" | T_TEXT | T_BOOLEAN | T_INTEGER | T_TIMESTAMP | T_JSONB | T_ENUM string

record column =
  cn_name :: string
  cn_type :: coltype
  cn_null :: bool
  cn_default :: "string option"
  cn_key :: bool
  cn_unique :: bool
  cn_index :: bool
  cn_ref :: "(string \<times> string) option"

record table =
  tb_name :: string
  tb_columns :: "column list"
  tb_checks :: "(string \<times> string \<times> string list) list"
  tb_uniques :: "(string \<times> string list) list"

record index =
  ix_name :: string
  ix_table :: string
  ix_columns :: "string list"
  ix_unique :: bool

record schema =
  sch_tables :: "table list"
  sch_indexes :: "index list"
  sch_functions :: "string list"
  sch_triggers :: "(string \<times> string \<times> string) list"
  sch_types :: "string list"

definition empty_schema :: schema where
  "empty_schema = \<lparr>sch_tables = [], sch_indexes = [], sch_functions = [], sch_triggers = [], sch_types = []\<rparr>"

datatype ddl =
    CreateTable string "column list" "(string \<times> string list) list"
  | DropTable string
  | CreateIndex string string "string list" bool
  | DropIndex string
  | AddColumn string column
  | DropColumn string string
  | AlterColumn string string "coltype option" "bool option" "string option option"
  | RenameColumn string string string
  | AddCheck string string string "string list"
  | CreateFunction string
  | CreateTrigger string string string
  | DropTriggerIfExists string string
  | DropFunctionIfExists string
  | DropTypeIfExists string

datatype ddl_error = Undefined string | Duplicate string | Dependent string

definition find_table :: "string \<Rightarrow> schema \<Rightarrow> table option" where
  "find_table t s = find (\<lambda>x. tb_name x = t) (sch_tables s)"

definition find_column :: "string \<Rightarrow> table \<Rightarrow> column option" where
  "find_column c t = find (\<lambda>x. cn_name x = c) (tb_columns t)"

definition put_table :: "table \<Rightarrow> schema \<Rightarrow> schema" where
  "put_table t s = s\<lparr>sch_tables := map (\<lambda>x. if tb_name x = tb_name t then t else x) (sch_tables s)\<rparr>"

definition on_table :: "string \<Rightarrow> (table \<Rightarrow> ddl_error + schema) \<Rightarrow> schema \<Rightarrow> ddl_error + schema" where
  "on_table t f s = (case find_table t s of None \<Rightarrow> Inl (Undefined t) | Some x \<Rightarrow> f x)"

definition on_column :: "string \<Rightarrow> string \<Rightarrow> (table \<Rightarrow> column \<Rightarrow> ddl_error + schema) \<Rightarrow> schema \<Rightarrow> ddl_error + schema" where
  "on_column t c f s =
     on_table t (\<lambda>x. case find_column c x of None \<Rightarrow> Inl (Undefined c) | Some y \<Rightarrow> f x y) s"

definition new_indexes :: "string \<Rightarrow> column list \<Rightarrow> index list" where
  "new_indexes t cs =
     map (\<lambda>c. \<lparr>ix_name = ''ix_'' @ t @ ''_'' @ cn_name c, ix_table = t, ix_columns = [cn_name c], ix_unique = cn_unique c\<rparr>)
       (filter cn_index cs)"

definition enum_types :: "column list \<Rightarrow> string list" where
  "enum_types cs = concat (map (\<lambda>c. case cn_type c of T_ENUM x \<Rightarrow> [x] | _ \<Rightarrow> []) cs)"

definition refers_to :: "string \<Rightarrow> table \<Rightarrow> bool" where
  "refers_to t x = list_ex (\<lambda>c. case cn_ref c of Some (y, _) \<Rightarrow> y = t | None \<Rightarrow> False) (tb_columns x)"

definition set_column :: "string \<Rightarrow> column \<Rightarrow> table \<Rightarrow> table" where
  "set_column c y t = t\<lparr>tb_columns := map (\<lambda>x. if cn_name x = c then y else x) (tb_columns t)\<rparr>"

definition subst_name :: "string \<Rightarrow> string \<Rightarrow> string \<Rightarrow> string" where
  "subst_name a b x = (if x = a then b else x)"

fun exec_ddl :: "ddl \<Rightarrow> schema \<Rightarrow> ddl_error + schema" where
  "exec_ddl (CreateTable t cs us) s =
     (if find_table t s \<noteq> None then Inl (Duplicate t)
      else case find (\<lambda>c. case cn_ref c of Some (y, _) \<Rightarrow> find_table y s = None | None \<Rightarrow> False) cs of
             Some c \<Rightarrow> Inl (Undefined (cn_name c))
           | None \<Rightarrow>
               if list_ex (\<lambda>i. ix_name i \<in> ix_name ` set (sch_indexes s)) (new_indexes t cs) then Inl (Duplicate ''index'')
               else Inr (s\<lparr>sch_tables := sch_tables s @ [\<lparr>tb_name = t, tb_columns = cs, tb_checks = [], tb_uniques = us\<rparr>],
                      sch_indexes := sch_indexes s @ new_indexes t cs,
                      sch_types := sch_types s @ filter (\<lambda>x. x \<notin> set (sch_types s)) (enum_types cs)\<rparr>))"
| "exec_ddl (DropTable t) s =
     on_table t (\<lambda>x. if list_ex (\<lambda>y. tb_name y \<noteq> t \<and> refers_to t y) (sch_tables s) then Inl (Dependent t)
       else Inr (s\<lparr>sch_tables := filter (\<lambda>y. tb_name y \<noteq> t) (sch_tables s),
              sch_indexes := filter (\<lambda>i. ix_table i \<noteq> t) (sch_indexes s),
              sch_triggers := filter (\<lambda>(_, y, _). y \<noteq> t) (sch_triggers s)\<rparr>)) s"
| "exec_ddl (CreateIndex i t cs u) s =
     on_table t (\<lambda>x. if list_ex (\<lambda>j. ix_name j = i) (sch_indexes s) then Inl (Duplicate i)
       else if list_ex (\<lambda>c. find_column c x = None) cs then Inl (Undefined i)
       else Inr (s\<lparr>sch_indexes := sch_indexes s @ [\<lparr>ix_name = i, ix_table = t, ix_columns = cs, ix_unique = u\<rparr>]\<rparr>)) s"
| "exec_ddl (DropIndex i) s =
     (if list_ex (\<lambda>j. ix_name j = i) (sch_indexes s) then Inr (s\<lparr>sch_indexes := filter (\<lambda>j. ix_name j \<noteq> i) (sch_indexes s)\<rparr>)
      else Inl (Undefined i))"
| "exec_ddl (AddColumn t c) s =
     on_table t (\<lambda>x. if find_column (cn_name c) x \<noteq> None then Inl (Duplicate (cn_name c))
       else Inr (put_table (x\<lparr>tb_columns := tb_columns x @ [c]\<rparr>) s)) s"
| "exec_ddl (DropColumn t c) s =
     on_column t c (\<lambda>x y. Inr ((put_table (x\<lparr>tb_columns := filter (\<lambda>z. cn_name z \<noteq> c) (tb_columns x),
           tb_checks := filter (\<lambda>(_, z, _). z \<noteq> c) (tb_checks x), tb_uniques := filter (\<lambda>(_, zs). c \<notin> set zs) (tb_uniques x)\<rparr>) s)
         \<lparr>sch_indexes := filter (\<lambda>i. \<not> (ix_table i = t \<and> c \<in> set (ix_columns i))) (sch_indexes s)\<rparr>)) s"
| "exec_ddl (AlterColumn t c ty nul def) s =
     on_column t c (\<lambda>x y. Inr (put_table (set_column c (y\<lparr>cn_type := (case ty of Some z \<Rightarrow> z | None \<Rightarrow> cn_type y),
         cn_null := (case nul of Some z \<Rightarrow> z | None \<Rightarrow> cn_null y),
         cn_default := (case def of Some z \<Rightarrow> z | None \<Rightarrow> cn_default y)\<rparr>) x) s)) s"
| "exec_ddl (RenameColumn t a b) s =
     on_column t a (\<lambda>x y. if find_column b x \<noteq> None then Inl (Duplicate b)
       else Inr ((put_table ((set_column a (y\<lparr>cn_name := b\<rparr>) x)
            \<lparr>tb_checks := map (\<lambda>(n, z, vs). (n, subst_name a b z, vs)) (tb_checks x),
             tb_uniques := map (\<lambda>(n, zs). (n, map (subst_name a b) zs)) (tb_uniques x)\<rparr>) s)
         \<lparr>sch_indexes := map (\<lambda>i. if ix_table i = t then i\<lparr>ix_columns := map (subst_name a b) (ix_columns i)\<rparr> else i) (sch_indexes s)\<rparr>)) s"
| "exec_ddl (AddCheck t n c vs) s =
     on_column t c (\<lambda>x y. if list_ex (\<lambda>(m, _). m = n) (tb_checks x) then Inl (Duplicate n)
       else Inr (put_table (x\<lparr>tb_checks := tb_checks x @ [(n, c, vs)]\<rparr>) s)) s"
| "exec_ddl (CreateFunction f) s =
     Inr (if f \<in> set (sch_functions s) then s else s\<lparr>sch_functions := sch_functions s @ [f]\<rparr>)"
| "exec_ddl (CreateTrigger n t f) s =
     on_table t (\<lambda>x. if f \<notin> set (sch_functions s) then Inl (Undefined f)
       else if list_ex (\<lambda>(m, y, _). m = n \<and> y = t) (sch_triggers s) then Inl (Duplicate n)
       else Inr (s\<lparr>sch_triggers := sch_triggers s @ [(n, t, f)]\<rparr>)) s"
| "exec_ddl (DropTriggerIfExists n t) s =
     on_table t (\<lambda>x. Inr (s\<lparr>sch_triggers := filter (\<lambda>(m, y, _). \<not> (m = n \<and> y = t)) (sch_triggers s)\<rparr>)) s"
| "exec_ddl (DropFunctionIfExists f) s =
     (if f \<in> set (sch_functions s) then
        (if list_ex (\<lambda>(_, _, g). g = f) (sch_triggers s) then Inl (Dependent f)
         else Inr (s\<lparr>sch_functions := filter (\<lambda>g. g \<noteq> f) (sch_functions s)\<rparr>))
      else Inr s)"
| "exec_ddl (DropTypeIfExists y) s =
     (if list_ex (\<lambda>x. y \<in> set (enum_types (tb_columns x))) (sch_tables s) then Inl (Dependent y)
      else Inr (s\<lparr>sch_types := filter (\<lambda>z. z \<noteq> y) (sch_types s)\<rparr>))"

fun exec_all :: "ddl list \<Rightarrow> schema \<Rightarrow> ddl_error + schema" where
  "exec_all [] s = Inr s"
| "exec_all (x # xs) s = (case exec_ddl x s of Inl e \<Rightarrow> Inl e | Inr t \<Rightarrow> exec_all xs t)"

section \<open>The revisions\<close>

text \<open>Columns as the files write them: required, optional, the key, a reference, and a time stamp with the server's clock as default.\<close>

definition req :: "string \<Rightarrow> coltype \<Rightarrow> column" where
  "req n ty = \<lparr>cn_name = n, cn_type = ty, cn_null = False, cn_default = None, cn_key = False, cn_unique = False, cn_index = False,
     cn_ref = None\<rparr>"

definition opt :: "string \<Rightarrow> coltype \<Rightarrow> column" where
  "opt n ty = (req n ty)\<lparr>cn_null := True\<rparr>"

definition pk :: column where
  "pk = (req ''id'' T_UUID)\<lparr>cn_key := True\<rparr>"

definition ref :: "string \<Rightarrow> string \<Rightarrow> string \<Rightarrow> column" where
  "ref n t ondelete = (req n T_UUID)\<lparr>cn_null := (ondelete = ''SET NULL''), cn_ref := Some (t, ondelete)\<rparr>"

definition stamped :: "string \<Rightarrow> column" where
  "stamped n = (req n T_TIMESTAMP)\<lparr>cn_default := Some ''now()''\<rparr>"

definition dflt :: "string \<Rightarrow> column \<Rightarrow> column" where
  "dflt v c = c\<lparr>cn_default := Some v\<rparr>"

definition idx :: "column \<Rightarrow> column" where
  "idx c = c\<lparr>cn_index := True\<rparr>"

definition unq :: "column \<Rightarrow> column" where
  "unq c = c\<lparr>cn_unique := True\<rparr>"

lemmas column_defs = req_def opt_def pk_def ref_def stamped_def dflt_def idx_def unq_def

definition upgrade_001 :: "ddl list" where
  "upgrade_001 =
    [CreateTable ''users''
       [pk, unq (req ''supabase_user_id'' (T_STRING (Some 255))), req ''display_name'' (T_STRING (Some 255)), req ''email'' (T_STRING (Some 255)),
        dflt ''active'' (req ''status'' (T_ENUM ''user_status'')), stamped ''created_at'', stamped ''updated_at'']
       [],
     CreateIndex ''ix_users_supabase_user_id'' ''users'' [''supabase_user_id''] True]"

definition downgrade_001 :: "ddl list" where
  "downgrade_001 =
    [DropIndex ''ix_users_supabase_user_id'',
     DropTable ''users'',
     DropTypeIfExists ''user_status'']"

definition upgrade_002 :: "ddl list" where
  "upgrade_002 =
    [CreateTable ''devices''
       [pk, idx (ref ''owner_id'' ''users'' ''CASCADE''), req ''display_name'' (T_STRING (Some 255)), req ''device_type'' (T_STRING (Some 100)),
        req ''operating_system'' (T_STRING (Some 100)), req ''app_version'' (T_STRING (Some 50)),
        dflt ''v1'' (req ''protocol_version'' (T_STRING (Some 20))), req ''device_public_identity'' T_TEXT,
        req ''trust_status'' (T_STRING (Some 20)), opt ''last_seen_at'' T_TIMESTAMP, opt ''revoked_at'' T_TIMESTAMP, stamped ''created_at'',
        stamped ''updated_at'']
       [],
     CreateTable ''device_credentials''
       [pk, idx (ref ''device_id'' ''devices'' ''CASCADE''), req ''credential_hash'' (T_STRING (Some 64)), stamped ''created_at'',
        opt ''expires_at'' T_TIMESTAMP, opt ''revoked_at'' T_TIMESTAMP]
       [],
     CreateTable ''pairing_requests''
       [pk, req ''device_name'' (T_STRING (Some 255)), req ''device_type'' (T_STRING (Some 100)), req ''operating_system'' (T_STRING (Some 100)),
        req ''app_version'' (T_STRING (Some 50)), dflt ''v1'' (req ''protocol_version'' (T_STRING (Some 20))), req ''device_public_identity'' T_TEXT,
        req ''pairing_code_hash'' (T_STRING (Some 64)), idx (ref ''owner_id'' ''users'' ''SET NULL''), req ''status'' (T_STRING (Some 20)),
        req ''expires_at'' T_TIMESTAMP, opt ''confirmed_at'' T_TIMESTAMP, stamped ''created_at'']
       [],
     AddCheck ''devices'' ''chk_device_type'' ''device_type''
       [''macbook'', ''iphone'', ''ipad''],
     AddCheck ''devices'' ''chk_trust_status'' ''trust_status''
       [''trusted'', ''revoked'', ''pending''],
     AddCheck ''pairing_requests'' ''chk_pairing_status'' ''status''
       [''pending'', ''confirmed'', ''expired'', ''rejected'']]"

definition downgrade_002 :: "ddl list" where
  "downgrade_002 =
    [DropTable ''pairing_requests'',
     DropTable ''device_credentials'',
     DropTable ''devices'']"

definition upgrade_003 :: "ddl list" where
  "upgrade_003 =
    [CreateTable ''commands''
       [pk, idx (ref ''device_id'' ''devices'' ''CASCADE''), idx (req ''command_type'' (T_STRING (Some 100))),
        dflt ''{}'' (req ''parameters'' T_TEXT), dflt ''low'' (req ''risk_level'' (T_STRING (Some 20))),
        idx (req ''idempotency_key'' (T_STRING (Some 255))), idx (dflt ''received'' (req ''state'' (T_STRING (Some 50)))),
        dflt ''false'' (req ''requires_approval'' T_BOOLEAN), dflt ''false'' (req ''delayed_execution_allowed'' T_BOOLEAN),
        idx (opt ''expires_at'' T_TIMESTAMP), opt ''delivered_at'' T_TIMESTAMP, opt ''acknowledged_at'' T_TIMESTAMP, opt ''started_at'' T_TIMESTAMP,
        opt ''finished_at'' T_TIMESTAMP, opt ''result_summary'' T_TEXT, opt ''error_code'' (T_STRING (Some 50)), opt ''error_message'' T_TEXT,
        stamped ''created_at'', stamped ''updated_at'']
       [(''uq_device_idempotency'', [''device_id'', ''idempotency_key''])],
     CreateTable ''tasks''
       [pk, idx (unq (ref ''command_id'' ''commands'' ''CASCADE'')), idx (dflt ''pending'' (req ''state'' (T_STRING (Some 50)))),
        dflt ''0'' (req ''attempt_count'' (T_STRING None)), opt ''started_at'' T_TIMESTAMP, opt ''finished_at'' T_TIMESTAMP,
        opt ''result_summary'' T_TEXT, opt ''error_code'' (T_STRING (Some 50)), opt ''error_message'' T_TEXT]
       [],
     CreateTable ''command_state_events''
       [pk, idx (ref ''command_id'' ''commands'' ''CASCADE''), opt ''previous_state'' (T_STRING (Some 50)), req ''new_state'' (T_STRING (Some 50)),
        req ''event_source'' (T_STRING (Some 50)), opt ''metadata'' T_TEXT, stamped ''created_at'']
       [],
     AddCheck ''commands'' ''chk_risk_level'' ''risk_level''
       [''low'', ''medium'', ''high'', ''prohibited''],
     AddCheck ''commands'' ''chk_command_state'' ''state''
       [''received'', ''validated'', ''awaiting_approval'', ''approved'', ''rejected'', ''queued'', ''delivered'', ''acknowledged'', ''running'',
        ''succeeded'', ''failed'', ''timed_out'', ''cancelled'', ''expired'', ''blocked_by_emergency_stop''],
     AddCheck ''tasks'' ''chk_task_state'' ''state''
       [''pending'', ''queued'', ''delivered'', ''acknowledged'', ''running'', ''succeeded'', ''failed'', ''timed_out'', ''cancelled''],
     AddCheck ''command_state_events'' ''chk_event_state'' ''new_state''
       [''received'', ''validated'', ''awaiting_approval'', ''approved'', ''rejected'', ''queued'', ''delivered'', ''acknowledged'', ''running'',
        ''succeeded'', ''failed'', ''timed_out'', ''cancelled'', ''expired'', ''blocked_by_emergency_stop'']]"

definition downgrade_003 :: "ddl list" where
  "downgrade_003 =
    [DropTable ''command_state_events'',
     DropTable ''tasks'',
     DropTable ''commands'']"

definition upgrade_004 :: "ddl list" where
  "upgrade_004 =
    [CreateTable ''approvals''
       [pk, idx (unq (ref ''command_id'' ''commands'' ''CASCADE'')), idx (ref ''owner_id'' ''users'' ''CASCADE''),
        req ''risk_level'' (T_STRING (Some 20)), req ''action_title'' (T_STRING (Some 255)), req ''action_description'' T_TEXT,
        idx (req ''status'' (T_STRING (Some 20))), req ''decision_nonce_hash'' (T_STRING (Some 64)), idx (req ''expires_at'' T_TIMESTAMP),
        opt ''decided_at'' T_TIMESTAMP, opt ''decision_note'' T_TEXT, stamped ''created_at'']
       [],
     AddCheck ''approvals'' ''chk_approval_risk_level'' ''risk_level''
       [''low'', ''medium'', ''high'', ''prohibited''],
     AddCheck ''approvals'' ''chk_approval_status'' ''status''
       [''pending'', ''approved'', ''rejected'', ''expired'']]"

definition downgrade_004 :: "ddl list" where
  "downgrade_004 =
    [DropTable ''approvals'']"

definition upgrade_005 :: "ddl list" where
  "upgrade_005 =
    [CreateTable ''emergency_stops''
       [pk, idx (unq (ref ''owner_id'' ''users'' ''CASCADE'')), idx (req ''active'' T_BOOLEAN), opt ''reason'' T_TEXT,
        opt ''activated_at'' T_TIMESTAMP, opt ''released_at'' T_TIMESTAMP, ref ''activated_by'' ''users'' ''SET NULL'',
        ref ''released_by'' ''users'' ''SET NULL'', stamped ''created_at'', stamped ''updated_at'']
       []]"

definition downgrade_005 :: "ddl list" where
  "downgrade_005 =
    [DropTable ''emergency_stops'']"

definition upgrade_006 :: "ddl list" where
  "upgrade_006 =
    [CreateTable ''audit_logs''
       [pk, idx (ref ''user_id'' ''users'' ''SET NULL''), idx (ref ''device_id'' ''devices'' ''SET NULL''),
        idx (ref ''command_id'' ''commands'' ''SET NULL''), idx (ref ''approval_id'' ''approvals'' ''SET NULL''),
        idx (req ''category'' (T_STRING (Some 50))), idx (req ''action'' (T_STRING (Some 100))), req ''result'' (T_STRING (Some 50)),
        opt ''event_metadata'' T_TEXT, idx (opt ''request_id'' (T_STRING (Some 64))), idx (opt ''trace_id'' (T_STRING (Some 64))),
        opt ''ip_address'' (T_STRING (Some 45)), opt ''user_agent'' T_TEXT, idx (stamped ''created_at'')]
       [],
     AddCheck ''audit_logs'' ''chk_audit_category'' ''category''
       [''auth'', ''device'', ''command'', ''approval'', ''emergency_stop'', ''security'', ''system''],
     AddCheck ''audit_logs'' ''chk_audit_action'' ''action''
       [''login'', ''logout'', ''token_refresh'', ''device_pair_started'', ''device_pair_confirmed'', ''device_revoked'', ''device_connected'',
        ''device_disconnected'', ''command_created'', ''command_delivered'', ''command_acknowledged'', ''command_started'', ''command_succeeded'',
        ''command_failed'', ''command_cancelled'', ''command_expired'', ''command_blocked'', ''approval_created'', ''approval_approved'',
        ''approval_rejected'', ''approval_expired'', ''emergency_stop_activated'', ''emergency_stop_released'', ''invalid_token'',
        ''invalid_credential'', ''replay_attempt'', ''unauthorized_access'', ''rate_limit_exceeded'', ''config_changed'', ''backup_started'',
        ''backup_completed'', ''restore_started'', ''restore_completed''],
     AddCheck ''audit_logs'' ''chk_audit_result'' ''result''
       [''success'', ''failure'', ''blocked'', ''error'']]"

definition downgrade_006 :: "ddl list" where
  "downgrade_006 =
    [DropTable ''audit_logs'']"

definition upgrade_007 :: "ddl list" where
  "upgrade_007 =
    [CreateFunction ''validate_command_state_transition'',
     CreateTrigger ''trg_validate_command_state_transition'' ''commands'' ''validate_command_state_transition'']"

definition downgrade_007 :: "ddl list" where
  "downgrade_007 =
    [DropTriggerIfExists ''validate_command_state_transition'' ''commands'',
     DropFunctionIfExists ''validate_command_state_transition'']"

definition upgrade_008 :: "ddl list" where
  "upgrade_008 =
    [CreateTable ''outbox_events''
       [pk, req ''aggregate_type'' (T_STRING (Some 100)), req ''aggregate_id'' (T_STRING (Some 255)), req ''event_type'' (T_STRING (Some 100)),
        req ''subject'' (T_STRING (Some 255)), dflt ''{}'' (req ''payload'' T_JSONB), opt ''headers'' T_JSONB,
        idx (dflt ''pending'' (req ''status'' (T_STRING (Some 20)))), idx (stamped ''available_at''), dflt ''0'' (req ''attempt_count'' T_INTEGER),
        opt ''last_error'' T_TEXT, opt ''published_at'' T_TIMESTAMP, stamped ''created_at'', stamped ''updated_at'']
       [],
     CreateIndex ''ix_outbox_pending'' ''outbox_events'' [''status'', ''available_at'', ''created_at''] False,
     AddColumn ''pairing_requests'' (dflt ''0'' (req ''attempt_count'' T_INTEGER)),
     AddColumn ''command_state_events'' (unq (opt ''deduplication_key'' (T_STRING (Some 64)))),
     AddColumn ''commands'' (opt ''request_fingerprint'' (T_STRING (Some 64))),
     AddColumn ''commands'' (opt ''result_data'' T_JSONB),
     AlterColumn ''commands'' ''parameters'' None None (Some None),
     AlterColumn ''commands'' ''parameters'' (Some T_JSONB) None None,
     AlterColumn ''commands'' ''parameters'' None (Some False) (Some (Some ''{}'')),
     RenameColumn ''command_state_events'' ''metadata'' ''event_metadata'',
     AlterColumn ''command_state_events'' ''event_metadata'' (Some T_JSONB) None None,
     AlterColumn ''audit_logs'' ''event_metadata'' (Some T_JSONB) None None]"

definition downgrade_008 :: "ddl list" where
  "downgrade_008 =
    [AlterColumn ''audit_logs'' ''event_metadata'' (Some T_TEXT) (Some True) None,
     AlterColumn ''command_state_events'' ''event_metadata'' (Some T_TEXT) (Some True) None,
     RenameColumn ''command_state_events'' ''event_metadata'' ''metadata'',
     AlterColumn ''commands'' ''parameters'' (Some T_TEXT) (Some False) (Some (Some ''{}'')),
     DropColumn ''commands'' ''result_data'',
     DropColumn ''commands'' ''request_fingerprint'',
     DropColumn ''command_state_events'' ''deduplication_key'',
     DropColumn ''pairing_requests'' ''attempt_count'',
     DropIndex ''ix_outbox_pending'',
     DropTable ''outbox_events'']"

definition upgrade_009 :: "ddl list" where
  "upgrade_009 =
    [CreateTable ''notification_records''
       [pk, ref ''user_id'' ''users'' ''CASCADE'', req ''notification_type'' (T_STRING (Some 100)), req ''channel'' (T_STRING (Some 50)),
        dflt ''pending'' (req ''status'' (T_STRING (Some 20))), opt ''payload'' T_JSONB, opt ''error_message'' T_TEXT, stamped ''created_at'',
        opt ''delivered_at'' T_TIMESTAMP]
       [],
     CreateIndex ''ix_notification_records_user_id'' ''notification_records'' [''user_id''] False,
     CreateIndex ''ix_notification_records_type'' ''notification_records'' [''notification_type''] False,
     CreateIndex ''ix_notification_records_status'' ''notification_records'' [''status''] False,
     CreateIndex ''ix_notification_records_created_at'' ''notification_records'' [''created_at''] False]"

definition downgrade_009 :: "ddl list" where
  "downgrade_009 =
    [DropTable ''notification_records'']"

text \<open>The chain of revisions, in the order in which Alembic applies them.\<close>

record revision =
  rev_id :: string
  rev_down :: "string option"
  rev_upgrade :: "ddl list"
  rev_downgrade :: "ddl list"

definition revisions :: "revision list" where
  "revisions =
    [\<lparr>rev_id = ''001'', rev_down = None, rev_upgrade = upgrade_001, rev_downgrade = downgrade_001\<rparr>,
     \<lparr>rev_id = ''002'', rev_down = Some ''001'', rev_upgrade = upgrade_002, rev_downgrade = downgrade_002\<rparr>,
     \<lparr>rev_id = ''003'', rev_down = Some ''002'', rev_upgrade = upgrade_003, rev_downgrade = downgrade_003\<rparr>,
     \<lparr>rev_id = ''004'', rev_down = Some ''003'', rev_upgrade = upgrade_004, rev_downgrade = downgrade_004\<rparr>,
     \<lparr>rev_id = ''005'', rev_down = Some ''004'', rev_upgrade = upgrade_005, rev_downgrade = downgrade_005\<rparr>,
     \<lparr>rev_id = ''006'', rev_down = Some ''005'', rev_upgrade = upgrade_006, rev_downgrade = downgrade_006\<rparr>,
     \<lparr>rev_id = ''007'', rev_down = Some ''006'', rev_upgrade = upgrade_007, rev_downgrade = downgrade_007\<rparr>,
     \<lparr>rev_id = ''008'', rev_down = Some ''007'', rev_upgrade = upgrade_008, rev_downgrade = downgrade_008\<rparr>,
     \<lparr>rev_id = ''009_add_notifications'', rev_down = Some ''008'', rev_upgrade = upgrade_009, rev_downgrade = downgrade_009\<rparr>]"

lemma revisions_chain: "map rev_down revisions = None # map (Some \<circ> rev_id) (butlast revisions) \<and> distinct (map rev_id revisions)"
  by (simp add: revisions_def)

definition schema_at :: "nat \<Rightarrow> ddl_error + schema" where
  "schema_at k = exec_all (concat (map rev_upgrade (take k revisions))) empty_schema"

definition undone :: "nat \<Rightarrow> bool" where
  "undone k =
     (case (schema_at k, schema_at (Suc k)) of
        (Inr s, Inr t) \<Rightarrow> exec_all (rev_downgrade (revisions ! k)) t = Inr s
      | _ \<Rightarrow> False)"

lemma exec_all_append: "exec_all (xs @ ys) s = (case exec_all xs s of Inl e \<Rightarrow> Inl e | Inr t \<Rightarrow> exec_all ys t)"
  by (induction xs arbitrary: s) (auto split: sum.split)

section \<open>Generated revisions\<close>

text \<open>
  The operations that Alembic's comparison of the models with the database proposes, with the attributes that the filter
  reads, and the filter of \<^verbatim>\<open>env.py\<close>; it also looks into the groups of operations on one table, one level deep.
\<close>

datatype alembic_op =
    Op (op_class: string) (op_table: "string option") (op_column: "string option") (op_constraint: "string option")
  | ModifyTableOps "alembic_op list"

fun is_false_positive :: "alembic_op \<Rightarrow> bool" where
  "is_false_positive (ModifyTableOps ops) = False"
| "is_false_positive (Op cls t c k) =
     (cls \<in> {''CreateIndexOp'', ''DropIndexOp''} \<and> t = Some ''notification_records''
      \<or> cls = ''DropConstraintOp'' \<and> k = Some ''users_supabase_user_id_key''
      \<or> cls = ''AlterColumnOp'' \<and> (t, c) \<in> {(Some ''approvals'', Some ''status''), (Some ''devices'', Some ''trust_status''),
           (Some ''pairing_requests'', Some ''status''), (Some ''tasks'', Some ''attempt_count''), (Some ''users'', Some ''status'')})"

fun filter_ops :: "alembic_op list \<Rightarrow> alembic_op list" where
  "filter_ops [] = []"
| "filter_ops (ModifyTableOps ops # rest) =
     (let kept = filter (\<lambda>x. \<not> is_false_positive x) ops in
      if kept \<noteq> [] then ModifyTableOps kept # filter_ops rest else filter_ops rest)"
| "filter_ops (Op cls t c k # rest) =
     (if is_false_positive (Op cls t c k) then filter_ops rest else Op cls t c k # filter_ops rest)"

fun leaf_ops :: "alembic_op \<Rightarrow> alembic_op list" where
  "leaf_ops (ModifyTableOps ops) = ops"
| "leaf_ops (Op cls t c k) = [Op cls t c k]"

text \<open>The filter removes exactly the listed operations and empty groups, keeps the order, and is idempotent.\<close>

lemma filter_ops_leaves: "concat (map leaf_ops (filter_ops ops)) = filter (\<lambda>x. \<not> is_false_positive x) (concat (map leaf_ops ops))"
  by (induction ops rule: filter_ops.induct) (auto simp: Let_def)

lemma filter_ops_idem: "filter_ops (filter_ops ops) = filter_ops ops"
  by (induction ops rule: filter_ops.induct) (auto simp: Let_def)

section \<open>What the migrations build\<close>

definition check_values :: "string \<Rightarrow> string \<Rightarrow> schema \<Rightarrow> string list" where
  "check_values t n s =
     (case find_table t s of None \<Rightarrow> [] | Some x \<Rightarrow> (case map_of (tb_checks x) n of None \<Rightarrow> [] | Some (c, vs) \<Rightarrow> vs))"

definition enum_checks :: "(string \<times> string) list" where
  "enum_checks = [(''commands'', ''chk_command_state''), (''command_state_events'', ''chk_event_state''), (''tasks'', ''chk_task_state''),
     (''commands'', ''chk_risk_level''), (''approvals'', ''chk_approval_risk_level''), (''approvals'', ''chk_approval_status''),
     (''devices'', ''chk_trust_status''), (''pairing_requests'', ''chk_pairing_status''), (''devices'', ''chk_device_type''),
     (''audit_logs'', ''chk_audit_result''),
     (''audit_logs'', ''chk_audit_category''), (''audit_logs'', ''chk_audit_action'')]"

lemma UNIV_audit_action: "UNIV = set [ACT_LOGIN, ACT_LOGOUT, ACT_TOKEN_REFRESH, ACT_DEVICE_PAIR_STARTED, ACT_DEVICE_PAIR_CONFIRMED, ACT_DEVICE_REVOKED,
     ACT_DEVICE_CONNECTED, ACT_DEVICE_DISCONNECTED, ACT_COMMAND_CREATED, ACT_COMMAND_DELIVERED, ACT_COMMAND_ACKNOWLEDGED,
     ACT_COMMAND_STARTED, ACT_COMMAND_SUCCEEDED, ACT_COMMAND_FAILED, ACT_COMMAND_CANCELLED, ACT_COMMAND_EXPIRED,
     ACT_COMMAND_BLOCKED, ACT_APPROVAL_CREATED, ACT_APPROVAL_APPROVED, ACT_APPROVAL_REJECTED, ACT_APPROVAL_EXPIRED,
     ACT_EMERGENCY_STOP_ACTIVATED, ACT_EMERGENCY_STOP_RELEASED, ACT_INVALID_TOKEN, ACT_INVALID_CREDENTIAL,
     ACT_REPLAY_ATTEMPT, ACT_UNAUTHORIZED_ACCESS, ACT_RATE_LIMIT_EXCEEDED, ACT_CONFIG_CHANGED, ACT_BACKUP_STARTED,
     ACT_BACKUP_COMPLETED, ACT_RESTORE_STARTED, ACT_RESTORE_COMPLETED]"
proof (rule set_eqI)
  fix x show "x \<in> UNIV \<longleftrightarrow> x \<in> set [ACT_LOGIN, ACT_LOGOUT, ACT_TOKEN_REFRESH, ACT_DEVICE_PAIR_STARTED, ACT_DEVICE_PAIR_CONFIRMED, ACT_DEVICE_REVOKED,
     ACT_DEVICE_CONNECTED, ACT_DEVICE_DISCONNECTED, ACT_COMMAND_CREATED, ACT_COMMAND_DELIVERED, ACT_COMMAND_ACKNOWLEDGED,
     ACT_COMMAND_STARTED, ACT_COMMAND_SUCCEEDED, ACT_COMMAND_FAILED, ACT_COMMAND_CANCELLED, ACT_COMMAND_EXPIRED,
     ACT_COMMAND_BLOCKED, ACT_APPROVAL_CREATED, ACT_APPROVAL_APPROVED, ACT_APPROVAL_REJECTED, ACT_APPROVAL_EXPIRED,
     ACT_EMERGENCY_STOP_ACTIVATED, ACT_EMERGENCY_STOP_RELEASED, ACT_INVALID_TOKEN, ACT_INVALID_CREDENTIAL,
     ACT_REPLAY_ATTEMPT, ACT_UNAUTHORIZED_ACCESS, ACT_RATE_LIMIT_EXCEEDED, ACT_CONFIG_CHANGED, ACT_BACKUP_STARTED,
     ACT_BACKUP_COMPLETED, ACT_RESTORE_STARTED, ACT_RESTORE_COMPLETED]" by (cases x) simp_all
qed

lemma range_values:
  "range command_state_value = set (map command_state_value [RECEIVED, VALIDATED, AWAITING_APPROVAL, APPROVED, REJECTED, QUEUED,
     DELIVERED, ACKNOWLEDGED, RUNNING, SUCCEEDED, FAILED, TIMED_OUT, CANCELLED, EXPIRED, BLOCKED_BY_EMERGENCY_STOP])"
  "range task_state_value = set (map task_state_value [T_PENDING, T_QUEUED, T_DELIVERED, T_ACKNOWLEDGED, T_RUNNING, T_SUCCEEDED,
     T_FAILED, T_TIMED_OUT, T_CANCELLED])"
  "range risk_level_value = set (map risk_level_value [RISK_LOW, RISK_MEDIUM, RISK_HIGH, RISK_PROHIBITED])"
  "range approval_status_value = set (map approval_status_value [APPROVAL_PENDING, APPROVAL_APPROVED, APPROVAL_REJECTED, APPROVAL_EXPIRED])"
  "range device_status_value = set (map device_status_value [DEV_TRUSTED, DEV_REVOKED, DEV_PENDING])"
  "range pairing_status_value = set (map pairing_status_value [PAIR_PENDING, PAIR_CONFIRMED, PAIR_EXPIRED, PAIR_REJECTED])"
  "range audit_category_value = set (map audit_category_value [CAT_AUTH, CAT_DEVICE, CAT_COMMAND, CAT_APPROVAL, CAT_EMERGENCY_STOP, CAT_SECURITY, CAT_SYSTEM])"
  "range audit_action_value = set (map audit_action_value [ACT_LOGIN, ACT_LOGOUT, ACT_TOKEN_REFRESH, ACT_DEVICE_PAIR_STARTED, ACT_DEVICE_PAIR_CONFIRMED, ACT_DEVICE_REVOKED,
     ACT_DEVICE_CONNECTED, ACT_DEVICE_DISCONNECTED, ACT_COMMAND_CREATED, ACT_COMMAND_DELIVERED, ACT_COMMAND_ACKNOWLEDGED,
     ACT_COMMAND_STARTED, ACT_COMMAND_SUCCEEDED, ACT_COMMAND_FAILED, ACT_COMMAND_CANCELLED, ACT_COMMAND_EXPIRED,
     ACT_COMMAND_BLOCKED, ACT_APPROVAL_CREATED, ACT_APPROVAL_APPROVED, ACT_APPROVAL_REJECTED, ACT_APPROVAL_EXPIRED,
     ACT_EMERGENCY_STOP_ACTIVATED, ACT_EMERGENCY_STOP_RELEASED, ACT_INVALID_TOKEN, ACT_INVALID_CREDENTIAL,
     ACT_REPLAY_ATTEMPT, ACT_UNAUTHORIZED_ACCESS, ACT_RATE_LIMIT_EXCEEDED, ACT_CONFIG_CHANGED, ACT_BACKUP_STARTED,
     ACT_BACKUP_COMPLETED, ACT_RESTORE_STARTED, ACT_RESTORE_COMPLETED])"
proof -
  show "range command_state_value = set (map command_state_value [RECEIVED, VALIDATED, AWAITING_APPROVAL, APPROVED, REJECTED, QUEUED,
     DELIVERED, ACKNOWLEDGED, RUNNING, SUCCEEDED, FAILED, TIMED_OUT, CANCELLED, EXPIRED, BLOCKED_BY_EMERGENCY_STOP])"
    unfolding set_map by (rule arg_cong [of _ _ "image _"]) (auto, metis command_state.exhaust)
  show "range task_state_value = set (map task_state_value [T_PENDING, T_QUEUED, T_DELIVERED, T_ACKNOWLEDGED, T_RUNNING, T_SUCCEEDED,
     T_FAILED, T_TIMED_OUT, T_CANCELLED])"
    unfolding set_map by (rule arg_cong [of _ _ "image _"]) (auto, metis task_state.exhaust)
  show "range risk_level_value = set (map risk_level_value [RISK_LOW, RISK_MEDIUM, RISK_HIGH, RISK_PROHIBITED])"
    unfolding set_map by (rule arg_cong [of _ _ "image _"]) (auto, metis risk_level.exhaust)
  show "range approval_status_value = set (map approval_status_value [APPROVAL_PENDING, APPROVAL_APPROVED, APPROVAL_REJECTED, APPROVAL_EXPIRED])"
    unfolding set_map by (rule arg_cong [of _ _ "image _"]) (auto, metis approval_status.exhaust)
  show "range device_status_value = set (map device_status_value [DEV_TRUSTED, DEV_REVOKED, DEV_PENDING])"
    unfolding set_map by (rule arg_cong [of _ _ "image _"]) (auto, metis device_status.exhaust)
  show "range pairing_status_value = set (map pairing_status_value [PAIR_PENDING, PAIR_CONFIRMED, PAIR_EXPIRED, PAIR_REJECTED])"
    unfolding set_map by (rule arg_cong [of _ _ "image _"]) (auto, metis pairing_status.exhaust)
  show "range audit_category_value = set (map audit_category_value [CAT_AUTH, CAT_DEVICE, CAT_COMMAND, CAT_APPROVAL, CAT_EMERGENCY_STOP, CAT_SECURITY, CAT_SYSTEM])"
    unfolding set_map by (rule arg_cong [of _ _ "image _"]) (auto, metis audit_category.exhaust)
  show "range audit_action_value = set (map audit_action_value [ACT_LOGIN, ACT_LOGOUT, ACT_TOKEN_REFRESH, ACT_DEVICE_PAIR_STARTED, ACT_DEVICE_PAIR_CONFIRMED, ACT_DEVICE_REVOKED,
     ACT_DEVICE_CONNECTED, ACT_DEVICE_DISCONNECTED, ACT_COMMAND_CREATED, ACT_COMMAND_DELIVERED, ACT_COMMAND_ACKNOWLEDGED,
     ACT_COMMAND_STARTED, ACT_COMMAND_SUCCEEDED, ACT_COMMAND_FAILED, ACT_COMMAND_CANCELLED, ACT_COMMAND_EXPIRED,
     ACT_COMMAND_BLOCKED, ACT_APPROVAL_CREATED, ACT_APPROVAL_APPROVED, ACT_APPROVAL_REJECTED, ACT_APPROVAL_EXPIRED,
     ACT_EMERGENCY_STOP_ACTIVATED, ACT_EMERGENCY_STOP_RELEASED, ACT_INVALID_TOKEN, ACT_INVALID_CREDENTIAL,
     ACT_REPLAY_ATTEMPT, ACT_UNAUTHORIZED_ACCESS, ACT_RATE_LIMIT_EXCEEDED, ACT_CONFIG_CHANGED, ACT_BACKUP_STARTED,
     ACT_BACKUP_COMPLETED, ACT_RESTORE_STARTED, ACT_RESTORE_COMPLETED])"
    unfolding set_map by (rule arg_cong [of _ _ "image _"]) (rule UNIV_audit_action)
qed

definition enum_values :: "string list list" where
  "enum_values =
     (let states = map command_state_value [RECEIVED, VALIDATED, AWAITING_APPROVAL, APPROVED, REJECTED, QUEUED,
        DELIVERED, ACKNOWLEDGED, RUNNING, SUCCEEDED, FAILED, TIMED_OUT, CANCELLED, EXPIRED, BLOCKED_BY_EMERGENCY_STOP];
        risks = map risk_level_value [RISK_LOW, RISK_MEDIUM, RISK_HIGH, RISK_PROHIBITED] in
      [states, states, map task_state_value [T_PENDING, T_QUEUED, T_DELIVERED, T_ACKNOWLEDGED, T_RUNNING, T_SUCCEEDED,
         T_FAILED, T_TIMED_OUT, T_CANCELLED], risks, risks,
       map approval_status_value [APPROVAL_PENDING, APPROVAL_APPROVED, APPROVAL_REJECTED, APPROVAL_EXPIRED],
       map device_status_value [DEV_TRUSTED, DEV_REVOKED, DEV_PENDING],
       map pairing_status_value [PAIR_PENDING, PAIR_CONFIRMED, PAIR_EXPIRED, PAIR_REJECTED], device_types, audit_results,
       map audit_category_value [CAT_AUTH, CAT_DEVICE, CAT_COMMAND, CAT_APPROVAL, CAT_EMERGENCY_STOP, CAT_SECURITY, CAT_SYSTEM],
       map audit_action_value [ACT_LOGIN, ACT_LOGOUT, ACT_TOKEN_REFRESH, ACT_DEVICE_PAIR_STARTED, ACT_DEVICE_PAIR_CONFIRMED, ACT_DEVICE_REVOKED,
     ACT_DEVICE_CONNECTED, ACT_DEVICE_DISCONNECTED, ACT_COMMAND_CREATED, ACT_COMMAND_DELIVERED, ACT_COMMAND_ACKNOWLEDGED,
     ACT_COMMAND_STARTED, ACT_COMMAND_SUCCEEDED, ACT_COMMAND_FAILED, ACT_COMMAND_CANCELLED, ACT_COMMAND_EXPIRED,
     ACT_COMMAND_BLOCKED, ACT_APPROVAL_CREATED, ACT_APPROVAL_APPROVED, ACT_APPROVAL_REJECTED, ACT_APPROVAL_EXPIRED,
     ACT_EMERGENCY_STOP_ACTIVATED, ACT_EMERGENCY_STOP_RELEASED, ACT_INVALID_TOKEN, ACT_INVALID_CREDENTIAL,
     ACT_REPLAY_ATTEMPT, ACT_UNAUTHORIZED_ACCESS, ACT_RATE_LIMIT_EXCEEDED, ACT_CONFIG_CHANGED, ACT_BACKUP_STARTED,
     ACT_BACKUP_COMPLETED, ACT_RESTORE_STARTED, ACT_RESTORE_COMPLETED]])"

lemma migrated_checks: "map_sum id (\<lambda>s. map (\<lambda>(t, n). check_values t n s) enum_checks) (schema_at 9) = Inr enum_values"
  by code_simp

lemma migrated_check:
  assumes "schema_at 9 = Inr s" "i < length enum_checks" "enum_checks ! i = (t, n)"
  shows "check_values t n s = enum_values ! i"
proof -
  have "map (\<lambda>(t, n). check_values t n s) enum_checks = enum_values" using migrated_checks assms(1) by simp
  then show ?thesis using assms(2,3) by (metis (no_types, lifting) nth_map split)
qed

text \<open>
  C23. The checks of the database are the enumerations of the code. All nine upgrades run on an empty database, and in the
  schema they build each check constraint on a column that the code treats as an enumeration admits exactly the texts of
  the enumeration's members.
\<close>

theorem checks_are_enumerations:
  "\<exists>s. schema_at 9 = Inr s
     \<and> set (check_values ''commands'' ''chk_command_state'' s) = range command_state_value
     \<and> set (check_values ''command_state_events'' ''chk_event_state'' s) = range command_state_value
     \<and> set (check_values ''tasks'' ''chk_task_state'' s) = range task_state_value
     \<and> set (check_values ''commands'' ''chk_risk_level'' s) = range risk_level_value
     \<and> set (check_values ''approvals'' ''chk_approval_risk_level'' s) = range risk_level_value
     \<and> set (check_values ''approvals'' ''chk_approval_status'' s) = range approval_status_value
     \<and> set (check_values ''devices'' ''chk_trust_status'' s) = range device_status_value
     \<and> set (check_values ''pairing_requests'' ''chk_pairing_status'' s) = range pairing_status_value
     \<and> check_values ''devices'' ''chk_device_type'' s = device_types
     \<and> check_values ''audit_logs'' ''chk_audit_result'' s = audit_results
     \<and> set (check_values ''audit_logs'' ''chk_audit_category'' s) = range audit_category_value
     \<and> set (check_values ''audit_logs'' ''chk_audit_action'' s) = range audit_action_value"
proof (cases "schema_at 9")
  case (Inl e)
  then show ?thesis using migrated_checks by simp
next
  case (Inr s)
  note c = migrated_check [OF Inr]
  have "check_values ''commands'' ''chk_command_state'' s = enum_values ! 0" by (rule c) (simp_all add: enum_checks_def)
  moreover have "check_values ''command_state_events'' ''chk_event_state'' s = enum_values ! 1" by (rule c) (simp_all add: enum_checks_def)
  moreover have "check_values ''tasks'' ''chk_task_state'' s = enum_values ! 2" by (rule c) (simp_all add: enum_checks_def)
  moreover have "check_values ''commands'' ''chk_risk_level'' s = enum_values ! 3" by (rule c) (simp_all add: enum_checks_def)
  moreover have "check_values ''approvals'' ''chk_approval_risk_level'' s = enum_values ! 4" by (rule c) (simp_all add: enum_checks_def)
  moreover have "check_values ''approvals'' ''chk_approval_status'' s = enum_values ! 5" by (rule c) (simp_all add: enum_checks_def)
  moreover have "check_values ''devices'' ''chk_trust_status'' s = enum_values ! 6" by (rule c) (simp_all add: enum_checks_def)
  moreover have "check_values ''pairing_requests'' ''chk_pairing_status'' s = enum_values ! 7" by (rule c) (simp_all add: enum_checks_def)
  moreover have "check_values ''devices'' ''chk_device_type'' s = enum_values ! 8" by (rule c) (simp_all add: enum_checks_def)
  moreover have "check_values ''audit_logs'' ''chk_audit_result'' s = enum_values ! 9" by (rule c) (simp_all add: enum_checks_def)
  moreover have "check_values ''audit_logs'' ''chk_audit_category'' s = enum_values ! 10" by (rule c) (simp_all add: enum_checks_def)
  moreover have "check_values ''audit_logs'' ''chk_audit_action'' s = enum_values ! 11" by (rule c) (simp_all add: enum_checks_def)
  ultimately show ?thesis
    unfolding range_values using Inr by (intro exI [of _ s]) (simp add: enum_values_def Let_def del: list.map)
qed

fun round_trips :: "revision list \<Rightarrow> schema \<Rightarrow> (string \<times> bool) list" where
  "round_trips [] s = []"
| "round_trips (r # rs) s =
     (case exec_all (rev_upgrade r) s of
        Inl e \<Rightarrow> []
      | Inr t \<Rightarrow> (rev_id r, exec_all (rev_downgrade r) t = Inr s) # round_trips rs t)"


text \<open>The refusal does not depend on the rest of the schema.\<close>

lemma downgrade_007_refused:
  assumes "find_table ''commands'' s \<noteq> None" "''validate_command_state_transition'' \<in> set (sch_functions s)"
    "(''trg_validate_command_state_transition'', ''commands'', ''validate_command_state_transition'') \<in> set (sch_triggers s)"
  shows "exec_all downgrade_007 s = Inl (Dependent ''validate_command_state_transition'')"
proof -
  let ?f = "''validate_command_state_transition''"
  let ?keep = "\<lambda>(m, y, _). \<not> (m = ?f \<and> y = ''commands'')"
  have "(''trg_validate_command_state_transition'', ''commands'', ?f) \<in> set (filter ?keep (sch_triggers s))"
    using assms(3) by simp
  then have "list_ex (\<lambda>(_, _, g). g = ?f) (filter ?keep (sch_triggers s))"
    unfolding list_ex_iff by (rule bexI [rotated]) simp
  then show ?thesis
    using assms(1,2) by (auto simp: downgrade_007_def on_table_def)
qed

end
