(* ===== verification/Spec2Isabelle.thy ===== *)
theory Spec2Isabelle
  imports System Streams Responses Storage Migrations
begin

text \<open>
  Verification of the backend core of \<^verbatim>\<open>veyaan-core-backend\<close> (\<^verbatim>\<open>src/app\<close> and the schema in \<^verbatim>\<open>src/migrations\<close>).

  \<^bold>\<open>The program.\<close> Owners submit commands for their devices over an HTTP API; risky commands wait for an approval; queued
  commands leave the database through an outbox, travel over NATS to a WebSocket gateway, and are sent to the device; the
  device's reports travel back over NATS to a consumer that moves the command on. A scheduler expires what is overdue, and an
  emergency stop blocks an owner's commands at four places: creation, approval, publication, delivery. Every move of a
  command goes through \<^verbatim>\<open>transition_command\<close> and is recorded in an event log; a database trigger holds a
  second copy of the table of moves.

  \<^bold>\<open>State and programs\<close> (theory \<open>Database\<close>). A program of type \<open>'a prog\<close> maps a state \<open>st\<close> to a value or an exception and a new
  state. \<open>st\<close> holds the committed database, the working copy of the open session and whether its last flush failed, the Valkey
  store, the messages published, the clock, the position in the random supply, and the gateway's connection table, frames
  sent and sockets closed. \<open>with_session\<close> is \<^verbatim>\<open>get_db_session_context\<close>; \<open>flush\<close> enforces the schema (keys, foreign keys,
  uniqueness, checks, the trigger). Third-party code is a field of \<open>env\<close>: uuid4 and secrets, SHA-256, Ed25519, Pydantic's
  conversions, which messages NATS accepts, on which sockets a send succeeds, the level of the standard logger, and how the ORM
  loads a status column; the JWT library is \<open>jwt_lib\<close> (theory \<open>Users\<close>).

  \<^bold>\<open>Theories and the code they model.\<close>
  \<^item> \<open>Prelude\<close>: strings, UUID text and time as Python has them. \<open>Models\<close>: rows and enumerations (\<^verbatim>\<open>*/models.py\<close>).
    \<open>Errors\<close>, \<open>Config\<close>: \<^verbatim>\<open>api/errors.py\<close>, the error middleware, \<^verbatim>\<open>config.py\<close>. \<open>Scenario\<close>: a concrete environment for witnesses.
  \<^item> \<open>StateMachine\<close>: \<^verbatim>\<open>commands/state_machine.py\<close>; the event log as a path, ranks, how commands evolve.
  \<^item> \<open>Cache\<close>: \<^verbatim>\<open>cache/__init__.py\<close>. \<open>Events\<close>: \<^verbatim>\<open>events/subjects.py\<close>, \<^verbatim>\<open>outbox.py\<close>, publishing of \<^verbatim>\<open>nats_client.py\<close>. \<open>AuditLog\<close>:
    \<^verbatim>\<open>audit\<close>. \<open>RateLimiter\<close>: \<^verbatim>\<open>security/rate_limiter.py\<close>. \<open>Users\<close>: \<^verbatim>\<open>users\<close> and \<^verbatim>\<open>auth\<close>. \<open>Notifications\<close>: \<^verbatim>\<open>notifications\<close>.
  \<^item> \<open>EmergencyStop\<close>, \<open>Registry\<close>, \<open>Approvals\<close>, \<open>Commands\<close>, \<open>Devices\<close>: the packages of these names, repository, service and routes.
  \<^item> \<open>Consumer\<close>, \<open>Lifecycle\<close>: \<^verbatim>\<open>workers/command_consumer.py\<close>. \<open>Worker\<close>: the poll loops. \<open>Publisher\<close>, \<open>Delivery\<close>:
    \<^verbatim>\<open>workers/outbox_publisher.py\<close>. \<open>Scheduler\<close>: \<^verbatim>\<open>workers/scheduler.py\<close>.
  \<^item> \<open>Protocol\<close>: \<^verbatim>\<open>websocket/protocol\<close>. \<open>Gateway\<close>, \<open>Authentication\<close>, \<open>Connections\<close>: \<^verbatim>\<open>websocket/gateway.py\<close>.
  \<^item> \<open>Platform\<close>: \<^verbatim>\<open>utils/clock.py\<close>, the log filter of \<^verbatim>\<open>observability\<close>, the engines of \<^verbatim>\<open>database/connection.py\<close>, \<^verbatim>\<open>health\<close>, and
    \<^verbatim>\<open>workers/entrypoint.py\<close>. \<open>Storage\<close>: \<^verbatim>\<open>storage/r2_client.py\<close>. \<open>Http\<close>, \<open>Responses\<close>: \<^verbatim>\<open>api/domain_errors.py\<close>, \<^verbatim>\<open>responses.py\<close>, the
    middlewares and their order in \<^verbatim>\<open>main.py\<close>, and the response models of \<^verbatim>\<open>*/schemas.py\<close>.
  \<^item> \<open>Migrations\<close>: the upgrades and downgrades of \<^verbatim>\<open>migrations/versions\<close> as statements on a schema, and \<^verbatim>\<open>migrations/env.py\<close>.
  \<^item> \<open>Handlers\<close>, \<open>History\<close>, \<open>Schema\<close>, \<open>StopSafety\<close>, \<open>System\<close>: the system as a whole: what every handler guarantees, how rows evolve,
    the constraints of the schema, and what an active stop preserves. A step of the system is a whole handler, the passing of
    time, a loss of cache entries, or a restart of the gateway.
  \<^item> \<open>Streams\<close>: the NATS client, its streams and consumers, the loops that fetch and answer messages, and the start and stop of the
    processes (\<^verbatim>\<open>main.py\<close>, \<^verbatim>\<open>main\<close> of the workers, the gateway's start-up).

  \<^bold>\<open>Interfaces.\<close> \<open>session_relation\<close> (what a guarantee must allow to compose over calls), \<open>db_preorder\<close> (how a database may
  evolve) and \<open>st_invariant\<close> carry the proofs about all paths of a program. \<open>call_relation\<close>, \<open>transactions\<close> and
  \<open>handlers\<close> turn what single calls, sessions and decisions respect into a guarantee of every route, worker and gateway
  handler, and \<open>entries\<close> into one of every step of the system; \<open>row_history\<close>, \<open>user_history\<close> and \<open>command_history\<close> derive these from how
  rows change. \<open>message_loop\<close> is what the worker and the gateway's listener share. \<open>ttl_store\<close>, the keyed tables, the registry and the stop check are the contracts between components. Each is
  interpreted on the model's own definitions. What the NATS server and the S3 library do is a parameter; \<open>subject_matching\<close> and
  \<open>jetstream\<close> state what the documentation of JetStream promises.

  \<^bold>\<open>What is shown.\<close>
  \<^item> The system refines an abstract command machine, the event log of every command is complete in every reachable
    state, and every command settles (\<open>System\<close>).
  \<^item> In every run the constraints of the schema hold and every row can be shown; a command that needs approval is dispatched
    only after it; an active stop holds until it is released, and the stop check can be trusted (\<open>System\<close>, \<open>Responses\<close>).
  \<^item> Messages: every subject is stored by one stream and read by one consumer, start-up creates the streams however often it is
    repeated, the lifecycle worker answers every message once and ends only when its connection closes, and the worker
    processes are runs of the system (\<open>Streams\<close>).
  \<^item> The surface: every request is answered, with its identifiers and without internal details (\<open>Http\<close>); the schema that
    the migrations build admits exactly the enumerations of the code, and every revision but one can be undone (\<open>Migrations\<close>).
  \<^item> Operations: the exact outcome of transitions, creation, approval, cancellation, pairing, revocation, activation and
    release of a stop, expiry, and a publisher batch, errors included.
  \<^item> Safety: no command is created, approved, published or sent under an active stop, as far as each component promises it; a
    decision that is not due, a repeated or foreign report, or an unverified device changes nothing; challenges are used once.
  \<^item> Liveness and round trips: a queued command reaches its device with the same content and its reports complete it.
  \<^item> Defects of the code, as theorems about the model: the two tables of moves disagree, a stop fails when a command is approved but
    not queued, a replayed request raises, rejections and early results are lost, workers die of their own logging, commands
    without an expiry are never delivered, a new user's first request cannot activate a stop, no token passes the JWT check, the
    storage adapter raises after its work is done, revision 007 cannot be undone.

  \<^bold>\<open>Bounds.\<close> All functions are total. \<open>worker_rounds n\<close> is a worker stopped after \<open>n\<close> rounds, for every \<open>n\<close>; messages, frames,
  requests and the outcomes of fetches come as lists of any length. No fuel is used elsewhere.

  \<^bold>\<open>Not modelled.\<close> Interleaving inside a handler: handlers run one after the other, each with one reading of the clock. Lengths
  of text columns, except those that report text fills. The conversion of old rows by revision 008, the declarations of
  metrics, which no code updates, the configuration of structlog, CORS and the assembly of routers, which are the framework's, the
  type signatures of \<^verbatim>\<open>protocols\<close>, and the script \<^verbatim>\<open>clean_db.py\<close>.
\<close>

end
